(* ===== verification/Prelude.thy ===== *)
theory Prelude
  imports Main
begin

section \<open>Effects, results and recorded calls\<close>

text \<open>
  What every component shares: operations that take the state of the outside world and
  return a result with the next state, sequencing with the early return of Go's
  \<open>if err != nil\<close>, a weakest precondition for them, and call recording.

  A Go function \<open>func f(ctx, x) (T, error)\<close> that talks to the outside world is an
  \<open>('w, 'e, 'a) act\<close>: \<open>Inl e\<close> is a non-nil error (the value beside it is the zero value
  and is ignored by the callers), \<open>Inr a\<close> is a result with a nil error. The world type
  \<open>'w\<close> is a type variable throughout: no component assumes anything about it.
\<close>

type_synonym ('w, 'r) op = "'w \<Rightarrow> 'r \<times> 'w"
type_synonym ('w, 'e, 'a) act = "('w, 'e + 'a) op"

named_theorems wp_rules \<open>weakest preconditions of the operations\<close>

definition ret :: "'a \<Rightarrow> ('w, 'e, 'a) act" where
  "ret a = (\<lambda>w. (Inr a, w))"

definition fail :: "'e \<Rightarrow> ('w, 'e, 'a) act" where
  "fail e = (\<lambda>w. (Inl e, w))"

text \<open>\<open>x, err := m(); if err != nil { return err }; f(x)\<close>\<close>

definition andThen :: "('w, 'e, 'a) act \<Rightarrow> ('a \<Rightarrow> ('w, 'e, 'b) act) \<Rightarrow> ('w, 'e, 'b) act" where
  "andThen m f = (\<lambda>w. case m w of (Inl e, w') \<Rightarrow> (Inl e, w') | (Inr a, w') \<Rightarrow> f a w')"

text \<open>\<open>x, err := m(); if err != nil { return g(err) }; f(x)\<close>\<close>

definition wrapErr :: "('e \<Rightarrow> 'e) \<Rightarrow> ('w, 'e, 'a) act \<Rightarrow> ('w, 'e, 'a) act" where
  "wrapErr g m = (\<lambda>w. case m w of (Inl e, w') \<Rightarrow> (Inl (g e), w') | (Inr a, w') \<Rightarrow> (Inr a, w'))"

text \<open>The caller looks at the error itself: \<open>x, err := m(); h(x, err)\<close>.\<close>

definition inspect :: "('w, 'r) op \<Rightarrow> ('r \<Rightarrow> ('w, 's) op) \<Rightarrow> ('w, 's) op" where
  "inspect m h = (\<lambda>w. case m w of (r, w') \<Rightarrow> h r w')"

text \<open>A pure fallible step used inside an operation.\<close>

definition lift_res :: "'e + 'a \<Rightarrow> ('w, 'e, 'a) act" where
  "lift_res r = (\<lambda>w. (r, w))"

text \<open>An operation that yields a value and leaves the world alone.\<close>

definition yields :: "'r \<Rightarrow> ('w, 'r) op" where
  "yields r = (\<lambda>w. (r, w))"

text \<open>\<open>for _, x := range xs { if err := f(x); err != nil { return err } }\<close>\<close>

fun forEach :: "('a \<Rightarrow> ('w, 'e, unit) act) \<Rightarrow> 'a list \<Rightarrow> ('w, 'e, unit) act" where
  "forEach f [] = ret ()"
| "forEach f (x # xs) = andThen (f x) (\<lambda>_. forEach f xs)"

subsection \<open>Weakest preconditions\<close>

definition wp :: "('w, 'r) op \<Rightarrow> ('r \<Rightarrow> 'w \<Rightarrow> bool) \<Rightarrow> 'w \<Rightarrow> bool" where
  "wp m Q w \<longleftrightarrow> Q (fst (m w)) (snd (m w))"

lemma wp_ret [wp_rules]: "wp (ret a) Q w = Q (Inr a) w"
  by (simp add: wp_def ret_def)

lemma wp_fail [wp_rules]: "wp (fail e) Q w = Q (Inl e) w"
  by (simp add: wp_def fail_def)

lemma wp_lift_res [wp_rules]: "wp (lift_res r) Q w = Q r w"
  by (simp add: wp_def lift_res_def)

lemma wp_yields [wp_rules]: "wp (yields r) Q w = Q r w"
  by (simp add: wp_def yields_def)

lemma wp_andThen [wp_rules]:
  "wp (andThen m f) Q w =
     wp m (\<lambda>r w'. case r of Inl e \<Rightarrow> Q (Inl e) w' | Inr a \<Rightarrow> wp (f a) Q w') w"
  by (cases "m w") (simp add: wp_def andThen_def split: sum.splits)

lemma wp_wrapErr [wp_rules]:
  "wp (wrapErr g m) Q w =
     wp m (\<lambda>r w'. case r of Inl e \<Rightarrow> Q (Inl (g e)) w' | Inr a \<Rightarrow> Q (Inr a) w') w"
  by (cases "m w") (simp add: wp_def wrapErr_def split: sum.splits)

lemma wp_inspect [wp_rules]: "wp (inspect m h) Q w = wp m (\<lambda>r w'. wp (h r) Q w') w"
  by (cases "m w") (simp add: wp_def inspect_def)

lemma wp_if [wp_rules]: "wp (if b then m else n) Q w = (if b then wp m Q w else wp n Q w)"
  by simp

lemma wp_sum [wp_rules]:
  "wp (case r of Inl e \<Rightarrow> f e | Inr a \<Rightarrow> g a) Q w = (case r of Inl e \<Rightarrow> wp (f e) Q w | Inr a \<Rightarrow> wp (g a) Q w)"
  by (cases r) simp_all

lemma wp_option [wp_rules]:
  "wp (case r of None \<Rightarrow> f | Some a \<Rightarrow> g a) Q w = (case r of None \<Rightarrow> wp f Q w | Some a \<Rightarrow> wp (g a) Q w)"
  by (cases r) simp_all

lemma wp_prod [wp_rules]:
  "wp (case p of (a, b) \<Rightarrow> f a b) Q w = (case p of (a, b) \<Rightarrow> wp (f a b) Q w)"
  by (cases p) simp

text \<open>Of an operation nothing is known about, any result in any world must do.\<close>

lemma wp_any: "(\<And>r w'. Q r w') \<Longrightarrow> wp m Q w"
  by (simp add: wp_def)

lemma wp_True [simp]: "wp m (\<lambda>r w'. True) w"
  by (simp add: wp_def)

lemma wp_mono: "wp m Q w \<Longrightarrow> (\<And>r w'. Q r w' \<Longrightarrow> Q' r w') \<Longrightarrow> wp m Q' w"
  by (simp add: wp_def)

lemma wp_conj: "wp m (\<lambda>r w'. Q r w' \<and> R r w') w \<longleftrightarrow> wp m Q w \<and> wp m R w"
  by (simp add: wp_def)

lemma wp_run: "wp m Q w \<Longrightarrow> m w = (r, w') \<Longrightarrow> Q r w'"
  by (simp add: wp_def)

lemma wp_intro: "(\<And>r w'. m w = (r, w') \<Longrightarrow> Q r w') \<Longrightarrow> wp m Q w"
  by (cases "m w") (simp add: wp_def)

text \<open>Runs that return no error.\<close>

lemma andThen_Inr: "andThen m f w = (Inr b, w') \<longleftrightarrow> (\<exists>a w1. m w = (Inr a, w1) \<and> f a w1 = (Inr b, w'))"
  by (cases "m w"; cases "fst (m w)") (simp_all add: andThen_def)

lemma wrapErr_Inr: "wrapErr g m w = (Inr a, w') \<longleftrightarrow> m w = (Inr a, w')"
  by (cases "m w"; cases "fst (m w)") (simp_all add: wrapErr_def)

lemma ret_Inr: "ret a w = (Inr b, w') \<longleftrightarrow> b = a \<and> w' = w"
  by (auto simp: ret_def)

lemmas success_rules = andThen_Inr wrapErr_Inr ret_Inr

subsection \<open>Recording calls\<close>

text \<open>
  A client is verified against an arbitrary provider by handing it a recording version
  of that provider: \<open>recorded ev m\<close> does what \<open>m\<close> does and appends the event \<open>ev r\<close>
  of the answer \<open>r\<close> to the list beside the world. The recording lives in the provider,
  so the client's definition is the code's and nothing else; \<open>traced\<close> says that it
  does not change what the client does.
\<close>

definition recorded :: "('r \<Rightarrow> 'c) \<Rightarrow> ('w, 'r) op \<Rightarrow> ('w \<times> 'c list, 'r) op" where
  "recorded ev m = (\<lambda>(w, l). case m w of (r, w') \<Rightarrow> (r, (w', l @ [ev r])))"

lemma recorded_run: "recorded ev m (w, l) = (fst (m w), snd (m w), l @ [ev (fst (m w))])"
  by (cases "m w") (simp add: recorded_def)

text \<open>
  The only rule for a recorded call of an unknown provider: whatever it answers, one
  event is appended. The world after the call is unknown.
\<close>

lemma wp_recorded:
  assumes "\<And>r w'. Q r (w', l @ [ev r])"
  shows "wp (recorded ev m) Q (w, l)"
  using assms by (simp add: wp_def recorded_run)

text \<open>
  \<open>M\<close> is \<open>m\<close> with recording: same result, same world, and some events appended, each of
  which satisfies \<open>P\<close> (what the providers can have answered). With no condition on the
  events, \<open>erases\<close> says that recording changes nothing.
\<close>

definition traced :: "('c \<Rightarrow> bool) \<Rightarrow> ('w \<times> 'c list, 'r) op \<Rightarrow> ('w, 'r) op \<Rightarrow> bool" where
  "traced P M m \<longleftrightarrow> (\<forall>w l. \<exists>seg. M (w, l) = (fst (m w), snd (m w), l @ seg) \<and> list_all P seg)"

abbreviation erases :: "('w \<times> 'c list, 'r) op \<Rightarrow> ('w, 'r) op \<Rightarrow> bool" where
  "erases \<equiv> traced (\<lambda>_. True)"

named_theorems traced_intro \<open>recording does not change an operation\<close>

lemma tracedI:
  "(\<And>w l. \<exists>seg. M (w, l) = (fst (m w), snd (m w), l @ seg) \<and> list_all P seg) \<Longrightarrow> traced P M m"
  by (simp add: traced_def)

lemma tracedD: "traced P M m \<Longrightarrow> \<exists>seg. M (w, l) = (fst (m w), snd (m w), l @ seg) \<and> list_all P seg"
  by (simp add: traced_def)

lemma erasesD: "erases M m \<Longrightarrow> \<exists>l'. M (w, l) = (fst (m w), snd (m w), l')"
  using tracedD [of "\<lambda>_. True" M m w l] by blast

declare TrueI [traced_intro]

lemma traced_recorded [traced_intro]: "(\<And>w. P (ev (fst (m w)))) \<Longrightarrow> traced P (recorded ev m) m"
  by (rule tracedI) (simp add: recorded_run)

lemma traced_ret [traced_intro]: "traced P (ret a) (ret a)"
  by (simp add: traced_def ret_def)

lemma traced_fail [traced_intro]: "traced P (fail e) (fail e)"
  by (simp add: traced_def fail_def)

lemma traced_lift_res [traced_intro]: "traced P (lift_res r) (lift_res r)"
  by (simp add: traced_def lift_res_def)

lemma traced_yields [traced_intro]: "traced P (yields r) (yields r)"
  by (simp add: traced_def yields_def)

lemma traced_inspect_run:
  assumes "traced P M m" and "\<And>w. traced P (H (fst (m w))) (h (fst (m w)))"
  shows "traced P (inspect M H) (inspect m h)"
proof (rule tracedI)
  fix w l
  obtain seg1 where M: "M (w, l) = (fst (m w), snd (m w), l @ seg1)" "list_all P seg1"
    using tracedD [OF assms(1)] by blast
  obtain seg2 where "H (fst (m w)) (snd (m w), l @ seg1)
      = (fst (h (fst (m w)) (snd (m w))), snd (h (fst (m w)) (snd (m w))), (l @ seg1) @ seg2)" "list_all P seg2"
    using tracedD [OF assms(2)] by blast
  with M show "\<exists>seg. inspect M H (w, l) = (fst (inspect m h w), snd (inspect m h w), l @ seg) \<and> list_all P seg"
    by (cases "m w") (auto simp: inspect_def intro!: exI [of _ "seg1 @ seg2"])
qed

lemma traced_inspect [traced_intro]:
  "traced P M m \<Longrightarrow> (\<And>r. traced P (H r) (h r)) \<Longrightarrow> traced P (inspect M H) (inspect m h)"
  by (rule traced_inspect_run)

lemma andThen_inspect:
  "andThen m f = inspect m (\<lambda>r. case r of Inl e \<Rightarrow> fail e | Inr a \<Rightarrow> f a)"
  by (rule ext) (auto simp: andThen_def inspect_def fail_def split: prod.splits sum.splits)

lemma wrapErr_inspect:
  "wrapErr g m = inspect m (\<lambda>r. case r of Inl e \<Rightarrow> fail (g e) | Inr a \<Rightarrow> ret a)"
  by (rule ext) (auto simp: wrapErr_def inspect_def fail_def ret_def split: prod.splits sum.splits)

lemma traced_andThen [traced_intro]:
  assumes "traced P M m" and "\<And>a. traced P (F a) (f a)"
  shows "traced P (andThen M F) (andThen m f)"
  unfolding andThen_inspect using assms
  by (intro traced_inspect) (auto intro: traced_intro split: sum.splits)

lemma traced_wrapErr [traced_intro]: "traced P M m \<Longrightarrow> traced P (wrapErr g M) (wrapErr g m)"
  unfolding wrapErr_inspect
  by (intro traced_inspect) (auto intro: traced_intro split: sum.splits)

lemma traced_if [traced_intro]:
  "(b \<Longrightarrow> traced P M m) \<Longrightarrow> (\<not> b \<Longrightarrow> traced P N n) \<Longrightarrow>
   traced P (if b then M else N) (if b then m else n)"
  by simp

lemma traced_forEach [traced_intro]:
  "(\<And>x. traced P (F x) (f x)) \<Longrightarrow> traced P (forEach F xs) (forEach f xs)"
  by (induction xs) (auto intro: traced_intro)

subsection \<open>Maps with Go's zero value\<close>

text \<open>\<open>m[k]\<close> of a \<open>map[string]string\<close>: the zero value \<open>""\<close> for a missing key.\<close>

definition index_map :: "('k \<rightharpoonup> 'v list) \<Rightarrow> 'k \<Rightarrow> 'v list" where
  "index_map m k = (case m k of None \<Rightarrow> [] | Some v \<Rightarrow> v)"

lemma index_map_nonempty: "v \<noteq> [] \<Longrightarrow> index_map m k = v \<longleftrightarrow> m k = Some v"
  by (auto simp: index_map_def split: option.splits)

lemma index_map_upd [simp]: "index_map (m(k \<mapsto> v)) k' = (if k' = k then v else index_map m k')"
  by (simp add: index_map_def)

lemma index_map_empty [simp]: "index_map Map.empty k = []"
  by (simp add: index_map_def)

end
