(* ===== verification/Go_Strings.thy ===== *)
theory Go_Strings
  imports Prelude "HOL-Library.Sublist"
begin

section \<open>Go strings\<close>

text \<open>
  The functions of Go's \<open>strings\<close> and \<open>strconv\<close> packages that the program calls. A Go
  string is a sequence of bytes, and \<open>char\<close> is a byte, so \<open>string\<close> is that type.
  These are standard-library functions, so nothing under \<open>src/\<close> maps to them; the
  lemmas are the laws the components use.
\<close>

subsection \<open>Prefixes, suffixes, cutting and splitting\<close>

fun HasPrefix :: "string \<Rightarrow> string \<Rightarrow> bool" where
  "HasPrefix s [] = True"
| "HasPrefix [] (c # p) = False"
| "HasPrefix (a # s) (c # p) = (a = c \<and> HasPrefix s p)"

definition HasSuffix :: "string \<Rightarrow> string \<Rightarrow> bool" where
  "HasSuffix s p \<longleftrightarrow> length p \<le> length s \<and> drop (length s - length p) s = p"

definition CutPrefix :: "string \<Rightarrow> string \<Rightarrow> string \<times> bool" where
  "CutPrefix s p = (if HasPrefix s p then (drop (length p) s, True) else (s, False))"

definition TrimSuffix :: "string \<Rightarrow> string \<Rightarrow> string" where
  "TrimSuffix s p = (if HasSuffix s p then take (length s - length p) s else s)"

text \<open>\<open>strings.Cut\<close>: the text before and after the first separator, and whether there is one.\<close>

fun Cut :: "string \<Rightarrow> string \<Rightarrow> string \<times> string \<times> bool" where
  "Cut [] sep = (if sep = [] then ([], [], True) else ([], [], False))"
| "Cut (c # s) sep =
     (if HasPrefix (c # s) sep then ([], drop (length sep) (c # s), True)
      else (case Cut s sep of (b, a, found) \<Rightarrow> (c # b, a, found)))"

lemma HasPrefix_iff: "HasPrefix s p \<longleftrightarrow> (\<exists>t. s = p @ t)"
  by (induction s p rule: HasPrefix.induct) auto

lemma HasPrefix_prefix: "HasPrefix s p \<longleftrightarrow> prefix p s"
  by (auto simp: HasPrefix_iff prefix_def)

lemma HasSuffix_iff: "HasSuffix s p \<longleftrightarrow> (\<exists>t. s = t @ p)"
proof
  assume "HasSuffix s p"
  then have "s = take (length s - length p) s @ p"
    by (metis HasSuffix_def append_take_drop_id)
  then show "\<exists>t. s = t @ p" by blast
qed (auto simp: HasSuffix_def)

lemma HasPrefix_append [simp]: "HasPrefix (p @ t) p"
  by (auto simp: HasPrefix_iff)

lemma HasSuffix_append [simp]: "HasSuffix (t @ p) p"
  by (auto simp: HasSuffix_iff)

lemma CutPrefix_Some: "CutPrefix s p = (r, True) \<longleftrightarrow> s = p @ r"
  by (auto simp: CutPrefix_def HasPrefix_iff)

lemma CutPrefix_found: "snd (CutPrefix s p) = HasPrefix s p"
  by (simp add: CutPrefix_def)

lemma TrimSuffix_append [simp]: "TrimSuffix (t @ p) p = t"
  by (simp add: TrimSuffix_def)

lemma Cut_found:
  "Cut s sep = (b, a, True) \<Longrightarrow> s = b @ sep @ a"
  by (induction s sep arbitrary: b rule: Cut.induct)
     (auto simp: HasPrefix_iff split: if_splits prod.splits)

lemma Cut_not_found:
  "Cut s sep = (b, a, False) \<Longrightarrow> b = s \<and> a = [] \<and> \<not> sublist sep s"
proof (induction s sep arbitrary: b a rule: Cut.induct)
  case (1 sep)
  then show ?case by (auto split: if_splits)
next
  case (2 c s sep)
  from "2.prems" have np: "\<not> HasPrefix (c # s) sep" by (auto split: if_splits)
  with "2.prems" obtain b' where b': "Cut s sep = (b', a, False)" and b: "b = c # b'"
    by (auto split: prod.splits)
  from "2.IH" [OF np b'] b np show ?case
    by (auto simp: sublist_Cons_right HasPrefix_prefix)
qed

lemma Cut_length: "sep \<noteq> [] \<Longrightarrow> Cut s sep = (b, a, True) \<Longrightarrow> length a < length s"
  by (drule Cut_found) auto

text \<open>
  \<open>strings.Split\<close> at a separator. With an empty separator Go splits after each UTF-8
  sequence; the program only splits and replaces at non-empty separators, and the guard
  of \<open>RedactError\<close> is in the code.
\<close>

function Split :: "string \<Rightarrow> string \<Rightarrow> string list" where
  "Split s sep =
     (if sep = [] then [s]
      else if snd (snd (Cut s sep)) then fst (Cut s sep) # Split (fst (snd (Cut s sep))) sep
      else [s])"
  by pat_completeness auto
termination
proof (relation "measure (\<lambda>(s, sep). length s)")
  fix s sep :: string
  assume "sep \<noteq> []" and "snd (snd (Cut s sep))"
  then show "((fst (snd (Cut s sep)), sep), (s, sep)) \<in> measure (\<lambda>(s, sep). length s)"
    using Cut_length [of sep s "fst (Cut s sep)" "fst (snd (Cut s sep))"]
    by (cases "Cut s sep") auto
qed simp

declare Split.simps [simp del]

fun Join :: "string list \<Rightarrow> string \<Rightarrow> string" where
  "Join [] sep = []"
| "Join [x] sep = x"
| "Join (x # xs) sep = x @ sep @ Join xs sep"

text \<open>\<open>strings.ReplaceAll\<close>: leftmost occurrences that do not overlap.\<close>

definition ReplaceAll :: "string \<Rightarrow> string \<Rightarrow> string \<Rightarrow> string" where
  "ReplaceAll s old new = Join (Split s old) new"

lemma Split_nonempty: "Split s sep \<noteq> []"
  by (subst Split.simps) simp

lemma Split_cases:
  assumes "sep \<noteq> []"
  obtains (whole) "Split s sep = [s]" "\<not> sublist sep s"
  | (cut) b a where "Cut s sep = (b, a, True)" "s = b @ sep @ a" "Split s sep = b # Split a sep"
proof (cases "Cut s sep")
  case (fields b a found)
  show thesis
  proof (cases found)
    case True
    with fields assms show thesis
      by (intro cut [of b a]) (simp_all add: Cut_found Split.simps [of s])
  next
    case False
    with fields have "Cut s sep = (b, a, False)" by simp
    from Cut_not_found [OF this] this assms show thesis
      by (intro whole) (simp_all add: Split.simps [of s])
  qed
qed

lemma Join_Cons: "xs \<noteq> [] \<Longrightarrow> Join (x # xs) sep = x @ sep @ Join xs sep"
  by (cases xs) simp_all

text \<open>Splitting loses nothing: joining the pieces with the separator gives the text back.\<close>

lemma Join_Split: "Join (Split s sep) sep = s"
proof (cases "sep = []")
  case True
  then show ?thesis by (simp add: Split.simps [of s])
next
  case False
  then show ?thesis
  proof (induction "length s" arbitrary: s rule: less_induct)
    case less
    from less.prems show ?case
    proof (cases rule: Split_cases [where s = s])
      case whole
      then show ?thesis by simp
    next
      case (cut b a)
      with less.prems have "length a < length s" by (simp add: Cut_length)
      from less.hyps [OF this less.prems] cut show ?thesis
        by (simp add: Join_Cons Split_nonempty)
    qed
  qed
qed

text \<open>No piece contains the separator, and every piece is a part of the text.\<close>

lemma Cut_before_clean: "sep \<noteq> [] \<Longrightarrow> Cut s sep = (b, a, True) \<Longrightarrow> \<not> sublist sep b"
proof (induction s sep arbitrary: b a rule: Cut.induct)
  case (1 sep)
  then show ?case by simp
next
  case (2 c s sep)
  show ?case
  proof (cases "HasPrefix (c # s) sep")
    case True
    with "2.prems" show ?thesis by auto
  next
    case False
    with "2.prems" obtain b' where cut: "Cut s sep = (b', a, True)" and b: "b = c # b'"
      by (auto split: prod.splits)
    have "\<not> prefix sep (c # b')"
      using False Cut_found [OF cut] prefix_prefix [of sep "c # b'" "sep @ a"]
      by (auto simp: HasPrefix_prefix)
    with "2.IH" [OF False "2.prems"(1) cut] b show ?thesis by (simp add: sublist_Cons_right)
  qed
qed

lemma Split_pieces:
  assumes "sep \<noteq> []" and "p \<in> set (Split s sep)"
  shows "\<not> sublist sep p" and "sublist p s"
proof -
  have "\<not> sublist sep p \<and> sublist p s"
    using assms(2)
  proof (induction "length s" arbitrary: s rule: less_induct)
    case less
    from assms(1) show ?case
    proof (cases rule: Split_cases [where s = s])
      case whole
      with less.prems show ?thesis by simp
    next
      case (cut b a)
      have len: "length a < length s" using cut assms(1) by (simp add: Cut_length)
      have parts: "sublist b s" "sublist a s"
        using cut(2) sublist_appendI [of a "b @ sep" "[]"] by auto
      from less.prems cut consider "p = b" | "p \<in> set (Split a sep)" by auto
      then show ?thesis
      proof cases
        case 1
        with parts cut(1) assms(1) show ?thesis by (auto dest: Cut_before_clean)
      next
        case 2
        from less.hyps [OF len this] parts show ?thesis by (auto intro: sublist_order.order_trans)
      qed
    qed
  qed
  then show "\<not> sublist sep p" and "sublist p s" by auto
qed

text \<open>Splitting at one character.\<close>

lemma sublist_char: "sublist [x] p \<longleftrightarrow> x \<in> set p"
  by (auto simp: sublist_def in_set_conv_decomp)

lemma Cut_char: "x \<notin> set a \<Longrightarrow> Cut (a @ x # b) [x] = (a, b, True)"
  by (induction a) auto

lemma Cut_no_char: "x \<notin> set s \<Longrightarrow> Cut s [x] = (s, [], False)"
  by (induction s) auto

lemma Split_char: "x \<notin> set a \<Longrightarrow> Split (a @ x # b) [x] = a # Split b [x]"
  by (simp add: Split.simps [of "a @ x # b"] Cut_char)

lemma Split_no_char: "x \<notin> set s \<Longrightarrow> Split s [x] = [s]"
  by (simp add: Split.simps [of s] Cut_no_char)

lemma Split_two_iff:
  "Split s [x] = [a, b] \<longleftrightarrow> s = a @ x # b \<and> x \<notin> set a \<and> x \<notin> set b"
proof
  assume split: "Split s [x] = [a, b]"
  have "Join (Split s [x]) [x] = s" by (rule Join_Split)
  with split have "s = a @ x # b" by simp
  moreover have "x \<notin> set a" "x \<notin> set b"
    using Split_pieces(1) [of "[x]" a s] Split_pieces(1) [of "[x]" b s] split
    by (simp_all add: sublist_char)
  ultimately show "s = a @ x # b \<and> x \<notin> set a \<and> x \<notin> set b" by simp
qed (simp add: Split_char Split_no_char)

text \<open>
  A text with no bracket that occurs in pieces joined by a bracketed mark occurs in a
  piece or inside the mark: it cannot reach across a bracket.
\<close>

lemma sublist_across:
  assumes "sublist x (a @ c # b)" and "c \<notin> set x"
  shows "sublist x a \<or> sublist x b"
proof -
  from assms(1) obtain u v where eq: "a @ c # b = u @ x @ v" by (auto simp: sublist_def)
  then consider t where "a = u @ x @ t" | t where "b = t @ x @ v" | "c \<in> set x"
    by (auto simp: append_eq_append_conv2 Cons_eq_append_conv)
  then show ?thesis using assms(2) by cases (auto simp: sublist_def)
qed

lemma sublist_Join_bracketed:
  assumes "CHR ''['' \<notin> set x" and "CHR '']'' \<notin> set x" and "x \<noteq> []"
    and "sublist x (Join ps (CHR ''['' # m @ '']''))"
  shows "(\<exists>p \<in> set ps. sublist x p) \<or> sublist x m"
  using assms(4)
proof (induction ps)
  case Nil
  with assms(3) show ?case by simp
next
  case (Cons p ps)
  show ?case
  proof (cases "ps = []")
    case True
    with Cons.prems show ?thesis by simp
  next
    case False
    with Cons.prems have "sublist x (p @ CHR ''['' # (m @ CHR '']'' # Join ps (CHR ''['' # m @ '']'')))"
      by (simp add: Join_Cons)
    from sublist_across [OF this assms(1)]
    consider "sublist x p" | "sublist x (m @ CHR '']'' # Join ps (CHR ''['' # m @ '']''))" by blast
    then show ?thesis
    proof cases
      case 2
      from sublist_across [OF this assms(2)] Cons.IH show ?thesis by auto
    qed simp
  qed
qed

text \<open>What follows the last, or precedes the first, occurrence of a character is unique.\<close>

lemma before_first_unique:
  assumes "c @ x # s = c' @ x # s'" and "x \<notin> set c" and "x \<notin> set c'"
  shows "c = c'"
proof -
  have "takeWhile (\<lambda>y. y \<noteq> x) (d @ x # r) = d" if "x \<notin> set d" for d r
    using that by (subst takeWhile_append2) auto
  with assms show ?thesis by metis
qed

lemma after_last_unique:
  assumes "s @ x # c = s' @ x # c'" and "x \<notin> set c" and "x \<notin> set c'"
  shows "c = c'"
proof -
  from assms(1) have "rev (s @ x # c) = rev (s' @ x # c')" by simp
  then have "rev c @ x # rev s = rev c' @ x # rev s'" by simp
  from before_first_unique [OF this] assms(2,3) show ?thesis by simp
qed

subsection \<open>White space\<close>

text \<open>
  \<open>strings.TrimSpace\<close> removes the code points of Unicode's \<open>White_Space\<close> property at both
  ends: the six ASCII ones and the UTF-8 encodings of U+0085, U+00A0, U+1680,
  U+2000 to U+200A, U+2028, U+2029, U+202F, U+205F and U+3000. A byte sequence at either
  end that equals one of these encodings is exactly the code point Go decodes there.
\<close>

definition space_runes :: "string list" where
  "space_runes =
     [[CHR 0x09], [CHR 0x0A], [CHR 0x0B], [CHR 0x0C], [CHR 0x0D], [CHR 0x20],
      [CHR 0xC2, CHR 0x85], [CHR 0xC2, CHR 0xA0], [CHR 0xE1, CHR 0x9A, CHR 0x80]] @
     map (\<lambda>c. [CHR 0xE2, CHR 0x80, c])
       [CHR 0x80, CHR 0x81, CHR 0x82, CHR 0x83, CHR 0x84, CHR 0x85, CHR 0x86, CHR 0x87,
        CHR 0x88, CHR 0x89, CHR 0x8A, CHR 0xA8, CHR 0xA9, CHR 0xAF] @
     [[CHR 0xE2, CHR 0x81, CHR 0x9F], [CHR 0xE3, CHR 0x80, CHR 0x80]]"

definition leading_space :: "string \<Rightarrow> nat" where
  "leading_space s = (case find (HasPrefix s) space_runes of None \<Rightarrow> 0 | Some e \<Rightarrow> length e)"

definition trailing_space :: "string \<Rightarrow> nat" where
  "trailing_space s = (case find (HasSuffix s) space_runes of None \<Rightarrow> 0 | Some e \<Rightarrow> length e)"

function trim_left :: "string \<Rightarrow> string" where
  "trim_left s = (if s = [] \<or> leading_space s = 0 then s else trim_left (drop (leading_space s) s))"
  by pat_completeness auto
termination by (relation "measure length") auto

function trim_right :: "string \<Rightarrow> string" where
  "trim_right s =
     (if s = [] \<or> trailing_space s = 0 then s
      else trim_right (take (length s - trailing_space s) s))"
  by pat_completeness auto
termination by (relation "measure length") auto

declare trim_left.simps [simp del] trim_right.simps [simp del]

definition TrimSpace :: "string \<Rightarrow> string" where
  "TrimSpace s = trim_right (trim_left s)"

lemma TrimSpace_empty [simp]: "TrimSpace [] = []"
  by (simp add: TrimSpace_def trim_left.simps trim_right.simps)

text \<open>\<open>strings.TrimRight(s, "/")\<close>\<close>

definition TrimRight_slash :: "string \<Rightarrow> string" where
  "TrimRight_slash s = rev (dropWhile (\<lambda>c. c = CHR ''/'') (rev s))"

end
