(* ===== verification/Go_Errors.thy ===== *)
theory Go_Errors
  imports Go_Strings
begin

section \<open>Errors\<close>

text \<open>
  Go error values as the program builds and inspects them: the sentinels of
  \<open>internal/cleanup/errors.go\<close> and \<open>internal/controller/credential_cleanup.go\<close>, errors
  made by \<open>errors.New\<close> and \<open>fmt.Errorf\<close>, the error types of \<open>internal/openstack\<close>, the
  Gophercloud error structs whose fields \<open>internal/openstack/apierrors\<close> reads, and any
  other error of a third-party package. \<open>errors.Is\<close> and \<open>errors.As\<close> walk the tree of
  wrapped errors depth first.
\<close>

subsection \<open>Messages\<close>

text \<open>
  A message is the format text with its arguments: \<open>Txt\<close> literal text, \<open>Str\<close> a \<open>%s\<close> and \<open>Quo\<close>
  a \<open>%q\<close> string argument, \<open>Num\<close> a \<open>%d\<close> and \<open>GoType\<close> a \<open>%T\<close> argument.
\<close>

datatype frag = Txt string | Str string | Quo string | Num int | GoType string

type_synonym msg = "frag list"

subsection \<open>Error values\<close>

datatype error =
    ErrDeletePending
  | ErrApplicationCredentialForbidden
  | ErrPaused
  | Errorf msg                \<comment> \<open>\<open>errors.New\<close> or \<open>fmt.Errorf\<close> without \<open>%w\<close>\<close>
  | Wrapf msg error           \<comment> \<open>\<open>fmt.Errorf("text: %w", e)\<close>\<close>
  | Wrap2 error error          \<comment> \<open>\<open>fmt.Errorf("%w: %w", e1, e2)\<close>\<close>
  | UnsupportedAuthTypeError string
  | RedactedError string error \<comment> \<open>message and cause\<close>
  | ResponseAfterReauthenticationError error error  \<comment> \<open>wrapper, response\<close>
  | UnableToReauthenticateError error "error option" "error option"
      \<comment> \<open>wrapper, target, reauthentication\<close>
  | UnexpectedResponseCode bool int string
      \<comment> \<open>Gophercloud: held by pointer?, the field \<open>Actual\<close>, message\<close>
  | NilUnexpectedResponseCode  \<comment> \<open>a nil pointer of that type in an error interface\<close>
  | ErrUnableToReauthenticate "error option" "error option" string
      \<comment> \<open>Gophercloud, by pointer: the fields \<open>ErrOriginal\<close> and \<open>ErrReauth\<close>, message\<close>
  | NilErrUnableToReauthenticate
  | ErrErrorAfterReauthentication "error option" string
      \<comment> \<open>Gophercloud, by pointer: the field \<open>ErrOriginal\<close>, message\<close>
  | NilErrErrorAfterReauthentication
  | Foreign string string "error list"
      \<comment> \<open>any other third-party error: its type, its message, the errors it unwraps to\<close>

text \<open>
  \<open>Unwrap\<close> of each type. The two reauthentication wrappers of Gophercloud do not unwrap to
  their causes; that is why \<open>apierrors\<close> has wrappers of its own.
\<close>

fun Unwrap :: "error \<Rightarrow> error list" where
  "Unwrap (Wrapf t e) = [e]"
| "Unwrap (Wrap2 e1 e2) = [e1, e2]"
| "Unwrap (RedactedError m cause) = [cause]"
| "Unwrap (ResponseAfterReauthenticationError wrapper response) = [wrapper, response]"
| "Unwrap (UnableToReauthenticateError wrapper target reauthentication) =
     wrapper # (case target of None \<Rightarrow> [] | Some t \<Rightarrow> [t])
             @ (case reauthentication of None \<Rightarrow> [] | Some r \<Rightarrow> [r])"
| "Unwrap (Foreign ty m es) = es"
| "Unwrap _ = []"

text \<open>Every error of the tree, depth first: the order in which \<open>errors.Is\<close> and \<open>errors.As\<close> look.\<close>

fun chain :: "error \<Rightarrow> error list" where
  "chain (Wrapf t e) = Wrapf t e # chain e"
| "chain (Wrap2 e1 e2) = Wrap2 e1 e2 # chain e1 @ chain e2"
| "chain (RedactedError m cause) = RedactedError m cause # chain cause"
| "chain (ResponseAfterReauthenticationError w r) =
     ResponseAfterReauthenticationError w r # chain w @ chain r"
| "chain (UnableToReauthenticateError w target reauth) =
     UnableToReauthenticateError w target reauth
       # chain w @ (case target of None \<Rightarrow> [] | Some e \<Rightarrow> chain e)
                 @ (case reauth of None \<Rightarrow> [] | Some e \<Rightarrow> chain e)"
| "chain (Foreign ty m es) = Foreign ty m es # concat (map chain es)"
| "chain e = [e]"

lemma chain_Unwrap: "chain e = e # concat (map chain (Unwrap e))"
  by (cases e rule: chain.cases) (auto split: option.splits)

lemma chain_self [simp]: "e \<in> set (chain e)"
  by (subst chain_Unwrap) simp

lemma hd_chain [simp]: "hd (chain e) = e"
  by (subst chain_Unwrap) simp

lemma chain_Cons: "\<exists>es. chain e = e # es"
  by (subst chain_Unwrap) simp

text \<open>\<open>errors.Is(err, target)\<close> for a sentinel.\<close>

definition Is :: "error \<Rightarrow> error \<Rightarrow> bool" where
  "Is e target \<longleftrightarrow> List.member (chain e) target"

lemma Is_iff: "Is e target \<longleftrightarrow> target \<in> set (chain e)"
  by (simp add: Is_def)

lemma Is_simps [simp]:
  "Is (Wrapf t e) s \<longleftrightarrow> s = Wrapf t e \<or> Is e s"
  "Is (Wrap2 e1 e2) s \<longleftrightarrow> s = Wrap2 e1 e2 \<or> Is e1 s \<or> Is e2 s"
  "Is (RedactedError m e) s \<longleftrightarrow> s = RedactedError m e \<or> Is e s"
  "Is (Errorf t) s \<longleftrightarrow> s = Errorf t"
  "Is ErrDeletePending s \<longleftrightarrow> s = ErrDeletePending"
  "Is ErrApplicationCredentialForbidden s \<longleftrightarrow> s = ErrApplicationCredentialForbidden"
  "Is ErrPaused s \<longleftrightarrow> s = ErrPaused"
  by (auto simp: Is_iff)

text \<open>\<open>errors.Is(err, ErrDeletePending)\<close> of an error interface that may be nil.\<close>

definition IsPending :: "error option \<Rightarrow> bool" where
  "IsPending err = (case err of None \<Rightarrow> False | Some e \<Rightarrow> Is e ErrDeletePending)"

lemma IsPending_simps [simp]:
  "\<not> IsPending None"
  "IsPending (Some e) \<longleftrightarrow> Is e ErrDeletePending"
  by (simp_all add: IsPending_def)

text \<open>
  \<open>errors.As(err, &x)\<close> stops at the first error of the tree whose type fits. A nil pointer
  of the type fits too, which is what the \<open>!= nil\<close> after each call of the source tests.
\<close>

fun is_response_value :: "error \<Rightarrow> bool" where
  "is_response_value (UnexpectedResponseCode ptr actual m) = (\<not> ptr)"
| "is_response_value _ = False"

fun is_response_pointer :: "error \<Rightarrow> bool" where
  "is_response_pointer (UnexpectedResponseCode ptr actual m) = ptr"
| "is_response_pointer NilUnexpectedResponseCode = True"
| "is_response_pointer _ = False"

fun is_unable :: "error \<Rightarrow> bool" where
  "is_unable (ErrUnableToReauthenticate original reauth m) = True"
| "is_unable NilErrUnableToReauthenticate = True"
| "is_unable _ = False"

fun is_after :: "error \<Rightarrow> bool" where
  "is_after (ErrErrorAfterReauthentication original m) = True"
| "is_after NilErrErrorAfterReauthentication = True"
| "is_after _ = False"

definition As :: "(error \<Rightarrow> bool) \<Rightarrow> error \<Rightarrow> error option" where
  "As p e = find p (chain e)"

lemma find_append: "find p (xs @ ys) = (case find p xs of None \<Rightarrow> find p ys | Some x \<Rightarrow> Some x)"
  by (induction xs) auto

lemma As_Some: "As p e = Some x \<Longrightarrow> p x \<and> x \<in> set (chain e)"
  by (auto simp: As_def find_Some_iff)

lemma As_None: "As p e = None \<longleftrightarrow> (\<forall>x \<in> set (chain e). \<not> p x)"
  by (auto simp: As_def find_None_iff)

text \<open>The values the program's texts wrap around an error are transparent to \<open>errors.As\<close>.\<close>

lemma As_Wrapf [simp]: "\<not> p (Wrapf t e) \<Longrightarrow> As p (Wrapf t e) = As p e"
  by (simp add: As_def)

lemma As_RedactedError [simp]: "\<not> p (RedactedError m e) \<Longrightarrow> As p (RedactedError m e) = As p e"
  by (simp add: As_def)

subsection \<open>The text of an error\<close>

text \<open>
  \<open>err.Error()\<close>. How \<open>%q\<close>, \<open>%d\<close> and \<open>%T\<close> print their argument is a parameter; what matters
  here is which texts a message is made of.
\<close>

fun frag_text :: "(frag \<Rightarrow> string) \<Rightarrow> frag \<Rightarrow> string" where
  "frag_text fmt (Txt s) = s"
| "frag_text fmt (Str s) = s"
| "frag_text fmt f = fmt f"

definition text_string :: "(frag \<Rightarrow> string) \<Rightarrow> msg \<Rightarrow> string" where
  "text_string fmt t = concat (map (frag_text fmt) t)"

fun Error :: "(frag \<Rightarrow> string) \<Rightarrow> error \<Rightarrow> string" where
  "Error fmt ErrDeletePending = ''OpenStack resource deletion is pending''"
| "Error fmt ErrApplicationCredentialForbidden = ''application credential deletion is forbidden''"
| "Error fmt ErrPaused = ''cleanup is paused''"
| "Error fmt (Errorf t) = text_string fmt t"
| "Error fmt (Wrapf t e) = text_string fmt t @ '': '' @ Error fmt e"
| "Error fmt (Wrap2 e1 e2) = Error fmt e1 @ '': '' @ Error fmt e2"
| "Error fmt (UnsupportedAuthTypeError t) = ''unsupported authentication type: '' @ t"
| "Error fmt (RedactedError m cause) = m"
| "Error fmt (ResponseAfterReauthenticationError w r) = Error fmt w"
| "Error fmt (UnableToReauthenticateError w target reauth) = Error fmt w"
| "Error fmt (UnexpectedResponseCode ptr actual m) = m"
| "Error fmt (ErrUnableToReauthenticate original reauth m) = m"
| "Error fmt (ErrErrorAfterReauthentication original m) = m"
| "Error fmt (Foreign ty m es) = m"
| "Error fmt _ = ''<nil>''"

end
