(* ===== verification/Ownership.thy ===== *)
theory Ownership
  imports Go_Errors
begin

section \<open>Resources and ownership rules\<close>

text \<open>
  \<open>internal/cleanup/resources.go\<close> and the selection half of \<open>internal/cleanup/runner.go\<close>:
  the resources of one OpenStack project and the rules that decide which of them belong
  to a workload cluster. Field \<open>X\<close> of the Go struct \<open>FloatingIP\<close> is the selector
  \<open>fip_X\<close>, and so on.
\<close>

subsection \<open>Data\<close>

record FloatingIP =
  fip_ID :: string
  fip_Description :: string
  fip_AttachedPortID :: string

record LoadBalancer =
  lb_ID :: string
  lb_Name :: string
  lb_Tags :: "string list"
  lb_VIPPortID :: string

record SecurityGroup =
  sg_ID :: string
  sg_Description :: string

record Snapshot =
  snap_ID :: string
  snap_Metadata :: "string \<rightharpoonup> string"

record Volume =
  vol_ID :: string
  vol_Metadata :: "string \<rightharpoonup> string"

subsection \<open>The constants of \<open>runner.go\<close>\<close>

definition floatingIPDescriptionPrefix :: string where
  "floatingIPDescriptionPrefix = ''Floating IP for Kubernetes external service''"
definition floatingIPDescriptionSuffix :: string where
  "floatingIPDescriptionSuffix = ''from cluster ''"
definition loadBalancerServicePrefix :: string where
  "loadBalancerServicePrefix = ''kube_service_''"
definition securityGroupDescriptionPrefix :: string where
  "securityGroupDescriptionPrefix = ''Security Group for''"
definition securityGroupDescriptionSuffix :: string where
  "securityGroupDescriptionSuffix = ''Service LoadBalancer in cluster ''"
definition cinderClusterMetadataKey :: string where
  "cinderClusterMetadataKey = ''cinder.csi.openstack.org/cluster''"
definition volumeKeepMetadataKey :: string where
  "volumeKeepMetadataKey = ''janitor.capi.azimuth-cloud.com/keep''"

lemmas runner_constants =
  floatingIPDescriptionPrefix_def floatingIPDescriptionSuffix_def loadBalancerServicePrefix_def
  securityGroupDescriptionPrefix_def securityGroupDescriptionSuffix_def
  cinderClusterMetadataKey_def volumeKeepMetadataKey_def

subsection \<open>The ownership tests\<close>

definition floatingIPDescriptionMatchesCluster :: "FloatingIP \<Rightarrow> string \<Rightarrow> bool" where
  "floatingIPDescriptionMatchesCluster floatingIP clusterName \<longleftrightarrow>
     HasPrefix (fip_Description floatingIP) floatingIPDescriptionPrefix \<and>
     HasSuffix (fip_Description floatingIP) (floatingIPDescriptionSuffix @ clusterName)"

definition loadBalancerNameMatchesCluster :: "LoadBalancer \<Rightarrow> string \<Rightarrow> bool" where
  "loadBalancerNameMatchesCluster loadBalancer clusterName \<longleftrightarrow>
     HasPrefix (lb_Name loadBalancer) (loadBalancerServicePrefix @ clusterName @ ''_'')"

definition securityGroupDescriptionMatchesCluster :: "SecurityGroup \<Rightarrow> string \<Rightarrow> bool" where
  "securityGroupDescriptionMatchesCluster securityGroup clusterName \<longleftrightarrow>
     HasPrefix (sg_Description securityGroup) securityGroupDescriptionPrefix \<and>
     HasSuffix (sg_Description securityGroup) (securityGroupDescriptionSuffix @ clusterName)"

definition snapshotMetadataMatchesCluster :: "Snapshot \<Rightarrow> string \<Rightarrow> bool" where
  "snapshotMetadataMatchesCluster snapshot clusterName \<longleftrightarrow>
     index_map (snap_Metadata snapshot) cinderClusterMetadataKey = clusterName"

definition volumeShouldBeDeletedForCluster :: "Volume \<Rightarrow> string \<Rightarrow> bool" where
  "volumeShouldBeDeletedForCluster volume clusterName \<longleftrightarrow>
     index_map (vol_Metadata volume) cinderClusterMetadataKey = clusterName \<and>
     index_map (vol_Metadata volume) volumeKeepMetadataKey \<noteq> ''true''"

definition isValidLoadBalancerServiceTagForCluster :: "string \<Rightarrow> string \<Rightarrow> bool" where
  "isValidLoadBalancerServiceTagForCluster tag clusterName =
     (let (namespaceAndService, hasClusterPrefix) =
            CutPrefix tag (loadBalancerServicePrefix @ clusterName @ ''_'') in
      if \<not> hasClusterPrefix then False
      else
        (case Split namespaceAndService ''_'' of
           [namespace, service] \<Rightarrow> namespace \<noteq> '''' \<and> service \<noteq> ''''
         | _ \<Rightarrow> False))"

text \<open>The loop over the tags, with its \<open>continue\<close> and early \<open>return true\<close>.\<close>

fun foreignOrInvalidTag :: "string list \<Rightarrow> string \<Rightarrow> bool" where
  "foreignOrInvalidTag [] clusterName = False"
| "foreignOrInvalidTag (tag # tags) clusterName =
     (if \<not> HasPrefix tag loadBalancerServicePrefix then foreignOrInvalidTag tags clusterName
      else if \<not> isValidLoadBalancerServiceTagForCluster tag clusterName then True
      else foreignOrInvalidTag tags clusterName)"

definition loadBalancerHasForeignOrInvalidServiceTag :: "LoadBalancer \<Rightarrow> string \<Rightarrow> bool" where
  "loadBalancerHasForeignOrInvalidServiceTag loadBalancer clusterName =
     foreignOrInvalidTag (lb_Tags loadBalancer) clusterName"

subsection \<open>Selection\<close>

text \<open>The two slices of the Go struct.\<close>

record loadBalancerAndFloatingIPSelection =
  floatingIPIDsToDelete :: "string list"
  loadBalancerIDsToDelete :: "string list"

text \<open>
  The first loop: over the load balancers, with the set of protected VIP ports and the IDs
  to delete as its state, and an early return for an unusable load balancer.
\<close>

fun scanLoadBalancers ::
  "string \<Rightarrow> LoadBalancer list \<Rightarrow> string set \<Rightarrow> string list \<Rightarrow> error + (string set \<times> string list)"
where
  "scanLoadBalancers clusterName [] protected ids = Inr (protected, ids)"
| "scanLoadBalancers clusterName (loadBalancer # rest) protected ids =
     (if \<not> loadBalancerNameMatchesCluster loadBalancer clusterName
      then scanLoadBalancers clusterName rest protected ids
      else if lb_ID loadBalancer = ''''
      then Inl (Errorf [Txt ''checking load balancer ownership: selected resource ID is empty''])
      else if loadBalancerHasForeignOrInvalidServiceTag loadBalancer clusterName
      then
        (if lb_VIPPortID loadBalancer = ''''
         then Inl (Errorf [Txt ''checking load balancer '', Quo (lb_ID loadBalancer),
                           Txt '' shared ownership: VIP port ID is empty''])
         else scanLoadBalancers clusterName rest (insert (lb_VIPPortID loadBalancer) protected) ids)
      else scanLoadBalancers clusterName rest protected (ids @ [lb_ID loadBalancer]))"

text \<open>The second loop: over the floating IPs.\<close>

fun scanFloatingIPs ::
  "string \<Rightarrow> FloatingIP list \<Rightarrow> string set \<Rightarrow> string list \<Rightarrow> error + string list"
where
  "scanFloatingIPs clusterName [] protected ids = Inr ids"
| "scanFloatingIPs clusterName (floatingIP # rest) protected ids =
     (if \<not> floatingIPDescriptionMatchesCluster floatingIP clusterName
      then scanFloatingIPs clusterName rest protected ids
      else if fip_ID floatingIP = ''''
      then Inl (Errorf [Txt ''checking floating IP ownership: selected resource ID is empty''])
      else if fip_AttachedPortID floatingIP \<in> protected
      then scanFloatingIPs clusterName rest protected ids
      else scanFloatingIPs clusterName rest protected (ids @ [fip_ID floatingIP]))"

definition selectLoadBalancersAndFloatingIPsForDeletion ::
  "string \<Rightarrow> LoadBalancer list \<Rightarrow> FloatingIP list \<Rightarrow> error + loadBalancerAndFloatingIPSelection"
where
  "selectLoadBalancersAndFloatingIPsForDeletion clusterName loadBalancers floatingIPs =
     (case scanLoadBalancers clusterName loadBalancers {} [] of
        Inl e \<Rightarrow> Inl e
      | Inr (protected, lbIDs) \<Rightarrow>
          (case scanFloatingIPs clusterName floatingIPs protected [] of
             Inl e \<Rightarrow> Inl e
           | Inr fipIDs \<Rightarrow>
               Inr \<lparr>floatingIPIDsToDelete = fipIDs, loadBalancerIDsToDelete = lbIDs\<rparr>))"

fun selectResourceIDsForDeletion :: "'t list \<Rightarrow> ('t \<Rightarrow> bool) \<Rightarrow> ('t \<Rightarrow> string) \<Rightarrow> string list" where
  "selectResourceIDsForDeletion [] shouldDelete resourceID = []"
| "selectResourceIDsForDeletion (resource # resources) shouldDelete resourceID =
     (if shouldDelete resource
      then resourceID resource # selectResourceIDsForDeletion resources shouldDelete resourceID
      else selectResourceIDsForDeletion resources shouldDelete resourceID)"

subsection \<open>What the loops compute\<close>

lemma selectResourceIDs_filter:
  "selectResourceIDsForDeletion xs p f = map f (filter p xs)"
  by (induction xs) simp_all

lemma foreignOrInvalidTag_iff:
  "foreignOrInvalidTag tags c \<longleftrightarrow>
     (\<exists>tag \<in> set tags. HasPrefix tag loadBalancerServicePrefix
                     \<and> \<not> isValidLoadBalancerServiceTagForCluster tag c)"
  by (induction tags) auto

text \<open>
  The declarative selection. A load balancer whose name matches is \<open>shared\<close> when a
  reserved tag vetoes its deletion; its VIP port then protects a floating IP.
\<close>

definition ownedLoadBalancer :: "string \<Rightarrow> LoadBalancer \<Rightarrow> bool" where
  "ownedLoadBalancer c lb \<longleftrightarrow>
     loadBalancerNameMatchesCluster lb c \<and> \<not> loadBalancerHasForeignOrInvalidServiceTag lb c"

definition sharedLoadBalancer :: "string \<Rightarrow> LoadBalancer \<Rightarrow> bool" where
  "sharedLoadBalancer c lb \<longleftrightarrow>
     loadBalancerNameMatchesCluster lb c \<and> loadBalancerHasForeignOrInvalidServiceTag lb c"

definition protectedPorts :: "string \<Rightarrow> LoadBalancer list \<Rightarrow> string set" where
  "protectedPorts c lbs = lb_VIPPortID ` {lb \<in> set lbs. sharedLoadBalancer c lb}"

definition ownedFloatingIP :: "string \<Rightarrow> LoadBalancer list \<Rightarrow> FloatingIP \<Rightarrow> bool" where
  "ownedFloatingIP c lbs fip \<longleftrightarrow>
     floatingIPDescriptionMatchesCluster fip c \<and> fip_AttachedPortID fip \<notin> protectedPorts c lbs"

text \<open>The inventory the selection refuses: an empty ID, or a shared balancer with no VIP port.\<close>

definition usableLoadBalancers :: "string \<Rightarrow> LoadBalancer list \<Rightarrow> bool" where
  "usableLoadBalancers c lbs \<longleftrightarrow>
     (\<forall>lb \<in> set lbs. loadBalancerNameMatchesCluster lb c \<longrightarrow>
        lb_ID lb \<noteq> '''' \<and> (sharedLoadBalancer c lb \<longrightarrow> lb_VIPPortID lb \<noteq> ''''))"

definition usableFloatingIPs :: "string \<Rightarrow> FloatingIP list \<Rightarrow> bool" where
  "usableFloatingIPs c fips \<longleftrightarrow>
     (\<forall>fip \<in> set fips. floatingIPDescriptionMatchesCluster fip c \<longrightarrow> fip_ID fip \<noteq> '''')"

lemma scanLoadBalancers_usable:
  "usableLoadBalancers c lbs \<Longrightarrow>
   scanLoadBalancers c lbs prot ids =
     Inr (prot \<union> protectedPorts c lbs, ids @ map lb_ID (filter (ownedLoadBalancer c) lbs))"
  by (induction c lbs prot ids rule: scanLoadBalancers.induct)
     (auto simp: usableLoadBalancers_def protectedPorts_def sharedLoadBalancer_def
        ownedLoadBalancer_def)

lemma scanLoadBalancers_unusable:
  "\<not> usableLoadBalancers c lbs \<Longrightarrow> \<exists>t. scanLoadBalancers c lbs prot ids = Inl (Errorf t)"
  by (induction c lbs prot ids rule: scanLoadBalancers.induct)
     (auto simp: usableLoadBalancers_def sharedLoadBalancer_def)

lemma scanFloatingIPs_usable:
  "usableFloatingIPs c fips \<Longrightarrow>
   scanFloatingIPs c fips prot ids =
     Inr (ids @ map fip_ID (filter (\<lambda>fip. floatingIPDescriptionMatchesCluster fip c
                                        \<and> fip_AttachedPortID fip \<notin> prot) fips))"
  by (induction c fips prot ids rule: scanFloatingIPs.induct) (auto simp: usableFloatingIPs_def)

lemma scanFloatingIPs_unusable:
  "\<not> usableFloatingIPs c fips \<Longrightarrow> \<exists>t. scanFloatingIPs c fips prot ids = Inl (Errorf t)"
  by (induction c fips prot ids rule: scanFloatingIPs.induct) (auto simp: usableFloatingIPs_def)

text \<open>
  The selection is the declarative one on a usable inventory, and an error that no
  sentinel matches on any other.
\<close>

lemma selection_usable:
  assumes "usableLoadBalancers c lbs" and "usableFloatingIPs c fips"
  shows "selectLoadBalancersAndFloatingIPsForDeletion c lbs fips =
     Inr \<lparr>floatingIPIDsToDelete = map fip_ID (filter (ownedFloatingIP c lbs) fips),
          loadBalancerIDsToDelete = map lb_ID (filter (ownedLoadBalancer c) lbs)\<rparr>"
  using assms
  by (simp add: selectLoadBalancersAndFloatingIPsForDeletion_def scanLoadBalancers_usable
      scanFloatingIPs_usable ownedFloatingIP_def [abs_def])

lemma selection_unusable:
  assumes "\<not> (usableLoadBalancers c lbs \<and> usableFloatingIPs c fips)"
  shows "\<exists>t. selectLoadBalancersAndFloatingIPsForDeletion c lbs fips = Inl (Errorf t)"
proof (cases "usableLoadBalancers c lbs")
  case True
  with assms scanFloatingIPs_unusable [of c fips "protectedPorts c lbs" "[]"] show ?thesis
    by (auto simp: selectLoadBalancersAndFloatingIPsForDeletion_def scanLoadBalancers_usable)
next
  case False
  from scanLoadBalancers_unusable [OF this, of "{}" "[]"] show ?thesis
    by (auto simp: selectLoadBalancersAndFloatingIPsForDeletion_def)
qed

lemma selection_Inr:
  assumes "selectLoadBalancersAndFloatingIPsForDeletion c lbs fips = Inr sel"
  shows "usableLoadBalancers c lbs" and "usableFloatingIPs c fips"
    and "floatingIPIDsToDelete sel = map fip_ID (filter (ownedFloatingIP c lbs) fips)"
    and "loadBalancerIDsToDelete sel = map lb_ID (filter (ownedLoadBalancer c) lbs)"
proof -
  from assms selection_unusable [of c lbs fips]
  show u: "usableLoadBalancers c lbs" "usableFloatingIPs c fips" by auto
  from selection_usable [OF u] assms
  show "floatingIPIDsToDelete sel = map fip_ID (filter (ownedFloatingIP c lbs) fips)"
    and "loadBalancerIDsToDelete sel = map lb_ID (filter (ownedLoadBalancer c) lbs)" by auto
qed

subsection \<open>Reserved tags\<close>

text \<open>The complete form of a service tag: cluster, namespace and service, none of the last two empty.\<close>

definition serviceTag :: "string \<Rightarrow> string \<Rightarrow> string \<Rightarrow> string" where
  "serviceTag clusterName namespace service =
     loadBalancerServicePrefix @ clusterName @ ''_'' @ namespace @ ''_'' @ service"

lemma valid_tag_iff:
  "isValidLoadBalancerServiceTagForCluster tag c \<longleftrightarrow>
     (\<exists>ns svc. tag = serviceTag c ns svc \<and> ns \<noteq> '''' \<and> svc \<noteq> ''''
             \<and> CHR ''_'' \<notin> set ns \<and> CHR ''_'' \<notin> set svc)"
proof
  assume valid: "isValidLoadBalancerServiceTagForCluster tag c"
  then obtain r where "CutPrefix tag (loadBalancerServicePrefix @ c @ ''_'') = (r, True)"
    by (auto simp: isValidLoadBalancerServiceTagForCluster_def split: prod.splits if_splits)
  moreover from this valid obtain ns svc where "Split r ''_'' = [ns, svc]" "ns \<noteq> ''''" "svc \<noteq> ''''"
    by (auto simp: isValidLoadBalancerServiceTagForCluster_def split: list.splits)
  ultimately show "\<exists>ns svc. tag = serviceTag c ns svc \<and> ns \<noteq> '''' \<and> svc \<noteq> ''''
             \<and> CHR ''_'' \<notin> set ns \<and> CHR ''_'' \<notin> set svc"
    by (auto simp: CutPrefix_Some Split_two_iff serviceTag_def)
next
  assume "\<exists>ns svc. tag = serviceTag c ns svc \<and> ns \<noteq> '''' \<and> svc \<noteq> ''''
             \<and> CHR ''_'' \<notin> set ns \<and> CHR ''_'' \<notin> set svc"
  then obtain ns svc where "CutPrefix tag (loadBalancerServicePrefix @ c @ ''_'') = (ns @ ''_'' @ svc, True)"
    and "Split (ns @ ''_'' @ svc) ''_'' = [ns, svc]" and "ns \<noteq> ''''" and "svc \<noteq> ''''"
    by (auto simp: CutPrefix_Some Split_two_iff serviceTag_def)
  then show "isValidLoadBalancerServiceTagForCluster tag c"
    by (simp add: isValidLoadBalancerServiceTagForCluster_def)
qed

lemma reserved_tag: "HasPrefix (serviceTag c ns svc) loadBalancerServicePrefix"
  by (simp add: serviceTag_def)

subsection \<open>Two clusters never own the same resource\<close>

text \<open>
  The rules read the name of the cluster out of text. The name is the value of a label or
  the name of the object: neither contains a space, but a label value may contain an
  underscore, with which the names of load balancers are built. So each rule has its own
  condition on two names under which it never gives both the same resource.
\<close>

definition spaceless :: "string \<Rightarrow> string \<Rightarrow> bool" where
  "spaceless c c' \<longleftrightarrow> c \<noteq> c' \<and> CHR '' '' \<notin> set c \<and> CHR '' '' \<notin> set c'"

definition prefixFree :: "string \<Rightarrow> string \<Rightarrow> bool" where
  "prefixFree c c' \<longleftrightarrow> \<not> HasPrefix (c @ ''_'') (c' @ ''_'') \<and> \<not> HasPrefix (c' @ ''_'') (c @ ''_'')"

locale ownership_rule =
  fixes owns :: "string \<Rightarrow> 'r \<Rightarrow> bool" and ident :: "'r \<Rightarrow> string" and apart :: "string \<Rightarrow> string \<Rightarrow> bool"
  assumes exclusive: "apart c c' \<Longrightarrow> \<not> (owns c r \<and> owns c' r)"
begin

lemma disjoint_selection:
  assumes "apart c c'" and "inj_on ident (set rs)"
    and "set xs \<subseteq> ident ` {r \<in> set rs. owns c r}" and "set ys \<subseteq> ident ` {r \<in> set rs. owns c' r}"
  shows "set xs \<inter> set ys = {}"
  using exclusive [OF assms(1)] assms(2-4) by (fastforce dest: inj_onD)

end

lemma selected_are_owned:
  "set (selectResourceIDsForDeletion rs owned ident) \<subseteq> ident ` {r \<in> set rs. owned r}"
  by (auto simp: selectResourceIDs_filter)

lemma suffix_exclusive:
  assumes "HasSuffix d (p @ '' '' @ c)" and "HasSuffix d (p @ '' '' @ c')"
    and "CHR '' '' \<notin> set c" and "CHR '' '' \<notin> set c'"
  shows "c = c'"
proof -
  from assms(1) obtain t where "d = (t @ p) @ CHR '' '' # c" by (auto simp: HasSuffix_iff)
  moreover from assms(2) obtain t' where "d = (t' @ p) @ CHR '' '' # c'" by (auto simp: HasSuffix_iff)
  ultimately have "(t @ p) @ CHR '' '' # c = (t' @ p) @ CHR '' '' # c'" by simp
  from after_last_unique [OF this] assms(3,4) show ?thesis by simp
qed

text \<open>Two names can own the same load balancer exactly if they are not prefix free.\<close>

lemma both_prefixes:
  "(\<exists>n. HasPrefix n (p @ u) \<and> HasPrefix n (p @ v)) \<longleftrightarrow> HasPrefix u v \<or> HasPrefix v u"
  by (auto simp: HasPrefix_iff append_eq_append_conv2)

lemma load_balancer_overlap:
  "(\<exists>lb. loadBalancerNameMatchesCluster lb c \<and> loadBalancerNameMatchesCluster lb c') \<longleftrightarrow> \<not> prefixFree c c'"
proof -
  have "(\<exists>lb. loadBalancerNameMatchesCluster lb c \<and> loadBalancerNameMatchesCluster lb c') \<longleftrightarrow>
      (\<exists>n. HasPrefix n (loadBalancerServicePrefix @ c @ ''_'') \<and> HasPrefix n (loadBalancerServicePrefix @ c' @ ''_''))"
    unfolding loadBalancerNameMatchesCluster_def by (metis LoadBalancer.select_convs(2))
  then show ?thesis unfolding both_prefixes prefixFree_def by blast
qed

lemma suffix_constants:
  "floatingIPDescriptionSuffix @ c = ''from cluster'' @ '' '' @ c"
  "securityGroupDescriptionSuffix @ c = ''Service LoadBalancer in cluster'' @ '' '' @ c"
  by (simp_all add: runner_constants)

interpretation floatingIPs: ownership_rule "\<lambda>c r. floatingIPDescriptionMatchesCluster r c" fip_ID spaceless
  by unfold_locales
     (metis floatingIPDescriptionMatchesCluster_def suffix_constants(1) suffix_exclusive spaceless_def)

interpretation loadBalancers: ownership_rule "\<lambda>c r. loadBalancerNameMatchesCluster r c" lb_ID prefixFree
  by unfold_locales (use load_balancer_overlap in blast)

interpretation securityGroups: ownership_rule "\<lambda>c r. securityGroupDescriptionMatchesCluster r c" sg_ID spaceless
  by unfold_locales
     (metis securityGroupDescriptionMatchesCluster_def suffix_constants(2) suffix_exclusive spaceless_def)

interpretation snapshots: ownership_rule "\<lambda>c r. snapshotMetadataMatchesCluster r c" snap_ID "(\<noteq>)"
  by unfold_locales (simp add: snapshotMetadataMatchesCluster_def)

interpretation volumes: ownership_rule "\<lambda>c r. volumeShouldBeDeletedForCluster r c" vol_ID "(\<noteq>)"
  by unfold_locales (simp add: volumeShouldBeDeletedForCluster_def)

subsection \<open>Properties\<close>

text \<open>
  C14. The selection deletes exactly what the ownership rules say. On an inventory whose
  matching entries all have an ID, and whose shared load balancers all have a VIP port, the
  floating IPs to delete are those whose description matches and whose port is not the VIP
  port of a shared load balancer, and the load balancers to delete are those whose name
  matches and that no reserved tag vetoes, both in inventory order. On every other
  inventory the selection is an error that selects nothing.
\<close>

theorem selection_exact:
  "if usableLoadBalancers c lbs \<and> usableFloatingIPs c fips
   then selectLoadBalancersAndFloatingIPsForDeletion c lbs fips =
          Inr \<lparr>floatingIPIDsToDelete = map fip_ID (filter (ownedFloatingIP c lbs) fips),
               loadBalancerIDsToDelete = map lb_ID (filter (ownedLoadBalancer c) lbs)\<rparr>
   else \<exists>t. selectLoadBalancersAndFloatingIPsForDeletion c lbs fips = Inl (Errorf t)"
  using selection_usable [of c lbs fips] selection_unusable [of c lbs fips] by auto

text \<open>
  C19. A shared load balancer and its floating IP are never selected. If a load balancer of
  the inventory carries a reserved tag that is not a complete tag of the target cluster
  (a foreign one, or a malformed one), then its ID is not selected, whatever its name is. If
  besides its name begins with the prefix of the target cluster, then neither is the ID of a
  floating IP attached to its VIP port: the tags of a load balancer with another name are
  not looked at. The IDs of the inventory are taken to be unique.
\<close>

theorem shared_load_balancer_is_protected:
  assumes "selectLoadBalancersAndFloatingIPsForDeletion c lbs fips = Inr sel"
    and "inj_on lb_ID (set lbs)" and "inj_on fip_ID (set fips)"
    and "lb \<in> set lbs"
    and "tag \<in> set (lb_Tags lb)" and "HasPrefix tag loadBalancerServicePrefix"
    and "\<nexists>ns svc. tag = serviceTag c ns svc \<and> ns \<noteq> '''' \<and> svc \<noteq> ''''
                  \<and> CHR ''_'' \<notin> set ns \<and> CHR ''_'' \<notin> set svc"
  shows "lb_ID lb \<notin> set (loadBalancerIDsToDelete sel)
    \<and> (loadBalancerNameMatchesCluster lb c \<longrightarrow>
         (\<forall>fip \<in> set fips. fip_AttachedPortID fip = lb_VIPPortID lb \<longrightarrow>
            fip_ID fip \<notin> set (floatingIPIDsToDelete sel)))"
proof -
  have veto: "loadBalancerHasForeignOrInvalidServiceTag lb c"
    using assms(5-7) by (auto simp: loadBalancerHasForeignOrInvalidServiceTag_def foreignOrInvalidTag_iff valid_tag_iff)
  note sel = selection_Inr [OF assms(1)]
  have "lb_ID lb \<notin> set (loadBalancerIDsToDelete sel)"
    using veto sel(4) assms(2,4) by (auto simp: ownedLoadBalancer_def dest: inj_onD)
  moreover have "fip_ID fip \<notin> set (floatingIPIDsToDelete sel)"
    if "loadBalancerNameMatchesCluster lb c" "fip \<in> set fips" "fip_AttachedPortID fip = lb_VIPPortID lb" for fip
  proof -
    have "fip_AttachedPortID fip \<in> protectedPorts c lbs"
      using that veto assms(4) by (auto simp: protectedPorts_def sharedLoadBalancer_def)
    with that(2) sel(3) assms(3) show ?thesis by (auto simp: ownedFloatingIP_def dest: inj_onD)
  qed
  ultimately show ?thesis by blast
qed

text \<open>
  An inventory for the cluster \<open>demo\<close>: \<open>lb1\<close> is shared with \<open>demo-2\<close> and has the floating IP
  \<open>f1\<close>; \<open>lb2\<close> and \<open>f2\<close> belong to \<open>demo\<close> alone.
\<close>

definition sampleLoadBalancers :: "LoadBalancer list" where
  "sampleLoadBalancers =
     [\<lparr>lb_ID = ''lb1'', lb_Name = ''kube_service_demo_default_web'',
       lb_Tags = [''kube_service_demo_default_web'', ''kube_service_demo-2_default_web''],
       lb_VIPPortID = ''p1''\<rparr>,
      \<lparr>lb_ID = ''lb2'', lb_Name = ''kube_service_demo_default_api'',
       lb_Tags = [''kube_service_demo_default_api''], lb_VIPPortID = ''p2''\<rparr>]"

definition sampleFloatingIPs :: "FloatingIP list" where
  "sampleFloatingIPs =
     [\<lparr>fip_ID = ''f1'',
       fip_Description = ''Floating IP for Kubernetes external service default/web from cluster demo'',
       fip_AttachedPortID = ''p1''\<rparr>,
      \<lparr>fip_ID = ''f2'',
       fip_Description = ''Floating IP for Kubernetes external service default/api from cluster demo'',
       fip_AttachedPortID = ''p2''\<rparr>]"

text \<open>Evaluation of the ownership rules on literals.\<close>

lemmas ownership_eval =
  runner_constants HasSuffix_def CutPrefix_def Split.simps
  loadBalancerNameMatchesCluster_def floatingIPDescriptionMatchesCluster_def
  securityGroupDescriptionMatchesCluster_def snapshotMetadataMatchesCluster_def
  volumeShouldBeDeletedForCluster_def
  isValidLoadBalancerServiceTagForCluster_def loadBalancerHasForeignOrInvalidServiceTag_def

lemma sample_selection:
  "selectLoadBalancersAndFloatingIPsForDeletion ''demo'' sampleLoadBalancers sampleFloatingIPs =
     Inr \<lparr>floatingIPIDsToDelete = [''f2''], loadBalancerIDsToDelete = [''lb2'']\<rparr>"
  by (simp add: selectLoadBalancersAndFloatingIPsForDeletion_def sampleLoadBalancers_def
      sampleFloatingIPs_def ownership_eval)

theorem shared_load_balancer_is_protected_witness:
  "''lb1'' \<notin> set (loadBalancerIDsToDelete \<lparr>floatingIPIDsToDelete = [''f2''], loadBalancerIDsToDelete = [''lb2'']\<rparr>)
   \<and> ''f1'' \<notin> set (floatingIPIDsToDelete \<lparr>floatingIPIDsToDelete = [''f2''], loadBalancerIDsToDelete = [''lb2'']\<rparr>)"
proof -
  have inj: "inj_on lb_ID (set sampleLoadBalancers)" "inj_on fip_ID (set sampleFloatingIPs)"
    by (simp_all add: sampleLoadBalancers_def sampleFloatingIPs_def)
  have tag: "\<nexists>ns svc. ''kube_service_demo-2_default_web'' = serviceTag ''demo'' ns svc
      \<and> ns \<noteq> '''' \<and> svc \<noteq> '''' \<and> CHR ''_'' \<notin> set ns \<and> CHR ''_'' \<notin> set svc"
    by (simp add: serviceTag_def runner_constants)
  show ?thesis
    using shared_load_balancer_is_protected
      [OF sample_selection inj, of "hd sampleLoadBalancers" "''kube_service_demo-2_default_web''"] tag
    by (simp add: sampleLoadBalancers_def sampleFloatingIPs_def ownership_eval)
qed

text \<open>
  The condition on the name is needed: a load balancer of \<open>demo-2\<close> that is shared with \<open>demo\<close>
  does not protect a floating IP on its VIP port whose description names \<open>demo\<close>.
\<close>

lemma other_name_protects_nothing:
  "selectLoadBalancersAndFloatingIPsForDeletion ''demo''
     [\<lparr>lb_ID = ''lb1'', lb_Name = ''kube_service_demo-2_default_web'',
       lb_Tags = [''kube_service_demo-2_default_web'', ''kube_service_demo_default_web''], lb_VIPPortID = ''p1''\<rparr>]
     [\<lparr>fip_ID = ''f1'',
       fip_Description = ''Floating IP for Kubernetes external service default/web from cluster demo'',
       fip_AttachedPortID = ''p1''\<rparr>]
   = Inr \<lparr>floatingIPIDsToDelete = [''f1''], loadBalancerIDsToDelete = []\<rparr>"
  by (simp add: selectLoadBalancersAndFloatingIPsForDeletion_def ownership_eval)

text \<open>
  C37. Cleanups of different clusters select different resources. For two different names, on
  one inventory with unique IDs, the selected snapshots and volumes are disjoint; so are the
  selected floating IPs and security groups, if neither name contains a space; and so are
  the selected load balancers, if neither name, with an underscore after it, is a prefix of
  the other with an underscore after it. Names without an underscore satisfy that, but \<open>demo\<close> and
  \<open>demo_default\<close> do not.
\<close>

theorem clusters_select_disjoint_resources:
  assumes "c \<noteq> c'"
    and "selectLoadBalancersAndFloatingIPsForDeletion c lbs fips = Inr sel"
    and "selectLoadBalancersAndFloatingIPsForDeletion c' lbs fips = Inr sel'"
    and "inj_on fip_ID (set fips)" and "inj_on lb_ID (set lbs)"
    and "inj_on sg_ID (set sgs)" and "inj_on snap_ID (set snaps)" and "inj_on vol_ID (set vols)"
  shows "set (selectResourceIDsForDeletion snaps (\<lambda>r. snapshotMetadataMatchesCluster r c) snap_ID)
      \<inter> set (selectResourceIDsForDeletion snaps (\<lambda>r. snapshotMetadataMatchesCluster r c') snap_ID) = {}
    \<and> set (selectResourceIDsForDeletion vols (\<lambda>r. volumeShouldBeDeletedForCluster r c) vol_ID)
      \<inter> set (selectResourceIDsForDeletion vols (\<lambda>r. volumeShouldBeDeletedForCluster r c') vol_ID) = {}
    \<and> (CHR '' '' \<notin> set c \<and> CHR '' '' \<notin> set c' \<longrightarrow>
         set (floatingIPIDsToDelete sel) \<inter> set (floatingIPIDsToDelete sel') = {}
       \<and> set (selectResourceIDsForDeletion sgs (\<lambda>r. securityGroupDescriptionMatchesCluster r c) sg_ID)
         \<inter> set (selectResourceIDsForDeletion sgs (\<lambda>r. securityGroupDescriptionMatchesCluster r c') sg_ID) = {})
    \<and> (\<not> HasPrefix (c @ ''_'') (c' @ ''_'') \<and> \<not> HasPrefix (c' @ ''_'') (c @ ''_'') \<longrightarrow>
         set (loadBalancerIDsToDelete sel) \<inter> set (loadBalancerIDsToDelete sel') = {})"
proof (intro conjI impI)
  show "set (selectResourceIDsForDeletion snaps (\<lambda>r. snapshotMetadataMatchesCluster r c) snap_ID)
      \<inter> set (selectResourceIDsForDeletion snaps (\<lambda>r. snapshotMetadataMatchesCluster r c') snap_ID) = {}"
    by (rule snapshots.disjoint_selection [OF assms(1,7)]) (rule selected_are_owned)+
  show "set (selectResourceIDsForDeletion vols (\<lambda>r. volumeShouldBeDeletedForCluster r c) vol_ID)
      \<inter> set (selectResourceIDsForDeletion vols (\<lambda>r. volumeShouldBeDeletedForCluster r c') vol_ID) = {}"
    by (rule volumes.disjoint_selection [OF assms(1,8)]) (rule selected_are_owned)+
next
  assume "CHR '' '' \<notin> set c \<and> CHR '' '' \<notin> set c'"
  then have names: "spaceless c c'" using assms(1) by (simp add: spaceless_def)
  show "set (selectResourceIDsForDeletion sgs (\<lambda>r. securityGroupDescriptionMatchesCluster r c) sg_ID)
      \<inter> set (selectResourceIDsForDeletion sgs (\<lambda>r. securityGroupDescriptionMatchesCluster r c') sg_ID) = {}"
    by (rule securityGroups.disjoint_selection [OF names assms(6)]) (rule selected_are_owned)+
  show "set (floatingIPIDsToDelete sel) \<inter> set (floatingIPIDsToDelete sel') = {}"
    by (rule floatingIPs.disjoint_selection [OF names assms(4)])
       (auto simp: selection_Inr [OF assms(2)] selection_Inr [OF assms(3)] ownedFloatingIP_def)
next
  assume "\<not> HasPrefix (c @ ''_'') (c' @ ''_'') \<and> \<not> HasPrefix (c' @ ''_'') (c @ ''_'')"
  then have names: "prefixFree c c'" by (simp add: prefixFree_def)
  show "set (loadBalancerIDsToDelete sel) \<inter> set (loadBalancerIDsToDelete sel') = {}"
    by (rule loadBalancers.disjoint_selection [OF names assms(5)])
       (auto simp: selection_Inr [OF assms(2)] selection_Inr [OF assms(3)] ownedLoadBalancer_def)
qed

lemma sample_selection_other:
  "selectLoadBalancersAndFloatingIPsForDeletion ''demo-2'' sampleLoadBalancers sampleFloatingIPs =
     Inr \<lparr>floatingIPIDsToDelete = [], loadBalancerIDsToDelete = []\<rparr>"
  by (simp add: selectLoadBalancersAndFloatingIPsForDeletion_def sampleLoadBalancers_def sampleFloatingIPs_def
      ownership_eval)

theorem clusters_select_disjoint_resources_witness:
  "set (floatingIPIDsToDelete \<lparr>floatingIPIDsToDelete = [''f2''], loadBalancerIDsToDelete = [''lb2'']\<rparr>)
      \<inter> set (floatingIPIDsToDelete \<lparr>floatingIPIDsToDelete = [], loadBalancerIDsToDelete = []\<rparr>) = {}
   \<and> set (loadBalancerIDsToDelete \<lparr>floatingIPIDsToDelete = [''f2''], loadBalancerIDsToDelete = [''lb2'']\<rparr>)
      \<inter> set (loadBalancerIDsToDelete \<lparr>floatingIPIDsToDelete = [], loadBalancerIDsToDelete = []\<rparr>) = {}"
proof -
  have inj: "inj_on fip_ID (set sampleFloatingIPs)" "inj_on lb_ID (set sampleLoadBalancers)"
    by (simp_all add: sampleLoadBalancers_def sampleFloatingIPs_def)
  have names: "''demo'' \<noteq> ''demo-2''" "\<not> HasPrefix (''demo'' @ ''_'') (''demo-2'' @ ''_'')"
    "\<not> HasPrefix (''demo-2'' @ ''_'') (''demo'' @ ''_'')"
    by simp_all
  from clusters_select_disjoint_resources [OF names(1) sample_selection sample_selection_other inj,
      of "[]" "[]" "[]"] names(2,3)
  show ?thesis by simp
qed

text \<open>Two names, one of which contains an underscore, that own the same load balancer.\<close>

lemma underscore_names_overlap:
  "loadBalancerNameMatchesCluster lb ''demo_default'' \<Longrightarrow> loadBalancerNameMatchesCluster lb ''demo''"
  by (auto simp: loadBalancerNameMatchesCluster_def HasPrefix_iff)

text \<open>
  C38. A reserved tag is accepted exactly when it is complete: the service prefix, the
  cluster name, a non-empty namespace and a non-empty Service name, separated by single
  underscores and with no other underscore in the last two.
\<close>

theorem reserved_tag_accepted_iff_complete:
  "isValidLoadBalancerServiceTagForCluster tag c \<longleftrightarrow>
     (\<exists>ns svc. tag = serviceTag c ns svc \<and> ns \<noteq> '''' \<and> svc \<noteq> ''''
             \<and> CHR ''_'' \<notin> set ns \<and> CHR ''_'' \<notin> set svc)"
  by (rule valid_tag_iff)

end
