(* ===== verification/Cleanup_Runner.thy ===== *)
theory Cleanup_Runner
  imports Ownership
begin

section \<open>One cleanup iteration\<close>

text \<open>
  \<open>internal/cleanup/request.go\<close>, \<open>result.go\<close>, \<open>ports.go\<close> and the iteration half of
  \<open>runner.go\<close>. The service interfaces of \<open>ports.go\<close> are records of operations over an
  arbitrary world; a nil interface is \<open>None\<close>.
\<close>

subsection \<open>Requests, results and ports\<close>

record Scope =
  ClusterName :: string

record Policy =
  DeleteVolumes :: bool

record Request =
  req_Scope :: Scope
  req_Policy :: Policy

type_synonym Outcome = string

definition OutcomeComplete :: Outcome where "OutcomeComplete = ''complete''"
definition OutcomeWaiting :: Outcome where "OutcomeWaiting = ''waiting''"

record Result =
  res_Outcome :: Outcome

record 'w FloatingIPService =
  ListFloatingIPs :: "('w, error, FloatingIP list) act"
  DeleteFloatingIP :: "string \<Rightarrow> ('w, error, unit) act"

record 'w LoadBalancerService =
  ListLoadBalancers :: "('w, error, LoadBalancer list) act"
  DeleteLoadBalancer :: "string \<Rightarrow> ('w, error, unit) act"

record 'w SecurityGroupService =
  ListSecurityGroups :: "('w, error, SecurityGroup list) act"
  DeleteSecurityGroup :: "string \<Rightarrow> ('w, error, unit) act"

record 'w SnapshotService =
  ListSnapshots :: "('w, error, Snapshot list) act"
  DeleteSnapshot :: "string \<Rightarrow> ('w, error, unit) act"

record 'w VolumeService =
  ListVolumes :: "('w, error, Volume list) act"
  DeleteVolume :: "string \<Rightarrow> ('w, error, unit) act"

record 'w Services =
  svc_FloatingIPs :: "'w FloatingIPService option"
  svc_LoadBalancers :: "'w LoadBalancerService option"
  svc_SecurityGroups :: "'w SecurityGroupService option"
  svc_Snapshots :: "'w SnapshotService option"
  svc_Volumes :: "'w VolumeService option"

subsection \<open>The iteration\<close>

text \<open>
  The body of the second loop of \<open>deleteResourcesForCurrentPhase\<close>: a pending deletion is
  skipped, another error ends the phase.
\<close>

definition deleteOne ::
  "string \<Rightarrow> (string \<Rightarrow> ('w, error, unit) act) \<Rightarrow> string \<Rightarrow> ('w, error, unit) act"
where
  "deleteOne resourceKind deleteByID resourceID =
     inspect (deleteByID resourceID)
       (\<lambda>r. case r of
              Inr _ \<Rightarrow> ret ()
            | Inl err \<Rightarrow>
                if Is err ErrDeletePending then ret ()
                else fail (Wrapf [Txt ''deleting '', Str resourceKind, Txt '' '', Quo resourceID] err))"

definition deleteResourcesForCurrentPhase ::
  "string \<Rightarrow> string list \<Rightarrow> (string \<Rightarrow> ('w, error, unit) act) \<Rightarrow> ('w, error, Result) act"
where
  "deleteResourcesForCurrentPhase resourceKind resourceIDs deleteByID =
     (if \<exists>resourceID \<in> set resourceIDs. resourceID = ''''
      then fail (Errorf [Txt ''deleting '', Str resourceKind, Txt '': selected resource ID is empty''])
      else
        andThen (forEach (deleteOne resourceKind deleteByID) resourceIDs)
          (\<lambda>_. ret \<lparr>res_Outcome = OutcomeWaiting\<rparr>))"

text \<open>
  \<open>Run\<close> is one Go function; each definition below is one stretch of it, from the last to
  the first, in the order of the code.
\<close>

definition runVolumes :: "'w Services \<Rightarrow> Request \<Rightarrow> ('w, error, Result) act" where
  "runVolumes services request =
     (case svc_Volumes services of
        None \<Rightarrow> fail (Errorf [Txt ''running cleanup: volume service is nil''])
      | Some volumeService \<Rightarrow>
          andThen (wrapErr (Wrapf [Txt ''listing volumes'']) (ListVolumes volumeService))
            (\<lambda>volumes.
               let volumeIDs = selectResourceIDsForDeletion volumes
                     (\<lambda>volume. volumeShouldBeDeletedForCluster volume (ClusterName (req_Scope request)))
                     vol_ID
               in if volumeIDs \<noteq> []
                  then deleteResourcesForCurrentPhase ''volume'' volumeIDs (DeleteVolume volumeService)
                  else ret \<lparr>res_Outcome = OutcomeComplete\<rparr>))"

definition runSnapshots :: "'w Services \<Rightarrow> Request \<Rightarrow> ('w, error, Result) act" where
  "runSnapshots services request =
     (if \<not> DeleteVolumes (req_Policy request) then ret \<lparr>res_Outcome = OutcomeComplete\<rparr>
      else
        case svc_Snapshots services of
          None \<Rightarrow> fail (Errorf [Txt ''running cleanup: snapshot service is nil''])
        | Some snapshotService \<Rightarrow>
            andThen (wrapErr (Wrapf [Txt ''listing snapshots'']) (ListSnapshots snapshotService))
              (\<lambda>snapshots.
                 let snapshotIDs = selectResourceIDsForDeletion snapshots
                       (\<lambda>snapshot. snapshotMetadataMatchesCluster snapshot (ClusterName (req_Scope request)))
                       snap_ID
                 in if snapshotIDs \<noteq> []
                    then deleteResourcesForCurrentPhase ''snapshot'' snapshotIDs
                           (DeleteSnapshot snapshotService)
                    else runVolumes services request))"

definition runSecurityGroups :: "'w Services \<Rightarrow> Request \<Rightarrow> ('w, error, Result) act" where
  "runSecurityGroups services request =
     (case svc_SecurityGroups services of
        None \<Rightarrow> fail (Errorf [Txt ''running cleanup: security group service is nil''])
      | Some securityGroupService \<Rightarrow>
          andThen (wrapErr (Wrapf [Txt ''listing security groups'']) (ListSecurityGroups securityGroupService))
            (\<lambda>securityGroups.
               let securityGroupIDs = selectResourceIDsForDeletion securityGroups
                     (\<lambda>securityGroup. securityGroupDescriptionMatchesCluster securityGroup
                                        (ClusterName (req_Scope request)))
                     sg_ID
               in if securityGroupIDs \<noteq> []
                  then deleteResourcesForCurrentPhase ''security group'' securityGroupIDs
                         (DeleteSecurityGroup securityGroupService)
                  else runSnapshots services request))"

definition Run :: "'w Services \<Rightarrow> Request \<Rightarrow> ('w, error, Result) act" where
  "Run services request =
     (if ClusterName (req_Scope request) = ''''
      then fail (Errorf [Txt ''running cleanup: cluster name is empty''])
      else
        case svc_LoadBalancers services of
          None \<Rightarrow> fail (Errorf [Txt ''running cleanup: load balancer service is nil''])
        | Some loadBalancerService \<Rightarrow>
        (case svc_FloatingIPs services of
          None \<Rightarrow> fail (Errorf [Txt ''running cleanup: floating IP service is nil''])
        | Some floatingIPService \<Rightarrow>
            andThen (wrapErr (Wrapf [Txt ''listing load balancers before selecting resources for deletion''])
                       (ListLoadBalancers loadBalancerService)) (\<lambda>loadBalancers.
            andThen (wrapErr (Wrapf [Txt ''listing floating IPs before selecting resources for deletion''])
                       (ListFloatingIPs floatingIPService)) (\<lambda>floatingIPs.
            andThen (lift_res (selectLoadBalancersAndFloatingIPsForDeletion
                       (ClusterName (req_Scope request)) loadBalancers floatingIPs))
              (\<lambda>resourcesToDelete.
                 if floatingIPIDsToDelete resourcesToDelete \<noteq> []
                 then deleteResourcesForCurrentPhase ''floating IP''
                        (floatingIPIDsToDelete resourcesToDelete) (DeleteFloatingIP floatingIPService)
                 else if loadBalancerIDsToDelete resourcesToDelete \<noteq> []
                 then deleteResourcesForCurrentPhase ''load balancer''
                        (loadBalancerIDsToDelete resourcesToDelete) (DeleteLoadBalancer loadBalancerService)
                 else runSecurityGroups services request)))))"

subsection \<open>Recorded service calls\<close>

text \<open>
  The kinds of resources in the order in which cleanup works through them, and what a
  call of a service interface answers.
\<close>

datatype kind = KFloatingIP | KLoadBalancer | KSecurityGroup | KSnapshot | KVolume

datatype call =
    FloatingIPsListed "error + FloatingIP list"
  | LoadBalancersListed "error + LoadBalancer list"
  | SecurityGroupsListed "error + SecurityGroup list"
  | SnapshotsListed "error + Snapshot list"
  | VolumesListed "error + Volume list"
  | DeleteCalled kind string "error + unit"

definition recordedServices :: "'w Services \<Rightarrow> ('w \<times> call list) Services" where
  "recordedServices s =
     \<lparr>svc_FloatingIPs = map_option (\<lambda>v.
        \<lparr>ListFloatingIPs = recorded FloatingIPsListed (ListFloatingIPs v),
         DeleteFloatingIP = (\<lambda>i. recorded (DeleteCalled KFloatingIP i) (DeleteFloatingIP v i))\<rparr>)
        (svc_FloatingIPs s),
      svc_LoadBalancers = map_option (\<lambda>v.
        \<lparr>ListLoadBalancers = recorded LoadBalancersListed (ListLoadBalancers v),
         DeleteLoadBalancer = (\<lambda>i. recorded (DeleteCalled KLoadBalancer i) (DeleteLoadBalancer v i))\<rparr>)
        (svc_LoadBalancers s),
      svc_SecurityGroups = map_option (\<lambda>v.
        \<lparr>ListSecurityGroups = recorded SecurityGroupsListed (ListSecurityGroups v),
         DeleteSecurityGroup = (\<lambda>i. recorded (DeleteCalled KSecurityGroup i) (DeleteSecurityGroup v i))\<rparr>)
        (svc_SecurityGroups s),
      svc_Snapshots = map_option (\<lambda>v.
        \<lparr>ListSnapshots = recorded SnapshotsListed (ListSnapshots v),
         DeleteSnapshot = (\<lambda>i. recorded (DeleteCalled KSnapshot i) (DeleteSnapshot v i))\<rparr>)
        (svc_Snapshots s),
      svc_Volumes = map_option (\<lambda>v.
        \<lparr>ListVolumes = recorded VolumesListed (ListVolumes v),
         DeleteVolume = (\<lambda>i. recorded (DeleteCalled KVolume i) (DeleteVolume v i))\<rparr>)
        (svc_Volumes s)\<rparr>"

text \<open>Recording does not change what the iteration does.\<close>

lemma erases_deleteOne:
  "erases (D i) (d i) \<Longrightarrow> erases (deleteOne rk D i) (deleteOne rk d i)"
  unfolding deleteOne_def by (auto intro!: traced_intro split: sum.splits)

lemma erases_deletePhase:
  "(\<And>i. erases (D i) (d i)) \<Longrightarrow>
   erases (deleteResourcesForCurrentPhase rk ids D) (deleteResourcesForCurrentPhase rk ids d)"
  unfolding deleteResourcesForCurrentPhase_def
  by (intro traced_intro erases_deleteOne)

lemma erases_runVolumes: "erases (runVolumes (recordedServices s) request) (runVolumes s request)"
  by (cases "svc_Volumes s")
     (simp_all only: runVolumes_def recordedServices_def Let_def Services.simps VolumeService.simps
        option.map option.case, (intro traced_intro erases_deletePhase)+)

lemma erases_runSnapshots: "erases (runSnapshots (recordedServices s) request) (runSnapshots s request)"
  unfolding runSnapshots_def
  by (cases "svc_Snapshots s")
     (simp_all only: recordedServices_def [of s, THEN arg_cong [where f = svc_Snapshots]]
        Let_def Services.simps SnapshotService.simps option.map option.case,
      (intro traced_intro erases_deletePhase erases_runVolumes)+)

lemma erases_runSecurityGroups:
  "erases (runSecurityGroups (recordedServices s) request) (runSecurityGroups s request)"
  unfolding runSecurityGroups_def
  by (cases "svc_SecurityGroups s")
     (simp_all only: recordedServices_def [of s, THEN arg_cong [where f = svc_SecurityGroups]]
        Let_def Services.simps SecurityGroupService.simps option.map option.case,
      (intro traced_intro erases_deletePhase erases_runSnapshots)+)

lemma erases_Run: "erases (Run (recordedServices s) request) (Run s request)"
  unfolding Run_def
  by (cases "svc_LoadBalancers s"; cases "svc_FloatingIPs s")
     (simp_all only: recordedServices_def [of s, THEN arg_cong [where f = svc_LoadBalancers]]
        recordedServices_def [of s, THEN arg_cong [where f = svc_FloatingIPs]]
        Let_def Services.simps LoadBalancerService.simps FloatingIPService.simps option.map option.case,
      (intro traced_intro erases_deletePhase erases_runSecurityGroups)+)

subsection \<open>The order of the kinds\<close>

definition kindRank :: "kind \<Rightarrow> nat" where
  "kindRank k = (case k of KFloatingIP \<Rightarrow> 0 | KLoadBalancer \<Rightarrow> 1 | KSecurityGroup \<Rightarrow> 2
                          | KSnapshot \<Rightarrow> 3 | KVolume \<Rightarrow> 4)"

lemma kindRank_inject: "kindRank k = kindRank k' \<longleftrightarrow> k = k'"
  by (cases k; cases k') (simp_all add: kindRank_def)

instantiation kind :: linorder
begin

definition less_eq_kind :: "kind \<Rightarrow> kind \<Rightarrow> bool" where
  "less_eq_kind k k' \<longleftrightarrow> kindRank k \<le> kindRank k'"

definition less_kind :: "kind \<Rightarrow> kind \<Rightarrow> bool" where
  "less_kind k k' \<longleftrightarrow> kindRank k < kindRank k'"

instance
  by standard (auto simp: less_eq_kind_def less_kind_def kindRank_inject)

end

subsection \<open>The abstract iteration\<close>

text \<open>
  What one iteration should do, stated on an inventory rather than on calls: find the
  first kind, in the order above, that still has resources to delete.
\<close>

record Inventory =
  inv_LoadBalancers :: "LoadBalancer list"
  inv_FloatingIPs :: "FloatingIP list"
  inv_SecurityGroups :: "SecurityGroup list"
  inv_Snapshots :: "Snapshot list"
  inv_Volumes :: "Volume list"

definition emptyInventory :: Inventory where
  "emptyInventory = \<lparr>inv_LoadBalancers = [], inv_FloatingIPs = [], inv_SecurityGroups = [],
                     inv_Snapshots = [], inv_Volumes = []\<rparr>"

definition ownedIDs :: "string \<Rightarrow> Inventory \<Rightarrow> kind \<Rightarrow> string list" where
  "ownedIDs c inventory k =
     (case k of
        KFloatingIP \<Rightarrow>
          map fip_ID (filter (ownedFloatingIP c (inv_LoadBalancers inventory)) (inv_FloatingIPs inventory))
      | KLoadBalancer \<Rightarrow> map lb_ID (filter (ownedLoadBalancer c) (inv_LoadBalancers inventory))
      | KSecurityGroup \<Rightarrow>
          map sg_ID (filter (\<lambda>r. securityGroupDescriptionMatchesCluster r c) (inv_SecurityGroups inventory))
      | KSnapshot \<Rightarrow>
          map snap_ID (filter (\<lambda>r. snapshotMetadataMatchesCluster r c) (inv_Snapshots inventory))
      | KVolume \<Rightarrow>
          map vol_ID (filter (\<lambda>r. volumeShouldBeDeletedForCluster r c) (inv_Volumes inventory)))"

definition inScope :: "Policy \<Rightarrow> kind \<Rightarrow> bool" where
  "inScope policy k \<longleftrightarrow> (k = KSnapshot \<or> k = KVolume \<longrightarrow> DeleteVolumes policy)"

definition allKinds :: "kind list" where
  "allKinds = [KFloatingIP, KLoadBalancer, KSecurityGroup, KSnapshot, KVolume]"

definition nextKind :: "string \<Rightarrow> Policy \<Rightarrow> Inventory \<Rightarrow> kind option" where
  "nextKind c policy inventory = find (\<lambda>k. inScope policy k \<and> ownedIDs c inventory k \<noteq> []) allKinds"

lemma set_allKinds: "k \<in> set allKinds"
  by (cases k) (simp_all add: allKinds_def)

lemma nextKind_None: "nextKind c policy inventory = None \<longleftrightarrow> (\<forall>k. inScope policy k \<longrightarrow> ownedIDs c inventory k = [])"
  using set_allKinds by (auto simp: nextKind_def find_None_iff)

lemma nextKind_Some:
  "nextKind c policy inventory = Some k \<longleftrightarrow>
     inScope policy k \<and> ownedIDs c inventory k \<noteq> [] \<and> (\<forall>k' < k. inScope policy k' \<longrightarrow> ownedIDs c inventory k' = [])"
  by (cases k) (auto simp: nextKind_def allKinds_def less_kind_def kindRank_def
      split: kind.splits if_splits)

text \<open>What a list of recorded calls says: the inventory answered, the kinds listed, the deletions.\<close>

fun addAnswer :: "Inventory \<Rightarrow> call \<Rightarrow> Inventory" where
  "addAnswer inventory (LoadBalancersListed (Inr xs)) = inventory\<lparr>inv_LoadBalancers := xs\<rparr>"
| "addAnswer inventory (FloatingIPsListed (Inr xs)) = inventory\<lparr>inv_FloatingIPs := xs\<rparr>"
| "addAnswer inventory (SecurityGroupsListed (Inr xs)) = inventory\<lparr>inv_SecurityGroups := xs\<rparr>"
| "addAnswer inventory (SnapshotsListed (Inr xs)) = inventory\<lparr>inv_Snapshots := xs\<rparr>"
| "addAnswer inventory (VolumesListed (Inr xs)) = inventory\<lparr>inv_Volumes := xs\<rparr>"
| "addAnswer inventory _ = inventory"

definition answeredInventory :: "call list \<Rightarrow> Inventory" where
  "answeredInventory calls = foldl addAnswer emptyInventory calls"

fun listedKind :: "call \<Rightarrow> kind option" where
  "listedKind (LoadBalancersListed r) = Some KLoadBalancer"
| "listedKind (FloatingIPsListed r) = Some KFloatingIP"
| "listedKind (SecurityGroupsListed r) = Some KSecurityGroup"
| "listedKind (SnapshotsListed r) = Some KSnapshot"
| "listedKind (VolumesListed r) = Some KVolume"
| "listedKind (DeleteCalled k i r) = None"

definition listings :: "call list \<Rightarrow> kind list" where
  "listings calls = List.map_filter listedKind calls"

fun deletion :: "call \<Rightarrow> (kind \<times> string \<times> (error + unit)) option" where
  "deletion (DeleteCalled k i r) = Some (k, i, r)"
| "deletion _ = None"

definition deletions :: "call list \<Rightarrow> (kind \<times> string \<times> (error + unit)) list" where
  "deletions calls = List.map_filter deletion calls"

text \<open>An accepted deletion: it succeeded, or OpenStack must be observed again.\<close>

definition accepted :: "error + unit \<Rightarrow> bool" where
  "accepted r = (case r of Inr _ \<Rightarrow> True | Inl e \<Rightarrow> Is e ErrDeletePending)"

lemma answeredInventory_deletes [simp]:
  "foldl addAnswer inventory (map2 (DeleteCalled k) ids rs) = inventory"
  by (induction ids rs rule: list_induct2') simp_all

lemma listings_deletes [simp]:
  "List.map_filter listedKind (map2 (DeleteCalled k) ids rs) = []"
  by (induction ids rs rule: list_induct2') (simp_all add: List.map_filter_simps)

lemma deletions_deletes [simp]:
  "length ids = length rs \<Longrightarrow>
   List.map_filter deletion (map2 (DeleteCalled k) ids rs) = map2 (\<lambda>i r. (k, i, r)) ids rs"
  by (induction ids rs rule: list_induct2) (simp_all add: List.map_filter_simps)

lemma map_filter_append [simp]:
  "List.map_filter f (xs @ ys) = List.map_filter f xs @ List.map_filter f ys"
  by (induction xs) (simp_all add: List.map_filter_simps split: option.splits)

subsection \<open>What a deletion phase does\<close>

lemma wp_deleteOne:
  assumes "\<And>r w'. accepted r \<Longrightarrow> Q (Inr ()) (w', l @ [DeleteCalled k i r])"
    and "\<And>e w'. \<not> Is e ErrDeletePending \<Longrightarrow>
           Q (Inl (Wrapf [Txt ''deleting '', Str rk, Txt '' '', Quo i] e)) (w', l @ [DeleteCalled k i (Inl e)])"
  shows "wp (deleteOne rk (\<lambda>i. recorded (DeleteCalled k i) (D i)) i) Q (w, l)"
  unfolding deleteOne_def wp_rules
  by (rule wp_recorded) (use assms in \<open>auto simp: accepted_def wp_rules split: sum.splits\<close>)

lemma wp_deleteAll:
  assumes ok: "\<And>w' rs. length rs = length ids \<Longrightarrow> list_all accepted rs \<Longrightarrow>
             Q (Inr ()) (w', l @ map2 (DeleteCalled k) ids rs)"
    and failed: "\<And>w' pre x post rs e. ids = pre @ x # post \<Longrightarrow> length rs = length pre \<Longrightarrow>
             list_all accepted rs \<Longrightarrow> \<not> Is e ErrDeletePending \<Longrightarrow>
             Q (Inl (Wrapf [Txt ''deleting '', Str rk, Txt '' '', Quo x] e))
               (w', l @ map2 (DeleteCalled k) pre rs @ [DeleteCalled k x (Inl e)])"
  shows "wp (forEach (deleteOne rk (\<lambda>i. recorded (DeleteCalled k i) (D i))) ids) Q (w, l)"
  using assms
proof (induction ids arbitrary: w l)
  case Nil
  then show ?case using Nil(1) [of "[]"] by (simp add: wp_rules)
next
  case (Cons i ids)
  show ?case
    unfolding forEach.simps wp_rules
  proof (rule wp_deleteOne, goal_cases)
    case (1 r w')
    show ?case
      unfolding sum.case
    proof (rule Cons.IH)
      fix w'' rs assume "length rs = length ids" and "list_all accepted rs"
      with 1 Cons.prems(1) [of "r # rs"]
      show "Q (Inr ()) (w'', (l @ [DeleteCalled k i r]) @ map2 (DeleteCalled k) ids rs)" by simp
    next
      fix w'' pre x post rs e
      assume "ids = pre @ x # post" "length rs = length pre" "list_all accepted rs" "\<not> Is e ErrDeletePending"
      with 1 Cons.prems(2) [of "i # pre" x post "r # rs" e w'']
      show "Q (Inl (Wrapf [Txt ''deleting '', Str rk, Txt '' '', Quo x] e))
              (w'', (l @ [DeleteCalled k i r]) @ map2 (DeleteCalled k) pre rs @ [DeleteCalled k x (Inl e)])"
        by simp
    qed
  next
    case (2 e w')
    then show ?case using Cons.prems(2) [of "[]" i ids "[]"] by simp
  qed
qed

text \<open>
  The outcome of an iteration as the abstract iteration prescribes it, over the recorded
  calls. The kinds are listed in the order \<open>listingOrder\<close>: load balancers before floating
  IPs, because the tags of the balancers decide which floating IPs are protected.
\<close>

definition listingOrder :: "kind list" where
  "listingOrder = [KLoadBalancer, KFloatingIP, KSecurityGroup, KSnapshot, KVolume]"

definition listedFor :: "Policy \<Rightarrow> kind option \<Rightarrow> kind list" where
  "listedFor policy next =
     (case next of
        None \<Rightarrow> filter (inScope policy) listingOrder
      | Some k \<Rightarrow> filter (\<lambda>k'. k' \<le> k \<or> k' = KLoadBalancer) listingOrder)"

text \<open>All of \<open>ids\<close> was sent for deletion, each answer accepted.\<close>

definition allDeleted :: "kind \<Rightarrow> string list \<Rightarrow> call list \<Rightarrow> bool" where
  "allDeleted k ids calls \<longleftrightarrow>
     (\<exists>rs. length rs = length ids \<and> list_all accepted rs
         \<and> deletions calls = map2 (\<lambda>i r. (k, i, r)) ids rs)"

text \<open>The deletions stopped at the first one that was refused, with its error wrapped.\<close>

definition stoppedAt :: "kind \<Rightarrow> string list \<Rightarrow> error \<Rightarrow> call list \<Rightarrow> bool" where
  "stoppedAt k ids err calls \<longleftrightarrow>
     (\<exists>pre x post rs e t. ids = pre @ x # post \<and> '''' \<notin> set ids \<and> length rs = length pre \<and> list_all accepted rs
         \<and> \<not> Is e ErrDeletePending \<and> err = Wrapf t e
         \<and> deletions calls = map2 (\<lambda>i r. (k, i, r)) pre rs @ [(k, x, Inl e)])"

text \<open>
  The reasons for which an iteration may end in an error before it deletes anything: no
  cluster name, a missing service, a listing that failed (its error is wrapped), load
  balancers and floating IPs from which no safe selection can be made, or an empty ID
  among the resources to delete.
\<close>

fun provided :: "'w Services \<Rightarrow> kind \<Rightarrow> bool" where
  "provided s KFloatingIP = (svc_FloatingIPs s \<noteq> None)"
| "provided s KLoadBalancer = (svc_LoadBalancers s \<noteq> None)"
| "provided s KSecurityGroup = (svc_SecurityGroups s \<noteq> None)"
| "provided s KSnapshot = (svc_Snapshots s \<noteq> None)"
| "provided s KVolume = (svc_Volumes s \<noteq> None)"

fun listingError :: "call \<Rightarrow> error option" where
  "listingError (LoadBalancersListed (Inl e)) = Some e"
| "listingError (FloatingIPsListed (Inl e)) = Some e"
| "listingError (SecurityGroupsListed (Inl e)) = Some e"
| "listingError (SnapshotsListed (Inl e)) = Some e"
| "listingError (VolumesListed (Inl e)) = Some e"
| "listingError _ = None"

definition abandoned :: "'w Services \<Rightarrow> Request \<Rightarrow> error \<Rightarrow> call list \<Rightarrow> bool" where
  "abandoned s request err calls \<longleftrightarrow>
     (let c = ClusterName (req_Scope request);
          inventory = answeredInventory calls
      in c = ''''
         \<or> (\<exists>k. inScope (req_Policy request) k \<and> \<not> provided s k)
         \<or> (\<exists>call \<in> set calls. \<exists>e t. listingError call = Some e \<and> err = Wrapf t e)
         \<or> selectLoadBalancersAndFloatingIPsForDeletion c (inv_LoadBalancers inventory)
              (inv_FloatingIPs inventory) = Inl err
         \<or> (\<exists>k. nextKind c (req_Policy request) inventory = Some k
                \<and> '''' \<in> set (ownedIDs c inventory k)))"

definition iterationSpec :: "'w Services \<Rightarrow> Request \<Rightarrow> error + Result \<Rightarrow> call list \<Rightarrow> bool" where
  "iterationSpec s request r calls \<longleftrightarrow>
     (let c = ClusterName (req_Scope request);
          policy = req_Policy request;
          inventory = answeredInventory calls;
          next = nextKind c policy inventory
      in case r of
           Inr res \<Rightarrow>
             c \<noteq> '''' \<and> listings calls = listedFor policy next
             \<and> (case next of
                  None \<Rightarrow> res_Outcome res = OutcomeComplete \<and> deletions calls = []
                | Some k \<Rightarrow> res_Outcome res = OutcomeWaiting
                           \<and> '''' \<notin> set (ownedIDs c inventory k)
                           \<and> allDeleted k (ownedIDs c inventory k) calls)
         | Inl err \<Rightarrow>
             deletions calls = [] \<and> abandoned s request err calls
             \<or> (\<exists>k. next = Some k \<and> listings calls = listedFor policy next
                    \<and> stoppedAt k (ownedIDs c inventory k) err calls))"

lemma wp_deletePhase:
  assumes bad: "\<And>t. '''' \<in> set ids \<Longrightarrow> Q (Inl (Errorf t)) (w, l)"
    and ok: "\<And>w' rs. '''' \<notin> set ids \<Longrightarrow> length rs = length ids \<Longrightarrow> list_all accepted rs \<Longrightarrow>
             Q (Inr \<lparr>res_Outcome = OutcomeWaiting\<rparr>) (w', l @ map2 (DeleteCalled k) ids rs)"
    and failed: "\<And>w' pre x post rs e t. ids = pre @ x # post \<Longrightarrow> length rs = length pre \<Longrightarrow>
             '''' \<notin> set ids \<Longrightarrow> list_all accepted rs \<Longrightarrow> \<not> Is e ErrDeletePending \<Longrightarrow>
             Q (Inl (Wrapf t e)) (w', l @ map2 (DeleteCalled k) pre rs @ [DeleteCalled k x (Inl e)])"
  shows "wp (deleteResourcesForCurrentPhase rk ids (\<lambda>i. recorded (DeleteCalled k i) (D i))) Q (w, l)"
proof (cases "'''' \<in> set ids")
  case True
  then show ?thesis by (auto simp: deleteResourcesForCurrentPhase_def wp_rules bad)
next
  case False
  then have guard: "\<not> (\<exists>resourceID \<in> set ids. resourceID = '''')" by blast
  show ?thesis
    unfolding deleteResourcesForCurrentPhase_def if_not_P [OF guard] wp_rules
    by (rule wp_deleteAll) (simp_all add: wp_rules ok [OF False] failed [OF _ _ False])
qed

text \<open>A phase of kind \<open>k\<close> whose owned IDs are not empty, after the calls \<open>l\<close> that deleted nothing.\<close>

lemma wp_deletePhase_spec:
  assumes "ClusterName (req_Scope request) \<noteq> ''''" and "deletions l = []"
    and "nextKind (ClusterName (req_Scope request)) (req_Policy request) (answeredInventory l) = Some k"
    and "ids = ownedIDs (ClusterName (req_Scope request)) (answeredInventory l) k"
    and "listings l = listedFor (req_Policy request) (Some k)"
  shows "wp (deleteResourcesForCurrentPhase rk ids (\<lambda>i. recorded (DeleteCalled k i) (D i)))
           (\<lambda>r (w', calls). iterationSpec s request r calls) (w, l)"
proof (rule wp_deletePhase, goal_cases)
  case (1 t)
  with assms show ?case by (simp add: iterationSpec_def abandoned_def Let_def)
next
  case (2 w' rs)
  with assms show ?case
    by (auto simp: iterationSpec_def answeredInventory_def listings_def deletions_def allDeleted_def Let_def)
next
  case (3 w' pre x post rs e t)
  have "stoppedAt k ids (Wrapf t e) (l @ map2 (DeleteCalled k) pre rs @ [DeleteCalled k x (Inl e)])"
    unfolding stoppedAt_def
    by (rule exI [of _ pre], rule exI [of _ x], rule exI [of _ post], rule exI [of _ rs],
        rule exI [of _ e], rule exI [of _ t])
       (use 3 assms(2) in \<open>simp add: deletions_def List.map_filter_simps\<close>)
  with assms show ?case
    by (simp add: iterationSpec_def answeredInventory_def listings_def Let_def List.map_filter_simps)
qed

lemma iterationSpec_error:
  "deletions calls = [] \<Longrightarrow> abandoned s request e calls \<Longrightarrow> iterationSpec s request (Inl e) calls"
  by (simp add: iterationSpec_def)

lemma abandoned_unprovided:
  "inScope (req_Policy request) k \<Longrightarrow> \<not> provided s k \<Longrightarrow> abandoned s request e calls"
  by (auto simp: abandoned_def Let_def)

lemma abandoned_unnamed: "ClusterName (req_Scope request) = [] \<Longrightarrow> abandoned s request e calls"
  by (simp add: abandoned_def)

lemma abandoned_listing:
  "listingError call = Some e \<Longrightarrow> abandoned s request (Wrapf t e) (calls @ [call])"
  by (auto simp: abandoned_def Let_def)

lemma ownedIDs_upd [simp]:
  "ownedIDs c (inventory\<lparr>inv_SecurityGroups := xs\<rparr>) k =
     (if k = KSecurityGroup then map sg_ID (filter (\<lambda>r. securityGroupDescriptionMatchesCluster r c) xs)
      else ownedIDs c inventory k)"
  "ownedIDs c (inventory\<lparr>inv_Snapshots := ys\<rparr>) k =
     (if k = KSnapshot then map snap_ID (filter (\<lambda>r. snapshotMetadataMatchesCluster r c) ys)
      else ownedIDs c inventory k)"
  "ownedIDs c (inventory\<lparr>inv_Volumes := zs\<rparr>) k =
     (if k = KVolume then map vol_ID (filter (\<lambda>r. volumeShouldBeDeletedForCluster r c) zs)
      else ownedIDs c inventory k)"
  by (cases k; simp add: ownedIDs_def)+

lemma answeredInventory_snoc [simp]:
  "answeredInventory (l @ [e]) = addAnswer (answeredInventory l) e"
  by (simp add: answeredInventory_def)

lemma listings_snoc [simp]:
  "listings (l @ [e]) = listings l @ (case listedKind e of None \<Rightarrow> [] | Some k \<Rightarrow> [k])"
  by (simp add: listings_def List.map_filter_simps split: option.splits)

lemma deletions_snoc [simp]:
  "deletions (l @ [e]) = deletions l @ (case deletion e of None \<Rightarrow> [] | Some d \<Rightarrow> [d])"
  by (simp add: deletions_def List.map_filter_simps split: option.splits)

lemma all_kinds: "(\<forall>k. P k) \<longleftrightarrow> P KFloatingIP \<and> P KLoadBalancer \<and> P KSecurityGroup \<and> P KSnapshot \<and> P KVolume"
  by (metis kind.exhaust)

lemmas kind_order = less_kind_def less_eq_kind_def kindRank_def

text \<open>
  The calls of an iteration that has worked through all kinds up to \<open>j\<close>: they were listed,
  nothing was deleted, and none of them has a resource left.
\<close>

definition through :: "Request \<Rightarrow> kind \<Rightarrow> call list \<Rightarrow> bool" where
  "through request j l \<longleftrightarrow>
     ClusterName (req_Scope request) \<noteq> '''' \<and> deletions l = []
     \<and> listings l = filter (\<lambda>k. k \<le> j) listingOrder
     \<and> (\<forall>k \<le> j. ownedIDs (ClusterName (req_Scope request)) (answeredInventory l) k = [])"

text \<open>
  The shape of the last three phases: list kind \<open>k\<close>, delete what is selected, or go on.
\<close>

lemma wp_phase:
  assumes l: "through request j l" and scope: "inScope (req_Policy request) k"
    and rank: "kindRank k = Suc (kindRank j)" and k: "k \<noteq> KFloatingIP" "k \<noteq> KLoadBalancer"
    and c: "c = ClusterName (req_Scope request)"
    and ev: "\<And>xs. listedKind (ev (Inr xs)) = Some k" "\<And>r. deletion (ev r) = None"
      "\<And>e. listingError (ev (Inl e)) = Some e"
    and frame: "\<And>xs k'. k' \<noteq> k \<Longrightarrow> ownedIDs c (addAnswer (answeredInventory l) (ev (Inr xs))) k'
                                = ownedIDs c (answeredInventory l) k'"
    and sel: "\<And>xs. select xs = ownedIDs c (addAnswer (answeredInventory l) (ev (Inr xs))) k"
    and rest: "\<And>w' xs. through request k (l @ [ev (Inr xs)]) \<Longrightarrow>
              wp rest (\<lambda>r (w', calls). iterationSpec s request r calls) (w', l @ [ev (Inr xs)])"
  shows "wp (andThen (wrapErr (Wrapf t) (recorded ev L))
              (\<lambda>xs. let ids = select xs in
                 if ids \<noteq> [] then deleteResourcesForCurrentPhase rk ids (\<lambda>i. recorded (DeleteCalled k i) (D i))
                 else rest))
           (\<lambda>r (w', calls). iterationSpec s request r calls) (w, l)"
proof -
  have order: "filter (\<lambda>k'. k' \<le> k) listingOrder = filter (\<lambda>k'. k' \<le> j) listingOrder @ [k]"
    using k rank by (cases k; cases j) (auto simp: listingOrder_def kind_order)
  have succ: "\<And>k'. k' < k \<longleftrightarrow> k' \<le> j"
    by (simp add: less_kind_def less_eq_kind_def rank less_Suc_eq_le)
  have none: "deletions l = []" and name: "c \<noteq> []"
    and empty: "\<And>k'. k' < k \<Longrightarrow> ownedIDs c (answeredInventory l) k' = []"
    using l c succ by (auto simp: through_def)
  have delete: "wp (deleteResourcesForCurrentPhase rk (select xs) (\<lambda>i. recorded (DeleteCalled k i) (D i)))
      (\<lambda>r (w', calls). iterationSpec s request r calls) (w', l @ [ev (Inr xs)])"
    if "select xs \<noteq> []" for xs w'
  proof (rule wp_deletePhase_spec)
    show "nextKind (ClusterName (req_Scope request)) (req_Policy request)
        (answeredInventory (l @ [ev (Inr xs)])) = Some k"
      using scope that empty by (simp add: nextKind_Some c [symmetric] sel frame)
    show "listings (l @ [ev (Inr xs)]) = listedFor (req_Policy request) (Some k)"
      using l k order by (cases k) (auto simp: through_def ev listedFor_def listingOrder_def kind_order)
  qed (use none name ev c sel in simp_all)
  have go_on: "through request k (l @ [ev (Inr xs)])" if "select xs = []" for xs
    using that none name ev frame sel empty order l c
    by (fastforce simp: through_def order_le_less)
  show ?thesis
    unfolding wp_rules
    by (rule wp_recorded)
       (auto simp: none ev iterationSpec_error abandoned_listing Let_def delete rest go_on split: sum.splits)
qed

lemma recordedServices_simps:
  "svc_Volumes (recordedServices s) = map_option (\<lambda>v.
     \<lparr>ListVolumes = recorded VolumesListed (ListVolumes v),
      DeleteVolume = (\<lambda>i. recorded (DeleteCalled KVolume i) (DeleteVolume v i))\<rparr>) (svc_Volumes s)"
  "svc_Snapshots (recordedServices s) = map_option (\<lambda>v.
     \<lparr>ListSnapshots = recorded SnapshotsListed (ListSnapshots v),
      DeleteSnapshot = (\<lambda>i. recorded (DeleteCalled KSnapshot i) (DeleteSnapshot v i))\<rparr>) (svc_Snapshots s)"
  "svc_SecurityGroups (recordedServices s) = map_option (\<lambda>v.
     \<lparr>ListSecurityGroups = recorded SecurityGroupsListed (ListSecurityGroups v),
      DeleteSecurityGroup = (\<lambda>i. recorded (DeleteCalled KSecurityGroup i) (DeleteSecurityGroup v i))\<rparr>)
     (svc_SecurityGroups s)"
  "svc_FloatingIPs (recordedServices s) = map_option (\<lambda>v.
     \<lparr>ListFloatingIPs = recorded FloatingIPsListed (ListFloatingIPs v),
      DeleteFloatingIP = (\<lambda>i. recorded (DeleteCalled KFloatingIP i) (DeleteFloatingIP v i))\<rparr>)
     (svc_FloatingIPs s)"
  "svc_LoadBalancers (recordedServices s) = map_option (\<lambda>v.
     \<lparr>ListLoadBalancers = recorded LoadBalancersListed (ListLoadBalancers v),
      DeleteLoadBalancer = (\<lambda>i. recorded (DeleteCalled KLoadBalancer i) (DeleteLoadBalancer v i))\<rparr>)
     (svc_LoadBalancers s)"
  by (simp_all add: recordedServices_def)

lemma wp_runVolumes:
  assumes l: "through request KSnapshot l" and scope: "inScope (req_Policy request) KVolume"
  shows "wp (runVolumes (recordedServices s) request) (\<lambda>r (w', calls). iterationSpec s request r calls) (w, l)"
proof (cases "svc_Volumes s")
  case None
  with l show ?thesis
    by (simp add: runVolumes_def recordedServices_simps wp_rules iterationSpec_error through_def
        abandoned_unprovided [where k = KVolume] scope)
next
  case (Some v)
  have complete: "wp (ret \<lparr>res_Outcome = OutcomeComplete\<rparr>) (\<lambda>r (w', calls). iterationSpec s request r calls) (w', l')"
    if "through request KVolume l'" for w' l'
  proof -
    have "nextKind (ClusterName (req_Scope request)) (req_Policy request) (answeredInventory l') = None"
      using that by (simp add: nextKind_None all_kinds through_def kind_order)
    moreover have "listings l' = listedFor (req_Policy request) None"
      using that scope by (simp add: through_def listedFor_def listingOrder_def kind_order inScope_def)
    ultimately show ?thesis
      using that by (simp add: wp_rules iterationSpec_def Let_def through_def)
  qed
  show ?thesis
    unfolding runVolumes_def recordedServices_simps Some option.map option.case VolumeService.simps
    by (rule wp_phase [OF l scope _ _ _ refl])
       (auto simp: kindRank_def selectResourceIDs_filter intro: complete)
qed

lemma wp_runSnapshots:
  assumes l: "through request KSecurityGroup l"
  shows "wp (runSnapshots (recordedServices s) request) (\<lambda>r (w', calls). iterationSpec s request r calls) (w, l)"
proof (cases "DeleteVolumes (req_Policy request)")
  case False
  have "nextKind (ClusterName (req_Scope request)) (req_Policy request) (answeredInventory l) = None"
    using l False by (simp add: nextKind_None all_kinds through_def kind_order inScope_def)
  moreover have "listings l = listedFor (req_Policy request) None"
    using l False by (simp add: through_def listedFor_def listingOrder_def kind_order inScope_def)
  ultimately show ?thesis
    using l False by (simp add: runSnapshots_def wp_rules iterationSpec_def Let_def through_def)
next
  case True
  then have scope: "inScope (req_Policy request) KSnapshot" "inScope (req_Policy request) KVolume"
    by (simp_all add: inScope_def)
  show ?thesis
  proof (cases "svc_Snapshots s")
    case None
    with l True show ?thesis
      by (simp add: runSnapshots_def recordedServices_simps wp_rules iterationSpec_error through_def
          abandoned_unprovided [where k = KSnapshot] scope)
  next
    case (Some v)
    show ?thesis
      unfolding runSnapshots_def recordedServices_simps Some option.map option.case SnapshotService.simps
        if_not_P [OF iffD2 [OF not_not True]]
      by (rule wp_phase [OF l scope(1) _ _ _ refl])
         (auto simp: kindRank_def selectResourceIDs_filter intro: wp_runVolumes scope)
  qed
qed

lemma wp_runSecurityGroups:
  assumes l: "through request KLoadBalancer l"
  shows "wp (runSecurityGroups (recordedServices s) request)
           (\<lambda>r (w', calls). iterationSpec s request r calls) (w, l)"
proof (cases "svc_SecurityGroups s")
  case None
  with l show ?thesis
    by (simp add: runSecurityGroups_def recordedServices_simps wp_rules iterationSpec_error through_def
        abandoned_unprovided [where k = KSecurityGroup] inScope_def)
next
  case (Some v)
  have scope: "inScope (req_Policy request) KSecurityGroup" by (simp add: inScope_def)
  show ?thesis
    unfolding runSecurityGroups_def recordedServices_simps Some option.map option.case SecurityGroupService.simps
    by (rule wp_phase [OF l scope _ _ _ refl])
       (auto simp: kindRank_def selectResourceIDs_filter intro: wp_runSnapshots)
qed

text \<open>After both preflight lists: what was answered, and what is owned of the first two kinds.\<close>

lemma answered_preflight:
  "answeredInventory [LoadBalancersListed (Inr lbs), FloatingIPsListed (Inr fips)] =
     emptyInventory\<lparr>inv_LoadBalancers := lbs, inv_FloatingIPs := fips\<rparr>"
  "listings [LoadBalancersListed r, FloatingIPsListed r'] = [KLoadBalancer, KFloatingIP]"
  "deletions [LoadBalancersListed r, FloatingIPsListed r'] = []"
  "deletions [LoadBalancersListed r] = []"
  by (simp_all add: answeredInventory_def listings_def deletions_def List.map_filter_simps)

lemma owned_preflight:
  assumes "inventory = emptyInventory\<lparr>inv_LoadBalancers := lbs, inv_FloatingIPs := fips\<rparr>"
  shows "ownedIDs c inventory KFloatingIP = map fip_ID (filter (ownedFloatingIP c lbs) fips)"
    and "ownedIDs c inventory KLoadBalancer = map lb_ID (filter (ownedLoadBalancer c) lbs)"
  using assms by (simp_all add: ownedIDs_def)

lemma wp_Run:
  "wp (Run (recordedServices s) request) (\<lambda>r (w', calls). iterationSpec s request r calls) (w, [])"
proof (cases "ClusterName (req_Scope request) = '''' \<or> svc_LoadBalancers s = None \<or> svc_FloatingIPs s = None")
  case True
  then show ?thesis
    by (cases "svc_LoadBalancers s")
       (auto simp: Run_def recordedServices_simps wp_rules iterationSpec_error deletions_def List.map_filter_simps
          abandoned_unnamed abandoned_unprovided [where k = KLoadBalancer] abandoned_unprovided [where k = KFloatingIP]
          inScope_def)
next
  case False
  then obtain lbSvc fipSvc where name: "ClusterName (req_Scope request) \<noteq> ''''"
    and svcs: "svc_LoadBalancers s = Some lbSvc" "svc_FloatingIPs s = Some fipSvc" by auto
  let ?c = "ClusterName (req_Scope request)"
  let ?Q = "\<lambda>r (w', calls). iterationSpec s request r calls"
  have main: "wp (if floatingIPIDsToDelete sel \<noteq> []
        then deleteResourcesForCurrentPhase ''floating IP'' (floatingIPIDsToDelete sel)
               (\<lambda>i. recorded (DeleteCalled KFloatingIP i) (DeleteFloatingIP fipSvc i))
        else if loadBalancerIDsToDelete sel \<noteq> []
        then deleteResourcesForCurrentPhase ''load balancer'' (loadBalancerIDsToDelete sel)
               (\<lambda>i. recorded (DeleteCalled KLoadBalancer i) (DeleteLoadBalancer lbSvc i))
        else runSecurityGroups (recordedServices s) request) ?Q
        (w', [LoadBalancersListed (Inr lbs), FloatingIPsListed (Inr fips)])"
    (is "wp _ ?Q (w', ?l)")
    if sel: "selectLoadBalancersAndFloatingIPsForDeletion ?c lbs fips = Inr sel" for lbs fips sel w'
  proof -
    note ids = selection_Inr(3,4) [OF sel]
    note owned = owned_preflight [OF answered_preflight(1) [of lbs fips], of ?c]
    consider (fip) "floatingIPIDsToDelete sel \<noteq> []"
      | (lb) "floatingIPIDsToDelete sel = []" "loadBalancerIDsToDelete sel \<noteq> []"
      | (none) "floatingIPIDsToDelete sel = []" "loadBalancerIDsToDelete sel = []" by blast
    then show ?thesis
    proof cases
      case fip
      then have "nextKind ?c (req_Policy request) (answeredInventory ?l) = Some KFloatingIP"
        by (auto simp: nextKind_Some owned ids inScope_def kind_order split: kind.splits)
      with fip name show ?thesis
        by (simp, intro wp_deletePhase_spec)
           (auto simp: answered_preflight(2,3) owned ids listedFor_def listingOrder_def kind_order)
    next
      case lb
      then have "nextKind ?c (req_Policy request) (answeredInventory ?l) = Some KLoadBalancer"
        using ids owned by (auto simp: nextKind_Some inScope_def kind_order split: kind.splits)
      with lb name show ?thesis
        by (simp, intro wp_deletePhase_spec)
           (auto simp: answered_preflight(2,3) owned ids listedFor_def listingOrder_def kind_order)
    next
      case none
      then have "through request KLoadBalancer ?l"
        using name ids owned
        by (auto simp: through_def answered_preflight(2,3) listingOrder_def kind_order split: kind.splits)
      with none show ?thesis by (simp add: wp_runSecurityGroups)
    qed
  qed
  show ?thesis
    unfolding Run_def recordedServices_simps svcs option.map option.case if_not_P [OF name] wp_rules
      LoadBalancerService.simps FloatingIPService.simps
    apply (rule wp_recorded)
    subgoal for r w1
      apply (cases r)
       apply (simp add: iterationSpec_error answered_preflight(4) abandoned_listing [where calls = "[]", simplified])
      subgoal for lbs
        apply (simp only: sum.case)
        apply (rule wp_recorded)
        subgoal for r' w2
          apply (cases r')
           apply (simp add: iterationSpec_error answered_preflight(3) abandoned_listing [where calls = "[c]" for c, simplified])
          subgoal for fips
            apply (cases "selectLoadBalancersAndFloatingIPsForDeletion ?c lbs fips")
             apply (simp add: iterationSpec_error answered_preflight abandoned_def Let_def)
            apply (simp only: sum.case append_Cons append_Nil wp_if [symmetric])
            apply (erule main)
            done
          done
        done
      done
    done
qed

subsection \<open>Properties of the iteration\<close>

lemma Run_recorded:
  "\<exists>r w' calls. Run (recordedServices s) request (w, []) = (r, w', calls)
     \<and> Run s request w = (r, w') \<and> iterationSpec s request r calls"
proof -
  obtain calls where run: "Run (recordedServices s) request (w, []) = (fst (Run s request w), snd (Run s request w), calls)"
    using erasesD [OF erases_Run, of s request w "[]"] by auto
  with wp_run [OF wp_Run run] show ?thesis
    by (cases "Run s request w") auto
qed

lemma Run_spec: "Run (recordedServices s) request (w, []) = (r, w', calls) \<Longrightarrow> iterationSpec s request r calls"
  using Run_recorded [of s request w] by auto

lemma map2_in: "(k', i, a) \<in> set (map2 (\<lambda>i r. (k, i, r)) xs ys) \<Longrightarrow> k' = k \<and> i \<in> set xs"
  by (auto dest: set_zip_leftD)

lemma iterationSpec_deletions:
  assumes "iterationSpec s request r calls" and "(k, i, a) \<in> set (deletions calls)"
  shows "nextKind (ClusterName (req_Scope request)) (req_Policy request) (answeredInventory calls) = Some k
       \<and> listings calls = listedFor (req_Policy request) (Some k)
       \<and> i \<in> set (ownedIDs (ClusterName (req_Scope request)) (answeredInventory calls) k)
       \<and> '''' \<notin> set (ownedIDs (ClusterName (req_Scope request)) (answeredInventory calls) k)"
  using assms map2_in
  by (fastforce simp: iterationSpec_def Let_def allDeleted_def stoppedAt_def split: sum.splits option.splits)

lemma listedFor_upto: "k' \<le> k \<Longrightarrow> k' \<in> set (listedFor policy (Some k))"
  using set_allKinds [of k'] by (auto simp: listedFor_def listingOrder_def allKinds_def)

text \<open>
  The calls of an iteration that completes, as they happen: the lists follow one another,
  and none of them has a resource of the cluster.
\<close>

lemma deletePhase_Inr:
  "deleteResourcesForCurrentPhase rk ids D w = (Inr res, w') \<Longrightarrow> res_Outcome res = OutcomeWaiting"
  by (auto simp: deleteResourcesForCurrentPhase_def fail_def andThen_def ret_def
      split: if_splits prod.splits sum.splits)

lemma waiting_not_complete [simp]: "OutcomeWaiting \<noteq> OutcomeComplete"
  by (simp add: OutcomeWaiting_def OutcomeComplete_def)

lemma runVolumes_complete:
  assumes "runVolumes s request w = (Inr res, w')" and "res_Outcome res = OutcomeComplete"
  shows "\<exists>v vols. svc_Volumes s = Some v \<and> ListVolumes v w = (Inr vols, w')
       \<and> (\<forall>r \<in> set vols. \<not> volumeShouldBeDeletedForCluster r (ClusterName (req_Scope request)))"
  using assms
  by (auto simp: runVolumes_def fail_def andThen_def wrapErr_def ret_def Let_def selectResourceIDs_filter
      filter_empty_conv dest: deletePhase_Inr split: option.splits prod.splits sum.splits if_splits)

lemma runSnapshots_complete:
  assumes "runSnapshots s request w = (Inr res, w')" and "res_Outcome res = OutcomeComplete"
  shows "if DeleteVolumes (req_Policy request)
     then \<exists>v v' snaps vols w1. svc_Snapshots s = Some v \<and> ListSnapshots v w = (Inr snaps, w1)
        \<and> svc_Volumes s = Some v' \<and> ListVolumes v' w1 = (Inr vols, w')
        \<and> (\<forall>r \<in> set snaps. \<not> snapshotMetadataMatchesCluster r (ClusterName (req_Scope request)))
        \<and> (\<forall>r \<in> set vols. \<not> volumeShouldBeDeletedForCluster r (ClusterName (req_Scope request)))
     else w' = w"
  using assms
  by (auto simp: runSnapshots_def fail_def andThen_def wrapErr_def ret_def Let_def selectResourceIDs_filter
      filter_empty_conv dest: deletePhase_Inr dest!: runVolumes_complete
      split: option.splits prod.splits sum.splits if_splits)

lemma runSecurityGroups_complete:
  assumes "runSecurityGroups s request w = (Inr res, w')" and "res_Outcome res = OutcomeComplete"
  shows "\<exists>v sgs w1. svc_SecurityGroups s = Some v \<and> ListSecurityGroups v w = (Inr sgs, w1)
       \<and> (\<forall>r \<in> set sgs. \<not> securityGroupDescriptionMatchesCluster r (ClusterName (req_Scope request)))
       \<and> runSnapshots s request w1 = (Inr res, w')"
  using assms
  by (auto simp: runSecurityGroups_def fail_def andThen_def wrapErr_def ret_def Let_def selectResourceIDs_filter
      filter_empty_conv dest: deletePhase_Inr split: option.splits prod.splits sum.splits if_splits)

lemma Run_complete:
  assumes "Run s request w = (Inr res, w')" and "res_Outcome res = OutcomeComplete"
  shows "\<exists>lbSvc fipSvc lbs fips w1 w2.
       svc_LoadBalancers s = Some lbSvc \<and> ListLoadBalancers lbSvc w = (Inr lbs, w1)
     \<and> svc_FloatingIPs s = Some fipSvc \<and> ListFloatingIPs fipSvc w1 = (Inr fips, w2)
     \<and> (\<forall>lb \<in> set lbs. \<not> ownedLoadBalancer (ClusterName (req_Scope request)) lb)
     \<and> (\<forall>fip \<in> set fips. \<not> ownedFloatingIP (ClusterName (req_Scope request)) lbs fip)
     \<and> runSecurityGroups s request w2 = (Inr res, w')"
proof -
  from assms obtain lbSvc fipSvc lbs fips w1 w2 sel where
    svcs: "svc_LoadBalancers s = Some lbSvc" "ListLoadBalancers lbSvc w = (Inr lbs, w1)"
      "svc_FloatingIPs s = Some fipSvc" "ListFloatingIPs fipSvc w1 = (Inr fips, w2)"
    and sel: "selectLoadBalancersAndFloatingIPsForDeletion (ClusterName (req_Scope request)) lbs fips = Inr sel"
    and none: "floatingIPIDsToDelete sel = []" "loadBalancerIDsToDelete sel = []"
      "runSecurityGroups s request w2 = (Inr res, w')"
    by (auto simp: Run_def fail_def andThen_def wrapErr_def lift_res_def dest: deletePhase_Inr
        split: option.splits prod.splits sum.splits if_splits)
  with selection_Inr(3,4) [OF sel] show ?thesis
    by (auto simp: filter_empty_conv)
qed




text \<open>
  When the policy keeps volumes, the snapshot and volume services are never consulted:
  replacing them by anything at all changes neither the result nor the world.
\<close>

theorem kept_volumes_are_untouched:
  assumes "\<not> DeleteVolumes (req_Policy request)"
  shows "Run (s\<lparr>svc_Snapshots := snapshotService, svc_Volumes := volumeService\<rparr>) request w = Run s request w"
proof -
  let ?s = "s\<lparr>svc_Snapshots := snapshotService, svc_Volumes := volumeService\<rparr>"
  have "runSnapshots ?s request = runSnapshots s request"
    using assms by (simp add: runSnapshots_def)
  then have "runSecurityGroups ?s request = runSecurityGroups s request"
    by (simp add: runSecurityGroups_def Let_def cong: if_cong split: option.splits)
  then show ?thesis by (simp add: Run_def cong: if_cong split: option.splits)
qed

end
