(* ===== verification/Cleanup_Convergence.thy ===== *)
theory Cleanup_Convergence
  imports Cleanup_Runner
begin

section \<open>Repeated iterations over an ideal project\<close>

text \<open>
  The controller runs one iteration per reconciliation and repeats it while the outcome is
  waiting. This theory gives that repetition a bound: over a project whose deletions take
  effect at once, at most one iteration per kind is spent before the one that reports
  completion, and what is left is the project without the resources of the cluster.
\<close>

subsection \<open>An ideal project\<close>

text \<open>The world is the inventory itself: listing reads it, deleting by ID removes the entry.\<close>

definition removeID :: "kind \<Rightarrow> string \<Rightarrow> Inventory \<Rightarrow> Inventory" where
  "removeID k i inventory =
     (case k of
        KFloatingIP \<Rightarrow> inventory\<lparr>inv_FloatingIPs := filter (\<lambda>r. fip_ID r \<noteq> i) (inv_FloatingIPs inventory)\<rparr>
      | KLoadBalancer \<Rightarrow> inventory\<lparr>inv_LoadBalancers := filter (\<lambda>r. lb_ID r \<noteq> i) (inv_LoadBalancers inventory)\<rparr>
      | KSecurityGroup \<Rightarrow> inventory\<lparr>inv_SecurityGroups := filter (\<lambda>r. sg_ID r \<noteq> i) (inv_SecurityGroups inventory)\<rparr>
      | KSnapshot \<Rightarrow> inventory\<lparr>inv_Snapshots := filter (\<lambda>r. snap_ID r \<noteq> i) (inv_Snapshots inventory)\<rparr>
      | KVolume \<Rightarrow> inventory\<lparr>inv_Volumes := filter (\<lambda>r. vol_ID r \<noteq> i) (inv_Volumes inventory)\<rparr>)"

definition removes :: "kind \<Rightarrow> string \<Rightarrow> (Inventory, error, unit) act" where
  "removes k i = (\<lambda>inventory. (Inr (), removeID k i inventory))"

definition idealServices :: "Inventory Services" where
  "idealServices =
     \<lparr>svc_FloatingIPs = Some \<lparr>ListFloatingIPs = (\<lambda>w. (Inr (inv_FloatingIPs w), w)),
                              DeleteFloatingIP = removes KFloatingIP\<rparr>,
      svc_LoadBalancers = Some \<lparr>ListLoadBalancers = (\<lambda>w. (Inr (inv_LoadBalancers w), w)),
                                DeleteLoadBalancer = removes KLoadBalancer\<rparr>,
      svc_SecurityGroups = Some \<lparr>ListSecurityGroups = (\<lambda>w. (Inr (inv_SecurityGroups w), w)),
                                 DeleteSecurityGroup = removes KSecurityGroup\<rparr>,
      svc_Snapshots = Some \<lparr>ListSnapshots = (\<lambda>w. (Inr (inv_Snapshots w), w)),
                            DeleteSnapshot = removes KSnapshot\<rparr>,
      svc_Volumes = Some \<lparr>ListVolumes = (\<lambda>w. (Inr (inv_Volumes w), w)),
                          DeleteVolume = removes KVolume\<rparr>\<rparr>"

text \<open>The repetition, with a bound on the number of iterations.\<close>

fun iterateRun :: "nat \<Rightarrow> 'w Services \<Rightarrow> Request \<Rightarrow> ('w, error, Result) act" where
  "iterateRun 0 services request = ret \<lparr>res_Outcome = OutcomeWaiting\<rparr>"
| "iterateRun (Suc n) services request =
     andThen (Run services request)
       (\<lambda>result. if res_Outcome result = OutcomeWaiting then iterateRun n services request else ret result)"

subsection \<open>One iteration over the ideal project\<close>

definition purgeKind :: "string \<Rightarrow> kind \<Rightarrow> Inventory \<Rightarrow> Inventory" where
  "purgeKind c k inventory = fold (removeID k) (ownedIDs c inventory k) inventory"

text \<open>The inventories on which an iteration can act: usable, every entry to delete has an ID, IDs are unique.\<close>

definition cleanable :: "string \<Rightarrow> Inventory \<Rightarrow> bool" where
  "cleanable c inventory \<longleftrightarrow>
     usableLoadBalancers c (inv_LoadBalancers inventory) \<and> usableFloatingIPs c (inv_FloatingIPs inventory)
     \<and> (\<forall>k. '''' \<notin> set (ownedIDs c inventory k))
     \<and> inj_on fip_ID (set (inv_FloatingIPs inventory)) \<and> inj_on lb_ID (set (inv_LoadBalancers inventory))
     \<and> inj_on sg_ID (set (inv_SecurityGroups inventory)) \<and> inj_on snap_ID (set (inv_Snapshots inventory))
     \<and> inj_on vol_ID (set (inv_Volumes inventory))"

lemma deleteAll_removes: "forEach (deleteOne rk (removes k)) ids w = (Inr (), fold (removeID k) ids w)"
  by (induction ids arbitrary: w)
     (simp_all add: ret_def andThen_def deleteOne_def inspect_def removes_def)

lemma deletePhase_removes:
  "'''' \<notin> set ids \<Longrightarrow>
   deleteResourcesForCurrentPhase rk ids (removes k) w =
     (Inr \<lparr>res_Outcome = OutcomeWaiting\<rparr>, fold (removeID k) ids w)"
  by (auto simp: deleteResourcesForCurrentPhase_def andThen_def deleteAll_removes ret_def)

text \<open>The last three phases and the whole iteration, on the ideal project.\<close>

definition idealStep :: "Request \<Rightarrow> Inventory \<Rightarrow> (error + Result) \<times> Inventory" where
  "idealStep request w =
     (case nextKind (ClusterName (req_Scope request)) (req_Policy request) w of
        None \<Rightarrow> (Inr \<lparr>res_Outcome = OutcomeComplete\<rparr>, w)
      | Some k \<Rightarrow> (Inr \<lparr>res_Outcome = OutcomeWaiting\<rparr>, purgeKind (ClusterName (req_Scope request)) k w))"

lemma select_ownedIDs:
  "selectResourceIDsForDeletion (inv_SecurityGroups w) (\<lambda>r. securityGroupDescriptionMatchesCluster r c) sg_ID =
     ownedIDs c w KSecurityGroup"
  "selectResourceIDsForDeletion (inv_Snapshots w) (\<lambda>r. snapshotMetadataMatchesCluster r c) snap_ID =
     ownedIDs c w KSnapshot"
  "selectResourceIDsForDeletion (inv_Volumes w) (\<lambda>r. volumeShouldBeDeletedForCluster r c) vol_ID =
     ownedIDs c w KVolume"
  by (simp_all add: ownedIDs_def selectResourceIDs_filter)

lemma Run_ideal:
  assumes "cleanable (ClusterName (req_Scope request)) w" and "ClusterName (req_Scope request) \<noteq> ''''"
  shows "Run idealServices request w = idealStep request w"
proof -
  let ?c = "ClusterName (req_Scope request)"
  have ids: "'''' \<notin> set (ownedIDs ?c w k)" for k using assms(1) by (simp add: cleanable_def)
  have sel: "selectLoadBalancersAndFloatingIPsForDeletion ?c (inv_LoadBalancers w) (inv_FloatingIPs w) =
      Inr \<lparr>floatingIPIDsToDelete = ownedIDs ?c w KFloatingIP, loadBalancerIDsToDelete = ownedIDs ?c w KLoadBalancer\<rparr>"
    using assms(1) by (simp add: cleanable_def selection_usable ownedIDs_def)
  show ?thesis
    using assms(2) ids
    by (simp add: Run_def runSecurityGroups_def runSnapshots_def runVolumes_def idealServices_def
        andThen_def wrapErr_def lift_res_def sel select_ownedIDs Let_def ret_def
        deletePhase_removes idealStep_def nextKind_def allKinds_def
        inScope_def purgeKind_def)
qed

subsection \<open>Convergence\<close>

text \<open>The inventory without the resources that the cluster owns, of the kinds in scope.\<close>

definition purged :: "string \<Rightarrow> Policy \<Rightarrow> Inventory \<Rightarrow> Inventory" where
  "purged c policy inventory =
     \<lparr>inv_LoadBalancers = filter (\<lambda>r. \<not> ownedLoadBalancer c r) (inv_LoadBalancers inventory),
      inv_FloatingIPs = filter (\<lambda>r. \<not> ownedFloatingIP c (inv_LoadBalancers inventory) r) (inv_FloatingIPs inventory),
      inv_SecurityGroups = filter (\<lambda>r. \<not> securityGroupDescriptionMatchesCluster r c) (inv_SecurityGroups inventory),
      inv_Snapshots = filter (\<lambda>r. DeleteVolumes policy \<longrightarrow> \<not> snapshotMetadataMatchesCluster r c)
                        (inv_Snapshots inventory),
      inv_Volumes = filter (\<lambda>r. DeleteVolumes policy \<longrightarrow> \<not> volumeShouldBeDeletedForCluster r c)
                      (inv_Volumes inventory)\<rparr>"

lemma fold_removeID:
  "inv_FloatingIPs (fold (removeID k) ids w) =
     (if k = KFloatingIP then filter (\<lambda>r. fip_ID r \<notin> set ids) (inv_FloatingIPs w) else inv_FloatingIPs w)"
  "inv_LoadBalancers (fold (removeID k) ids w) =
     (if k = KLoadBalancer then filter (\<lambda>r. lb_ID r \<notin> set ids) (inv_LoadBalancers w) else inv_LoadBalancers w)"
  "inv_SecurityGroups (fold (removeID k) ids w) =
     (if k = KSecurityGroup then filter (\<lambda>r. sg_ID r \<notin> set ids) (inv_SecurityGroups w) else inv_SecurityGroups w)"
  "inv_Snapshots (fold (removeID k) ids w) =
     (if k = KSnapshot then filter (\<lambda>r. snap_ID r \<notin> set ids) (inv_Snapshots w) else inv_Snapshots w)"
  "inv_Volumes (fold (removeID k) ids w) =
     (if k = KVolume then filter (\<lambda>r. vol_ID r \<notin> set ids) (inv_Volumes w) else inv_Volumes w)"
  by (induction ids arbitrary: w) (auto simp: removeID_def intro!: filter_cong split: kind.splits)

lemma filter_owned_IDs:
  "inj_on f (set xs) \<Longrightarrow> filter (\<lambda>r. f r \<notin> set (map f (filter p xs))) xs = filter (\<lambda>r. \<not> p r) xs"
  by (rule filter_cong) (auto dest: inj_onD)

lemma purgeKind_eq:
  assumes "cleanable c w"
  shows "purgeKind c k w =
    (case k of
       KFloatingIP \<Rightarrow> w\<lparr>inv_FloatingIPs := filter (\<lambda>r. \<not> ownedFloatingIP c (inv_LoadBalancers w) r) (inv_FloatingIPs w)\<rparr>
     | KLoadBalancer \<Rightarrow> w\<lparr>inv_LoadBalancers := filter (\<lambda>r. \<not> ownedLoadBalancer c r) (inv_LoadBalancers w)\<rparr>
     | KSecurityGroup \<Rightarrow> w\<lparr>inv_SecurityGroups := filter (\<lambda>r. \<not> securityGroupDescriptionMatchesCluster r c) (inv_SecurityGroups w)\<rparr>
     | KSnapshot \<Rightarrow> w\<lparr>inv_Snapshots := filter (\<lambda>r. \<not> snapshotMetadataMatchesCluster r c) (inv_Snapshots w)\<rparr>
     | KVolume \<Rightarrow> w\<lparr>inv_Volumes := filter (\<lambda>r. \<not> volumeShouldBeDeletedForCluster r c) (inv_Volumes w)\<rparr>)"
  using assms
  by (cases k; intro Inventory.equality)
     (simp_all add: purgeKind_def fold_removeID ownedIDs_def filter_owned_IDs cleanable_def del: set_map)

lemma protected_purge:
  "protectedPorts c (filter (\<lambda>r. \<not> ownedLoadBalancer c r) lbs) = protectedPorts c lbs"
  by (auto simp: protectedPorts_def ownedLoadBalancer_def sharedLoadBalancer_def)

lemma owned_purge:
  "ownedFloatingIP c (filter (\<lambda>r. \<not> ownedLoadBalancer c r) lbs) = ownedFloatingIP c lbs"
  by (simp add: ownedFloatingIP_def protected_purge fun_eq_iff)

lemma ownedIDs_purgeKind:
  "cleanable c w \<Longrightarrow> ownedIDs c (purgeKind c k w) k' = (if k' = k then [] else ownedIDs c w k')"
  by (cases k; cases k') (simp_all add: purgeKind_eq ownedIDs_def owned_purge filter_empty_conv)

lemma cleanable_purgeKind: "cleanable c w \<Longrightarrow> cleanable c (purgeKind c k w)"
  unfolding cleanable_def [of _ "purgeKind c k w"]
  by (cases k; simp add: ownedIDs_purgeKind)
     (auto simp: purgeKind_eq cleanable_def usableLoadBalancers_def usableFloatingIPs_def
        intro: inj_on_subset)

lemma purged_purgeKind:
  "cleanable c w \<Longrightarrow> inScope policy k \<Longrightarrow> purged c policy (purgeKind c k w) = purged c policy w"
  by (cases k) (auto simp: purgeKind_eq purged_def owned_purge inScope_def intro!: filter_cong)

lemma purged_none:
  assumes "nextKind c policy w = None"
  shows "purged c policy w = w"
proof -
  have "inScope policy k \<Longrightarrow> ownedIDs c w k = []" for k using assms by (simp add: nextKind_None)
  from this [of KFloatingIP] this [of KLoadBalancer] this [of KSecurityGroup] this [of KSnapshot] this [of KVolume]
  show ?thesis
    by (intro Inventory.equality) (auto simp: purged_def ownedIDs_def inScope_def filter_empty_conv filter_id_conv)
qed

text \<open>The kinds that still have something to delete bound the iterations.\<close>

definition remaining :: "string \<Rightarrow> Policy \<Rightarrow> Inventory \<Rightarrow> kind list" where
  "remaining c policy w = filter (\<lambda>k. inScope policy k \<and> ownedIDs c w k \<noteq> []) allKinds"

lemma remaining_purgeKind:
  assumes "cleanable c w" and "nextKind c policy w = Some k"
  shows "length (remaining c policy w) = Suc (length (remaining c policy (purgeKind c k w)))"
proof -
  have "inScope policy k" "ownedIDs c w k \<noteq> []" using assms(2) by (simp_all add: nextKind_Some)
  with assms(1) show ?thesis
    by (cases k) (simp_all add: remaining_def allKinds_def ownedIDs_purgeKind)
qed

lemma remaining_few: "length (remaining c policy w) \<le> 5"
proof -
  have "length (remaining c policy w) \<le> length allKinds" by (simp add: remaining_def)
  then show ?thesis by (simp add: allKinds_def)
qed

lemma iterateRun_converges:
  assumes "cleanable (ClusterName (req_Scope request)) w" and "ClusterName (req_Scope request) \<noteq> ''''"
    and "length (remaining (ClusterName (req_Scope request)) (req_Policy request) w) < n"
  shows "iterateRun n idealServices request w =
    (Inr \<lparr>res_Outcome = OutcomeComplete\<rparr>, purged (ClusterName (req_Scope request)) (req_Policy request) w)"
  using assms
proof (induction n arbitrary: w)
  case (Suc n)
  let ?c = "ClusterName (req_Scope request)"
  note run = Run_ideal [OF Suc.prems(1,2)]
  show ?case
  proof (cases "nextKind ?c (req_Policy request) w")
    case None
    then show ?thesis
      by (simp add: andThen_def run idealStep_def OutcomeComplete_def OutcomeWaiting_def ret_def purged_none)
  next
    case (Some k)
    moreover from this have "inScope (req_Policy request) k" by (simp add: nextKind_Some)
    ultimately show ?thesis
      using Suc.IH [OF cleanable_purgeKind [OF Suc.prems(1)] Suc.prems(2), of k]
        remaining_purgeKind [OF Suc.prems(1) Some] Suc.prems
      by (simp add: andThen_def run idealStep_def purged_purgeKind)
  qed
qed simp

text \<open>
  C12. Repeated cleanup terminates. Over a project whose deletions take effect at once and
  whose inventory an iteration can act on, six iterations are enough: the last one reports
  completion, and the project is left with exactly the resources that the cluster does not
  own, or that the policy keeps, in their order.
\<close>

theorem cleanup_converges:
  assumes "cleanable (ClusterName (req_Scope request)) w" and "ClusterName (req_Scope request) \<noteq> ''''"
  shows "iterateRun 6 idealServices request w =
    (Inr \<lparr>res_Outcome = OutcomeComplete\<rparr>, purged (ClusterName (req_Scope request)) (req_Policy request) w)"
  by (rule iterateRun_converges [OF assms]) (rule le_imp_less_Suc [OF remaining_few, simplified])

subsection \<open>A concrete project\<close>

definition sampleRequest :: Request where
  "sampleRequest = \<lparr>req_Scope = \<lparr>ClusterName = ''demo''\<rparr>, req_Policy = \<lparr>DeleteVolumes = False\<rparr>\<rparr>"

definition sampleInventory :: Inventory where
  "sampleInventory = emptyInventory
     \<lparr>inv_LoadBalancers := sampleLoadBalancers, inv_FloatingIPs := sampleFloatingIPs\<rparr>"

lemmas run_eval =
  Run_def runSecurityGroups_def runSnapshots_def runVolumes_def recordedServices_def idealServices_def
  recorded_def andThen_def wrapErr_def lift_res_def inspect_def ret_def fail_def Let_def
  deleteResourcesForCurrentPhase_def deleteOne_def removes_def removeID_def

lemma sample_run:
  "Run (recordedServices idealServices) sampleRequest (sampleInventory, []) =
     (Inr \<lparr>res_Outcome = OutcomeWaiting\<rparr>,
      sampleInventory\<lparr>inv_FloatingIPs := [hd sampleFloatingIPs]\<rparr>,
      [LoadBalancersListed (Inr sampleLoadBalancers), FloatingIPsListed (Inr sampleFloatingIPs),
       DeleteCalled KFloatingIP ''f2'' (Inr ())])"
  using sample_selection
  by (simp add: run_eval sampleRequest_def sampleInventory_def) (simp add: sampleFloatingIPs_def)

lemma empty_run:
  "Run (recordedServices idealServices) sampleRequest (emptyInventory, []) =
     (Inr \<lparr>res_Outcome = OutcomeComplete\<rparr>, emptyInventory,
      [LoadBalancersListed (Inr []), FloatingIPsListed (Inr []), SecurityGroupsListed (Inr [])])"
  by (simp add: run_eval sampleRequest_def emptyInventory_def selectLoadBalancersAndFloatingIPsForDeletion_def)



theorem kept_volumes_are_untouched_witness:
  "Run (idealServices\<lparr>svc_Snapshots := None, svc_Volumes := None\<rparr>) sampleRequest emptyInventory =
     Run idealServices sampleRequest emptyInventory"
  by (rule kept_volumes_are_untouched) (simp add: sampleRequest_def)

theorem cleanup_converges_witness:
  "iterateRun 6 idealServices sampleRequest sampleInventory =
     (Inr \<lparr>res_Outcome = OutcomeComplete\<rparr>, purged ''demo'' \<lparr>DeleteVolumes = False\<rparr> sampleInventory)"
proof -
  have "cleanable ''demo'' sampleInventory"
    using selection_Inr(1,2) [OF sample_selection]
    by (simp add: cleanable_def sampleInventory_def all_kinds ownedIDs_def emptyInventory_def)
       (auto simp: sampleLoadBalancers_def sampleFloatingIPs_def)
  with cleanup_converges [of sampleRequest sampleInventory] show ?thesis by (simp add: sampleRequest_def)
qed

end
