(* ===== verification/Api_Errors.thy ===== *)
theory Api_Errors
  imports Go_Errors
begin

section \<open>Classification of delete responses\<close>

text \<open>
  \<open>internal/openstack/apierrors/delete.go\<close>: what a DELETE error means for cleanup. A nil
  error is \<open>None\<close>. The status codes are the constants of \<open>net/http\<close>.
\<close>

definition StatusOK :: int where "StatusOK = 200"
definition StatusNoContent :: int where "StatusNoContent = 204"
definition StatusMultipleChoices :: int where "StatusMultipleChoices = 300"
definition StatusBadRequest :: int where "StatusBadRequest = 400"
definition StatusForbidden :: int where "StatusForbidden = 403"
definition StatusNotFound :: int where "StatusNotFound = 404"
definition StatusConflict :: int where "StatusConflict = 409"

lemmas http_status =
  StatusOK_def StatusNoContent_def StatusMultipleChoices_def StatusBadRequest_def
  StatusForbidden_def StatusNotFound_def StatusConflict_def

subsection \<open>The code\<close>

text \<open>
  \<open>errors.As\<close> into the two pointer types, with the \<open>!= nil\<close> test: the fields of the
  struct, or \<open>None\<close>.
\<close>

definition unable_to_reauthenticate :: "error \<Rightarrow> (error option \<times> error option) option" where
  "unable_to_reauthenticate err =
     (case As is_unable err of
        Some (ErrUnableToReauthenticate original reauth m) \<Rightarrow> Some (original, reauth)
      | _ \<Rightarrow> None)"

definition after_reauthentication :: "error \<Rightarrow> error option" where
  "after_reauthentication err =
     (case As is_after err of
        Some (ErrErrorAfterReauthentication original m) \<Rightarrow> original
      | _ \<Rightarrow> None)"

definition PreserveReauthenticationErrors :: "error option \<Rightarrow> error option" where
  "PreserveReauthenticationErrors err0 =
     (case err0 of
        None \<Rightarrow> None
      | Some err \<Rightarrow>
          (case unable_to_reauthenticate err of
             Some (original, reauth) \<Rightarrow> Some (UnableToReauthenticateError err original reauth)
           | None \<Rightarrow>
               (case after_reauthentication err of
                  Some original \<Rightarrow> Some (ResponseAfterReauthenticationError err original)
                | None \<Rightarrow> Some err)))"

definition responseCode :: "error option \<Rightarrow> int \<times> bool" where
  "responseCode err0 =
     (case err0 of
        None \<Rightarrow> (0, False)
      | Some err \<Rightarrow>
          (case As is_response_value err of
             Some (UnexpectedResponseCode ptr actual m) \<Rightarrow> (actual, True)
           | _ \<Rightarrow>
               (case As is_response_pointer err of
                  Some (UnexpectedResponseCode ptr actual m) \<Rightarrow> (actual, True)
                | _ \<Rightarrow> (0, False))))"

definition splitDeleteError :: "error option \<Rightarrow> error option \<times> error option \<times> bool" where
  "splitDeleteError err0 =
     (case err0 of
        None \<Rightarrow> (None, None, True)
      | Some err \<Rightarrow>
          (case unable_to_reauthenticate err of
             Some (original, reauth) \<Rightarrow> (original, PreserveReauthenticationErrors (Some err), False)
           | None \<Rightarrow>
               (case after_reauthentication err of
                  None \<Rightarrow> (Some err, Some err, True)
                | Some original \<Rightarrow>
                    (Some original, PreserveReauthenticationErrors (Some err), True))))"

text \<open>\<open>fmt.Errorf("%w: %w", sentinel, preservedErr)\<close>; a nil second operand wraps only the first.\<close>

definition wrapSentinel :: "error \<Rightarrow> error option \<Rightarrow> error" where
  "wrapSentinel s err =
     (case err of Some e \<Rightarrow> Wrap2 s e | None \<Rightarrow> Wrap2 s (Errorf [Txt ''%!w(<nil>)'']))"

definition classifyDelete :: "error option \<Rightarrow> error option \<Rightarrow> error option" where
  "classifyDelete responseErr preservedErr =
     (let (statusCode, hasStatusCode) = responseCode responseErr in
      if responseErr = None
         \<or> hasStatusCode \<and> statusCode \<ge> StatusOK \<and> statusCode < StatusMultipleChoices
         \<or> hasStatusCode \<and> statusCode = StatusNotFound
      then None
      else if hasStatusCode \<and> (statusCode = StatusBadRequest \<or> statusCode = StatusConflict)
      then Some (wrapSentinel ErrDeletePending preservedErr)
      else preservedErr)"

definition ClassifyDelete :: "error option \<Rightarrow> error option" where
  "ClassifyDelete err =
     (let (responseErr, preservedErr, canClassify) = splitDeleteError err in
      if \<not> canClassify then preservedErr else classifyDelete responseErr preservedErr)"

definition ClassifyApplicationCredentialDelete :: "error option \<Rightarrow> error option" where
  "ClassifyApplicationCredentialDelete err =
     (let (responseErr, preservedErr, canClassify) = splitDeleteError err in
      if \<not> canClassify then preservedErr
      else
        (let (statusCode, hasStatusCode) = responseCode responseErr in
         if responseErr = None
            \<or> hasStatusCode \<and> statusCode = StatusNoContent
            \<or> hasStatusCode \<and> statusCode = StatusNotFound
         then None
         else if hasStatusCode \<and> statusCode = StatusForbidden
         then Some (wrapSentinel ErrApplicationCredentialForbidden preservedErr)
         else preservedErr))"

subsection \<open>What the accessors find\<close>

lemma unable_to_reauthenticate_Some:
  "unable_to_reauthenticate err = Some (original, reauth) \<Longrightarrow>
     \<exists>m. As is_unable err = Some (ErrUnableToReauthenticate original reauth m)"
  by (auto simp: unable_to_reauthenticate_def split: option.splits error.splits)

lemma after_reauthentication_Some:
  "after_reauthentication err = Some original \<Longrightarrow>
     \<exists>m. As is_after err = Some (ErrErrorAfterReauthentication (Some original) m)"
  by (auto simp: after_reauthentication_def split: option.splits error.splits)

lemma unable_to_reauthenticate_found:
  assumes "ErrUnableToReauthenticate original reauth m \<in> set (chain err)"
    and "NilErrUnableToReauthenticate \<notin> set (chain err)"
  shows "unable_to_reauthenticate err \<noteq> None"
proof -
  from assms(1) have "As is_unable err \<noteq> None"
    by (auto simp: As_None intro!: bexI [where x = "ErrUnableToReauthenticate original reauth m"])
  then obtain x where x: "As is_unable err = Some x" by blast
  from As_Some [OF x] assms(2) x show ?thesis
    by (cases x) (auto simp: unable_to_reauthenticate_def)
qed

text \<open>The status code an error carries comes from a response error of its tree.\<close>

lemma responseCode_found:
  assumes "responseCode (Some err) = (c, True)"
  shows "\<exists>ptr m. UnexpectedResponseCode ptr c m \<in> set (chain err)"
proof -
  from assms obtain x ptr m where "As is_response_value err = Some x \<or> As is_response_pointer err = Some x"
    and "x = UnexpectedResponseCode ptr c m"
    by (auto simp: responseCode_def split: option.splits error.splits)
  then show ?thesis by (auto dest: As_Some)
qed

subsection \<open>What classification keeps\<close>

text \<open>
  The errors reachable from \<open>err\<close> stay reachable in what \<open>PreserveReauthenticationErrors\<close>
  returns, and the causes hidden in Gophercloud's wrappers become reachable.
\<close>

lemma Preserve_keeps:
  "PreserveReauthenticationErrors (Some err) = Some e' \<Longrightarrow> set (chain err) \<subseteq> set (chain e')"
  by (auto simp: PreserveReauthenticationErrors_def split: option.splits)

lemma Preserve_not_None: "PreserveReauthenticationErrors (Some err) \<noteq> None"
  by (auto simp: PreserveReauthenticationErrors_def split: option.splits)

lemma Preserve_None [simp]: "PreserveReauthenticationErrors None = None"
  by (simp add: PreserveReauthenticationErrors_def)

lemma Preserve_unable:
  "unable_to_reauthenticate err = Some (original, reauth) \<Longrightarrow>
   PreserveReauthenticationErrors (Some err) = Some (UnableToReauthenticateError err original reauth)"
  by (simp add: PreserveReauthenticationErrors_def)

text \<open>The response to the DELETE request itself, when reauthentication did not fail.\<close>

definition targetResponse :: "error \<Rightarrow> error" where
  "targetResponse err = (case after_reauthentication err of None \<Rightarrow> err | Some original \<Rightarrow> original)"

text \<open>The error that classification preserves is always the preserved original.\<close>

lemma splitDeleteError_Some:
  "splitDeleteError (Some err) =
     (case unable_to_reauthenticate err of
        Some (original, reauth) \<Rightarrow> (original, PreserveReauthenticationErrors (Some err), False)
      | None \<Rightarrow> (Some (targetResponse err), PreserveReauthenticationErrors (Some err), True))"
  by (auto simp: splitDeleteError_def PreserveReauthenticationErrors_def targetResponse_def
      split: option.splits)

text \<open>Three verdicts: the abstract contract of both classifiers.\<close>

datatype verdict = Complete | Sentinel error | Preserved

definition classified :: "verdict \<Rightarrow> error \<Rightarrow> error option" where
  "classified v err =
     (case v of
        Complete \<Rightarrow> None
      | Sentinel s \<Rightarrow> Some (wrapSentinel s (PreserveReauthenticationErrors (Some err)))
      | Preserved \<Rightarrow> PreserveReauthenticationErrors (Some err))"

definition deleteVerdict :: "error \<Rightarrow> verdict" where
  "deleteVerdict err =
     (let (c, has) = responseCode (Some (targetResponse err)) in
      if unable_to_reauthenticate err \<noteq> None \<or> \<not> has then Preserved
      else if 200 \<le> c \<and> c < 300 \<or> c = 404 then Complete
      else if c = 400 \<or> c = 409 then Sentinel ErrDeletePending
      else Preserved)"

definition credentialVerdict :: "error \<Rightarrow> verdict" where
  "credentialVerdict err =
     (let (c, has) = responseCode (Some (targetResponse err)) in
      if unable_to_reauthenticate err \<noteq> None \<or> \<not> has then Preserved
      else if c = 204 \<or> c = 404 then Complete
      else if c = 403 then Sentinel ErrApplicationCredentialForbidden
      else Preserved)"

lemma deleteVerdict_iff:
  "deleteVerdict err = Complete \<longleftrightarrow> unable_to_reauthenticate err = None
     \<and> (\<exists>c. responseCode (Some (targetResponse err)) = (c, True) \<and> (200 \<le> c \<and> c < 300 \<or> c = 404))"
  "deleteVerdict err = Sentinel s \<longleftrightarrow> s = ErrDeletePending \<and> unable_to_reauthenticate err = None
     \<and> (responseCode (Some (targetResponse err)) = (400, True)
        \<or> responseCode (Some (targetResponse err)) = (409, True))"
  by (cases "responseCode (Some (targetResponse err))"; cases "unable_to_reauthenticate err";
      force simp: deleteVerdict_def)+

lemma credentialVerdict_iff:
  "credentialVerdict err = Complete \<longleftrightarrow> unable_to_reauthenticate err = None
     \<and> (responseCode (Some (targetResponse err)) = (204, True)
        \<or> responseCode (Some (targetResponse err)) = (404, True))"
  "credentialVerdict err = Sentinel s \<longleftrightarrow> s = ErrApplicationCredentialForbidden
     \<and> unable_to_reauthenticate err = None
     \<and> responseCode (Some (targetResponse err)) = (403, True)"
  by (cases "responseCode (Some (targetResponse err))"; cases "unable_to_reauthenticate err";
      force simp: credentialVerdict_def)+

lemma ClassifyDelete_verdict: "ClassifyDelete (Some err) = classified (deleteVerdict err) err"
  by (cases "responseCode (Some (targetResponse err))")
     (auto simp: ClassifyDelete_def splitDeleteError_Some classifyDelete_def deleteVerdict_def
      classified_def http_status split: option.splits)

lemma ClassifyApplicationCredentialDelete_verdict:
  "ClassifyApplicationCredentialDelete (Some err) = classified (credentialVerdict err) err"
  by (cases "responseCode (Some (targetResponse err))")
     (auto simp: ClassifyApplicationCredentialDelete_def splitDeleteError_Some credentialVerdict_def
      classified_def http_status split: option.splits)

lemma Classify_nil [simp]:
  "ClassifyDelete None = None" "ClassifyApplicationCredentialDelete None = None"
  by (simp_all add: ClassifyDelete_def ClassifyApplicationCredentialDelete_def splitDeleteError_def
      classifyDelete_def)

lemma classified_keeps: "classified v err = Some e' \<Longrightarrow> set (chain err) \<subseteq> set (chain e')"
  using Preserve_keeps [of err] Preserve_not_None [of err]
  by (fastforce simp: classified_def wrapSentinel_def split: verdict.splits option.splits)

lemma classified_Complete: "classified v err = None \<longleftrightarrow> v = Complete"
  using Preserve_not_None [of err] by (auto simp: classified_def split: verdict.splits)

subsection \<open>Which errors carry a sentinel\<close>

text \<open>
  Every error value inside an error, the causes that Gophercloud's wrappers hide
  included. A sentinel of the cleanup package is in none of them: Gophercloud and the
  transport do not know the package.
\<close>

fun parts :: "error \<Rightarrow> error list" where
  "parts (Wrapf t e) = Wrapf t e # parts e"
| "parts (Wrap2 e1 e2) = Wrap2 e1 e2 # parts e1 @ parts e2"
| "parts (RedactedError m cause) = RedactedError m cause # parts cause"
| "parts (ResponseAfterReauthenticationError w r) =
     ResponseAfterReauthenticationError w r # parts w @ parts r"
| "parts (UnableToReauthenticateError w target reauth) =
     UnableToReauthenticateError w target reauth
       # parts w @ (case target of None \<Rightarrow> [] | Some e \<Rightarrow> parts e)
                 @ (case reauth of None \<Rightarrow> [] | Some e \<Rightarrow> parts e)"
| "parts (Foreign ty m es) = Foreign ty m es # concat (map parts es)"
| "parts (ErrUnableToReauthenticate original reauth m) =
     ErrUnableToReauthenticate original reauth m
       # (case original of None \<Rightarrow> [] | Some e \<Rightarrow> parts e)
       @ (case reauth of None \<Rightarrow> [] | Some e \<Rightarrow> parts e)"
| "parts (ErrErrorAfterReauthentication original m) =
     ErrErrorAfterReauthentication original m
       # (case original of None \<Rightarrow> [] | Some e \<Rightarrow> parts e)"
| "parts e = [e]"

lemma parts_self [simp]: "e \<in> set (parts e)"
  by (cases e rule: parts.cases) simp_all

lemma chain_parts: "x \<in> set (chain e) \<Longrightarrow> set (parts x) \<subseteq> set (parts e)"
proof (induction e rule: parts.induct)
  case (5 w target reauth)
  then show ?case by (cases target; cases reauth) auto
next
  case (6 ty m es)
  then show ?case by fastforce
qed auto

lemma chain_in_parts: "x \<in> set (chain e) \<Longrightarrow> x \<in> set (parts e)"
  using chain_parts by fastforce

lemma after_reauthentication_parts:
  assumes "after_reauthentication err = Some original"
  shows "set (parts original) \<subseteq> set (parts err)"
proof -
  obtain m where "As is_after err = Some (ErrErrorAfterReauthentication (Some original) m)"
    using after_reauthentication_Some [OF assms] by blast
  then have "ErrErrorAfterReauthentication (Some original) m \<in> set (chain err)"
    by (auto dest: As_Some)
  from chain_parts [OF this] show ?thesis by auto
qed

lemma unable_to_reauthenticate_parts:
  assumes "unable_to_reauthenticate err = Some (original, reauth)"
  shows "original = Some x \<Longrightarrow> set (parts x) \<subseteq> set (parts err)"
    and "reauth = Some x \<Longrightarrow> set (parts x) \<subseteq> set (parts err)"
proof -
  obtain m where "As is_unable err = Some (ErrUnableToReauthenticate original reauth m)"
    using unable_to_reauthenticate_Some [OF assms] by blast
  then have "ErrUnableToReauthenticate original reauth m \<in> set (chain err)"
    by (auto dest: As_Some)
  from chain_parts [OF this] show
    "original = Some x \<Longrightarrow> set (parts x) \<subseteq> set (parts err)"
    "reauth = Some x \<Longrightarrow> set (parts x) \<subseteq> set (parts err)" by auto
qed

definition is_sentinel :: "error \<Rightarrow> bool" where
  "is_sentinel s \<longleftrightarrow> s = ErrDeletePending \<or> s = ErrApplicationCredentialForbidden \<or> s = ErrPaused"

lemma Preserve_no_sentinel:
  assumes "is_sentinel s" and "s \<notin> set (parts err)"
    and "PreserveReauthenticationErrors (Some err) = Some e'"
  shows "\<not> Is e' s"
proof -
  have sub: "s \<notin> set (chain x)" if "set (parts x) \<subseteq> set (parts err)" for x
    using assms(2) chain_in_parts [of s x] that by blast
  show ?thesis
  proof (cases "unable_to_reauthenticate err")
    case (Some oc)
    obtain original reauth where oc: "oc = (original, reauth)" by (cases oc)
    note parts = unable_to_reauthenticate_parts [OF Some [unfolded oc]]
    show ?thesis
      using assms(1,3) sub [of err] Some oc parts [THEN sub]
      by (auto simp: PreserveReauthenticationErrors_def Is_iff is_sentinel_def split: option.splits)
  next
    case None
    show ?thesis
    proof (cases "after_reauthentication err")
      case None
      with assms \<open>unable_to_reauthenticate err = None\<close> sub [of err] show ?thesis
        by (auto simp: PreserveReauthenticationErrors_def Is_iff)
    next
      case (Some original)
      note sub [OF after_reauthentication_parts [OF Some]] sub [of err]
      with assms(1,3) \<open>unable_to_reauthenticate err = None\<close> Some show ?thesis
        by (auto simp: PreserveReauthenticationErrors_def Is_iff is_sentinel_def)
    qed
  qed
qed

lemma classified_sentinel:
  assumes "is_sentinel s" and "s \<notin> set (parts err)"
  shows "(\<exists>e'. classified v err = Some e' \<and> Is e' s) \<longleftrightarrow> v = Sentinel s \<or> (\<exists>s'. v = Sentinel s' \<and> Is s' s)"
proof -
  obtain e' where e': "PreserveReauthenticationErrors (Some err) = Some e'"
    using Preserve_not_None [of err] by blast
  note no = Preserve_no_sentinel [OF assms e']
  show ?thesis
    using assms(1) no e' by (cases v) (auto simp: classified_def wrapSentinel_def is_sentinel_def Is_iff)
qed

subsection \<open>The contract of a delete classifier\<close>

text \<open>
  What the services rely on, for the classifier of Neutron, Octavia and Cinder resources
  and for the one of application credentials.
\<close>

locale delete_classifier =
  fixes classify :: "error option \<Rightarrow> error option"
    and verdict_of :: "error \<Rightarrow> verdict"
  assumes classify_nil: "classify None = None"
    and classify_some: "classify (Some err) = classified (verdict_of err) err"
    and verdict_reauth: "unable_to_reauthenticate err \<noteq> None \<Longrightarrow> verdict_of err = Preserved"
    and verdict_complete: "verdict_of err = Complete \<Longrightarrow>
          \<exists>c. responseCode (Some (targetResponse err)) = (c, True) \<and> (200 \<le> c \<and> c < 300 \<or> c = 404)"
begin

lemma keeps_causes: "classify (Some err) = Some e' \<Longrightarrow> set (chain err) \<subseteq> set (chain e')"
  by (simp add: classify_some classified_keeps)

lemma completes_iff: "classify err = None \<longleftrightarrow> (case err of None \<Rightarrow> True | Some e \<Rightarrow> verdict_of e = Complete)"
  by (cases err) (simp_all add: classify_nil classify_some classified_Complete)

lemma completion_reported:
  assumes "classify (Some err) = None"
  shows "\<exists>ptr c m. UnexpectedResponseCode ptr c m \<in> set (chain (targetResponse err))
           \<and> (200 \<le> c \<and> c < 300 \<or> c = 404)"
proof -
  from assms have "verdict_of err = Complete" by (simp add: completes_iff)
  from verdict_complete [OF this] show ?thesis using responseCode_found by blast
qed

lemma failed_reauthentication:
  assumes "unable_to_reauthenticate err = Some (original, reauth)"
  shows "classify (Some err) = Some (UnableToReauthenticateError err original reauth)"
proof -
  from assms have "verdict_of err = Preserved" by (simp add: verdict_reauth)
  with assms show ?thesis by (simp add: classify_some classified_def Preserve_unable)
qed

end

interpretation resource: delete_classifier ClassifyDelete deleteVerdict
  by unfold_locales
     (auto simp: ClassifyDelete_verdict deleteVerdict_def Let_def split: prod.splits if_splits)

interpretation credential: delete_classifier ClassifyApplicationCredentialDelete credentialVerdict
  by unfold_locales
     (auto simp: ClassifyApplicationCredentialDelete_verdict credentialVerdict_def Let_def
       split: prod.splits if_splits)

subsection \<open>Properties\<close>

text \<open>
  C25. A reauthentication that failed never completes a deletion. If the error of a DELETE
  holds Gophercloud's \<open>ErrUnableToReauthenticate\<close>, both classifiers return an error,
  whatever status codes the DELETE response and Keystone's own response carry, and the
  error has both the DELETE's error and Keystone's failure in its tree.
\<close>

theorem failed_reauthentication_never_completes:
  assumes "ErrUnableToReauthenticate original reauth m \<in> set (chain err)"
    and "NilErrUnableToReauthenticate \<notin> set (chain err)"
  shows "\<exists>o' r'. unable_to_reauthenticate err = Some (o', r')
      \<and> ClassifyDelete (Some err) = Some (UnableToReauthenticateError err o' r')
      \<and> ClassifyApplicationCredentialDelete (Some err) = Some (UnableToReauthenticateError err o' r')"
  using unable_to_reauthenticate_found [OF assms]
  by (auto simp: resource.failed_reauthentication credential.failed_reauthentication)

text \<open>The case of the unit test: the target answered 401 and Keystone answered 404.\<close>

theorem failed_reauthentication_never_completes_witness:
  "\<exists>o' r'. unable_to_reauthenticate
         (ErrUnableToReauthenticate (Some (UnexpectedResponseCode False 401 []))
                                    (Some (UnexpectedResponseCode False 404 [])) []) = Some (o', r')
      \<and> ClassifyDelete
         (Some (ErrUnableToReauthenticate (Some (UnexpectedResponseCode False 401 []))
                                    (Some (UnexpectedResponseCode False 404 [])) []))
         = Some (UnableToReauthenticateError
              (ErrUnableToReauthenticate (Some (UnexpectedResponseCode False 401 []))
                                    (Some (UnexpectedResponseCode False 404 [])) []) o' r')"
  using failed_reauthentication_never_completes
    [of "Some (UnexpectedResponseCode False 401 [])" "Some (UnexpectedResponseCode False 404 [])" "[]"
        "ErrUnableToReauthenticate (Some (UnexpectedResponseCode False 401 []))
                                    (Some (UnexpectedResponseCode False 404 [])) []"]
  by auto

text \<open>
  C32. A DELETE is pending exactly when its own response says so. If Gophercloud's error
  does not already hold the sentinel, the classified error matches \<open>ErrDeletePending\<close> if
  and only if reauthentication did not fail and the status of the response to the DELETE
  (the one after reauthentication, when there was one) is 400 or 409.
\<close>

theorem delete_pending_iff_target_response:
  assumes "ErrDeletePending \<notin> set (parts err)"
  shows "IsPending (ClassifyDelete (Some err)) \<longleftrightarrow>
           unable_to_reauthenticate err = None
           \<and> (responseCode (Some (targetResponse err)) = (400, True)
              \<or> responseCode (Some (targetResponse err)) = (409, True))"
proof -
  have "IsPending (ClassifyDelete (Some err)) \<longleftrightarrow>
      (\<exists>e'. classified (deleteVerdict err) err = Some e' \<and> Is e' ErrDeletePending)"
    by (auto simp: IsPending_def ClassifyDelete_verdict split: option.splits)
  also have "\<dots> \<longleftrightarrow> deleteVerdict err = Sentinel ErrDeletePending"
    using classified_sentinel [OF _ assms, of "deleteVerdict err"]
    by (auto simp: is_sentinel_def deleteVerdict_iff)
  finally show ?thesis by (simp add: deleteVerdict_iff)
qed

theorem delete_pending_iff_target_response_witness:
  "IsPending (ClassifyDelete
     (Some (ErrErrorAfterReauthentication (Some (UnexpectedResponseCode False 409 [])) [])))"
  using delete_pending_iff_target_response
    [of "ErrErrorAfterReauthentication (Some (UnexpectedResponseCode False 409 [])) []"]
  by (simp add: unable_to_reauthenticate_def responseCode_def targetResponse_def
      after_reauthentication_def As_def)

text \<open>
  C33. Only 204 and 404 of the exact DELETE confirm the deletion of an application
  credential, and only its 403 is the forbidden classification. A success of any other
  kind (200, 202) is an error, and the generic classifier never uses the credential's
  sentinel.
\<close>

theorem credential_delete_exact_responses:
  assumes "ErrApplicationCredentialForbidden \<notin> set (parts err)"
  shows "(ClassifyApplicationCredentialDelete (Some err) = None \<longleftrightarrow>
           unable_to_reauthenticate err = None
           \<and> (responseCode (Some (targetResponse err)) = (204, True)
              \<or> responseCode (Some (targetResponse err)) = (404, True)))
    \<and> ((\<exists>e'. ClassifyApplicationCredentialDelete (Some err) = Some e'
              \<and> Is e' ErrApplicationCredentialForbidden) \<longleftrightarrow>
           unable_to_reauthenticate err = None
           \<and> responseCode (Some (targetResponse err)) = (403, True))
    \<and> \<not> (\<exists>e'. ClassifyDelete (Some err) = Some e' \<and> Is e' ErrApplicationCredentialForbidden)"
  unfolding ClassifyDelete_verdict ClassifyApplicationCredentialDelete_verdict
  using classified_sentinel [OF _ assms, of "credentialVerdict err"]
    classified_sentinel [OF _ assms, of "deleteVerdict err"]
  by (auto simp: is_sentinel_def classified_Complete credentialVerdict_iff deleteVerdict_iff)

theorem credential_delete_exact_responses_witness:
  "ClassifyApplicationCredentialDelete (Some (UnexpectedResponseCode False 404 [])) = None
   \<and> ClassifyApplicationCredentialDelete (Some (UnexpectedResponseCode False 202 [])) \<noteq> None"
  using credential_delete_exact_responses [of "UnexpectedResponseCode False 404 []"]
    credential_delete_exact_responses [of "UnexpectedResponseCode False 202 []"]
  by (simp add: unable_to_reauthenticate_def responseCode_def targetResponse_def
      after_reauthentication_def As_def)

text \<open>
  C39. Classification loses no cause: everything \<open>errors.Is\<close> and \<open>errors.As\<close> could find in
  Gophercloud's error can be found in the classified one.
\<close>

theorem classification_keeps_causes:
  assumes "ClassifyDelete (Some err) = Some e' \<or> ClassifyApplicationCredentialDelete (Some err) = Some e'"
  shows "set (chain err) \<subseteq> set (chain e')"
  using assms resource.keeps_causes credential.keeps_causes by blast

theorem classification_keeps_causes_witness:
  "UnexpectedResponseCode True 500 ''boom''
     \<in> set (chain (the (ClassifyDelete (Some (Wrapf [Txt ''x''] (UnexpectedResponseCode True 500 ''boom''))))))"
proof -
  let ?e = "Wrapf [Txt ''x''] (UnexpectedResponseCode True 500 ''boom'')"
  obtain e' where e': "ClassifyDelete (Some ?e) = Some e'"
    by (simp add: ClassifyDelete_verdict classified_def deleteVerdict_def responseCode_def As_def
        targetResponse_def after_reauthentication_def unable_to_reauthenticate_def
        PreserveReauthenticationErrors_def)
  from classification_keeps_causes [of ?e e'] e' show ?thesis by auto
qed

end
