(* ===== verification/Page_Util.thy ===== *)
theory Page_Util
  imports Api_Errors
begin

section \<open>Validated list pages\<close>

text \<open>
  \<open>internal/openstack/pageutil/collection_page.go\<close> and the traversal it takes part in. A
  page of Gophercloud is known through the three methods of its interface; the
  \<open>validatedCollectionPage\<close> embeds a page and overrides \<open>IsEmpty\<close>.
\<close>

subsection \<open>Decoded bodies\<close>

text \<open>
  A value of type \<open>any\<close> as \<open>encoding/json\<close> decodes it, or a value of another Go type (by its
  name). An object is its list of keys and values.
\<close>

datatype any =
    Nil
  | Bool bool
  | Number int
  | String string
  | Array "any list"
  | Object "(string \<times> any) list"
  | Value string

fun typeName :: "any \<Rightarrow> string" where
  "typeName Nil = ''<nil>''"
| "typeName (Bool b) = ''bool''"
| "typeName (Number n) = ''float64''"
| "typeName (String s) = ''string''"
| "typeName (Array xs) = ''[]interface {}''"
| "typeName (Object m) = ''map[string]interface {}''"
| "typeName (Value t) = t"

text \<open>\<open>m[k]\<close> of a \<open>map[string]any\<close>: \<open>nil\<close> for a missing key.\<close>

definition index_any :: "(string \<times> any) list \<Rightarrow> string \<Rightarrow> any" where
  "index_any m k = (case map_of m k of None \<Rightarrow> Nil | Some v \<Rightarrow> v)"

subsection \<open>Pages\<close>

text \<open>
  \<open>LibraryPage\<close> is a page of a Gophercloud package: its body and what its own \<open>IsEmpty\<close> and
  \<open>NextPageURL\<close> answer.
\<close>

datatype page =
    LibraryPage any "error + bool" "error + string"
  | validatedCollectionPage page string int

definition NewValidatedCollectionPage :: "page \<Rightarrow> string \<Rightarrow> int \<Rightarrow> page" where
  "NewValidatedCollectionPage page collectionKey statusCode =
     validatedCollectionPage page collectionKey statusCode"

fun UnwrapCollectionPage :: "page \<Rightarrow> page" where
  "UnwrapCollectionPage (validatedCollectionPage page collectionKey statusCode) = page"
| "UnwrapCollectionPage page = page"

text \<open>The methods promoted from the embedded page.\<close>

fun GetBody :: "page \<Rightarrow> any" where
  "GetBody (LibraryPage body isEmpty nextURL) = body"
| "GetBody (validatedCollectionPage page collectionKey statusCode) = GetBody page"

fun NextPageURL :: "page \<Rightarrow> error + string" where
  "NextPageURL (LibraryPage body isEmpty nextURL) = nextURL"
| "NextPageURL (validatedCollectionPage page collectionKey statusCode) = NextPageURL page"

definition invalidEnvelope :: "string \<Rightarrow> msg \<Rightarrow> error" where
  "invalidEnvelope collectionKey t =
     Errorf ([Txt ''validating '', Quo collectionKey, Txt '' collection envelope: ''] @ t)"

fun IsEmpty :: "page \<Rightarrow> error + bool" where
  "IsEmpty (LibraryPage body isEmpty nextURL) = isEmpty"
| "IsEmpty (validatedCollectionPage p collectionKey statusCode) =
     (if statusCode = StatusNoContent then Inr True
      else if statusCode \<noteq> StatusOK
      then Inl (Errorf [Txt ''validating '', Quo collectionKey,
                        Txt '' collection response: unexpected HTTP status '', Num statusCode])
      else
        (case GetBody p of
           Object body \<Rightarrow>
             (case map_of body collectionKey of
                None \<Rightarrow> Inl (invalidEnvelope collectionKey [Txt ''collection key is missing''])
              | Some Nil \<Rightarrow> Inl (invalidEnvelope collectionKey [Txt ''collection is null''])
              | Some (Array elements) \<Rightarrow>
                  (case IsEmpty p of
                     Inl err \<Rightarrow> Inl err
                   | Inr False \<Rightarrow> Inr False
                   | Inr True \<Rightarrow>
                       (case NextPageURL p of
                          Inl err \<Rightarrow> Inl err
                        | Inr nextPageURL \<Rightarrow> Inr (nextPageURL = '''')))
              | Some collection \<Rightarrow>
                  Inl (invalidEnvelope collectionKey
                         [Txt ''collection must be an array, got '', GoType (typeName collection)]))
         | body \<Rightarrow>
             Inl (invalidEnvelope collectionKey
                    [Txt ''response body must be an object, got '', GoType (typeName body)])))"

subsection \<open>Traversal\<close>

text \<open>
  One HTTP response, as the page creators of the program see it: its status, and the page
  that the Gophercloud package makes of it.
\<close>

record PageResult =
  pr_StatusCode :: int
  pr_page :: page

definition createPage :: "string \<Rightarrow> PageResult \<Rightarrow> page" where
  "createPage collectionKey pageResult =
     NewValidatedCollectionPage (pr_page pageResult) collectionKey (pr_StatusCode pageResult)"

text \<open>
  \<open>pager.WithPageCreator(create).EachPage(ctx, handle)\<close> is Gophercloud's. The handler
  changes variables of its caller; the value of those variables is passed along and
  returned with the error.
\<close>

type_synonym 'acc handler = "page \<Rightarrow> 'acc \<Rightarrow> (error + bool) \<times> 'acc"
type_synonym ('w, 'acc) pager =
  "(PageResult \<Rightarrow> page) \<Rightarrow> 'acc handler \<Rightarrow> 'acc \<Rightarrow> ('w, 'acc \<times> error option) op"

text \<open>
  Its documented behaviour, for the hypotheses of theorems about listings: the pages are
  fetched one after the other, an empty page ends the traversal without being handed to
  the handler, so does a handler that answers false, a page without a next link is the
  last, and every error ends the traversal. \<open>responses\<close> are the responses that arrive if
  the traversal goes on, before the request that fails with \<open>failure\<close>.
\<close>

fun traverse ::
  "(PageResult \<Rightarrow> page) \<Rightarrow> 'acc handler \<Rightarrow> PageResult list \<Rightarrow> error \<Rightarrow> 'acc \<Rightarrow> 'acc \<times> error option"
where
  "traverse create handle [] failure acc = (acc, Some failure)"
| "traverse create handle (r # responses) failure acc =
     (case IsEmpty (create r) of
        Inl err \<Rightarrow> (acc, Some err)
      | Inr True \<Rightarrow> (acc, None)
      | Inr False \<Rightarrow>
          (case handle (create r) acc of
             (Inl err, acc') \<Rightarrow> (acc', Some err)
           | (Inr False, acc') \<Rightarrow> (acc', None)
           | (Inr True, acc') \<Rightarrow>
               (case NextPageURL (create r) of
                  Inl err \<Rightarrow> (acc', Some err)
                | Inr nextURL \<Rightarrow>
                    if nextURL = '''' then (acc', None)
                    else traverse create handle responses failure acc')))"

definition documentedPager :: "('w, 'acc) pager \<Rightarrow> ('w \<Rightarrow> PageResult list) \<Rightarrow> ('w \<Rightarrow> error) \<Rightarrow> bool" where
  "documentedPager eachPage responses failure \<longleftrightarrow>
     (\<forall>create handle acc w.
        fst (eachPage create handle acc w) = traverse create handle (responses w) (failure w) acc)"

subsection \<open>What a traversal that ends without an error has seen\<close>

text \<open>
  The pages handed to a handler that never stops early, \<open>None\<close> if the traversal ends in
  an error of its own.
\<close>

fun delivered :: "(PageResult \<Rightarrow> page) \<Rightarrow> PageResult list \<Rightarrow> page list option" where
  "delivered create [] = None"
| "delivered create (r # responses) =
     (case IsEmpty (create r) of
        Inl err \<Rightarrow> None
      | Inr True \<Rightarrow> Some []
      | Inr False \<Rightarrow>
          (case NextPageURL (create r) of
             Inl err \<Rightarrow> None
           | Inr nextURL \<Rightarrow>
               if nextURL = '''' then Some [create r]
               else map_option (Cons (create r)) (delivered create responses)))"

text \<open>
  A response with a collection: status 200, and an object whose key holds an array. The
  elements of that array.
\<close>

definition collectionOf :: "string \<Rightarrow> page \<Rightarrow> any list option" where
  "collectionOf key p =
     (case GetBody p of
        Object body \<Rightarrow> (case map_of body key of Some (Array elements) \<Rightarrow> Some elements | _ \<Rightarrow> None)
      | _ \<Rightarrow> None)"

definition wellFormedResponse :: "string \<Rightarrow> PageResult \<Rightarrow> bool" where
  "wellFormedResponse key r \<longleftrightarrow> pr_StatusCode r = 200 \<and> collectionOf key (pr_page r) \<noteq> None"

lemma IsEmpty_validated:
  "IsEmpty (createPage key r) = Inr b \<longleftrightarrow>
     b \<and> pr_StatusCode r = 204
     \<or> wellFormedResponse key r
       \<and> (IsEmpty (pr_page r) = Inr False \<and> \<not> b
          \<or> IsEmpty (pr_page r) = Inr True \<and> (\<exists>u. NextPageURL (pr_page r) = Inr u \<and> b = (u = '''')))"
  by (auto simp: createPage_def NewValidatedCollectionPage_def http_status wellFormedResponse_def
      collectionOf_def split: any.splits option.splits sum.splits bool.splits)

lemma NextPageURL_createPage [simp]: "NextPageURL (createPage key r) = NextPageURL (pr_page r)"
  by (simp add: createPage_def NewValidatedCollectionPage_def)

lemma Unwrap_createPage [simp]: "UnwrapCollectionPage (createPage key r) = pr_page r"
  by (simp add: createPage_def NewValidatedCollectionPage_def)

lemma GetBody_createPage [simp]: "GetBody (createPage key r) = GetBody (pr_page r)"
  by (simp add: createPage_def NewValidatedCollectionPage_def)

text \<open>
  A listing that ends well has consumed a complete collection: every response but the last
  is well formed and links to the next one, and the last one is a 204 or is well formed
  and has no next link. All of them but an empty last one were handed to the handler.
\<close>

definition completeCollection :: "string \<Rightarrow> PageResult list \<Rightarrow> PageResult list \<Rightarrow> bool" where
  "completeCollection key responses seen \<longleftrightarrow>
     (\<exists>pre last post. responses = pre @ last # post
        \<and> (\<forall>r \<in> set pre. wellFormedResponse key r \<and> (\<exists>u. NextPageURL (pr_page r) = Inr u \<and> u \<noteq> ''''))
        \<and> (pr_StatusCode last = 204 \<and> seen = pre
           \<or> wellFormedResponse key last \<and> NextPageURL (pr_page last) = Inr ''''
             \<and> (seen = pre @ [last] \<or> IsEmpty (pr_page last) = Inr True \<and> seen = pre)))"

lemma delivered_complete:
  "delivered (createPage key) responses = Some ps \<Longrightarrow>
   \<exists>seen. ps = map (createPage key) seen \<and> completeCollection key responses seen"
proof (induction responses arbitrary: ps)
  case (Cons r responses)
  then obtain b where b: "IsEmpty (createPage key r) = Inr b" by (auto split: sum.splits)
  show ?case
  proof (cases b)
    case True
    with Cons.prems b show ?thesis
      by (auto simp: completeCollection_def IsEmpty_validated intro!: exI [of _ "[]"])
  next
    case False
    with Cons.prems b obtain u where u: "NextPageURL (pr_page r) = Inr u"
      by (auto split: sum.splits)
    have r: "wellFormedResponse key r" using b False by (auto simp: IsEmpty_validated)
    show ?thesis
    proof (cases "u = ''''")
      case True
      with Cons.prems b False u r show ?thesis
        unfolding completeCollection_def
        by (intro exI [of _ "[r]"] conjI exI [of _ "[]"] exI [of _ r] exI [of _ responses]) auto
    next
      case More: False
      with Cons.prems b False u obtain ps' where ps': "delivered (createPage key) responses = Some ps'"
        and ps: "ps = createPage key r # ps'" by auto
      from Cons.IH [OF ps'] obtain seen pre last post where
        "ps' = map (createPage key) seen" "responses = pre @ last # post"
        "\<forall>r \<in> set pre. wellFormedResponse key r \<and> (\<exists>u. NextPageURL (pr_page r) = Inr u \<and> u \<noteq> '''')"
        "pr_StatusCode last = 204 \<and> seen = pre
           \<or> wellFormedResponse key last \<and> NextPageURL (pr_page last) = Inr ''''
             \<and> (seen = pre @ [last] \<or> IsEmpty (pr_page last) = Inr True \<and> seen = pre)"
        unfolding completeCollection_def by blast
      with ps u r More show ?thesis
        unfolding completeCollection_def
        by (intro exI [of _ "r # seen"] conjI exI [of _ "r # pre"] exI [of _ last] exI [of _ post]) auto
    qed
  qed
qed simp

subsection \<open>Listings\<close>

text \<open>
  What the four listings of the program share: a page handler that appends the resources
  \<open>translate\<close> finds on the page, and fails on a page that \<open>translate\<close> does not accept.
\<close>

fun translateAll :: "(page \<Rightarrow> 'a list option) \<Rightarrow> page list \<Rightarrow> 'a list option" where
  "translateAll translate [] = Some []"
| "translateAll translate (p # ps) =
     (case (translate p, translateAll translate ps) of
        (Some xs, Some ys) \<Rightarrow> Some (xs @ ys)
      | _ \<Rightarrow> None)"

lemma translateAll_Some:
  "translateAll translate ps = Some xs \<longleftrightarrow>
     (\<exists>yss. map translate ps = map Some yss \<and> xs = concat yss)"
proof (induction ps arbitrary: xs)
  case (Cons p ps)
  show ?case
  proof
    assume "translateAll translate (p # ps) = Some xs"
    then obtain ys zs where "translate p = Some ys" "translateAll translate ps = Some zs" "xs = ys @ zs"
      by (auto split: option.splits)
    with Cons.IH obtain yss where "map translate (p # ps) = map Some (ys # yss)" "xs = concat (ys # yss)"
      by auto
    then show "\<exists>yss. map translate (p # ps) = map Some yss \<and> xs = concat yss" by blast
  next
    assume "\<exists>yss. map translate (p # ps) = map Some yss \<and> xs = concat yss"
    then obtain yss where "map translate (p # ps) = map Some yss" "xs = concat yss" by blast
    with Cons.IH [of "concat (tl yss)"] show "translateAll translate (p # ps) = Some xs"
      by (cases yss) auto
  qed
qed auto

locale page_handler =
  fixes handle :: "'a list handler" and translate :: "page \<Rightarrow> 'a list option"
  assumes handle_ok: "translate p = Some xs \<Longrightarrow> handle p acc = (Inr True, acc @ xs)"
    and handle_error: "translate p = None \<Longrightarrow> \<exists>err acc'. handle p acc = (Inl err, acc')"
begin

lemma traverse_ok:
  "traverse create handle responses failure acc = (xs, None) \<longleftrightarrow>
     (\<exists>ps ys. delivered create responses = Some ps \<and> translateAll translate ps = Some ys \<and> xs = acc @ ys)"
proof (induction responses arbitrary: acc)
  case (Cons r responses)
  show ?case
  proof (cases "translate (create r)")
    case None
    with handle_error [OF None, of acc] show ?thesis
      by (auto split: sum.splits bool.splits)
  next
    case (Some ys)
    show ?thesis
      by (auto simp: handle_ok [OF Some] Some Cons.IH split: sum.splits bool.splits option.splits)
  qed
qed simp

end

end
