(* ===== verification/Openstack_Client.thy ===== *)
theory Openstack_Client
  imports Page_Util
begin

section \<open>The OpenStack client\<close>

text \<open>
  \<open>internal/openstack/client/credential.go\<close> and \<open>client.go\<close>: choosing a cloud entry of
  clouds.yaml, normalizing its authentication URL, authenticating, and redacting errors.
  Gophercloud, clientconfig, the YAML decoder, \<open>x509\<close> and the URL grammar are records of
  functions that the definitions take as an argument.
\<close>

subsection \<open>Cloud entries and options\<close>

text \<open>The fields of \<open>clientconfig.AuthInfo\<close> and \<open>clientconfig.Cloud\<close> that the program reads.\<close>

record AuthInfo =
  ai_AuthURL :: string
  ai_ApplicationCredentialID :: string
  ai_ApplicationCredentialSecret :: string
  ai_Password :: string
  ai_Token :: string
  ai_ProjectID :: string
  ai_UserID :: string

record Cloud =
  cloud_AuthInfo :: "AuthInfo option"
  cloud_AuthType :: string
  cloud_RegionName :: string
  cloud_EndpointType :: string
  cloud_Verify :: "bool option"

record Options =
  opt_CloudsYAML :: string
  opt_CloudName :: string
  opt_CACert :: string

record CredentialConfig =
  cfg_Authority :: string
  cfg_ProjectID :: string
  cfg_UserID :: string
  cfg_Region :: string
  cfg_Interface :: string
  cfg_CloudName :: string
  cfg_CredentialID :: string

definition defaultCloudName :: string where "defaultCloudName = ''openstack''"
definition userAgent :: string where "userAgent = ''capi-janitor-openstack-go''"

text \<open>\<open>time.Duration\<close> counts nanoseconds: \<open>60 * time.Second\<close>.\<close>

definition httpRequestTimeout :: int where "httpRequestTimeout = 60 * 1000000000"

text \<open>The constant \<open>clientconfig.AuthV3ApplicationCredential\<close>.\<close>

definition AuthV3ApplicationCredential :: string where
  "AuthV3ApplicationCredential = ''v3applicationcredential''"

subsection \<open>URLs\<close>

text \<open>
  The fields of \<open>url.URL\<close>. The grammar of \<open>url.Parse\<close> and \<open>URL.String\<close>, and the mapping of
  letters outside ASCII, are parameters; host name and port are read off \<open>Host\<close> as
  \<open>net/url\<close> does.
\<close>

record URL =
  url_Scheme :: string
  url_User :: "string option"
  url_Host :: string
  url_Path :: string
  url_RawPath :: string
  url_ForceQuery :: bool
  url_RawQuery :: string
  url_Fragment :: string

record urls =
  url_Parse :: "string \<Rightarrow> URL option"
  url_String :: "URL \<Rightarrow> string"
  unicode_ToLower :: "string \<Rightarrow> string"

definition is_ascii :: "char \<Rightarrow> bool" where
  "is_ascii c = ((of_char c :: nat) < 128)"

definition lower_char :: "char \<Rightarrow> char" where
  "lower_char c = (let n = (of_char c :: nat) in if 65 \<le> n \<and> n \<le> 90 then char_of (n + 32) else c)"

definition ToLower :: "urls \<Rightarrow> string \<Rightarrow> string" where
  "ToLower net s = (if list_all is_ascii s then map lower_char s else unicode_ToLower net s)"

definition is_digit :: "char \<Rightarrow> bool" where
  "is_digit c = (let n = (of_char c :: nat) in 48 \<le> n \<and> n \<le> 57)"

text \<open>The text before and after the last colon.\<close>

definition lastColon :: "string \<Rightarrow> (string \<times> string) option" where
  "lastColon s =
     (case dropWhile (\<lambda>c. c \<noteq> CHR '':'') (rev s) of
        [] \<Rightarrow> None
      | _ # before \<Rightarrow> Some (rev before, rev (takeWhile (\<lambda>c. c \<noteq> CHR '':'') (rev s))))"

definition splitPort :: "string \<Rightarrow> string \<times> string" where
  "splitPort hostPort =
     (case lastColon hostPort of
        None \<Rightarrow> (hostPort, '''')
      | Some (host, port) \<Rightarrow> if list_all is_digit port then (host, port) else (hostPort, ''''))"

definition Hostname :: "URL \<Rightarrow> string" where
  "Hostname u =
     (let host = fst (splitPort (url_Host u)) in
      if HasPrefix host ''['' \<and> HasSuffix host '']'' then butlast (tl host) else host)"

definition Port :: "URL \<Rightarrow> string" where
  "Port u = snd (splitPort (url_Host u))"

text \<open>
  \<open>NormalizeAuthority\<close>: the four checks, then the four assignments to the parsed URL.
\<close>

definition normalizedURL :: "urls \<Rightarrow> URL \<Rightarrow> URL" where
  "normalizedURL net parsed0 =
     (let parsed1 = parsed0\<lparr>url_Host := ToLower net (url_Host parsed0)\<rparr>;
          parsed2 =
            (if url_Scheme parsed1 = ''http'' \<and> Port parsed1 = ''80''
                \<or> url_Scheme parsed1 = ''https'' \<and> Port parsed1 = ''443''
             then parsed1\<lparr>url_Host := TrimSuffix (url_Host parsed1) ('':'' @ Port parsed1)\<rparr>
             else parsed1)
      in parsed2\<lparr>url_Path := TrimRight_slash (url_Path parsed2),
                 url_RawPath := TrimRight_slash (url_RawPath parsed2)\<rparr>)"

definition NormalizeAuthority :: "urls \<Rightarrow> string \<Rightarrow> error + string" where
  "NormalizeAuthority net value =
     (if TrimSpace value = '''' then Inl (Errorf [Txt ''authentication URL is empty''])
      else
        (case url_Parse net value of
           None \<Rightarrow> Inl (Errorf [Txt ''authentication URL must be an absolute HTTP or HTTPS URL''])
         | Some parsed \<Rightarrow>
             if Hostname parsed = '''' \<or> (url_Scheme parsed \<noteq> ''http'' \<and> url_Scheme parsed \<noteq> ''https'')
             then Inl (Errorf [Txt ''authentication URL must be an absolute HTTP or HTTPS URL''])
             else if url_User parsed \<noteq> None \<or> url_RawQuery parsed \<noteq> '''' \<or> url_ForceQuery parsed
                     \<or> url_Fragment parsed \<noteq> ''''
             then Inl (Errorf [Txt ''authentication URL must not contain user information, a query, or a fragment''])
             else Inr (url_String net (normalizedURL net parsed))))"

subsection \<open>The selected cloud\<close>

text \<open>
  \<open>yaml.Unmarshal\<close> (\<open>None\<close> is a parse error), \<open>clientconfig.GetCloudFromYAML\<close> and
  \<open>clientconfig.GetEndpointType\<close> are parameters; the in-memory loader is the program's.
\<close>

record yamlLoader =
  loader_clouds :: "string \<rightharpoonup> Cloud"

definition LoadCloudsYAML :: "yamlLoader \<Rightarrow> error + (string \<rightharpoonup> Cloud)" where
  "LoadCloudsYAML l = Inr (loader_clouds l)"

definition LoadSecureCloudsYAML :: "yamlLoader \<Rightarrow> error + (string \<rightharpoonup> Cloud)" where
  "LoadSecureCloudsYAML l = Inr Map.empty"

definition LoadPublicCloudsYAML :: "yamlLoader \<Rightarrow> error + (string \<rightharpoonup> Cloud)" where
  "LoadPublicCloudsYAML l = Inr Map.empty"

record YAMLOpts =
  yo_Clouds :: "error + (string \<rightharpoonup> Cloud)"
  yo_SecureClouds :: "error + (string \<rightharpoonup> Cloud)"
  yo_PublicClouds :: "error + (string \<rightharpoonup> Cloud)"

record configs =
  yaml_Unmarshal :: "string \<Rightarrow> (string \<rightharpoonup> Cloud) option"
  GetCloudFromYAML :: "string \<Rightarrow> string \<Rightarrow> YAMLOpts \<Rightarrow> error + Cloud"
  GetEndpointType :: "string \<Rightarrow> string"
  net_url :: urls

definition newYAMLLoader :: "configs \<Rightarrow> string \<Rightarrow> error + yamlLoader" where
  "newYAMLLoader lib data =
     (case yaml_Unmarshal lib data of
        None \<Rightarrow> Inl (Errorf [Txt ''parsing clouds.yaml: invalid configuration''])
      | Some clouds \<Rightarrow> Inr \<lparr>loader_clouds = clouds\<rparr>)"

definition yamlOpts :: "yamlLoader \<Rightarrow> YAMLOpts" where
  "yamlOpts l = \<lparr>yo_Clouds = LoadCloudsYAML l, yo_SecureClouds = LoadSecureCloudsYAML l,
                yo_PublicClouds = LoadPublicCloudsYAML l\<rparr>"

definition loadCredential :: "configs \<Rightarrow> Options \<Rightarrow> error + (Cloud \<times> CredentialConfig)" where
  "loadCredential lib options =
     (case newYAMLLoader lib (opt_CloudsYAML options) of
        Inl err \<Rightarrow> Inl err
      | Inr loader \<Rightarrow>
          (let cloudName = (if opt_CloudName options = '''' then defaultCloudName else opt_CloudName options) in
           case GetCloudFromYAML lib cloudName ''CAPI_JANITOR_OPENSTACK_'' (yamlOpts loader) of
             Inl err \<Rightarrow> Inl (Errorf [Txt ''could not load cloud '', Quo cloudName, Txt '' from clouds.yaml''])
           | Inr cloud \<Rightarrow>
               (case cloud_AuthInfo cloud of
                  None \<Rightarrow> Inl (Errorf [Txt ''cloud '', Quo cloudName, Txt '' has no auth configuration''])
                | Some authInfo \<Rightarrow>
                    if cloud_AuthType cloud \<noteq> AuthV3ApplicationCredential
                    then Inl (UnsupportedAuthTypeError (cloud_AuthType cloud))
                    else if TrimSpace (ai_ApplicationCredentialID authInfo) = ''''
                    then Inl (Errorf [Txt ''application credential ID is empty''])
                    else if TrimSpace (ai_ApplicationCredentialSecret authInfo) = ''''
                    then Inl (Errorf [Txt ''application credential secret is empty''])
                    else
                      (case NormalizeAuthority (net_url lib) (ai_AuthURL authInfo) of
                         Inl err \<Rightarrow> Inl err
                       | Inr authority \<Rightarrow>
                           Inr (cloud,
                             \<lparr>cfg_Authority = authority, cfg_ProjectID = ai_ProjectID authInfo,
                              cfg_UserID = ai_UserID authInfo, cfg_Region = cloud_RegionName cloud,
                              cfg_Interface = GetEndpointType lib (cloud_EndpointType cloud),
                              cfg_CloudName = cloudName,
                              cfg_CredentialID = ai_ApplicationCredentialID authInfo\<rparr>)))))"

definition ParseCredentialConfig :: "configs \<Rightarrow> Options \<Rightarrow> error + CredentialConfig" where
  "ParseCredentialConfig lib options =
     (case loadCredential lib options of Inl err \<Rightarrow> Inl err | Inr (_, config) \<Rightarrow> Inr config)"

subsection \<open>TLS settings\<close>

record 'pool TLSConfig =
  tls_MinVersion :: int
  tls_InsecureSkipVerify :: bool
  tls_RootCAs :: "'pool option"

record 'pool HTTPClient =
  http_TLSClientConfig :: "'pool TLSConfig"
  http_Timeout :: int

text \<open>The constant \<open>tls.VersionTLS12\<close>, and the certificate pools of \<open>crypto/x509\<close>.\<close>

definition VersionTLS12 :: int where "VersionTLS12 = 0x0303"

record 'pool x509 =
  SystemCertPool :: "error + 'pool"
  NewCertPool :: 'pool
  AppendCertsFromPEM :: "'pool \<Rightarrow> string \<Rightarrow> 'pool \<times> bool"

definition newHTTPClient :: "'pool x509 \<Rightarrow> Cloud \<Rightarrow> string \<Rightarrow> error + 'pool HTTPClient" where
  "newHTTPClient certs cloud caCert =
     (let tlsConfig = \<lparr>tls_MinVersion = VersionTLS12,
                       tls_InsecureSkipVerify = (cloud_Verify cloud \<noteq> None \<and> \<not> the (cloud_Verify cloud)),
                       tls_RootCAs = None\<rparr>
      in if caCert \<noteq> ''''
         then
           (let pool = (case SystemCertPool certs of Inl err \<Rightarrow> NewCertPool certs | Inr pool \<Rightarrow> pool)
            in case AppendCertsFromPEM certs pool caCert of
                 (pool', False) \<Rightarrow> Inl (Errorf [Txt ''failed to append CA certificate''])
               | (pool', True) \<Rightarrow>
                   Inr \<lparr>http_TLSClientConfig = tlsConfig\<lparr>tls_RootCAs := Some pool'\<rparr>,
                        http_Timeout = httpRequestTimeout\<rparr>)
         else Inr \<lparr>http_TLSClientConfig = tlsConfig, http_Timeout = httpRequestTimeout\<rparr>)"

subsection \<open>Authentication\<close>

record EndpointOpts =
  eo_Region :: string
  eo_Availability :: string

record AuthOptions =
  ao_IdentityEndpoint :: string
  ao_ApplicationCredentialID :: string
  ao_ApplicationCredentialSecret :: string
  ao_AllowReauth :: bool

text \<open>
  The calls of Gophercloud's \<open>openstack\<close> and \<open>catalog\<close> packages, over a provider handle \<open>'p\<close>,
  a service client handle \<open>'c\<close> and catalog entries \<open>'entry\<close>. \<open>ExtractUser\<close> answers \<open>None\<close> if
  there is no authentication result or it has no such method, and \<open>Some (Inr None)\<close> for a
  nil user; \<open>ExtractProject\<close> likewise.
\<close>

record ('w, 'p, 'pool, 'c, 'entry) gophercloud =
  gc_NewClient :: "string \<Rightarrow> ('w, error, 'p) act"
  gc_SetHTTPClient :: "'p \<Rightarrow> 'pool HTTPClient \<Rightarrow> ('w, unit) op"
  gc_PrependUserAgent :: "'p \<Rightarrow> string \<Rightarrow> ('w, unit) op"
  gc_Authenticate :: "'p \<Rightarrow> AuthOptions \<Rightarrow> ('w, error, unit) act"
  gc_ExtractUser :: "'p \<Rightarrow> ('w, (error + string option) option) op"
  gc_ExtractProject :: "'p \<Rightarrow> ('w, (error + string option) option) op"
  gc_NewIdentityV3 :: "'p \<Rightarrow> EndpointOpts \<Rightarrow> ('w, error, 'c) act"
  gc_catalog_EachPage :: "'c \<Rightarrow> 'entry list handler \<Rightarrow> 'entry list \<Rightarrow> ('w, 'entry list \<times> error option) op"
  gc_ExtractServiceCatalog :: "page \<Rightarrow> error + 'entry list"
  gc_SetEndpointLocator :: "'p \<Rightarrow> 'entry list \<Rightarrow> ('w, unit) op"
  gc_Token :: "'p \<Rightarrow> ('w, string) op"

record 'p Client =
  cl_provider :: 'p
  cl_userID :: string
  cl_projectID :: string
  cl_authenticated :: bool
  cl_credentialConfig :: CredentialConfig
  cl_sensitiveValues :: "string list"

text \<open>The accessors, on a client pointer that may be nil.\<close>

definition IsAuthenticated :: "'p Client option \<Rightarrow> bool" where
  "IsAuthenticated c = (case c of None \<Rightarrow> False | Some c \<Rightarrow> cl_authenticated c)"

definition UserID :: "'p Client option \<Rightarrow> string" where
  "UserID c = (case c of None \<Rightarrow> '''' | Some c \<Rightarrow> cl_userID c)"

definition ProjectID :: "'p Client option \<Rightarrow> string" where
  "ProjectID c = (case c of None \<Rightarrow> '''' | Some c \<Rightarrow> cl_projectID c)"

definition ApplicationCredentialID :: "'p Client option \<Rightarrow> string" where
  "ApplicationCredentialID c = (case c of None \<Rightarrow> '''' | Some c \<Rightarrow> cfg_CredentialID (cl_credentialConfig c))"

definition ProviderClient :: "'p Client option \<Rightarrow> 'p option" where
  "ProviderClient c = map_option cl_provider c"

definition emptyEndpointOpts :: EndpointOpts where
  "emptyEndpointOpts = \<lparr>eo_Region = '''', eo_Availability = ''''\<rparr>"

definition clientEndpointOpts :: "'p Client option \<Rightarrow> EndpointOpts" where
  "clientEndpointOpts c =
     (case c of
        None \<Rightarrow> emptyEndpointOpts
      | Some c \<Rightarrow> \<lparr>eo_Region = cfg_Region (cl_credentialConfig c),
                  eo_Availability = cfg_Interface (cl_credentialConfig c)\<rparr>)"

text \<open>
  \<open>RedactError\<close>: the message without the sensitive values and the current token. A nil
  error is \<open>Inr ()\<close>; \<open>failRedacted\<close> is the branch for a non-nil one.
\<close>

definition redactValue :: "string \<Rightarrow> string \<Rightarrow> string" where
  "redactValue message sensitive =
     (if sensitive \<noteq> '''' then ReplaceAll message sensitive ''[redacted]'' else message)"

definition redactMessage :: "string list \<Rightarrow> string \<Rightarrow> string \<Rightarrow> string" where
  "redactMessage sensitiveValues token message =
     redactValue (foldl redactValue message sensitiveValues) token"

definition failRedacted ::
  "('w, 'p, 'pool, 'c, 'entry) gophercloud \<Rightarrow> (frag \<Rightarrow> string) \<Rightarrow> 'p Client \<Rightarrow> error \<Rightarrow> ('w, error, 'a) act"
where
  "failRedacted gc fmt c err =
     inspect (gc_Token gc (cl_provider c))
       (\<lambda>token. fail (RedactedError (redactMessage (cl_sensitiveValues c) token (Error fmt err)) err))"

definition RedactError ::
  "('w, 'p, 'pool, 'c, 'entry) gophercloud \<Rightarrow> (frag \<Rightarrow> string) \<Rightarrow> 'p Client \<Rightarrow> error + unit \<Rightarrow> ('w, error, unit) act"
where
  "RedactError gc fmt c r = (case r of Inr _ \<Rightarrow> ret () | Inl err \<Rightarrow> failRedacted gc fmt c err)"

text \<open>
  \<open>loadTokenAndCatalog\<close> fills in fields of the client it is called on. When it fails, its
  caller only uses that client to redact the error, for which those fields do not matter;
  so it returns the client with the fields filled in, or the error. Its three stretches have
  a definition each.
\<close>

definition loadUser ::
  "('w, 'p, 'pool, 'c, 'entry) gophercloud \<Rightarrow> 'p Client \<Rightarrow> ('w, error, 'p Client) act"
where
  "loadUser gc c =
     inspect (gc_ExtractUser gc (cl_provider c))
       (\<lambda>r. case r of
              None \<Rightarrow> ret c
            | Some extracted \<Rightarrow>
                (case extracted of
                   Inl err \<Rightarrow> fail err
                 | Inr None \<Rightarrow> ret c
                 | Inr (Some user) \<Rightarrow> ret (c\<lparr>cl_userID := user\<rparr>)))"

definition loadProject ::
  "('w, 'p, 'pool, 'c, 'entry) gophercloud \<Rightarrow> 'p Client \<Rightarrow> ('w, error, 'p Client) act"
where
  "loadProject gc c =
     inspect (gc_ExtractProject gc (cl_provider c))
       (\<lambda>r. case r of
              None \<Rightarrow> ret c
            | Some extracted \<Rightarrow>
                (case extracted of
                   Inl err \<Rightarrow> fail err
                 | Inr None \<Rightarrow> ret c
                 | Inr (Some project) \<Rightarrow> ret (c\<lparr>cl_projectID := project\<rparr>)))"

definition catalogHandler :: "('w, 'p, 'pool, 'c, 'entry) gophercloud \<Rightarrow> 'entry list handler" where
  "catalogHandler gc page catalogEntries =
     (case gc_ExtractServiceCatalog gc page of
        Inl err \<Rightarrow> (Inl err, catalogEntries)
      | Inr pageEntries \<Rightarrow> (Inr True, catalogEntries @ pageEntries))"

definition loadCatalog ::
  "('w, 'p, 'pool, 'c, 'entry) gophercloud \<Rightarrow> 'p Client \<Rightarrow> ('w, error, 'p Client) act"
where
  "loadCatalog gc c =
     andThen (gc_NewIdentityV3 gc (cl_provider c) emptyEndpointOpts) (\<lambda>identityService.
     inspect
       (gc_catalog_EachPage gc identityService (catalogHandler gc) [])
       (\<lambda>(catalogEntries, err).
          case err of
            Some e \<Rightarrow> fail e
          | None \<Rightarrow>
              inspect (gc_SetEndpointLocator gc (cl_provider c) catalogEntries)
                (\<lambda>_. ret (c\<lparr>cl_authenticated := True\<rparr>))))"

definition loadTokenAndCatalog ::
  "('w, 'p, 'pool, 'c, 'entry) gophercloud \<Rightarrow> 'p Client \<Rightarrow> ('w, error, 'p Client) act"
where
  "loadTokenAndCatalog gc c = andThen (andThen (loadUser gc c) (loadProject gc)) (loadCatalog gc)"

definition NewClient ::
  "configs \<Rightarrow> 'pool x509 \<Rightarrow> ('w, 'p, 'pool, 'c, 'entry) gophercloud \<Rightarrow> (frag \<Rightarrow> string) \<Rightarrow> Options
   \<Rightarrow> ('w, error, 'p Client) act"
where
  "NewClient lib certs gc fmt options =
     andThen (lift_res (loadCredential lib options)) (\<lambda>(cloud, config).
     andThen (lift_res (newHTTPClient certs cloud (opt_CACert options))) (\<lambda>httpClient.
     (let authInfo = the (cloud_AuthInfo cloud);
          credentialAuth = \<lparr>ao_IdentityEndpoint = cfg_Authority config,
                            ao_ApplicationCredentialID = cfg_CredentialID config,
                            ao_ApplicationCredentialSecret = ai_ApplicationCredentialSecret authInfo,
                            ao_AllowReauth = True\<rparr>
      in
     andThen (gc_NewClient gc (ao_IdentityEndpoint credentialAuth)) (\<lambda>providerClient.
     inspect (gc_SetHTTPClient gc providerClient httpClient) (\<lambda>_.
     inspect (gc_PrependUserAgent gc providerClient userAgent) (\<lambda>_.
     (let client = \<lparr>cl_provider = providerClient, cl_userID = '''', cl_projectID = '''',
                    cl_authenticated = False, cl_credentialConfig = config,
                    cl_sensitiveValues = [ai_ApplicationCredentialSecret authInfo,
                                          ai_Password authInfo, ai_Token authInfo]\<rparr>
      in
     inspect (gc_Authenticate gc providerClient credentialAuth) (\<lambda>r.
     case r of
       Inl err \<Rightarrow> failRedacted gc fmt client err
     | Inr _ \<Rightarrow>
         inspect (loadTokenAndCatalog gc client) (\<lambda>loaded.
         case loaded of
           Inl err \<Rightarrow> failRedacted gc fmt client err
         | Inr client' \<Rightarrow>
             if cl_userID client' = '''' then fail (Errorf [Txt ''authenticated user ID is empty''])
             else if cl_projectID client' = ''''
             then fail (Errorf [Txt ''authenticated project ID is empty''])
             else ret client')))))))))"

subsection \<open>Redaction\<close>

text \<open>
  The secrets redaction can hide: not empty, without a bracket, and not a part of the word
  that replaces them.
\<close>

definition hideable :: "string \<Rightarrow> bool" where
  "hideable s \<longleftrightarrow> s \<noteq> '''' \<and> CHR ''['' \<notin> set s \<and> CHR '']'' \<notin> set s \<and> \<not> sublist s ''redacted''"

lemma redactValue_parts:
  assumes "hideable s" and "sublist s (redactValue m v)"
  shows "sublist s m \<and> s \<noteq> v"
proof (cases "v = ''''")
  case True
  with assms show ?thesis by (auto simp: redactValue_def hideable_def)
next
  case False
  with assms have "sublist s (Join (Split m v) (CHR ''['' # ''redacted'' @ '']''))"
    by (simp add: redactValue_def ReplaceAll_def)
  from sublist_Join_bracketed [OF _ _ _ this] assms(1)
  obtain p where "p \<in> set (Split m v)" "sublist s p" by (auto simp: hideable_def)
  with Split_pieces [OF False this(1)] show ?thesis by (auto intro: sublist_order.order_trans)
qed

lemma foldl_redactValue:
  "hideable s \<Longrightarrow> sublist s (foldl redactValue m vs) \<Longrightarrow> sublist s m \<and> s \<notin> set vs"
  by (induction vs arbitrary: m) (auto dest: redactValue_parts)

lemma redactMessage_hides:
  assumes "hideable s" and "s = token \<or> s \<in> set sensitive"
  shows "\<not> sublist s (redactMessage sensitive token m)"
proof
  assume "sublist s (redactMessage sensitive token m)"
  then have "sublist s (foldl redactValue m sensitive)" and "s \<noteq> token"
    using redactValue_parts [OF assms(1)] by (simp_all add: redactMessage_def)
  with foldl_redactValue [OF assms(1)] assms(2) show False by blast
qed

lemma RedactError_Inr [simp]: "RedactError gc fmt c (Inr u) w = (Inr (), w)"
  by (simp add: RedactError_def ret_def)

lemma RedactError_Inl:
  "\<exists>m w'. RedactError gc fmt c (Inl err) w = (Inl (RedactedError m err), w')
        \<and> m = redactMessage (cl_sensitiveValues c) (fst (gc_Token gc (cl_provider c) w)) (Error fmt err)"
  by (cases "gc_Token gc (cl_provider c) w")
     (simp add: RedactError_def failRedacted_def inspect_def fail_def)

text \<open>
  C27. A redacted error shows neither the application credential secret nor the password,
  the token of clouds.yaml or the token in use: no such value that is not empty, has no
  bracket and is not a part of the word \<open>redacted\<close> occurs in its message, whatever the
  message of the error was. Every error of the chain is still found by \<open>errors.Is\<close>.
\<close>

theorem redacted_errors_hide_secrets:
  assumes "RedactError gc fmt c (Inl err) w = (Inl err', w')"
    and "s \<in> set (cl_sensitiveValues c) \<or> s = fst (gc_Token gc (cl_provider c) w)"
    and "hideable s"
  shows "\<not> sublist s (Error fmt err') \<and> (\<forall>e. Is err e \<longrightarrow> Is err' e)"
  using assms RedactError_Inl [of gc fmt c err w] redactMessage_hides [of s]
  by auto

subsection \<open>What authentication establishes\<close>

text \<open>A client is ready if services may be built from it.\<close>

definition ready :: "'p Client \<Rightarrow> bool" where
  "ready c \<longleftrightarrow> cl_authenticated c \<and> cl_userID c \<noteq> '''' \<and> cl_projectID c \<noteq> ''''"

text \<open>
  The cloud entry of clouds.yaml that the options select, its credential, and the settings
  that are read from it.
\<close>

definition acceptedCloud :: "configs \<Rightarrow> Options \<Rightarrow> Cloud \<Rightarrow> AuthInfo \<Rightarrow> CredentialConfig \<Rightarrow> bool" where
  "acceptedCloud lib options cloud auth config \<longleftrightarrow>
     (let cloudName = (if opt_CloudName options = '''' then ''openstack'' else opt_CloudName options) in
      \<exists>clouds. yaml_Unmarshal lib (opt_CloudsYAML options) = Some clouds
        \<and> GetCloudFromYAML lib cloudName ''CAPI_JANITOR_OPENSTACK_''
            \<lparr>yo_Clouds = Inr clouds, yo_SecureClouds = Inr Map.empty, yo_PublicClouds = Inr Map.empty\<rparr> = Inr cloud
        \<and> cloud_AuthInfo cloud = Some auth
        \<and> cloud_AuthType cloud = ''v3applicationcredential''
        \<and> TrimSpace (ai_ApplicationCredentialID auth) \<noteq> ''''
        \<and> TrimSpace (ai_ApplicationCredentialSecret auth) \<noteq> ''''
        \<and> NormalizeAuthority (net_url lib) (ai_AuthURL auth) = Inr (cfg_Authority config)
        \<and> config = \<lparr>cfg_Authority = cfg_Authority config, cfg_ProjectID = ai_ProjectID auth,
                    cfg_UserID = ai_UserID auth, cfg_Region = cloud_RegionName cloud,
                    cfg_Interface = GetEndpointType lib (cloud_EndpointType cloud),
                    cfg_CloudName = cloudName, cfg_CredentialID = ai_ApplicationCredentialID auth\<rparr>)"

lemma loadCredential_accepted:
  "loadCredential lib options = Inr (cloud, config) \<Longrightarrow> \<exists>auth. acceptedCloud lib options cloud auth config"
  by (auto simp: loadCredential_def acceptedCloud_def Let_def AuthV3ApplicationCredential_def
      newYAMLLoader_def yamlOpts_def LoadCloudsYAML_def LoadSecureCloudsYAML_def LoadPublicCloudsYAML_def
      defaultCloudName_def split: sum.splits option.splits if_splits)

lemma accepted_credential: "acceptedCloud lib options cloud auth config \<Longrightarrow> cfg_CredentialID config \<noteq> ''''"
  by (auto simp: acceptedCloud_def Let_def dest: arg_cong [of _ _ cfg_CredentialID])

definition sameLogin :: "'p Client \<Rightarrow> 'p Client \<Rightarrow> bool" where
  "sameLogin c c' \<longleftrightarrow> cl_credentialConfig c' = cl_credentialConfig c
     \<and> cl_sensitiveValues c' = cl_sensitiveValues c \<and> cl_provider c' = cl_provider c"

lemma wp_loadUser: "wp (loadUser gc c) (\<lambda>r w'. \<forall>c'. r = Inr c' \<longrightarrow> sameLogin c c') w"
  unfolding loadUser_def wp_rules
  by (rule wp_any) (auto simp: wp_rules sameLogin_def split: option.splits sum.splits)

lemma wp_loadProject: "wp (loadProject gc c) (\<lambda>r w'. \<forall>c'. r = Inr c' \<longrightarrow> sameLogin c c') w"
  unfolding loadProject_def wp_rules
  by (rule wp_any) (auto simp: wp_rules sameLogin_def split: option.splits sum.splits)

lemma wp_loadCatalog:
  "wp (loadCatalog gc c) (\<lambda>r w'. \<forall>c'. r = Inr c' \<longrightarrow> cl_authenticated c' \<and> sameLogin c c') w"
  unfolding loadCatalog_def wp_rules
  apply (rule wp_any)
  subgoal for r w1
    apply (cases r)
     apply simp
    apply (simp only: sum.case)
    apply (rule wp_any)
    subgoal for identityService r' w2
      apply (cases r')
      subgoal for catalogEntries err
        apply (cases err)
         apply (simp only: prod.case option.case)
         apply (rule wp_any)
         apply (simp add: sameLogin_def)
        apply simp
        done
      done
    done
  done

lemma sameLogin_trans: "sameLogin a b \<Longrightarrow> sameLogin b c \<Longrightarrow> sameLogin a c"
  by (simp add: sameLogin_def)

lemma loaded_Inr:
  assumes "loadTokenAndCatalog gc c w = (Inr c', w')"
  shows "cl_authenticated c' \<and> sameLogin c c'"
proof -
  from assms obtain c1 w1 c2 w2 where "loadUser gc c w = (Inr c1, w1)" "loadProject gc c1 w1 = (Inr c2, w2)"
    and "loadCatalog gc c2 w2 = (Inr c', w')"
    by (auto simp: loadTokenAndCatalog_def andThen_def split: prod.splits sum.splits)
  then show ?thesis
    using wp_run [OF wp_loadUser] wp_run [OF wp_loadProject] wp_run [OF wp_loadCatalog]
    by (meson sameLogin_trans)
qed

lemmas unknown_provider =
  wp_any [where m = "gc_NewClient gc url" for gc url]
  wp_any [where m = "gc_SetHTTPClient gc p h" for gc p h]
  wp_any [where m = "gc_PrependUserAgent gc p u" for gc p u]
  wp_any [where m = "gc_Authenticate gc p a" for gc p a]
  wp_any [where m = "gc_Token gc p" for gc p]

lemma wp_NewClient:
  "wp (NewClient lib certs gc fmt options)
     (\<lambda>r w'. \<forall>c. r = Inr c \<longrightarrow> ready c
        \<and> (\<exists>cloud. loadCredential lib options = Inr (cloud, cl_credentialConfig c)
               \<and> cl_sensitiveValues c =
                   (let a = the (cloud_AuthInfo cloud)
                    in [ai_ApplicationCredentialSecret a, ai_Password a, ai_Token a]))) w"
proof -
  have load: "wp (loadTokenAndCatalog gc c0) P w"
    if "\<And>r w'. (\<forall>c'. r = Inr c' \<longrightarrow> cl_authenticated c' \<and> sameLogin c0 c') \<Longrightarrow> P r w'" for c0 P w
    by (rule wp_intro, rule that) (auto dest: loaded_Inr)
  show ?thesis
    unfolding NewClient_def Let_def failRedacted_def wp_rules
    by (auto intro!: unknown_provider load simp: ready_def sameLogin_def split: sum.splits)
qed

lemma NewClient_ready:
  assumes "NewClient lib certs gc fmt options w = (Inr c, w')"
  shows "ready c \<and> (\<exists>cloud auth. acceptedCloud lib options cloud auth (cl_credentialConfig c))"
  using wp_run [OF wp_NewClient assms] loadCredential_accepted by blast

lemma inspect_Inr: "inspect m f w = (Inr b, w') \<longleftrightarrow> (\<exists>r w1. m w = (r, w1) \<and> f r w1 = (Inr b, w'))"
  by (cases "m w") (simp add: inspect_def)

lemma failRedacted_Inr [simp]: "failRedacted gc fmt c err w \<noteq> (Inr a, w')"
  by (auto simp: failRedacted_def inspect_Inr fail_def)

lemma lift_res_Inr: "lift_res r w = (Inr a, w') \<longleftrightarrow> r = Inr a \<and> w' = w"
  by (auto simp: lift_res_def)

lemma fail_Inr [simp]: "fail e w \<noteq> (Inr a, w')"
  by (simp add: fail_def)

lemma not_Inl: "(\<forall>e. r \<noteq> Inl e) \<longleftrightarrow> (\<exists>a. r = Inr a)"
  by (cases r) simp_all

lemmas answers = not_Inl inspect_Inr success_rules lift_res_Inr

text \<open>The identities of a client that had none are those that the token carries.\<close>

lemma loadUser_Inr:
  "loadUser gc c w = (Inr c', w') \<Longrightarrow> cl_userID c' \<noteq> cl_userID c \<Longrightarrow>
     gc_ExtractUser gc (cl_provider c) w = (Some (Inr (Some (cl_userID c'))), w')"
  by (cases "gc_ExtractUser gc (cl_provider c) w")
     (auto simp: loadUser_def inspect_def ret_def fail_def split: option.splits sum.splits)

lemma loadUser_keeps: "loadUser gc c w = (Inr c', w') \<Longrightarrow> cl_projectID c' = cl_projectID c"
  by (cases "gc_ExtractUser gc (cl_provider c) w")
     (auto simp: loadUser_def inspect_def ret_def fail_def split: option.splits sum.splits)

lemma loadProject_Inr:
  "loadProject gc c w = (Inr c', w') \<Longrightarrow> cl_projectID c' \<noteq> cl_projectID c \<Longrightarrow>
     gc_ExtractProject gc (cl_provider c) w = (Some (Inr (Some (cl_projectID c'))), w')"
  by (cases "gc_ExtractProject gc (cl_provider c) w")
     (auto simp: loadProject_def inspect_def ret_def fail_def split: option.splits sum.splits)

lemma loadProject_keeps: "loadProject gc c w = (Inr c', w') \<Longrightarrow> cl_userID c' = cl_userID c"
  by (cases "gc_ExtractProject gc (cl_provider c) w")
     (auto simp: loadProject_def inspect_def ret_def fail_def split: option.splits sum.splits)

lemma loadCatalog_Inr:
  "loadCatalog gc c w = (Inr c', w') \<Longrightarrow> c' = c\<lparr>cl_authenticated := True\<rparr>
     \<and> (\<exists>service entries w1 w2. gc_NewIdentityV3 gc (cl_provider c) emptyEndpointOpts w = (Inr service, w1)
        \<and> gc_catalog_EachPage gc service (catalogHandler gc) [] w1 = ((entries, None), w2)
        \<and> gc_SetEndpointLocator gc (cl_provider c) entries w2 = ((), w'))"
  by (auto simp: loadCatalog_def answers split: option.splits)

lemma loaded_from:
  assumes "loadTokenAndCatalog gc c w = (Inr c', w')" and "cl_userID c = ''''" and "cl_projectID c = ''''"
    and "cl_userID c' \<noteq> ''''" and "cl_projectID c' \<noteq> ''''"
  shows "\<exists>service entries w1 w2 w3 w4. gc_ExtractUser gc (cl_provider c) w = (Some (Inr (Some (cl_userID c'))), w1)
     \<and> gc_ExtractProject gc (cl_provider c) w1 = (Some (Inr (Some (cl_projectID c'))), w2)
     \<and> gc_NewIdentityV3 gc (cl_provider c) emptyEndpointOpts w2 = (Inr service, w3)
     \<and> gc_catalog_EachPage gc service (catalogHandler gc) [] w3 = ((entries, None), w4)
     \<and> gc_SetEndpointLocator gc (cl_provider c) entries w4 = ((), w')"
proof -
  from assms(1) obtain c1 w1 c2 w2 where u: "loadUser gc c w = (Inr c1, w1)"
    and p: "loadProject gc c1 w1 = (Inr c2, w2)" and cat: "loadCatalog gc c2 w2 = (Inr c', w')"
    by (auto simp: loadTokenAndCatalog_def success_rules)
  have same: "cl_provider c1 = cl_provider c" "cl_provider c2 = cl_provider c"
    using wp_run [OF wp_loadUser u] wp_run [OF wp_loadProject p] by (simp_all add: sameLogin_def)
  have ids: "cl_userID c' = cl_userID c1" "cl_projectID c' = cl_projectID c2"
    using loadCatalog_Inr [OF cat] loadProject_keeps [OF p] by simp_all
  have "gc_ExtractUser gc (cl_provider c) w = (Some (Inr (Some (cl_userID c'))), w1)"
    using loadUser_Inr [OF u] assms(2,4) ids by simp
  moreover have "gc_ExtractProject gc (cl_provider c) w1 = (Some (Inr (Some (cl_projectID c'))), w2)"
    using loadProject_Inr [OF p] loadUser_keeps [OF u] assms(3,5) ids same by simp
  ultimately show ?thesis using loadCatalog_Inr [OF cat] unfolding same by blast
qed

text \<open>
  C34. A client is only handed out authenticated, and as the selected cloud entry says. When
  \<open>NewClient\<close> returns a client, its settings are those of the entry that the cloud name of
  the options selects from their clouds.yaml (\<open>openstack\<close> if the name is empty), which uses
  an application credential whose ID and secret are not blank. Each call of the login
  has succeeded, one after the other: Keystone accepted exactly this credential at the
  normalized authority, the user and the project are those of the token and not empty, and
  the catalog was read and installed. What the client redacts are the secrets of the entry.
\<close>

theorem new_client_is_authenticated:
  assumes "NewClient lib certs gc fmt options w = (Inr c, w')"
  shows "IsAuthenticated (Some c) \<and> UserID (Some c) \<noteq> '''' \<and> ProjectID (Some c) \<noteq> ''''
    \<and> ApplicationCredentialID (Some c) \<noteq> ''''
    \<and> (\<exists>cloud auth http service entries w1 w2 w3 w4 w5 w6 w7 w8.
         acceptedCloud lib options cloud auth (cl_credentialConfig c)
       \<and> cl_sensitiveValues c = [ai_ApplicationCredentialSecret auth, ai_Password auth, ai_Token auth]
       \<and> newHTTPClient certs cloud (opt_CACert options) = Inr http
       \<and> gc_NewClient gc (cfg_Authority (cl_credentialConfig c)) w = (Inr (cl_provider c), w1)
       \<and> gc_SetHTTPClient gc (cl_provider c) http w1 = ((), w2)
       \<and> gc_PrependUserAgent gc (cl_provider c) ''capi-janitor-openstack-go'' w2 = ((), w3)
       \<and> gc_Authenticate gc (cl_provider c)
           \<lparr>ao_IdentityEndpoint = cfg_Authority (cl_credentialConfig c),
            ao_ApplicationCredentialID = ai_ApplicationCredentialID auth,
            ao_ApplicationCredentialSecret = ai_ApplicationCredentialSecret auth, ao_AllowReauth = True\<rparr> w3 = (Inr (), w4)
       \<and> gc_ExtractUser gc (cl_provider c) w4 = (Some (Inr (Some (UserID (Some c)))), w5)
       \<and> gc_ExtractProject gc (cl_provider c) w5 = (Some (Inr (Some (ProjectID (Some c)))), w6)
       \<and> gc_NewIdentityV3 gc (cl_provider c) \<lparr>eo_Region = '''', eo_Availability = ''''\<rparr> w6 = (Inr service, w7)
       \<and> gc_catalog_EachPage gc service (catalogHandler gc) [] w7 = ((entries, None), w8)
       \<and> gc_SetEndpointLocator gc (cl_provider c) entries w8 = ((), w'))"
proof -
  have ready: "ready c" using NewClient_ready [OF assms] by blast
  from assms obtain cloud config http provider w1 w2 w3 w4 where
    loaded: "loadCredential lib options = Inr (cloud, config)"
    and http: "newHTTPClient certs cloud (opt_CACert options) = Inr http"
    and calls: "gc_NewClient gc (cfg_Authority config) w = (Inr provider, w1)"
      "gc_SetHTTPClient gc provider http w1 = ((), w2)" "gc_PrependUserAgent gc provider userAgent w2 = ((), w3)"
    and auth: "gc_Authenticate gc provider
        \<lparr>ao_IdentityEndpoint = cfg_Authority config, ao_ApplicationCredentialID = cfg_CredentialID config,
         ao_ApplicationCredentialSecret = ai_ApplicationCredentialSecret (the (cloud_AuthInfo cloud)),
         ao_AllowReauth = True\<rparr> w3 = (Inr (), w4)"
    and filled: "loadTokenAndCatalog gc
        \<lparr>cl_provider = provider, cl_userID = '''', cl_projectID = '''', cl_authenticated = False,
         cl_credentialConfig = config,
         cl_sensitiveValues = [ai_ApplicationCredentialSecret (the (cloud_AuthInfo cloud)),
                               ai_Password (the (cloud_AuthInfo cloud)), ai_Token (the (cloud_AuthInfo cloud))]\<rparr> w4
        = (Inr c, w')"
    by (auto simp: NewClient_def Let_def answers split: sum.splits if_splits)
  have c: "cl_provider c = provider" "cl_credentialConfig c = config"
    and secrets: "cl_sensitiveValues c = [ai_ApplicationCredentialSecret (the (cloud_AuthInfo cloud)),
                               ai_Password (the (cloud_AuthInfo cloud)), ai_Token (the (cloud_AuthInfo cloud))]"
    using loaded_Inr [OF filled] by (simp_all add: sameLogin_def)
  from loadCredential_accepted [OF loaded] obtain authInfo where
    accepted: "acceptedCloud lib options cloud authInfo config" by blast
  then have fields: "the (cloud_AuthInfo cloud) = authInfo"
      "cfg_CredentialID config = ai_ApplicationCredentialID authInfo"
    by (auto simp: acceptedCloud_def Let_def dest: arg_cong [of _ _ cfg_CredentialID])
  have ids: "IsAuthenticated (Some c) \<and> UserID (Some c) \<noteq> '''' \<and> ProjectID (Some c) \<noteq> ''''
      \<and> ApplicationCredentialID (Some c) \<noteq> ''''"
    using ready accepted_credential [OF accepted]
    by (simp add: ready_def IsAuthenticated_def UserID_def ProjectID_def ApplicationCredentialID_def c)
  have token: "\<exists>service entries w5 w6 w7 w8. gc_ExtractUser gc provider w4 = (Some (Inr (Some (UserID (Some c)))), w5)
       \<and> gc_ExtractProject gc provider w5 = (Some (Inr (Some (ProjectID (Some c)))), w6)
       \<and> gc_NewIdentityV3 gc provider \<lparr>eo_Region = '''', eo_Availability = ''''\<rparr> w6 = (Inr service, w7)
       \<and> gc_catalog_EachPage gc service (catalogHandler gc) [] w7 = ((entries, None), w8)
       \<and> gc_SetEndpointLocator gc provider entries w8 = ((), w')"
    using loaded_from [OF filled] ready by (simp add: ready_def UserID_def ProjectID_def emptyEndpointOpts_def)
  show ?thesis
    unfolding c using ids accepted secrets http calls auth token unfolding fields userAgent_def by blast
qed

text \<open>
  TLS verification is only switched off on request: every HTTP client has a minimum of
  TLS 1.2 and a timeout of 60 seconds, it skips verification exactly if the cloud entry
  says \<open>verify: false\<close>, it has its own root certificates exactly if a CA certificate was
  given, and a CA certificate that cannot be added is an error.
\<close>

lemma http_client_verifies_by_default:
  "case newHTTPClient certs cloud caCert of
     Inr h \<Rightarrow> tls_MinVersion (http_TLSClientConfig h) = 0x0303 \<and> http_Timeout h = 60000000000
            \<and> (tls_InsecureSkipVerify (http_TLSClientConfig h) \<longleftrightarrow> cloud_Verify cloud = Some False)
            \<and> (tls_RootCAs (http_TLSClientConfig h) = None \<longleftrightarrow> caCert = '''')
   | Inl err \<Rightarrow> caCert \<noteq> '''' \<and> \<not> snd (AppendCertsFromPEM certs
                (case SystemCertPool certs of Inl e \<Rightarrow> NewCertPool certs | Inr pool \<Rightarrow> pool) caCert)"
  by (auto simp: newHTTPClient_def Let_def VersionTLS12_def httpRequestTimeout_def
      split: prod.splits bool.splits sum.splits)

subsection \<open>Canonical authorities\<close>

lemma of_char_lower: "(of_char (lower_char c) :: nat) = (let n = of_char c in if 65 \<le> n \<and> n \<le> 90 then n + 32 else n)"
  by (simp add: lower_char_def Let_def)

lemma lower_char_idem [simp]: "lower_char (lower_char c) = lower_char c"
  by (auto simp: lower_char_def [of "lower_char c"] of_char_lower Let_def split: if_splits)

lemma lower_char_fixed:
  "(of_char d :: nat) < 65 \<or> 122 < (of_char d :: nat) \<or> 91 = (of_char d :: nat) \<or> 93 = (of_char d :: nat)
   \<Longrightarrow> lower_char c = d \<longleftrightarrow> c = d"
proof -
  assume d: "(of_char d :: nat) < 65 \<or> 122 < (of_char d :: nat) \<or> 91 = (of_char d :: nat) \<or> 93 = (of_char d :: nat)"
  have "lower_char c = d \<longleftrightarrow> (of_char (lower_char c) :: nat) = of_char d" by simp
  also have "\<dots> \<longleftrightarrow> (of_char c :: nat) = of_char d"
    using d by (auto simp: of_char_lower Let_def)
  finally show ?thesis by simp
qed

lemma lower_char_punctuation [simp]:
  "lower_char c = CHR '':'' \<longleftrightarrow> c = CHR '':''"
  "lower_char c = CHR ''['' \<longleftrightarrow> c = CHR ''[''"
  "lower_char c = CHR '']'' \<longleftrightarrow> c = CHR '']''"
  by (rule lower_char_fixed; simp)+

lemma lower_colon [simp]: "lower_char CHR '':'' = CHR '':''"
  by (simp add: lower_char_def)

lemma is_digit_lower [simp]: "is_digit (lower_char c) = is_digit c"
  by (auto simp: is_digit_def of_char_lower Let_def)

lemma is_ascii_lower [simp]: "is_ascii (lower_char c) = is_ascii c"
  by (auto simp: is_ascii_def of_char_lower Let_def)

lemma lower_digits: "list_all is_digit p \<Longrightarrow> map lower_char p = p"
  by (induction p) (auto simp: is_digit_def lower_char_def Let_def)

lemma lastColon_map:
  "lastColon (map lower_char s) = map_option (\<lambda>(h, p). (map lower_char h, map lower_char p)) (lastColon s)"
proof -
  have P: "(\<lambda>c. c \<noteq> CHR '':'') \<circ> lower_char = (\<lambda>c. c \<noteq> CHR '':'')" by (simp add: fun_eq_iff)
  have rev: "rev (map lower_char s) = map lower_char (rev s)" by (rule rev_map)
  have "(case map lower_char d of [] \<Rightarrow> None | _ # before \<Rightarrow> Some (rev before, rev (map lower_char t)))
      = map_option (\<lambda>(h, p). (map lower_char h, map lower_char p))
          (case d of [] \<Rightarrow> None | _ # before \<Rightarrow> Some (rev before, rev t))" for d t
    by (cases d) (simp_all add: rev_map)
  then show ?thesis
    unfolding lastColon_def rev dropWhile_map takeWhile_map P .
qed

lemma splitPort_map:
  "splitPort (map lower_char s) = (map lower_char (fst (splitPort s)), map lower_char (snd (splitPort s)))"
  by (auto simp: splitPort_def lastColon_map list_all_iff split: option.splits)

text \<open>
  What is relied on of \<open>net/url\<close>: a parsed host has no colon outside brackets except the
  one before its port, and printing a normalized URL that was accepted gives a text that
  parses to the same URL, except that the encoded path may become empty or equivalent.
\<close>

definition acceptedURL :: "URL \<Rightarrow> bool" where
  "acceptedURL u \<longleftrightarrow> Hostname u \<noteq> '''' \<and> (url_Scheme u = ''http'' \<or> url_Scheme u = ''https'')
     \<and> url_User u = None \<and> url_RawQuery u = '''' \<and> \<not> url_ForceQuery u \<and> url_Fragment u = ''''"

definition documentedURLs :: "urls \<Rightarrow> bool" where
  "documentedURLs net \<longleftrightarrow>
     (\<forall>v u host port. url_Parse net v = Some u \<longrightarrow> lastColon (url_Host u) = Some (host, port) \<longrightarrow>
        list_all is_digit port \<longrightarrow> splitPort host = (host, ''''))
     \<and> (\<forall>v u. url_Parse net v = Some u \<longrightarrow> acceptedURL u \<longrightarrow>
          TrimSpace (url_String net (normalizedURL net u)) \<noteq> ''''
          \<and> (\<exists>raw. url_Parse net (url_String net (normalizedURL net u))
                       = Some (normalizedURL net u\<lparr>url_RawPath := raw\<rparr>)
                 \<and> url_String net (normalizedURL net u\<lparr>url_RawPath := TrimRight_slash raw\<rparr>)
                       = url_String net (normalizedURL net u)))"

lemma NormalizeAuthority_accepted:
  "NormalizeAuthority net value = Inr a \<longleftrightarrow>
     TrimSpace value \<noteq> '''' \<and> (\<exists>u. url_Parse net value = Some u \<and> acceptedURL u \<and> a = url_String net (normalizedURL net u))"
  by (auto simp: NormalizeAuthority_def acceptedURL_def split: option.splits)

lemma TrimRight_slash_idem [simp]: "TrimRight_slash (TrimRight_slash s) = TrimRight_slash s"
proof -
  have "dropWhile p (dropWhile p xs) = dropWhile p xs" for p :: "char \<Rightarrow> bool" and xs
    by (induction xs) simp_all
  then show ?thesis by (simp add: TrimRight_slash_def)
qed

lemma lastColon_Some: "lastColon s = Some (h, p) \<Longrightarrow> s = h @ '':'' @ p"
proof -
  assume "lastColon s = Some (h, p)"
  then obtain c d where d: "dropWhile (\<lambda>c. c \<noteq> CHR '':'') (rev s) = c # d"
    and h: "h = rev d" and p: "p = rev (takeWhile (\<lambda>c. c \<noteq> CHR '':'') (rev s))"
    by (auto simp: lastColon_def split: list.splits)
  have c: "c = CHR '':''" using hd_dropWhile [of "\<lambda>c. c \<noteq> CHR '':''" "rev s"] d by simp
  have "rev s = takeWhile (\<lambda>c. c \<noteq> CHR '':'') (rev s) @ CHR '':'' # d"
    using takeWhile_dropWhile_id [of "\<lambda>c. c \<noteq> CHR '':''" "rev s"] d c by simp
  then have "rev (rev s) = rev (takeWhile (\<lambda>c. c \<noteq> CHR '':'') (rev s) @ CHR '':'' # d)" by (rule arg_cong)
  with h p show ?thesis by simp
qed

text \<open>The host after the two assignments: lower case, without the default port.\<close>

definition dropsPort :: "URL \<Rightarrow> bool" where
  "dropsPort u \<longleftrightarrow> (url_Scheme u = ''http'' \<and> Port u = ''80'') \<or> (url_Scheme u = ''https'' \<and> Port u = ''443'')"

lemma Port_lower: "Port (u\<lparr>url_Host := map lower_char (url_Host u)\<rparr>) = map lower_char (Port u)"
  by (simp add: Port_def splitPort_map)

lemma lower_port: "map lower_char (Port u) = ''80'' \<longleftrightarrow> Port u = ''80''" "map lower_char (Port u) = ''443'' \<longleftrightarrow> Port u = ''443''"
proof -
  have "list_all is_digit (Port u)" by (auto simp: Port_def splitPort_def split: option.splits)
  then show "map lower_char (Port u) = ''80'' \<longleftrightarrow> Port u = ''80''" "map lower_char (Port u) = ''443'' \<longleftrightarrow> Port u = ''443''"
    by (simp_all add: lower_digits)
qed

lemma normalizedURL_host:
  assumes "list_all is_ascii (url_Host u)"
  shows "url_Host (normalizedURL net u) =
     map lower_char (if dropsPort u then fst (splitPort (url_Host u)) else url_Host u)"
proof (cases "dropsPort u")
  case False
  with assms show ?thesis
    by (auto simp: normalizedURL_def Let_def dropsPort_def ToLower_def Port_lower lower_port)
next
  case True
  then have "Port u \<noteq> ''''" by (auto simp: dropsPort_def)
  then obtain h p where hp: "lastColon (url_Host u) = Some (h, p)" "list_all is_digit p"
    by (auto simp: Port_def splitPort_def split: option.splits if_splits)
  then have split: "splitPort (url_Host u) = (h, p)" by (simp add: splitPort_def)
  have host: "url_Host u = h @ '':'' @ p" using lastColon_Some [OF hp(1)] .
  have "TrimSuffix (map lower_char (url_Host u)) ('':'' @ map lower_char (Port u)) = map lower_char h"
    using TrimSuffix_append [of "map lower_char h" "'':'' @ map lower_char p"] host split
    by (simp add: Port_def)
  with assms True split show ?thesis
    by (auto simp: normalizedURL_def Let_def dropsPort_def ToLower_def Port_lower lower_port)
qed

lemma normalizedURL_fields [simp]:
  "url_Scheme (normalizedURL net u) = url_Scheme u"
  "url_User (normalizedURL net u) = url_User u"
  "url_RawQuery (normalizedURL net u) = url_RawQuery u"
  "url_ForceQuery (normalizedURL net u) = url_ForceQuery u"
  "url_Fragment (normalizedURL net u) = url_Fragment u"
  "url_Path (normalizedURL net u) = TrimRight_slash (url_Path u)"
  "url_RawPath (normalizedURL net u) = TrimRight_slash (url_RawPath u)"
  by (simp_all add: normalizedURL_def Let_def)

lemma splitPort_normalized:
  assumes "documentedURLs net" and "url_Parse net v = Some u" and "list_all is_ascii (url_Host u)"
  shows "splitPort (url_Host (normalizedURL net u)) =
     (if dropsPort u then (map lower_char (fst (splitPort (url_Host u))), '''')
      else (map lower_char (fst (splitPort (url_Host u))), map lower_char (Port u)))"
proof (cases "dropsPort u")
  case False
  with assms(3) show ?thesis by (simp add: normalizedURL_host splitPort_map Port_def)
next
  case True
  then have "Port u \<noteq> ''''" by (auto simp: dropsPort_def)
  then obtain h p where hp: "lastColon (url_Host u) = Some (h, p)" "list_all is_digit p"
    by (auto simp: Port_def splitPort_def split: option.splits if_splits)
  with assms(1,2) have "splitPort h = (h, '''')" unfolding documentedURLs_def by blast
  with True hp assms(3) show ?thesis
    by (simp add: normalizedURL_host splitPort_map) (simp add: splitPort_def)
qed

lemma butlast_tl_map: "butlast (tl (map f xs)) = map f (butlast (tl xs))"
  by (simp add: map_tl [symmetric] map_butlast [symmetric] del: map_tl)

lemma Hostname_normalized:
  assumes "documentedURLs net" and "url_Parse net v = Some u" and "list_all is_ascii (url_Host u)"
  shows "Hostname (normalizedURL net u) = map lower_char (Hostname u)"
proof -
  have b: "HasPrefix (map lower_char h) ''['' = HasPrefix h ''[''" for h by (cases h) simp_all
  have e: "HasSuffix (map lower_char h) '']'' = HasSuffix h '']''" for h
    by (cases h rule: rev_cases) (auto simp: HasSuffix_def)
  show ?thesis
    using splitPort_normalized [OF assms] by (auto simp: Hostname_def Let_def b e butlast_tl_map)
qed

lemma normalized_no_port:
  assumes "documentedURLs net" and "url_Parse net v = Some u" and "list_all is_ascii (url_Host u)"
  shows "\<not> dropsPort (normalizedURL net u\<lparr>url_RawPath := raw\<rparr>)"
proof -
  have "Port (normalizedURL net u\<lparr>url_RawPath := raw\<rparr>) = (if dropsPort u then '''' else map lower_char (Port u))"
    using splitPort_normalized [OF assms] by (simp add: Port_def)
  then show ?thesis using lower_port [of u] by (auto simp: dropsPort_def)
qed

lemma normalized_idem:
  assumes "documentedURLs net" and "url_Parse net v = Some u" and "list_all is_ascii (url_Host u)"
    and "raw' = TrimRight_slash raw"
  shows "normalizedURL net (normalizedURL net u\<lparr>url_RawPath := raw\<rparr>) = normalizedURL net u\<lparr>url_RawPath := raw'\<rparr>"
proof -
  let ?n = "normalizedURL net u\<lparr>url_RawPath := raw\<rparr>"
  note normalized_no_port [OF assms(1-3), of raw]
  moreover have "list_all is_ascii (fst (splitPort (url_Host u)))"
    using assms(3) by (auto simp: splitPort_def dest: lastColon_Some split: option.splits)
  then have ascii: "list_all is_ascii (url_Host ?n)"
    using assms(3) by (simp add: normalizedURL_host list_all_iff)
  ultimately have "url_Host (normalizedURL net ?n) = map lower_char (url_Host ?n)"
    by (simp add: normalizedURL_host)
  also have "\<dots> = url_Host (normalizedURL net u)"
    using assms(3) by (simp add: normalizedURL_host)
  finally show ?thesis using assms(4) by (intro URL.equality) simp_all
qed

lemma NormalizeAuthority_canonical:
  assumes "documentedURLs net" and "url_Parse net value = Some u" and "list_all is_ascii (url_Host u)"
    and "NormalizeAuthority net value = Inr authority"
  shows "NormalizeAuthority net authority = Inr authority
    \<and> (\<exists>n. url_Parse net authority = Some n \<and> \<not> dropsPort n
          \<and> Hostname n = map lower_char (Hostname u))"
proof -
  have acc: "acceptedURL u" and a: "authority = url_String net (normalizedURL net u)"
    using assms(2,4) by (auto simp: NormalizeAuthority_accepted)
  obtain raw where blank: "TrimSpace authority \<noteq> ''''"
    and parse: "url_Parse net authority = Some (normalizedURL net u\<lparr>url_RawPath := raw\<rparr>)"
    and eq: "url_String net (normalizedURL net u\<lparr>url_RawPath := TrimRight_slash raw\<rparr>) = authority"
    using assms(1,2) acc unfolding documentedURLs_def a by metis
  have host: "Hostname (normalizedURL net u\<lparr>url_RawPath := raw\<rparr>) = map lower_char (Hostname u)"
    using Hostname_normalized [OF assms(1-3)] by (simp add: Hostname_def)
  with acc have "acceptedURL (normalizedURL net u\<lparr>url_RawPath := raw\<rparr>)"
    by (simp add: acceptedURL_def)
  with blank parse eq host normalized_idem [OF assms(1-3) refl, of raw]
    normalized_no_port [OF assms(1-3), of raw] show ?thesis
    by (simp add: NormalizeAuthority_accepted)
qed

text \<open>
  C35. Normalized authorities are canonical: for an authentication URL with an ASCII host,
  normalizing what \<open>NormalizeAuthority\<close> returned returns it unchanged, so the authority of
  a session passes the canonical-form check when a checkpoint is read back. The default
  port of the scheme is gone, whatever the case of the host.
\<close>

theorem authority_is_canonical:
  assumes "documentedURLs net" and "url_Parse net value = Some u" and "list_all is_ascii (url_Host u)"
    and "NormalizeAuthority net value = Inr authority"
  shows "NormalizeAuthority net authority = Inr authority
    \<and> (\<exists>n. url_Parse net authority = Some n \<and> \<not> dropsPort n
          \<and> Hostname n = map lower_char (Hostname u))"
  by (rule NormalizeAuthority_canonical [OF assms])

subsection \<open>A concrete cloud\<close>

definition sampleURL :: "string \<Rightarrow> string \<Rightarrow> URL" where
  "sampleURL host path = \<lparr>url_Scheme = ''https'', url_User = None, url_Host = host, url_Path = path,
     url_RawPath = '''', url_ForceQuery = False, url_RawQuery = '''', url_Fragment = ''''\<rparr>"

definition sampleURLs :: urls where
  "sampleURLs =
     \<lparr>url_Parse = (\<lambda>v. if v = ''https://Keystone:443/v3/'' then Some (sampleURL ''Keystone:443'' ''/v3/'')
                      else if v = ''https://keystone/v3'' then Some (sampleURL ''keystone'' ''/v3'') else None),
      url_String = (\<lambda>u. url_Scheme u @ ''://'' @ url_Host u @ url_Path u),
      unicode_ToLower = (\<lambda>s. s)\<rparr>"

lemma sample_normalized:
  "normalizedURL sampleURLs (sampleURL ''Keystone:443'' ''/v3/'') = sampleURL ''keystone'' ''/v3''"
  "normalizedURL sampleURLs (sampleURL ''keystone'' ''/v3'') = sampleURL ''keystone'' ''/v3''"
  by (simp_all add: normalizedURL_def sampleURL_def ToLower_def is_ascii_def lower_char_def Port_def
      splitPort_def lastColon_def is_digit_def TrimSuffix_def HasSuffix_def TrimRight_slash_def
      char_of_def bit_iff_odd)

lemma sample_hosts:
  "splitPort ''Keystone:443'' = (''Keystone'', ''443'')" "splitPort ''keystone'' = (''keystone'', '''')"
  "splitPort ''Keystone'' = (''Keystone'', '''')"
  by (simp_all add: splitPort_def lastColon_def is_digit_def)

lemma sample_trim: "TrimSpace ''https://keystone/v3'' \<noteq> ''''"
proof -
  have "trim_left ''https://keystone/v3'' = ''https://keystone/v3''"
    by (simp add: trim_left.simps leading_space_def space_runes_def)
  moreover have "trailing_space ''https://keystone/v3'' = 0"
    by (simp add: trailing_space_def space_runes_def HasSuffix_def)
  ultimately show ?thesis by (simp add: TrimSpace_def trim_right.simps)
qed

lemma sample_parsed:
  "url_Parse sampleURLs v = Some u \<Longrightarrow> u = sampleURL ''Keystone:443'' ''/v3/'' \<or> u = sampleURL ''keystone'' ''/v3''"
  "url_String sampleURLs (sampleURL ''keystone'' ''/v3'') = ''https://keystone/v3''"
  "url_Parse sampleURLs ''https://keystone/v3'' = Some (sampleURL ''keystone'' ''/v3'')"
  "url_Parse sampleURLs ''https://Keystone:443/v3/'' = Some (sampleURL ''Keystone:443'' ''/v3/'')"
  by (auto simp: sampleURLs_def sampleURL_def split: if_splits)

lemma sample_documented: "documentedURLs sampleURLs"
  unfolding documentedURLs_def
proof (intro conjI allI impI)
  fix v u host port
  assume "url_Parse sampleURLs v = Some u" and "lastColon (url_Host u) = Some (host, port)"
  then show "splitPort host = (host, '''')"
    by (auto dest!: sample_parsed(1)) (auto simp: sampleURL_def lastColon_def sample_hosts)
next
  fix v u
  assume "url_Parse sampleURLs v = Some u"
  then have n: "normalizedURL sampleURLs u = sampleURL ''keystone'' ''/v3''"
    by (auto dest!: sample_parsed(1) simp: sample_normalized)
  show "TrimSpace (url_String sampleURLs (normalizedURL sampleURLs u)) \<noteq> ''''"
    unfolding n sample_parsed(2) by (rule sample_trim)
  have "sampleURL ''keystone'' ''/v3''\<lparr>url_RawPath := ''''\<rparr> = sampleURL ''keystone'' ''/v3''"
    and "TrimRight_slash '''' = ''''"
    by (simp_all add: sampleURL_def TrimRight_slash_def)
  then show "\<exists>raw. url_Parse sampleURLs (url_String sampleURLs (normalizedURL sampleURLs u))
        = Some (normalizedURL sampleURLs u\<lparr>url_RawPath := raw\<rparr>)
      \<and> url_String sampleURLs (normalizedURL sampleURLs u\<lparr>url_RawPath := TrimRight_slash raw\<rparr>)
        = url_String sampleURLs (normalizedURL sampleURLs u)"
    unfolding n sample_parsed(2) by (intro exI [of _ "''''"]) (simp add: sample_parsed)
qed

lemma sample_authority:
  "NormalizeAuthority sampleURLs ''https://Keystone:443/v3/'' = Inr ''https://keystone/v3''"
proof -
  have "trim_left ''https://Keystone:443/v3/'' = ''https://Keystone:443/v3/''"
    by (simp add: trim_left.simps leading_space_def space_runes_def)
  moreover have "trailing_space ''https://Keystone:443/v3/'' = 0"
    by (simp add: trailing_space_def space_runes_def HasSuffix_def)
  ultimately have "TrimSpace ''https://Keystone:443/v3/'' \<noteq> ''''" by (simp add: TrimSpace_def trim_right.simps)
  moreover have "acceptedURL (sampleURL ''Keystone:443'' ''/v3/'')"
    by (simp add: acceptedURL_def sampleURL_def Hostname_def sample_hosts)
  ultimately show ?thesis
    by (simp add: NormalizeAuthority_accepted sample_parsed sample_normalized)
qed

theorem authority_is_canonical_witness:
  "NormalizeAuthority sampleURLs ''https://keystone/v3'' = Inr ''https://keystone/v3''"
  using authority_is_canonical [OF sample_documented sample_parsed(4) _ sample_authority]
  by (simp add: sampleURL_def is_ascii_def)

definition sampleCloud :: Cloud where
  "sampleCloud =
     \<lparr>cloud_AuthInfo = Some \<lparr>ai_AuthURL = ''https://Keystone:443/v3/'', ai_ApplicationCredentialID = ''cred'',
        ai_ApplicationCredentialSecret = ''hunter2'', ai_Password = '''', ai_Token = '''',
        ai_ProjectID = '''', ai_UserID = ''''\<rparr>,
      cloud_AuthType = ''v3applicationcredential'', cloud_RegionName = ''R1'', cloud_EndpointType = '''',
      cloud_Verify = None\<rparr>"

definition sampleConfigs :: configs where
  "sampleConfigs =
     \<lparr>yaml_Unmarshal = (\<lambda>data. Some [''openstack'' \<mapsto> sampleCloud]),
      GetCloudFromYAML = (\<lambda>name prefix opts.
        case yo_Clouds opts of Inl e \<Rightarrow> Inl e
        | Inr clouds \<Rightarrow> (case clouds name of None \<Rightarrow> Inl (Errorf []) | Some c \<Rightarrow> Inr c)),
      GetEndpointType = (\<lambda>t. ''public''),
      net_url = sampleURLs\<rparr>"

definition sampleCerts :: "unit x509" where
  "sampleCerts = \<lparr>SystemCertPool = Inr (), NewCertPool = (), AppendCertsFromPEM = (\<lambda>p s. (p, True))\<rparr>"

text \<open>A provider for user \<open>u1\<close> and project \<open>p1\<close>, with the token \<open>tok\<close>.\<close>

definition sampleProvider :: "('w, unit, unit, unit, unit) gophercloud" where
  "sampleProvider =
     \<lparr>gc_NewClient = (\<lambda>u. ret ()), gc_SetHTTPClient = (\<lambda>p h. yields ()),
      gc_PrependUserAgent = (\<lambda>p u. yields ()), gc_Authenticate = (\<lambda>p a. ret ()),
      gc_ExtractUser = (\<lambda>p. yields (Some (Inr (Some ''u1'')))),
      gc_ExtractProject = (\<lambda>p. yields (Some (Inr (Some ''p1'')))),
      gc_NewIdentityV3 = (\<lambda>p e. ret ()), gc_catalog_EachPage = (\<lambda>c h acc. yields (acc, None)),
      gc_ExtractServiceCatalog = (\<lambda>p. Inr []), gc_SetEndpointLocator = (\<lambda>p es. yields ()),
      gc_Token = (\<lambda>p. yields ''tok'')\<rparr>"

definition sampleOptions :: Options where
  "sampleOptions = \<lparr>opt_CloudsYAML = '''', opt_CloudName = '''', opt_CACert = ''''\<rparr>"

definition sampleClient :: "unit Client" where
  "sampleClient =
     \<lparr>cl_provider = (), cl_userID = ''u1'', cl_projectID = ''p1'', cl_authenticated = True,
      cl_credentialConfig =
        \<lparr>cfg_Authority = ''https://keystone/v3'', cfg_ProjectID = '''', cfg_UserID = '''', cfg_Region = ''R1'',
         cfg_Interface = ''public'', cfg_CloudName = ''openstack'', cfg_CredentialID = ''cred''\<rparr>,
      cl_sensitiveValues = [''hunter2'', '''', '''']\<rparr>"

lemma sample_trims: "TrimSpace ''cred'' = ''cred''" "TrimSpace ''hunter2'' = ''hunter2''"
  by (simp_all add: TrimSpace_def trim_left.simps leading_space_def space_runes_def trim_right.simps
      trailing_space_def HasSuffix_def)

lemma sample_login:
  "NewClient sampleConfigs sampleCerts sampleProvider fmt sampleOptions () = (Inr sampleClient, ())"
  by (simp add: NewClient_def loadCredential_def newYAMLLoader_def sampleConfigs_def yamlOpts_def
      LoadCloudsYAML_def sampleOptions_def sampleCloud_def defaultCloudName_def
      AuthV3ApplicationCredential_def sample_trims sample_authority newHTTPClient_def
      sampleProvider_def loadTokenAndCatalog_def loadUser_def loadProject_def loadCatalog_def
      andThen_def inspect_def lift_res_def ret_def yields_def sampleClient_def Let_def)

theorem new_client_is_authenticated_witness:
  "\<exists>auth. acceptedCloud sampleConfigs sampleOptions sampleCloud auth (cl_credentialConfig sampleClient)
     \<and> gc_Authenticate sampleProvider () \<lparr>ao_IdentityEndpoint = ''https://keystone/v3'',
         ao_ApplicationCredentialID = ''cred'', ao_ApplicationCredentialSecret = ai_ApplicationCredentialSecret auth,
         ao_AllowReauth = True\<rparr> () = (Inr (), ())"
proof -
  from new_client_is_authenticated [OF sample_login] obtain cloud auth where
    accepted: "acceptedCloud sampleConfigs sampleOptions cloud auth (cl_credentialConfig sampleClient)" by blast
  then have "cloud = sampleCloud"
    by (simp add: acceptedCloud_def sampleConfigs_def sampleOptions_def Let_def)
  with accepted show ?thesis by (auto simp: sampleProvider_def ret_def)
qed

text \<open>The message of a failed login that quotes the secret of \<open>sampleClient\<close>.\<close>

definition leakingError :: error where
  "leakingError = Foreign ''net/url.Error'' ''secret hunter2 refused'' []"

theorem redacted_errors_hide_secrets_witness:
  "\<not> sublist ''hunter2'' (Error (\<lambda>f. '''') (RedactedError ''secret [redacted] refused'' leakingError))"
proof -
  have "\<not> sublist ''hunter2'' ''redacted''" by (simp add: sublist_Cons_right)
  moreover have "RedactError sampleProvider (\<lambda>f. '''') sampleClient (Inl leakingError) ()
      = (Inl (RedactedError ''secret [redacted] refused'' leakingError), ())"
    by (simp add: RedactError_def failRedacted_def inspect_def sampleProvider_def yields_def fail_def
        redactMessage_def redactValue_def sampleClient_def leakingError_def ReplaceAll_def Split.simps)
  note redacted_errors_hide_secrets [OF this, of "''hunter2''"]
  ultimately show ?thesis
    by (simp add: sampleClient_def hideable_def)
qed

end
