(* ===== verification/Service_Contracts.thy ===== *)
theory Service_Contracts
  imports Openstack_Client Cleanup_Runner
begin

section \<open>What the OpenStack services share\<close>

text \<open>
  The service packages repeat two shapes: a listing (a pager with a page creator and a
  handler, its error wrapped) and a deletion (an empty ID is refused, the response is
  classified, the error is wrapped). Each shape is a contract here; the service theories
  interpret it with the operations of the code.
\<close>

text \<open>\<open>Service\<close> of the network, load balancer and volume packages: a handle and the project.\<close>

record 'c Service =
  service_client :: 'c
  service_projectID :: string

subsection \<open>Listings\<close>

text \<open>
  \<open>PreserveReauthenticationErrors\<close> of an error that is not nil is not nil.
\<close>

definition preserved :: "error \<Rightarrow> error" where
  "preserved err = (case PreserveReauthenticationErrors (Some err) of Some e \<Rightarrow> e | None \<Rightarrow> err)"

definition listPages ::
  "('w, 'a list) pager \<Rightarrow> (PageResult \<Rightarrow> page) \<Rightarrow> 'a list handler \<Rightarrow> msg \<Rightarrow> ('w, error, 'a list) act"
where
  "listPages eachPage create handle t =
     inspect (eachPage create handle [])
       (\<lambda>(listed, err). case err of Some e \<Rightarrow> fail (Wrapf t (preserved e)) | None \<Rightarrow> ret listed)"

text \<open>
  What a listing that succeeds has done: it has seen a complete collection, \<open>translate\<close>
  accepted every page it was handed, and the result is what it read off them, in order.
\<close>

definition completeListing ::
  "string \<Rightarrow> (page \<Rightarrow> 'a list option) \<Rightarrow> PageResult list \<Rightarrow> 'a list \<Rightarrow> bool"
where
  "completeListing key translate responses xs \<longleftrightarrow>
     (\<exists>seen yss. delivered (createPage key) responses = Some (map (createPage key) seen)
        \<and> completeCollection key responses seen
        \<and> map (translate \<circ> createPage key) seen = map Some yss \<and> xs = concat yss)"

context page_handler
begin

lemma listed_iff:
  assumes "documentedPager eachPage responses failure"
  shows "fst (listPages eachPage (createPage key) handle t w) = Inr xs \<longleftrightarrow>
     completeListing key translate (responses w) xs"
proof -
  have "fst (eachPage (createPage key) handle [] w)
      = traverse (createPage key) handle (responses w) (failure w) []"
    using assms by (simp add: documentedPager_def)
  then have "fst (listPages eachPage (createPage key) handle t w) = Inr xs \<longleftrightarrow>
      traverse (createPage key) handle (responses w) (failure w) [] = (xs, None)"
    by (cases "eachPage (createPage key) handle [] w")
       (auto simp: listPages_def inspect_def fail_def ret_def split: prod.splits option.splits)
  also have "\<dots> \<longleftrightarrow> completeListing key translate (responses w) xs"
    using delivered_complete [of key "responses w"]
    by (fastforce simp: traverse_ok translateAll_Some completeListing_def)
  finally show ?thesis .
qed

lemma listed:
  assumes "listPages eachPage (createPage key) handle t w = (Inr xs, w')"
    and "documentedPager eachPage responses failure"
  shows "completeListing key translate (responses w) xs"
  using listed_iff [OF assms(2), of key t w xs] assms(1) by simp

end

text \<open>The two loops over decoded resources: an error ends them, a foreign resource is skipped.\<close>

definition keepOwned :: "('i \<Rightarrow> string option) \<Rightarrow> string \<Rightarrow> ('i \<Rightarrow> 'a) \<Rightarrow> 'i list \<Rightarrow> 'a list option" where
  "keepOwned project selected f items =
     (if \<exists>i \<in> set items. project i = None then None
      else Some (map f (filter (\<lambda>i. project i = Some selected) items)))"

lemma keepOwned_Nil [simp]: "keepOwned project selected f [] = Some []"
  by (simp add: keepOwned_def)

lemma keepOwned_Cons [simp]:
  "keepOwned project selected f (i # items) =
     (case (project i, keepOwned project selected f items) of
        (Some p, Some xs) \<Rightarrow> Some (if p = selected then f i # xs else xs)
      | _ \<Rightarrow> None)"
  by (auto simp: keepOwned_def split: option.splits)

subsection \<open>Deletions\<close>

text \<open>
  What the cleanup relies on: no request without an ID, one request otherwise, success
  exactly if the classification has no error, and a sentinel exactly if it has one.
\<close>

definition deletesOnce ::
  "(string \<Rightarrow> ('w, error, unit) act) \<Rightarrow> (string \<Rightarrow> ('w, error option) op)
   \<Rightarrow> (error option \<Rightarrow> error option) \<Rightarrow> bool"
where
  "deletesOnce op request classify \<longleftrightarrow>
     (\<forall>i w.
        (fst (op i w) = Inr () \<longleftrightarrow> i \<noteq> '''' \<and> classify (fst (request i w)) = None)
        \<and> (\<forall>s. is_sentinel s \<longrightarrow>
              ((\<exists>e. fst (op i w) = Inl e \<and> Is e s) \<longleftrightarrow>
                 i \<noteq> '''' \<and> (\<exists>e. classify (fst (request i w)) = Some e \<and> Is e s)))
        \<and> snd (op i w) = (if i = '''' then w else snd (request i w)))"

locale delete_operation =
  fixes op :: "string \<Rightarrow> ('w, error, unit) act"
    and request :: "string \<Rightarrow> ('w, error option) op"
    and classify :: "error option \<Rightarrow> error option"
  assumes empty_id: "\<exists>t. op '''' = fail (Errorf t)"
    and named: "i \<noteq> '''' \<Longrightarrow>
      \<exists>t. op i = inspect (request i) (\<lambda>r. case classify r of None \<Rightarrow> ret () | Some e \<Rightarrow> fail (Wrapf t e))"
begin

lemma nothing_requested: "\<exists>t. op '''' w = (Inl (Errorf t), w)"
  using empty_id by (auto simp: fail_def)

lemma outcome:
  assumes "i \<noteq> ''''"
  shows "\<exists>t. op i w = (case classify (fst (request i w)) of
                         None \<Rightarrow> Inr () | Some e \<Rightarrow> Inl (Wrapf t e), snd (request i w))"
  using named [OF assms]
  by (cases "request i w") (auto simp: inspect_def ret_def fail_def split: option.splits)

lemma succeeds_iff: "fst (op i w) = Inr () \<longleftrightarrow> i \<noteq> '''' \<and> classify (fst (request i w)) = None"
  using nothing_requested [of w] outcome [of i w] by (cases "i = ''''") (auto split: option.splits)

lemma reports_iff:
  assumes "is_sentinel s"
  shows "(\<exists>e. fst (op i w) = Inl e \<and> Is e s) \<longleftrightarrow>
     i \<noteq> '''' \<and> (\<exists>e. classify (fst (request i w)) = Some e \<and> Is e s)"
proof (cases "i = ''''")
  case True
  with nothing_requested [of w] assms show ?thesis by (auto simp: is_sentinel_def)
next
  case False
  from outcome [OF False, of w] assms show ?thesis
    using False by (auto simp: is_sentinel_def split: option.splits)
qed

lemma effect: "snd (op i w) = (if i = '''' then w else snd (request i w))"
  using nothing_requested [of w] outcome [of i w] by (cases "i = ''''") auto

lemma contract: "deletesOnce op request classify"
  unfolding deletesOnce_def by (intro allI conjI impI succeeds_iff reports_iff effect)

end

subsection \<open>Construction\<close>

text \<open>
  The checks with which the \<open>New\<close> functions of the network, load balancer and volume
  packages start, and the construction of the service client; the messages differ.
\<close>

definition newProjectService ::
  "msg \<Rightarrow> msg \<Rightarrow> msg \<Rightarrow> msg \<Rightarrow> ('p \<Rightarrow> EndpointOpts \<Rightarrow> ('w, error, 'c) act) \<Rightarrow> 'p Client option
   \<Rightarrow> ('w, error, 'c Service) act"
where
  "newProjectService nilClient notAuthenticated noProject failed newServiceClient client =
     (case client of
        None \<Rightarrow> fail (Errorf nilClient)
      | Some c \<Rightarrow>
          if \<not> IsAuthenticated client then fail (Errorf notAuthenticated)
          else if ProjectID client = '''' then fail (Errorf noProject)
          else
            andThen (wrapErr (Wrapf failed) (newServiceClient (cl_provider c) (clientEndpointOpts client)))
              (\<lambda>serviceClient.
                 ret \<lparr>service_client = serviceClient, service_projectID = ProjectID client\<rparr>))"

lemma newProjectService_Inr:
  "newProjectService a b c d new client w = (Inr s, w') \<Longrightarrow>
   IsAuthenticated client \<and> service_projectID s = ProjectID client \<and> ProjectID client \<noteq> ''''"
  by (cases client)
     (auto simp: newProjectService_def fail_def andThen_def wrapErr_def ret_def
       split: if_splits prod.splits sum.splits)

subsection \<open>A concrete pager\<close>

definition samplePager :: "PageResult list \<Rightarrow> ('w, 'acc) pager" where
  "samplePager responses = (\<lambda>create handle acc w. (traverse create handle responses (Errorf []) acc, w))"

lemma samplePager_documented: "documentedPager (samplePager responses) (\<lambda>w. responses) (\<lambda>w. Errorf [])"
  by (simp add: documentedPager_def samplePager_def)

text \<open>One page with the raw entries \<open>raw\<close>, and no other.\<close>

definition sampleResponse :: "string \<Rightarrow> any list \<Rightarrow> PageResult" where
  "sampleResponse key raw =
     \<lparr>pr_StatusCode = 200, pr_page = LibraryPage (Object [(key, Array raw)]) (Inr False) (Inr '''')\<rparr>"

lemma sampleResponse_page:
  "IsEmpty (createPage key (sampleResponse key raw)) = Inr False"
  "NextPageURL (pr_page (sampleResponse key raw)) = Inr ''''"
  "GetBody (pr_page (sampleResponse key raw)) = Object [(key, Array raw)]"
  by (simp_all add: createPage_def NewValidatedCollectionPage_def sampleResponse_def http_status)

lemmas listing_eval = listPages_def inspect_def samplePager_def ret_def fail_def sampleResponse_page

end
