(* ===== verification/Network_Service.thy ===== *)
theory Network_Service
  imports Service_Contracts
begin

section \<open>The network service\<close>

text \<open>
  \<open>internal/openstack/network/service.go\<close>: floating IPs and security groups of Neutron. The
  Gophercloud packages \<open>floatingips\<close> and \<open>groups\<close> are the record \<open>neutron\<close>.
\<close>

record floatingips_FloatingIP =
  gfip_ID :: string
  gfip_Description :: string
  gfip_ProjectID :: string
  gfip_TenantID :: string

record groups_SecGroup =
  gsg_ID :: string
  gsg_Description :: string
  gsg_ProjectID :: string
  gsg_TenantID :: string

text \<open>
  \<open>EachPage\<close> of the list of a project, the decoders of a page, and \<open>Delete(...).ExtractErr()\<close>.
\<close>

record ('w, 'p, 'c) neutron =
  NewNetworkV2 :: "'p \<Rightarrow> EndpointOpts \<Rightarrow> ('w, error, 'c) act"
  floatingips_EachPage :: "'c \<Rightarrow> string \<Rightarrow> ('w, FloatingIP list) pager"
  ExtractFloatingIPs :: "page \<Rightarrow> error + floatingips_FloatingIP list"
  floatingips_Delete :: "'c \<Rightarrow> string \<Rightarrow> ('w, error option) op"
  groups_EachPage :: "'c \<Rightarrow> string \<Rightarrow> ('w, SecurityGroup list) pager"
  ExtractGroups :: "page \<Rightarrow> error + groups_SecGroup list"
  groups_Delete :: "'c \<Rightarrow> string \<Rightarrow> ('w, error option) op"

definition NewNetworkService ::
  "('w, 'p, 'c) neutron \<Rightarrow> 'p Client option \<Rightarrow> ('w, error, 'c Service) act"
where
  "NewNetworkService neutron client =
     newProjectService
       [Txt ''creating network service: OpenStack client is nil'']
       [Txt ''creating network service: OpenStack client is not authenticated'']
       [Txt ''creating network service: project ID is empty'']
       [Txt ''creating network service client'']
       (NewNetworkV2 neutron) client"

subsection \<open>Project ownership\<close>

definition resourceBelongsToProject :: "string \<Rightarrow> string \<Rightarrow> string \<Rightarrow> error + bool" where
  "resourceBelongsToProject projectID tenantID selectedProjectID =
     (if projectID = '''' \<and> tenantID = ''''
      then Inl (Errorf [Txt ''both project_id and tenant_id are empty''])
      else if projectID \<noteq> '''' \<and> tenantID \<noteq> '''' \<and> projectID \<noteq> tenantID
      then Inl (Errorf [Txt ''project_id '', Quo projectID, Txt '' conflicts with tenant_id '', Quo tenantID])
      else if projectID \<noteq> '''' then Inr (projectID = selectedProjectID)
      else Inr (tenantID = selectedProjectID))"

text \<open>The project a resource names, if it names exactly one.\<close>

definition namedProject :: "string \<Rightarrow> string \<Rightarrow> string option" where
  "namedProject projectID tenantID =
     (if projectID = '''' \<and> tenantID = '''' then None
      else if projectID = '''' then Some tenantID
      else if tenantID = '''' \<or> tenantID = projectID then Some projectID
      else None)"

lemma belongs_iff:
  "resourceBelongsToProject p t selected = Inr b \<longleftrightarrow>
     (\<exists>project. namedProject p t = Some project \<and> b = (project = selected))"
  by (auto simp: resourceBelongsToProject_def namedProject_def)

subsection \<open>Floating IPs\<close>

text \<open>The loop over the raw floating IPs of a page, from the one at \<open>index\<close>.\<close>

definition badPortIDs :: "msg \<Rightarrow> error" where
  "badPortIDs t = Errorf (Txt ''validating floating IP attached port IDs: '' # t)"

fun attachedPortIDs :: "int \<Rightarrow> any list \<Rightarrow> error + string list" where
  "attachedPortIDs index [] = Inr []"
| "attachedPortIDs index (rawFloatingIP # rest) =
     (case rawFloatingIP of
        Object floatingIPFields \<Rightarrow>
          (case map_of floatingIPFields ''port_id'' of
             None \<Rightarrow> Inl (badPortIDs [Txt ''floatingips['', Num index, Txt ''].port_id is missing''])
           | Some rawPortID \<Rightarrow>
               (case (case rawPortID of
                        Nil \<Rightarrow> Inr ''''
                      | String portID \<Rightarrow> Inr portID
                      | _ \<Rightarrow> Inl (badPortIDs [Txt ''floatingips['', Num index,
                                  Txt ''].port_id must be a string or null, got '', GoType (typeName rawPortID)])) of
                  Inl err \<Rightarrow> Inl err
                | Inr portID \<Rightarrow>
                    (case attachedPortIDs (index + 1) rest of
                       Inl err \<Rightarrow> Inl err
                     | Inr portIDs \<Rightarrow> Inr (portID # portIDs))))
      | _ \<Rightarrow> Inl (badPortIDs [Txt ''floatingips['', Num index, Txt ''] must be an object, got '',
                            GoType (typeName rawFloatingIP)]))"

definition extractFloatingIPAttachedPortIDs :: "page \<Rightarrow> error + string list" where
  "extractFloatingIPAttachedPortIDs page =
     (case GetBody page of
        Object responseBody \<Rightarrow>
          (case index_any responseBody ''floatingips'' of
             Array rawFloatingIPs \<Rightarrow> attachedPortIDs 0 rawFloatingIPs
           | raw \<Rightarrow> Inl (badPortIDs [Txt ''floatingips must be an array, got '', GoType (typeName raw)]))
      | body \<Rightarrow> Inl (badPortIDs [Txt ''response body must be an object, got '', GoType (typeName body)]))"

text \<open>The loop over the decoded floating IPs, each with its attached port ID.\<close>

fun appendFloatingIPs ::
  "string \<Rightarrow> (floatingips_FloatingIP \<times> string) list \<Rightarrow> FloatingIP list \<Rightarrow> (error + bool) \<times> FloatingIP list"
where
  "appendFloatingIPs projectID [] listed = (Inr True, listed)"
| "appendFloatingIPs projectID ((floatingIP, attachedPortID) # rest) listed =
     (case resourceBelongsToProject (gfip_ProjectID floatingIP) (gfip_TenantID floatingIP) projectID of
        Inl err \<Rightarrow> (Inl (Wrapf [Txt ''validating floating IP '', Quo (gfip_ID floatingIP),
                                Txt '' project ownership''] err), listed)
      | Inr False \<Rightarrow> appendFloatingIPs projectID rest listed
      | Inr True \<Rightarrow>
          appendFloatingIPs projectID rest
            (listed @ [\<lparr>fip_ID = gfip_ID floatingIP, fip_Description = gfip_Description floatingIP,
                        fip_AttachedPortID = attachedPortID\<rparr>]))"

definition floatingIPHandler :: "('w, 'p, 'c) neutron \<Rightarrow> string \<Rightarrow> FloatingIP list handler" where
  "floatingIPHandler neutron projectID page listed =
     (case extractFloatingIPAttachedPortIDs page of
        Inl err \<Rightarrow> (Inl err, listed)
      | Inr portIDs \<Rightarrow>
          (case ExtractFloatingIPs neutron (UnwrapCollectionPage page) of
             Inl err \<Rightarrow> (Inl (Wrapf [Txt ''extracting floating IP page''] err), listed)
           | Inr decoded \<Rightarrow>
               if length decoded \<noteq> length portIDs
               then (Inl (Errorf [Txt ''validating floating IP page: extracted '', Num (int (length decoded)),
                                  Txt '' resources from '', Num (int (length portIDs)),
                                  Txt '' raw resources'']), listed)
               else appendFloatingIPs projectID (zip decoded portIDs) listed))"

definition ListNetworkFloatingIPs ::
  "('w, 'p, 'c) neutron \<Rightarrow> 'c Service \<Rightarrow> ('w, error, FloatingIP list) act"
where
  "ListNetworkFloatingIPs neutron s =
     listPages (floatingips_EachPage neutron (service_client s) (service_projectID s))
       (createPage ''floatingips'') (floatingIPHandler neutron (service_projectID s))
       [Txt ''listing floating IPs'']"

definition DeleteNetworkFloatingIP ::
  "('w, 'p, 'c) neutron \<Rightarrow> 'c Service \<Rightarrow> string \<Rightarrow> ('w, error, unit) act"
where
  "DeleteNetworkFloatingIP neutron s i =
     (if i = '''' then fail (Errorf [Txt ''deleting floating IP: ID is empty''])
      else
        inspect (floatingips_Delete neutron (service_client s) i)
          (\<lambda>r. case ClassifyDelete r of
                 Some err \<Rightarrow> fail (Wrapf [Txt ''deleting floating IP '', Quo i] err)
               | None \<Rightarrow> ret ()))"

subsection \<open>Security groups\<close>

fun appendSecurityGroups ::
  "string \<Rightarrow> groups_SecGroup list \<Rightarrow> SecurityGroup list \<Rightarrow> (error + bool) \<times> SecurityGroup list"
where
  "appendSecurityGroups projectID [] listed = (Inr True, listed)"
| "appendSecurityGroups projectID (securityGroup # rest) listed =
     (case resourceBelongsToProject (gsg_ProjectID securityGroup) (gsg_TenantID securityGroup) projectID of
        Inl err \<Rightarrow> (Inl (Wrapf [Txt ''validating security group '', Quo (gsg_ID securityGroup),
                                Txt '' project ownership''] err), listed)
      | Inr False \<Rightarrow> appendSecurityGroups projectID rest listed
      | Inr True \<Rightarrow>
          appendSecurityGroups projectID rest
            (listed @ [\<lparr>sg_ID = gsg_ID securityGroup, sg_Description = gsg_Description securityGroup\<rparr>]))"

definition securityGroupHandler :: "('w, 'p, 'c) neutron \<Rightarrow> string \<Rightarrow> SecurityGroup list handler" where
  "securityGroupHandler neutron projectID page listed =
     (case ExtractGroups neutron (UnwrapCollectionPage page) of
        Inl err \<Rightarrow> (Inl (Wrapf [Txt ''extracting security group page''] err), listed)
      | Inr pageSecurityGroups \<Rightarrow> appendSecurityGroups projectID pageSecurityGroups listed)"

definition ListNetworkSecurityGroups ::
  "('w, 'p, 'c) neutron \<Rightarrow> 'c Service \<Rightarrow> ('w, error, SecurityGroup list) act"
where
  "ListNetworkSecurityGroups neutron s =
     listPages (groups_EachPage neutron (service_client s) (service_projectID s))
       (createPage ''security_groups'') (securityGroupHandler neutron (service_projectID s))
       [Txt ''listing security groups'']"

definition DeleteNetworkSecurityGroup ::
  "('w, 'p, 'c) neutron \<Rightarrow> 'c Service \<Rightarrow> string \<Rightarrow> ('w, error, unit) act"
where
  "DeleteNetworkSecurityGroup neutron s i =
     (if i = '''' then fail (Errorf [Txt ''deleting security group: ID is empty''])
      else
        inspect (groups_Delete neutron (service_client s) i)
          (\<lambda>r. case ClassifyDelete r of
                 Some err \<Rightarrow> fail (Wrapf [Txt ''deleting security group '', Quo i] err)
               | None \<Rightarrow> ret ()))"

text \<open>The service as the interfaces of the cleanup package see it.\<close>

definition networkFloatingIPService :: "('w, 'p, 'c) neutron \<Rightarrow> 'c Service \<Rightarrow> 'w FloatingIPService" where
  "networkFloatingIPService neutron s =
     \<lparr>ListFloatingIPs = ListNetworkFloatingIPs neutron s, DeleteFloatingIP = DeleteNetworkFloatingIP neutron s\<rparr>"

definition networkSecurityGroupService :: "('w, 'p, 'c) neutron \<Rightarrow> 'c Service \<Rightarrow> 'w SecurityGroupService" where
  "networkSecurityGroupService neutron s =
     \<lparr>ListSecurityGroups = ListNetworkSecurityGroups neutron s,
      DeleteSecurityGroup = DeleteNetworkSecurityGroup neutron s\<rparr>"

subsection \<open>What the listings return\<close>

text \<open>
  The floating IPs of the project on a page, if the page is acceptable: every raw entry is
  an object with a \<open>port_id\<close> that is a string or null, the decoder yields as many, and each
  names exactly one project.
\<close>

fun rawPortID :: "any \<Rightarrow> string option" where
  "rawPortID (Object entry) =
     (case map_of entry ''port_id'' of Some Nil \<Rightarrow> Some '''' | Some (String s) \<Rightarrow> Some s | _ \<Rightarrow> None)"
| "rawPortID _ = None"

definition floatingIPsOnPage :: "('w, 'p, 'c) neutron \<Rightarrow> string \<Rightarrow> page \<Rightarrow> FloatingIP list option" where
  "floatingIPsOnPage neutron project page =
     (case (collectionOf ''floatingips'' page, ExtractFloatingIPs neutron (UnwrapCollectionPage page)) of
        (Some raw, Inr decoded) \<Rightarrow>
          if length decoded = length raw \<and> (\<forall>r \<in> set raw. rawPortID r \<noteq> None)
          then keepOwned (\<lambda>(d, port). namedProject (gfip_ProjectID d) (gfip_TenantID d)) project
                 (\<lambda>(d, port). \<lparr>fip_ID = gfip_ID d, fip_Description = gfip_Description d,
                              fip_AttachedPortID = port\<rparr>)
                 (zip decoded (map (the \<circ> rawPortID) raw))
          else None
      | _ \<Rightarrow> None)"

definition securityGroupsOnPage :: "('w, 'p, 'c) neutron \<Rightarrow> string \<Rightarrow> page \<Rightarrow> SecurityGroup list option" where
  "securityGroupsOnPage neutron project page =
     (case ExtractGroups neutron (UnwrapCollectionPage page) of
        Inr decoded \<Rightarrow>
          keepOwned (\<lambda>d. namedProject (gsg_ProjectID d) (gsg_TenantID d)) project
            (\<lambda>d. \<lparr>sg_ID = gsg_ID d, sg_Description = gsg_Description d\<rparr>) decoded
      | _ \<Rightarrow> None)"

lemma belongs_None:
  "(\<exists>err. resourceBelongsToProject p t selected = Inl err) \<longleftrightarrow> namedProject p t = None"
  by (auto simp: resourceBelongsToProject_def namedProject_def)

lemma attachedPortIDs_Some:
  "attachedPortIDs index raw = Inr ports \<longleftrightarrow> map rawPortID raw = map Some ports"
proof (induction raw arbitrary: index ports)
  case (Cons r rest)
  show ?case
  proof (cases r)
    case (Object entry)
    then show ?thesis
      by (cases ports) (auto simp: Cons.IH [symmetric, where index = "index + 1"] split: option.splits sum.splits any.splits)
  qed (cases ports; simp)+
qed auto

lemma extractPorts_iff:
  "extractFloatingIPAttachedPortIDs page = Inr ports \<longleftrightarrow>
     (\<exists>raw. collectionOf ''floatingips'' page = Some raw \<and> map rawPortID raw = map Some ports)"
  by (auto simp: extractFloatingIPAttachedPortIDs_def collectionOf_def index_any_def attachedPortIDs_Some
      split: any.splits option.splits)

lemma appendFloatingIPs_owned:
  "case keepOwned (\<lambda>(d, port). namedProject (gfip_ProjectID d) (gfip_TenantID d)) project
      (\<lambda>(d, port). \<lparr>fip_ID = gfip_ID d, fip_Description = gfip_Description d, fip_AttachedPortID = port\<rparr>) items of
     Some xs \<Rightarrow> appendFloatingIPs project items listed = (Inr True, listed @ xs)
   | None \<Rightarrow> \<exists>err listed'. appendFloatingIPs project items listed = (Inl err, listed')"
proof (induction items arbitrary: listed)
  case (Cons item items)
  obtain d port where item: "item = (d, port)" by (cases item)
  show ?case
  proof (cases "namedProject (gfip_ProjectID d) (gfip_TenantID d)")
    case None
    with belongs_None [of "gfip_ProjectID d" "gfip_TenantID d" project] item show ?thesis by auto
  next
    case (Some p)
    then have "resourceBelongsToProject (gfip_ProjectID d) (gfip_TenantID d) project = Inr (p = project)"
      by (simp add: belongs_iff)
    with Cons.IH [of listed] Cons.IH [of "listed @ [\<lparr>fip_ID = gfip_ID d,
        fip_Description = gfip_Description d, fip_AttachedPortID = port\<rparr>]"] Some item show ?thesis
      by (auto split: option.splits bool.splits)
  qed
qed simp

lemma appendSecurityGroups_owned:
  "case keepOwned (\<lambda>d. namedProject (gsg_ProjectID d) (gsg_TenantID d)) project
      (\<lambda>d. \<lparr>sg_ID = gsg_ID d, sg_Description = gsg_Description d\<rparr>) items of
     Some xs \<Rightarrow> appendSecurityGroups project items listed = (Inr True, listed @ xs)
   | None \<Rightarrow> \<exists>err listed'. appendSecurityGroups project items listed = (Inl err, listed')"
proof (induction items arbitrary: listed)
  case (Cons d items)
  show ?case
  proof (cases "namedProject (gsg_ProjectID d) (gsg_TenantID d)")
    case None
    with belongs_None [of "gsg_ProjectID d" "gsg_TenantID d" project] show ?thesis by auto
  next
    case (Some p)
    then have "resourceBelongsToProject (gsg_ProjectID d) (gsg_TenantID d) project = Inr (p = project)"
      by (simp add: belongs_iff)
    with Cons.IH [of listed] Cons.IH [of "listed @ [\<lparr>sg_ID = gsg_ID d, sg_Description = gsg_Description d\<rparr>]"]
      Some show ?thesis
      by (auto split: option.splits bool.splits)
  qed
qed simp

lemma the_ports:
  assumes "map rawPortID raw = map Some ports"
  shows "map (the \<circ> rawPortID) raw = ports"
proof -
  have "map (the \<circ> rawPortID) raw = map the (map rawPortID raw)" by simp
  also have "\<dots> = ports" unfolding assms by (simp add: o_def)
  finally show ?thesis .
qed

lemma ports_exist: "(\<forall>r \<in> set raw. rawPortID r \<noteq> None) \<longleftrightarrow> (\<exists>ports. map rawPortID raw = map Some ports)"
proof
  assume "\<forall>r \<in> set raw. rawPortID r \<noteq> None"
  then have "map rawPortID raw = map Some (map (the \<circ> rawPortID) raw)" by (induction raw) auto
  then show "\<exists>ports. map rawPortID raw = map Some ports" by blast
next
  assume "\<exists>ports. map rawPortID raw = map Some ports"
  then obtain ports where "map rawPortID raw = map Some ports" ..
  then have "rawPortID ` set raw = Some ` set ports" by (metis list.set_map)
  then show "\<forall>r \<in> set raw. rawPortID r \<noteq> None" by (auto simp: set_eq_iff image_iff)
qed

lemma floatingIPsOnPage_ports:
  assumes "extractFloatingIPAttachedPortIDs page = Inr ports"
    and "ExtractFloatingIPs neutron (UnwrapCollectionPage page) = Inr decoded"
  shows "floatingIPsOnPage neutron project page =
     (if length decoded = length ports
      then keepOwned (\<lambda>(d, port). namedProject (gfip_ProjectID d) (gfip_TenantID d)) project
             (\<lambda>(d, port). \<lparr>fip_ID = gfip_ID d, fip_Description = gfip_Description d, fip_AttachedPortID = port\<rparr>)
             (zip decoded ports)
      else None)"
proof -
  obtain raw where raw: "collectionOf ''floatingips'' page = Some raw" "map rawPortID raw = map Some ports"
    using assms(1) by (auto simp: extractPorts_iff)
  have "length raw = length ports" using arg_cong [OF raw(2), of length] by simp
  moreover have "\<forall>r \<in> set raw. rawPortID r \<noteq> None" using raw(2) ports_exist by blast
  ultimately show ?thesis
    using raw assms(2) the_ports [OF raw(2)] by (simp add: floatingIPsOnPage_def del: map_map)
qed

lemma floatingIPsOnPage_bad:
  assumes "extractFloatingIPAttachedPortIDs page = Inl err"
  shows "floatingIPsOnPage neutron project page = None"
proof -
  have "\<not> (\<exists>raw. collectionOf ''floatingips'' page = Some raw \<and> (\<forall>r \<in> set raw. rawPortID r \<noteq> None))"
    using assms extractPorts_iff [of page] unfolding ports_exist by auto
  then show ?thesis
    by (cases "collectionOf ''floatingips'' page"; cases "ExtractFloatingIPs neutron (UnwrapCollectionPage page)")
       (simp_all add: floatingIPsOnPage_def, fastforce?)
qed

interpretation floatingIPPages: page_handler "floatingIPHandler neutron project" "floatingIPsOnPage neutron project"
  for neutron project
proof
  fix p xs acc
  assume some: "floatingIPsOnPage neutron project p = Some xs"
  then obtain ports where ports: "extractFloatingIPAttachedPortIDs p = Inr ports"
    using floatingIPsOnPage_bad [of p _ neutron project] by (cases "extractFloatingIPAttachedPortIDs p") auto
  from some obtain decoded where "ExtractFloatingIPs neutron (UnwrapCollectionPage p) = Inr decoded"
    by (auto simp: floatingIPsOnPage_def split: option.splits sum.splits)
  with some ports floatingIPsOnPage_ports [OF ports, of neutron decoded project]
    appendFloatingIPs_owned [of project "zip decoded ports" acc]
  show "floatingIPHandler neutron project p acc = (Inr True, acc @ xs)"
    by (auto simp: floatingIPHandler_def split: if_splits)
next
  fix p acc
  assume none: "floatingIPsOnPage neutron project p = None"
  show "\<exists>err acc'. floatingIPHandler neutron project p acc = (Inl err, acc')"
  proof (cases "extractFloatingIPAttachedPortIDs p")
    case (Inr ports)
    show ?thesis
    proof (cases "ExtractFloatingIPs neutron (UnwrapCollectionPage p)")
      case Ok: (Inr decoded)
      with none Inr floatingIPsOnPage_ports [OF Inr Ok, of project]
        appendFloatingIPs_owned [of project "zip decoded ports" acc]
      show ?thesis by (auto simp: floatingIPHandler_def split: if_splits)
    qed (simp add: floatingIPHandler_def Inr)
  qed (simp add: floatingIPHandler_def)
qed

interpretation securityGroupPages: page_handler "securityGroupHandler neutron project" "securityGroupsOnPage neutron project"
  for neutron project
proof
  fix p xs acc
  assume some: "securityGroupsOnPage neutron project p = Some xs"
  then obtain decoded where "ExtractGroups neutron (UnwrapCollectionPage p) = Inr decoded"
    by (auto simp: securityGroupsOnPage_def split: sum.splits)
  with some appendSecurityGroups_owned [of project decoded acc]
  show "securityGroupHandler neutron project p acc = (Inr True, acc @ xs)"
    by (simp add: securityGroupHandler_def securityGroupsOnPage_def)
next
  fix p acc
  assume none: "securityGroupsOnPage neutron project p = None"
  show "\<exists>err acc'. securityGroupHandler neutron project p acc = (Inl err, acc')"
  proof (cases "ExtractGroups neutron (UnwrapCollectionPage p)")
    case (Inr decoded)
    with none appendSecurityGroups_owned [of project decoded acc] show ?thesis
      by (simp add: securityGroupHandler_def securityGroupsOnPage_def)
  qed (simp add: securityGroupHandler_def)
qed

interpretation floatingIPDelete: delete_operation "DeleteNetworkFloatingIP neutron s"
    "floatingips_Delete neutron (service_client s)" ClassifyDelete for neutron s
  by unfold_locales (auto simp: DeleteNetworkFloatingIP_def)

interpretation securityGroupDelete: delete_operation "DeleteNetworkSecurityGroup neutron s"
    "groups_Delete neutron (service_client s)" ClassifyDelete for neutron s
  by unfold_locales (auto simp: DeleteNetworkSecurityGroup_def)

subsection \<open>Properties\<close>

text \<open>
  C29. Listing floating IPs returns the whole inventory of the project or an error. If the
  pager does what Gophercloud documents, the listing succeeds exactly if the responses
  form a complete collection (every page valid, each linked to the next, the last without
  a link) whose pages are all acceptable, and then the result is the floating IPs of the
  project on those pages, each with the port of its own raw entry, in order. No response
  that is missing, malformed or ambiguous about its project is skipped over.
\<close>

theorem listed_floating_ips_are_complete:
  assumes "documentedPager (floatingips_EachPage neutron (service_client s) (service_projectID s)) responses failure"
  shows "fst (ListNetworkFloatingIPs neutron s w) = Inr xs \<longleftrightarrow>
     completeListing ''floatingips'' (floatingIPsOnPage neutron (service_projectID s)) (responses w) xs"
  unfolding ListNetworkFloatingIPs_def by (rule floatingIPPages.listed_iff [OF assms])

text \<open>
  Listing security groups returns the whole inventory of the project or an error, in
  the same sense; a group that names two different projects, or none, is an error.
\<close>

theorem listed_security_groups_are_complete:
  assumes "documentedPager (groups_EachPage neutron (service_client s) (service_projectID s)) responses failure"
  shows "fst (ListNetworkSecurityGroups neutron s w) = Inr xs \<longleftrightarrow>
     completeListing ''security_groups'' (securityGroupsOnPage neutron (service_projectID s)) (responses w) xs"
  unfolding ListNetworkSecurityGroups_def by (rule securityGroupPages.listed_iff [OF assms])

text \<open>
  A resource is taken for the project's only if it says so without contradiction: the
  test answers exactly when at least one of \<open>project_id\<close> and \<open>tenant_id\<close> is set and they do
  not differ, and then compares that project with the selected one.
\<close>

theorem project_ownership_is_unambiguous:
  "((\<exists>b. resourceBelongsToProject projectID tenantID selected = Inr b) \<longleftrightarrow>
      (\<exists>project. {projectID, tenantID} - {''''} = {project}))
   \<and> (resourceBelongsToProject projectID tenantID selected = Inr True \<longleftrightarrow>
      {projectID, tenantID} - {''''} = {selected})"
  by (cases "projectID = ''''"; cases "tenantID = ''''"; cases "projectID = tenantID")
     (auto simp: resourceBelongsToProject_def)

subsection \<open>A concrete project\<close>

definition sampleNeutron :: "('w, unit, unit) neutron" where
  "sampleNeutron =
     \<lparr>NewNetworkV2 = (\<lambda>p e. ret ()),
      floatingips_EachPage = (\<lambda>c project. samplePager
        [sampleResponse ''floatingips'' [Object [(''id'', String ''f1''), (''port_id'', String ''port1'')],
                                        Object [(''id'', String ''f2''), (''port_id'', Nil)]]]),
      ExtractFloatingIPs = (\<lambda>p. Inr
        [\<lparr>gfip_ID = ''f1'', gfip_Description = ''mine'', gfip_ProjectID = ''p1'', gfip_TenantID = ''''\<rparr>,
         \<lparr>gfip_ID = ''f2'', gfip_Description = ''theirs'', gfip_ProjectID = ''p2'', gfip_TenantID = ''p2''\<rparr>]),
      floatingips_Delete = (\<lambda>c i. yields None),
      groups_EachPage = (\<lambda>c project. samplePager [sampleResponse ''security_groups'' []]),
      ExtractGroups = (\<lambda>p. Inr
        [\<lparr>gsg_ID = ''g1'', gsg_Description = ''d'', gsg_ProjectID = '''', gsg_TenantID = ''p1''\<rparr>]),
      groups_Delete = (\<lambda>c i. yields None)\<rparr>"

definition sampleService :: "unit Service" where
  "sampleService = \<lparr>service_client = (), service_projectID = ''p1''\<rparr>"

lemma sample_floating_ips:
  "fst (ListNetworkFloatingIPs sampleNeutron sampleService ()) =
     Inr [\<lparr>fip_ID = ''f1'', fip_Description = ''mine'', fip_AttachedPortID = ''port1''\<rparr>]"
  by (simp add: ListNetworkFloatingIPs_def sampleNeutron_def sampleService_def listing_eval
      floatingIPHandler_def extractFloatingIPAttachedPortIDs_def index_any_def resourceBelongsToProject_def)

theorem listed_floating_ips_are_complete_witness:
  "completeListing ''floatingips'' (floatingIPsOnPage (sampleNeutron :: (unit, unit, unit) neutron) ''p1'')
     [sampleResponse ''floatingips'' [Object [(''id'', String ''f1''), (''port_id'', String ''port1'')],
                                     Object [(''id'', String ''f2''), (''port_id'', Nil)]]]
     [\<lparr>fip_ID = ''f1'', fip_Description = ''mine'', fip_AttachedPortID = ''port1''\<rparr>]"
proof -
  have "documentedPager (floatingips_EachPage (sampleNeutron :: (unit, unit, unit) neutron) (service_client sampleService) (service_projectID sampleService))
      (\<lambda>w. [sampleResponse ''floatingips'' [Object [(''id'', String ''f1''), (''port_id'', String ''port1'')],
                                     Object [(''id'', String ''f2''), (''port_id'', Nil)]]]) (\<lambda>w. Errorf [])"
    by (simp add: sampleNeutron_def samplePager_documented)
  from iffD1 [OF listed_floating_ips_are_complete [OF this] sample_floating_ips]
  show ?thesis by (simp add: sampleService_def)
qed

theorem listed_security_groups_are_complete_witness:
  "completeListing ''security_groups'' (securityGroupsOnPage (sampleNeutron :: (unit, unit, unit) neutron) ''p1'')
     [sampleResponse ''security_groups'' []] [\<lparr>sg_ID = ''g1'', sg_Description = ''d''\<rparr>]"
proof -
  have pager: "documentedPager (groups_EachPage (sampleNeutron :: (unit, unit, unit) neutron) (service_client sampleService) (service_projectID sampleService))
      (\<lambda>w. [sampleResponse ''security_groups'' []]) (\<lambda>w. Errorf [])"
    by (simp add: sampleNeutron_def samplePager_documented)
  have "fst (ListNetworkSecurityGroups sampleNeutron sampleService ()) =
      Inr [\<lparr>sg_ID = ''g1'', sg_Description = ''d''\<rparr>]"
    by (simp add: ListNetworkSecurityGroups_def sampleNeutron_def sampleService_def listing_eval
        securityGroupHandler_def resourceBelongsToProject_def)
  from iffD1 [OF listed_security_groups_are_complete [OF pager] this]
  show ?thesis by (simp add: sampleService_def)
qed

end
