(* ===== verification/Load_Balancer_Service.thy ===== *)
theory Load_Balancer_Service
  imports Service_Contracts
begin

section \<open>The load balancer service\<close>

text \<open>
  \<open>internal/openstack/loadbalancer/service.go\<close>: the load balancers of Octavia, with the tags
  and the VIP port that protect a shared one. The Gophercloud package \<open>loadbalancers\<close> is the
  record \<open>octavia\<close>; its \<open>Delete\<close> takes the option \<open>Cascade\<close>.
\<close>

record loadbalancers_LoadBalancer =
  glb_ID :: string
  glb_Name :: string
  glb_ProjectID :: string

record ('w, 'p, 'c) octavia =
  NewLoadBalancerV2 :: "'p \<Rightarrow> EndpointOpts \<Rightarrow> ('w, error, 'c) act"
  loadbalancers_EachPage :: "'c \<Rightarrow> string \<Rightarrow> ('w, LoadBalancer list) pager"
  ExtractLoadBalancers :: "page \<Rightarrow> error + loadbalancers_LoadBalancer list"
  loadbalancers_Delete :: "'c \<Rightarrow> string \<Rightarrow> bool \<Rightarrow> ('w, error option) op"

definition NewLoadBalancerService ::
  "('w, 'p, 'c) octavia \<Rightarrow> 'p Client option \<Rightarrow> ('w, error, 'c Service) act"
where
  "NewLoadBalancerService octavia client =
     newProjectService
       [Txt ''creating load balancer service: OpenStack client is nil'']
       [Txt ''creating load balancer service: OpenStack client is not authenticated'']
       [Txt ''creating load balancer service: project ID is empty'']
       [Txt ''creating load balancer service client'']
       (NewLoadBalancerV2 octavia) client"

subsection \<open>Protection fields\<close>

record loadBalancerProtectionFields =
  pf_tags :: "string list"
  pf_vipPortID :: string

definition badProtection :: "msg \<Rightarrow> error" where
  "badProtection t = Errorf (Txt ''validating load balancer protection fields: '' # t)"

text \<open>The inner loop, over the raw tags of the load balancer \<open>index\<close>.\<close>

fun decodeTags :: "int \<Rightarrow> int \<Rightarrow> any list \<Rightarrow> error + string list" where
  "decodeTags index tagIndex [] = Inr []"
| "decodeTags index tagIndex (rawTag # rest) =
     (case rawTag of
        String tag \<Rightarrow>
          (case decodeTags index (tagIndex + 1) rest of
             Inl err \<Rightarrow> Inl err
           | Inr tags \<Rightarrow> Inr (tag # tags))
      | _ \<Rightarrow> Inl (badProtection [Txt ''loadbalancers['', Num index, Txt ''].tags['', Num tagIndex,
                   Txt ''] must be a string, got '', GoType (typeName rawTag)]))"

text \<open>One iteration of the outer loop.\<close>

definition protectionFieldsOf :: "int \<Rightarrow> any \<Rightarrow> error + loadBalancerProtectionFields" where
  "protectionFieldsOf index rawLoadBalancer =
     (case rawLoadBalancer of
        Object loadBalancerFields \<Rightarrow>
          (case map_of loadBalancerFields ''tags'' of
             None \<Rightarrow> Inl (badProtection [Txt ''loadbalancers['', Num index, Txt ''].tags is missing''])
           | Some tagsValue \<Rightarrow>
               (case tagsValue of
                  Array rawTags \<Rightarrow>
                    (case decodeTags index 0 rawTags of
                       Inl err \<Rightarrow> Inl err
                     | Inr tags \<Rightarrow>
                         (case map_of loadBalancerFields ''vip_port_id'' of
                            None \<Rightarrow> Inl (badProtection [Txt ''loadbalancers['', Num index,
                                       Txt ''].vip_port_id is missing''])
                          | Some (String vipPortID) \<Rightarrow> Inr \<lparr>pf_tags = tags, pf_vipPortID = vipPortID\<rparr>
                          | Some rawVIPPortID \<Rightarrow> Inl (badProtection [Txt ''loadbalancers['', Num index,
                              Txt ''].vip_port_id must be a string, got '', GoType (typeName rawVIPPortID)])))
                | _ \<Rightarrow> Inl (badProtection [Txt ''loadbalancers['', Num index,
                        Txt ''].tags must be an array, got '', GoType (typeName tagsValue)])))
      | _ \<Rightarrow> Inl (badProtection [Txt ''loadbalancers['', Num index, Txt ''] must be an object, got '',
                   GoType (typeName rawLoadBalancer)]))"

fun protectionFields :: "int \<Rightarrow> any list \<Rightarrow> error + loadBalancerProtectionFields list" where
  "protectionFields index [] = Inr []"
| "protectionFields index (rawLoadBalancer # rest) =
     (case protectionFieldsOf index rawLoadBalancer of
        Inl err \<Rightarrow> Inl err
      | Inr f \<Rightarrow>
          (case protectionFields (index + 1) rest of
             Inl err \<Rightarrow> Inl err
           | Inr fs \<Rightarrow> Inr (f # fs)))"

definition extractLoadBalancerProtectionFields :: "page \<Rightarrow> error + loadBalancerProtectionFields list" where
  "extractLoadBalancerProtectionFields page =
     (case GetBody page of
        Object responseBody \<Rightarrow>
          (case index_any responseBody ''loadbalancers'' of
             Array rawLoadBalancers \<Rightarrow> protectionFields 0 rawLoadBalancers
           | raw \<Rightarrow> Inl (badProtection [Txt ''loadbalancers must be an array, got '', GoType (typeName raw)]))
      | body \<Rightarrow> Inl (badProtection [Txt ''response body must be an object, got '', GoType (typeName body)]))"

subsection \<open>Listing and deleting\<close>

fun appendLoadBalancers ::
  "string \<Rightarrow> (loadbalancers_LoadBalancer \<times> loadBalancerProtectionFields) list \<Rightarrow> LoadBalancer list
   \<Rightarrow> (error + bool) \<times> LoadBalancer list"
where
  "appendLoadBalancers projectID [] listed = (Inr True, listed)"
| "appendLoadBalancers projectID ((loadBalancer, f) # rest) listed =
     (if glb_ProjectID loadBalancer = ''''
      then (Inl (Errorf [Txt ''validating loadbalancer '', Quo (glb_ID loadBalancer),
                         Txt '' project ownership: project_id is empty'']), listed)
      else if glb_ProjectID loadBalancer \<noteq> projectID
      then appendLoadBalancers projectID rest listed
      else
        appendLoadBalancers projectID rest
          (listed @ [\<lparr>lb_ID = glb_ID loadBalancer, lb_Name = glb_Name loadBalancer,
                      lb_Tags = pf_tags f, lb_VIPPortID = pf_vipPortID f\<rparr>]))"

definition loadBalancerHandler :: "('w, 'p, 'c) octavia \<Rightarrow> string \<Rightarrow> LoadBalancer list handler" where
  "loadBalancerHandler octavia projectID page listed =
     (case extractLoadBalancerProtectionFields page of
        Inl err \<Rightarrow> (Inl err, listed)
      | Inr fs \<Rightarrow>
          (case ExtractLoadBalancers octavia (UnwrapCollectionPage page) of
             Inl err \<Rightarrow> (Inl (Wrapf [Txt ''extracting load balancer page''] err), listed)
           | Inr decoded \<Rightarrow>
               if length decoded \<noteq> length fs
               then (Inl (Errorf [Txt ''validating load balancer page: extracted '', Num (int (length decoded)),
                                  Txt '' resources from '', Num (int (length fs)),
                                  Txt '' raw resources'']), listed)
               else appendLoadBalancers projectID (zip decoded fs) listed))"

definition ListServiceLoadBalancers ::
  "('w, 'p, 'c) octavia \<Rightarrow> 'c Service \<Rightarrow> ('w, error, LoadBalancer list) act"
where
  "ListServiceLoadBalancers octavia s =
     listPages (loadbalancers_EachPage octavia (service_client s) (service_projectID s))
       (createPage ''loadbalancers'') (loadBalancerHandler octavia (service_projectID s))
       [Txt ''listing load balancers'']"

definition DeleteServiceLoadBalancer ::
  "('w, 'p, 'c) octavia \<Rightarrow> 'c Service \<Rightarrow> string \<Rightarrow> ('w, error, unit) act"
where
  "DeleteServiceLoadBalancer octavia s i =
     (if i = '''' then fail (Errorf [Txt ''deleting load balancer: ID is empty''])
      else
        inspect (loadbalancers_Delete octavia (service_client s) i True)
          (\<lambda>r. case ClassifyDelete r of
                 Some err \<Rightarrow> fail (Wrapf [Txt ''deleting load balancer '', Quo i] err)
               | None \<Rightarrow> ret ()))"

definition loadBalancerService :: "('w, 'p, 'c) octavia \<Rightarrow> 'c Service \<Rightarrow> 'w LoadBalancerService" where
  "loadBalancerService octavia s =
     \<lparr>ListLoadBalancers = ListServiceLoadBalancers octavia s,
      DeleteLoadBalancer = DeleteServiceLoadBalancer octavia s\<rparr>"

subsection \<open>What the listing returns\<close>

fun rawString :: "any \<Rightarrow> string option" where
  "rawString (String s) = Some s"
| "rawString _ = None"

text \<open>
  The tags and the VIP port of a raw load balancer, if it is an object whose \<open>tags\<close> are an
  array of strings and whose \<open>vip_port_id\<close> is a string: neither may be missing or null.
\<close>

fun rawProtection :: "any \<Rightarrow> loadBalancerProtectionFields option" where
  "rawProtection (Object entry) =
     (case (map_of entry ''tags'', map_of entry ''vip_port_id'') of
        (Some (Array rawTags), Some (String vip)) \<Rightarrow>
          if \<forall>t \<in> set rawTags. rawString t \<noteq> None
          then Some \<lparr>pf_tags = map (the \<circ> rawString) rawTags, pf_vipPortID = vip\<rparr> else None
      | _ \<Rightarrow> None)"
| "rawProtection _ = None"

definition loadBalancersOnPage :: "('w, 'p, 'c) octavia \<Rightarrow> string \<Rightarrow> page \<Rightarrow> LoadBalancer list option" where
  "loadBalancersOnPage octavia project page =
     (case (collectionOf ''loadbalancers'' page, ExtractLoadBalancers octavia (UnwrapCollectionPage page)) of
        (Some raw, Inr decoded) \<Rightarrow>
          if length decoded = length raw \<and> (\<forall>r \<in> set raw. rawProtection r \<noteq> None)
          then keepOwned (\<lambda>(d, f). if glb_ProjectID d = '''' then None else Some (glb_ProjectID d)) project
                 (\<lambda>(d, f). \<lparr>lb_ID = glb_ID d, lb_Name = glb_Name d, lb_Tags = pf_tags f,
                           lb_VIPPortID = pf_vipPortID f\<rparr>)
                 (zip decoded (map (the \<circ> rawProtection) raw))
          else None
      | _ \<Rightarrow> None)"

lemma decodeTags_ok:
  "\<forall>t \<in> set raw. rawString t \<noteq> None \<Longrightarrow> decodeTags index tagIndex raw = Inr (map (the \<circ> rawString) raw)"
proof (induction raw arbitrary: tagIndex)
  case (Cons r rest)
  then show ?case by (cases r) simp_all
qed simp

lemma decodeTags_bad:
  "\<exists>t \<in> set raw. rawString t = None \<Longrightarrow> \<exists>err. decodeTags index tagIndex raw = Inl err"
proof (induction raw arbitrary: tagIndex)
  case (Cons r rest)
  then show ?case by (cases r) (auto split: sum.splits, metis Inl_Inr_False)
qed simp

lemma protectionFieldsOf_raw:
  "case rawProtection raw of
     Some f \<Rightarrow> protectionFieldsOf index raw = Inr f
   | None \<Rightarrow> \<exists>err. protectionFieldsOf index raw = Inl err"
proof (cases raw)
  case (Object entry)
  show ?thesis
  proof (cases "\<exists>rawTags. map_of entry ''tags'' = Some (Array rawTags)")
    case True
    then obtain rawTags where tags: "map_of entry ''tags'' = Some (Array rawTags)" ..
    show ?thesis
      using Object tags decodeTags_ok [of rawTags index 0] decodeTags_bad [of rawTags index 0]
      by (cases "\<forall>t \<in> set rawTags. rawString t \<noteq> None")
         (auto simp: protectionFieldsOf_def split: option.splits any.splits)
  next
    case False
    with Object show ?thesis
      by (auto simp: protectionFieldsOf_def split: option.splits any.splits)
  qed
qed (simp_all add: protectionFieldsOf_def)

lemma protectionFields_ok:
  "\<forall>r \<in> set raw. rawProtection r \<noteq> None \<Longrightarrow> protectionFields index raw = Inr (map (the \<circ> rawProtection) raw)"
proof (induction raw arbitrary: index)
  case (Cons r rest)
  with protectionFieldsOf_raw [where raw = r and index = index] show ?case by auto
qed simp

lemma protectionFields_bad:
  "\<exists>r \<in> set raw. rawProtection r = None \<Longrightarrow> \<exists>err. protectionFields index raw = Inl err"
proof (induction raw arbitrary: index)
  case (Cons r rest)
  show ?case
  proof (cases "rawProtection r")
    case None
    with protectionFieldsOf_raw [where raw = r and index = index] show ?thesis by auto
  next
    case (Some f)
    with Cons.prems Cons.IH [of "index + 1"] protectionFieldsOf_raw [where raw = r and index = index] show ?thesis by auto
  qed
qed simp

lemma extractFields:
  "case collectionOf ''loadbalancers'' page of
     None \<Rightarrow> \<exists>err. extractLoadBalancerProtectionFields page = Inl err
   | Some raw \<Rightarrow> extractLoadBalancerProtectionFields page = protectionFields 0 raw"
  by (auto simp: extractLoadBalancerProtectionFields_def collectionOf_def index_any_def
      split: any.splits option.splits)

lemma appendLoadBalancers_owned:
  "case keepOwned (\<lambda>(d, f). if glb_ProjectID d = '''' then None else Some (glb_ProjectID d)) project
      (\<lambda>(d, f). \<lparr>lb_ID = glb_ID d, lb_Name = glb_Name d, lb_Tags = pf_tags f, lb_VIPPortID = pf_vipPortID f\<rparr>)
      items of
     Some xs \<Rightarrow> appendLoadBalancers project items listed = (Inr True, listed @ xs)
   | None \<Rightarrow> \<exists>err listed'. appendLoadBalancers project items listed = (Inl err, listed')"
proof (induction items arbitrary: listed)
  case (Cons item items)
  obtain d f where item: "item = (d, f)" by (cases item)
  show ?case
    using Cons.IH [of listed] Cons.IH [of "listed @ [\<lparr>lb_ID = glb_ID d, lb_Name = glb_Name d,
      lb_Tags = pf_tags f, lb_VIPPortID = pf_vipPortID f\<rparr>]"] item
    by (auto split: option.splits)
qed simp

interpretation loadBalancerPages: page_handler "loadBalancerHandler octavia project" "loadBalancersOnPage octavia project"
  for octavia project
proof
  fix p xs acc
  assume some: "loadBalancersOnPage octavia project p = Some xs"
  then obtain raw decoded where raw: "collectionOf ''loadbalancers'' p = Some raw"
      "\<forall>r \<in> set raw. rawProtection r \<noteq> None" "length decoded = length raw"
    and decoded: "ExtractLoadBalancers octavia (UnwrapCollectionPage p) = Inr decoded"
    by (auto simp: loadBalancersOnPage_def split: option.splits sum.splits if_splits)
  with some extractFields [of p] protectionFields_ok [OF raw(2), of 0]
    appendLoadBalancers_owned [of project "zip decoded (map (the \<circ> rawProtection) raw)" acc]
  show "loadBalancerHandler octavia project p acc = (Inr True, acc @ xs)"
    by (simp add: loadBalancerHandler_def loadBalancersOnPage_def)
next
  fix p acc
  assume none: "loadBalancersOnPage octavia project p = None"
  show "\<exists>err acc'. loadBalancerHandler octavia project p acc = (Inl err, acc')"
  proof (cases "collectionOf ''loadbalancers'' p")
    case None
    with extractFields [of p] show ?thesis by (auto simp: loadBalancerHandler_def)
  next
    case (Some raw)
    show ?thesis
    proof (cases "\<forall>r \<in> set raw. rawProtection r \<noteq> None")
      case False
      with Some extractFields [of p] protectionFields_bad [of raw 0] show ?thesis
        by (auto simp: loadBalancerHandler_def)
    next
      case True
      show ?thesis
      proof (cases "ExtractLoadBalancers octavia (UnwrapCollectionPage p)")
        case (Inr decoded)
        with True Some none extractFields [of p] protectionFields_ok [OF True, of 0]
          appendLoadBalancers_owned [of project "zip decoded (map (the \<circ> rawProtection) raw)" acc]
        show ?thesis
          by (auto simp: loadBalancerHandler_def loadBalancersOnPage_def split: if_splits)
      qed (use Some extractFields [of p] protectionFields_ok [OF True, of 0] in \<open>simp add: loadBalancerHandler_def\<close>)
    qed
  qed
qed

interpretation loadBalancerDelete: delete_operation "DeleteServiceLoadBalancer octavia s"
    "\<lambda>i. loadbalancers_Delete octavia (service_client s) i True" ClassifyDelete for octavia s
  by unfold_locales (auto simp: DeleteServiceLoadBalancer_def)

subsection \<open>Properties\<close>

text \<open>
  C30. Listing load balancers returns the whole inventory of the project, with its
  protection fields, or an error: given a documented pager it succeeds exactly if the
  responses form a complete collection and on every page each raw entry has an array of
  string tags and a string VIP port, and each balancer names its project. The result then
  has the tags and the port of the entry at the same position, so a shared balancer is
  never listed without the tag that protects it.
\<close>

theorem listed_load_balancers_are_complete:
  assumes "documentedPager (loadbalancers_EachPage octavia (service_client s) (service_projectID s)) responses failure"
  shows "fst (ListServiceLoadBalancers octavia s w) = Inr xs \<longleftrightarrow>
     completeListing ''loadbalancers'' (loadBalancersOnPage octavia (service_projectID s)) (responses w) xs"
  unfolding ListServiceLoadBalancers_def by (rule loadBalancerPages.listed_iff [OF assms])

definition sampleOctavia :: "('w, unit, unit) octavia" where
  "sampleOctavia =
     \<lparr>NewLoadBalancerV2 = (\<lambda>p e. ret ()),
      loadbalancers_EachPage = (\<lambda>c project. samplePager
        [sampleResponse ''loadbalancers''
           [Object [(''tags'', Array [String ''t'']), (''vip_port_id'', String ''port1'')]]]),
      ExtractLoadBalancers = (\<lambda>p. Inr [\<lparr>glb_ID = ''lb1'', glb_Name = ''n'', glb_ProjectID = ''p1''\<rparr>]),
      loadbalancers_Delete = (\<lambda>c i cascade. yields None)\<rparr>"

theorem listed_load_balancers_are_complete_witness:
  "completeListing ''loadbalancers'' (loadBalancersOnPage (sampleOctavia :: (unit, unit, unit) octavia) ''p1'')
     [sampleResponse ''loadbalancers''
        [Object [(''tags'', Array [String ''t'']), (''vip_port_id'', String ''port1'')]]]
     [\<lparr>lb_ID = ''lb1'', lb_Name = ''n'', lb_Tags = [''t''], lb_VIPPortID = ''port1''\<rparr>]"
proof -
  let ?s = "\<lparr>service_client = (), service_projectID = ''p1''\<rparr> :: unit Service"
  have pager: "documentedPager (loadbalancers_EachPage (sampleOctavia :: (unit, unit, unit) octavia) (service_client ?s) (service_projectID ?s))
      (\<lambda>w. [sampleResponse ''loadbalancers''
        [Object [(''tags'', Array [String ''t'']), (''vip_port_id'', String ''port1'')]]]) (\<lambda>w. Errorf [])"
    by (simp add: sampleOctavia_def samplePager_documented)
  have "fst (ListServiceLoadBalancers sampleOctavia ?s ()) =
      Inr [\<lparr>lb_ID = ''lb1'', lb_Name = ''n'', lb_Tags = [''t''], lb_VIPPortID = ''port1''\<rparr>]"
    by (simp add: ListServiceLoadBalancers_def sampleOctavia_def listing_eval loadBalancerHandler_def
        extractLoadBalancerProtectionFields_def index_any_def protectionFieldsOf_def)
  from iffD1 [OF listed_load_balancers_are_complete [OF pager] this]
  show ?thesis by simp
qed

end
