(* ===== verification/Volume_Service.thy ===== *)
theory Volume_Service
  imports Service_Contracts
begin

section \<open>The volume service\<close>

text \<open>
  \<open>internal/openstack/volume/service.go\<close>: snapshots and volumes of Cinder. The Gophercloud
  packages \<open>snapshots\<close> and \<open>volumes\<close> are the record \<open>cinder\<close>. \<open>maps.Clone\<close> copies a map: it is
  the identity on values.
\<close>

record snapshots_Snapshot =
  gsnap_ID :: string
  gsnap_ProjectID :: string
  gsnap_Metadata :: "string \<rightharpoonup> string"

record volumes_Volume =
  gvol_ID :: string
  gvol_TenantID :: string
  gvol_Metadata :: "string \<rightharpoonup> string"

record ('w, 'p, 'c) cinder =
  NewBlockStorageV3 :: "'p \<Rightarrow> EndpointOpts \<Rightarrow> ('w, error, 'c) act"
  snapshots_EachPage :: "'c \<Rightarrow> ('w, Snapshot list) pager"
  ExtractSnapshots :: "page \<Rightarrow> error + snapshots_Snapshot list"
  snapshots_Delete :: "'c \<Rightarrow> string \<Rightarrow> ('w, error option) op"
  volumes_EachPage :: "'c \<Rightarrow> ('w, Volume list) pager"
  ExtractVolumes :: "page \<Rightarrow> error + volumes_Volume list"
  volumes_Delete :: "'c \<Rightarrow> string \<Rightarrow> ('w, error option) op"

definition NewVolumeService ::
  "('w, 'p, 'c) cinder \<Rightarrow> 'p Client option \<Rightarrow> ('w, error, 'c Service) act"
where
  "NewVolumeService cinder client =
     newProjectService
       [Txt ''creating block storage service: OpenStack client is nil'']
       [Txt ''creating block storage service: OpenStack client is not authenticated'']
       [Txt ''creating block storage service: authenticated project ID is empty'']
       [Txt ''creating block storage service client'']
       (NewBlockStorageV3 cinder) client"

text \<open>The loops over the decoded resources, with their \<open>continue\<close>.\<close>

fun appendSnapshots :: "string \<Rightarrow> snapshots_Snapshot list \<Rightarrow> Snapshot list \<Rightarrow> Snapshot list" where
  "appendSnapshots projectID [] listed = listed"
| "appendSnapshots projectID (item # items) listed =
     (if gsnap_ProjectID item \<noteq> '''' \<and> gsnap_ProjectID item \<noteq> projectID
      then appendSnapshots projectID items listed
      else appendSnapshots projectID items
             (listed @ [\<lparr>snap_ID = gsnap_ID item, snap_Metadata = gsnap_Metadata item\<rparr>]))"

fun appendVolumes :: "string \<Rightarrow> volumes_Volume list \<Rightarrow> Volume list \<Rightarrow> Volume list" where
  "appendVolumes projectID [] listed = listed"
| "appendVolumes projectID (item # items) listed =
     (if gvol_TenantID item \<noteq> '''' \<and> gvol_TenantID item \<noteq> projectID
      then appendVolumes projectID items listed
      else appendVolumes projectID items
             (listed @ [\<lparr>vol_ID = gvol_ID item, vol_Metadata = gvol_Metadata item\<rparr>]))"

definition snapshotHandler :: "('w, 'p, 'c) cinder \<Rightarrow> string \<Rightarrow> Snapshot list handler" where
  "snapshotHandler cinder projectID page listed =
     (case ExtractSnapshots cinder (UnwrapCollectionPage page) of
        Inl err \<Rightarrow> (Inl (Wrapf [Txt ''extracting snapshot page''] err), listed)
      | Inr items \<Rightarrow> (Inr True, appendSnapshots projectID items listed))"

definition volumeHandler :: "('w, 'p, 'c) cinder \<Rightarrow> string \<Rightarrow> Volume list handler" where
  "volumeHandler cinder projectID page listed =
     (case ExtractVolumes cinder (UnwrapCollectionPage page) of
        Inl err \<Rightarrow> (Inl (Wrapf [Txt ''extracting volume page''] err), listed)
      | Inr items \<Rightarrow> (Inr True, appendVolumes projectID items listed))"

definition ListServiceSnapshots ::
  "('w, 'p, 'c) cinder \<Rightarrow> 'c Service \<Rightarrow> ('w, error, Snapshot list) act"
where
  "ListServiceSnapshots cinder s =
     listPages (snapshots_EachPage cinder (service_client s))
       (createPage ''snapshots'') (snapshotHandler cinder (service_projectID s))
       [Txt ''listing snapshots'']"

definition DeleteServiceSnapshot ::
  "('w, 'p, 'c) cinder \<Rightarrow> 'c Service \<Rightarrow> string \<Rightarrow> ('w, error, unit) act"
where
  "DeleteServiceSnapshot cinder s i =
     (if i = '''' then fail (Errorf [Txt ''deleting snapshot: ID is empty''])
      else
        inspect (snapshots_Delete cinder (service_client s) i)
          (\<lambda>r. case ClassifyDelete r of
                 Some err \<Rightarrow> fail (Wrapf [Txt ''deleting snapshot '', Quo i] err)
               | None \<Rightarrow> ret ()))"

definition ListServiceVolumes ::
  "('w, 'p, 'c) cinder \<Rightarrow> 'c Service \<Rightarrow> ('w, error, Volume list) act"
where
  "ListServiceVolumes cinder s =
     listPages (volumes_EachPage cinder (service_client s))
       (createPage ''volumes'') (volumeHandler cinder (service_projectID s))
       [Txt ''listing volumes'']"

definition DeleteServiceVolume ::
  "('w, 'p, 'c) cinder \<Rightarrow> 'c Service \<Rightarrow> string \<Rightarrow> ('w, error, unit) act"
where
  "DeleteServiceVolume cinder s i =
     (if i = '''' then fail (Errorf [Txt ''deleting volume: ID is empty''])
      else
        inspect (volumes_Delete cinder (service_client s) i)
          (\<lambda>r. case ClassifyDelete r of
                 Some err \<Rightarrow> fail (Wrapf [Txt ''deleting volume '', Quo i] err)
               | None \<Rightarrow> ret ()))"

definition snapshotService :: "('w, 'p, 'c) cinder \<Rightarrow> 'c Service \<Rightarrow> 'w SnapshotService" where
  "snapshotService cinder s =
     \<lparr>ListSnapshots = ListServiceSnapshots cinder s, DeleteSnapshot = DeleteServiceSnapshot cinder s\<rparr>"

definition volumeService :: "('w, 'p, 'c) cinder \<Rightarrow> 'c Service \<Rightarrow> 'w VolumeService" where
  "volumeService cinder s =
     \<lparr>ListVolumes = ListServiceVolumes cinder s, DeleteVolume = DeleteServiceVolume cinder s\<rparr>"

subsection \<open>What the listings return\<close>

text \<open>
  Cinder scopes its lists itself and may leave out the project attribute: only an entry
  that names another project is not the project's.
\<close>

definition snapshotsOnPage :: "('w, 'p, 'c) cinder \<Rightarrow> string \<Rightarrow> page \<Rightarrow> Snapshot list option" where
  "snapshotsOnPage cinder project page =
     (case ExtractSnapshots cinder (UnwrapCollectionPage page) of
        Inr items \<Rightarrow>
          Some (map (\<lambda>i. \<lparr>snap_ID = gsnap_ID i, snap_Metadata = gsnap_Metadata i\<rparr>)
                  (filter (\<lambda>i. gsnap_ProjectID i \<in> {'''', project}) items))
      | _ \<Rightarrow> None)"

definition volumesOnPage :: "('w, 'p, 'c) cinder \<Rightarrow> string \<Rightarrow> page \<Rightarrow> Volume list option" where
  "volumesOnPage cinder project page =
     (case ExtractVolumes cinder (UnwrapCollectionPage page) of
        Inr items \<Rightarrow>
          Some (map (\<lambda>i. \<lparr>vol_ID = gvol_ID i, vol_Metadata = gvol_Metadata i\<rparr>)
                  (filter (\<lambda>i. gvol_TenantID i \<in> {'''', project}) items))
      | _ \<Rightarrow> None)"

lemma appendSnapshots_filter:
  "appendSnapshots project items listed =
     listed @ map (\<lambda>i. \<lparr>snap_ID = gsnap_ID i, snap_Metadata = gsnap_Metadata i\<rparr>)
                (filter (\<lambda>i. gsnap_ProjectID i \<in> {'''', project}) items)"
  by (induction items arbitrary: listed) auto

lemma appendVolumes_filter:
  "appendVolumes project items listed =
     listed @ map (\<lambda>i. \<lparr>vol_ID = gvol_ID i, vol_Metadata = gvol_Metadata i\<rparr>)
                (filter (\<lambda>i. gvol_TenantID i \<in> {'''', project}) items)"
  by (induction items arbitrary: listed) auto

interpretation snapshotPages: page_handler "snapshotHandler cinder project" "snapshotsOnPage cinder project"
  for cinder project
  by unfold_locales
     (auto simp: snapshotHandler_def snapshotsOnPage_def appendSnapshots_filter split: sum.splits)

interpretation volumePages: page_handler "volumeHandler cinder project" "volumesOnPage cinder project"
  for cinder project
  by unfold_locales
     (auto simp: volumeHandler_def volumesOnPage_def appendVolumes_filter split: sum.splits)

interpretation snapshotDelete: delete_operation "DeleteServiceSnapshot cinder s"
    "snapshots_Delete cinder (service_client s)" ClassifyDelete for cinder s
  by unfold_locales (auto simp: DeleteServiceSnapshot_def)

interpretation volumeDelete: delete_operation "DeleteServiceVolume cinder s"
    "volumes_Delete cinder (service_client s)" ClassifyDelete for cinder s
  by unfold_locales (auto simp: DeleteServiceVolume_def)

subsection \<open>Properties\<close>

text \<open>
  C36. Listing snapshots and volumes returns the whole inventory or an error: given a
  documented pager each succeeds exactly if the responses form a complete collection whose
  pages decode, and the result is every decoded entry that does not name another project,
  with its metadata, in order.
\<close>

theorem listed_volumes_are_complete:
  assumes "documentedPager (snapshots_EachPage cinder (service_client s)) snapshotResponses snapshotFailure"
    and "documentedPager (volumes_EachPage cinder (service_client s)) volumeResponses volumeFailure"
  shows "(fst (ListServiceSnapshots cinder s w) = Inr snaps \<longleftrightarrow>
       completeListing ''snapshots'' (snapshotsOnPage cinder (service_projectID s)) (snapshotResponses w) snaps)
    \<and> (fst (ListServiceVolumes cinder s w) = Inr vols \<longleftrightarrow>
       completeListing ''volumes'' (volumesOnPage cinder (service_projectID s)) (volumeResponses w) vols)"
  unfolding ListServiceSnapshots_def ListServiceVolumes_def
  by (intro conjI snapshotPages.listed_iff [OF assms(1)] volumePages.listed_iff [OF assms(2)])

definition sampleCinder :: "('w, unit, unit) cinder" where
  "sampleCinder =
     \<lparr>NewBlockStorageV3 = (\<lambda>p e. ret ()),
      snapshots_EachPage = (\<lambda>c. samplePager [sampleResponse ''snapshots'' []]),
      ExtractSnapshots = (\<lambda>p. Inr
        [\<lparr>gsnap_ID = ''s1'', gsnap_ProjectID = '''', gsnap_Metadata = Map.empty\<rparr>]),
      snapshots_Delete = (\<lambda>c i. yields None),
      volumes_EachPage = (\<lambda>c. samplePager [sampleResponse ''volumes'' []]),
      ExtractVolumes = (\<lambda>p. Inr
        [\<lparr>gvol_ID = ''v1'', gvol_TenantID = ''p2'', gvol_Metadata = Map.empty\<rparr>]),
      volumes_Delete = (\<lambda>c i. yields None)\<rparr>"

theorem listed_volumes_are_complete_witness:
  "completeListing ''snapshots'' (snapshotsOnPage (sampleCinder :: (unit, unit, unit) cinder) ''p1'') [sampleResponse ''snapshots'' []]
     [\<lparr>snap_ID = ''s1'', snap_Metadata = Map.empty\<rparr>]
   \<and> completeListing ''volumes'' (volumesOnPage (sampleCinder :: (unit, unit, unit) cinder) ''p1'') [sampleResponse ''volumes'' []] []"
proof -
  let ?s = "\<lparr>service_client = (), service_projectID = ''p1''\<rparr> :: unit Service"
  have pagers:
    "documentedPager (snapshots_EachPage (sampleCinder :: (unit, unit, unit) cinder) (service_client ?s))
       (\<lambda>w. [sampleResponse ''snapshots'' []]) (\<lambda>w. Errorf [])"
    "documentedPager (volumes_EachPage (sampleCinder :: (unit, unit, unit) cinder) (service_client ?s))
       (\<lambda>w. [sampleResponse ''volumes'' []]) (\<lambda>w. Errorf [])"
    by (simp_all add: sampleCinder_def samplePager_documented)
  have lists: "fst (ListServiceSnapshots sampleCinder ?s ()) = Inr [\<lparr>snap_ID = ''s1'', snap_Metadata = Map.empty\<rparr>]"
    "fst (ListServiceVolumes sampleCinder ?s ()) = Inr []"
    by (simp_all add: ListServiceSnapshots_def ListServiceVolumes_def sampleCinder_def listing_eval
        snapshotHandler_def volumeHandler_def)
  have "completeListing ''snapshots'' (snapshotsOnPage (sampleCinder :: (unit, unit, unit) cinder) (service_projectID ?s))
      [sampleResponse ''snapshots'' []] [\<lparr>snap_ID = ''s1'', snap_Metadata = Map.empty\<rparr>]
    \<and> completeListing ''volumes'' (volumesOnPage (sampleCinder :: (unit, unit, unit) cinder) (service_projectID ?s))
      [sampleResponse ''volumes'' []] []"
    using listed_volumes_are_complete [OF pagers, of "()" "[\<lparr>snap_ID = ''s1'', snap_Metadata = Map.empty\<rparr>]" "[]"]
      lists by blast
  then show ?thesis by simp
qed

end
