(* ===== verification/Identity_Service.thy ===== *)
theory Identity_Service
  imports Service_Contracts
begin

section \<open>The identity service\<close>

text \<open>
  \<open>internal/openstack/identity/service.go\<close>: deleting one application credential in
  Keystone. The calls of the service client are the record \<open>keystone\<close>; a URL is the list of
  the segments handed to \<open>ServiceURL\<close>.
\<close>

record ('w, 'p, 'c) keystone =
  NewIdentityV3 :: "'p \<Rightarrow> EndpointOpts \<Rightarrow> ('w, error, 'c) act"
  keystone_Delete :: "'c \<Rightarrow> string list \<Rightarrow> int list \<Rightarrow> ('w, error option) op"

record 'c IdentityService =
  identity_client :: 'c
  identity_userID :: string

definition NewIdentityService ::
  "('w, 'p, 'c) keystone \<Rightarrow> 'p Client option \<Rightarrow> ('w, error, 'c IdentityService) act"
where
  "NewIdentityService keystone cloudClient =
     (case cloudClient of
        None \<Rightarrow> fail (Errorf [Txt ''creating identity service: OpenStack client is nil''])
      | Some c \<Rightarrow>
          if \<not> IsAuthenticated cloudClient
          then fail (Errorf [Txt ''creating identity service: OpenStack client is not authenticated''])
          else if UserID cloudClient = ''''
          then fail (Errorf [Txt ''creating identity service: authenticated user ID is empty''])
          else
            andThen (wrapErr (Wrapf [Txt ''creating identity service client''])
                       (NewIdentityV3 keystone (cl_provider c) (clientEndpointOpts cloudClient)))
              (\<lambda>serviceClient.
                 ret \<lparr>identity_client = serviceClient, identity_userID = UserID cloudClient\<rparr>))"

definition credentialURL :: "'c IdentityService \<Rightarrow> string \<Rightarrow> string list" where
  "credentialURL s credentialID = [''users'', identity_userID s, ''application_credentials'', credentialID]"

definition DeleteIdentityApplicationCredential ::
  "('w, 'p, 'c) keystone \<Rightarrow> 'c IdentityService \<Rightarrow> string \<Rightarrow> ('w, error, unit) act"
where
  "DeleteIdentityApplicationCredential keystone s credentialID =
     (if credentialID = '''' then fail (Errorf [Txt ''deleting application credential: ID is empty''])
      else
        inspect (keystone_Delete keystone (identity_client s) (credentialURL s credentialID) [204])
          (\<lambda>deleteErr.
             case ClassifyApplicationCredentialDelete deleteErr of
               Some err \<Rightarrow> fail (Wrapf [Txt ''deleting application credential '', Quo credentialID] err)
             | None \<Rightarrow> ret ()))"

interpretation credentialDelete: delete_operation "DeleteIdentityApplicationCredential keystone s"
    "\<lambda>i. keystone_Delete keystone (identity_client s) (credentialURL s i) [204]"
    ClassifyApplicationCredentialDelete for keystone s
  by unfold_locales (auto simp: DeleteIdentityApplicationCredential_def)

end
