(* ===== verification/Purge.thy ===== *)
theory Purge
  imports Network_Service Load_Balancer_Service Volume_Service Identity_Service
begin

section \<open>Cleanup sessions\<close>

text \<open>
  \<open>internal/openstack/purge.go\<close>: a session holds one authenticated client for the resource
  cleanup and for the deletion of the application credential.
\<close>

record PurgeOptions =
  po_CloudsYAML :: string
  po_CloudName :: string
  po_CACert :: string
  po_ClusterName :: string
  po_DeleteVolumes :: bool

record CredentialBinding =
  cb_Authority :: string
  cb_ProjectID :: string
  cb_UserID :: string
  cb_Region :: string
  cb_Interface :: string
  cb_CloudName :: string
  cb_CredentialID :: string

record 'p cleanupSession =
  session_client :: "'p Client"
  session_request :: Request

text \<open>The third-party packages that a session uses, and how \<open>fmt\<close> prints its verbs.\<close>

record ('w, 'p, 'pool, 'c, 'entry) openstack =
  os_configs :: configs
  os_certs :: "'pool x509"
  os_gophercloud :: "('w, 'p, 'pool, 'c, 'entry) gophercloud"
  os_neutron :: "('w, 'p, 'c) neutron"
  os_octavia :: "('w, 'p, 'c) octavia"
  os_cinder :: "('w, 'p, 'c) cinder"
  os_keystone :: "('w, 'p, 'c) keystone"
  os_fmt :: "frag \<Rightarrow> string"

subsection \<open>Bindings\<close>

fun checkFields :: "(string \<times> string) list \<Rightarrow> error + unit" where
  "checkFields [] = Inr ()"
| "checkFields ((fieldName, fieldValue) # rest) =
     (if fieldValue = '''' \<or> TrimSpace fieldValue \<noteq> fieldValue
      then Inl (Errorf [Txt ''credential binding '', Str fieldName,
                        Txt '' is empty or has surrounding whitespace''])
      else checkFields rest)"

definition ValidateCredentialBinding :: "urls \<Rightarrow> CredentialBinding \<Rightarrow> error + unit" where
  "ValidateCredentialBinding net binding =
     (case NormalizeAuthority net (cb_Authority binding) of
        Inl err \<Rightarrow> Inl (Wrapf [Txt ''invalid credential binding authority''] err)
      | Inr authority \<Rightarrow>
          if authority \<noteq> cb_Authority binding
          then Inl (Errorf [Txt ''credential binding authority is not canonical''])
          else if cb_Interface binding \<noteq> ''public'' \<and> cb_Interface binding \<noteq> ''internal''
                  \<and> cb_Interface binding \<noteq> ''admin''
          then Inl (Errorf [Txt ''credential binding interface is unsupported''])
          else
            (case checkFields [(''project ID'', cb_ProjectID binding), (''user ID'', cb_UserID binding),
                               (''cloud name'', cb_CloudName binding),
                               (''credential ID'', cb_CredentialID binding)] of
               Inl err \<Rightarrow> Inl err
             | Inr _ \<Rightarrow>
                 if TrimSpace (cb_Region binding) \<noteq> cb_Region binding
                 then Inl (Errorf [Txt ''credential binding region has surrounding whitespace''])
                 else Inr ()))"

definition clientOptions :: "PurgeOptions \<Rightarrow> Options" where
  "clientOptions options =
     \<lparr>opt_CloudsYAML = po_CloudsYAML options, opt_CloudName = po_CloudName options,
      opt_CACert = po_CACert options\<rparr>"

definition DescribeCredential :: "configs \<Rightarrow> PurgeOptions \<Rightarrow> error + CredentialConfig" where
  "DescribeCredential lib options = ParseCredentialConfig lib (clientOptions options)"

subsection \<open>Sessions\<close>

definition NewCleanupSession ::
  "('w, 'p, 'pool, 'c, 'entry) openstack \<Rightarrow> PurgeOptions \<Rightarrow> ('w, error, 'p cleanupSession) act"
where
  "NewCleanupSession os options =
     (if TrimSpace (po_ClusterName options) = ''''
      then fail (Errorf [Txt ''creating cleanup session: cluster name is empty''])
      else
        andThen (wrapErr (Wrapf [Txt ''creating OpenStack client''])
                   (NewClient (os_configs os) (os_certs os) (os_gophercloud os) (os_fmt os)
                      (clientOptions options)))
          (\<lambda>cloudClient.
             ret \<lparr>session_client = cloudClient,
                  session_request =
                    \<lparr>req_Scope = \<lparr>ClusterName = po_ClusterName options\<rparr>,
                     req_Policy = \<lparr>DeleteVolumes = po_DeleteVolumes options\<rparr>\<rparr>\<rparr>))"

definition Binding :: "'p cleanupSession \<Rightarrow> CredentialBinding" where
  "Binding s =
     (let config = cl_credentialConfig (session_client s) in
      \<lparr>cb_Authority = cfg_Authority config, cb_ProjectID = ProjectID (Some (session_client s)),
       cb_UserID = UserID (Some (session_client s)), cb_Region = cfg_Region config,
       cb_Interface = cfg_Interface config, cb_CloudName = cfg_CloudName config,
       cb_CredentialID = cfg_CredentialID config\<rparr>)"

definition SessionDeleteApplicationCredential ::
  "('w, 'p, 'pool, 'c, 'entry) openstack \<Rightarrow> 'p cleanupSession \<Rightarrow> string \<Rightarrow> ('w, error, unit) act"
where
  "SessionDeleteApplicationCredential os s credentialID =
     (if credentialID = '''' \<or> credentialID \<noteq> ApplicationCredentialID (Some (session_client s))
      then fail (Errorf [Txt ''deleting application credential: ID does not match the authenticated credential''])
      else
        inspect (NewIdentityService (os_keystone os) (Some (session_client s)))
          (\<lambda>created.
             case created of
               Inl err \<Rightarrow> RedactError (os_gophercloud os) (os_fmt os) (session_client s) (Inl err)
             | Inr service \<Rightarrow>
                 inspect (DeleteIdentityApplicationCredential (os_keystone os) service credentialID)
                   (\<lambda>deleted. RedactError (os_gophercloud os) (os_fmt os) (session_client s) deleted)))"

definition resourceServices ::
  "('w, 'p, 'pool, 'c, 'entry) openstack \<Rightarrow> 'c Service \<Rightarrow> 'c Service \<Rightarrow> 'c Service option \<Rightarrow> 'w Services"
where
  "resourceServices os networkService lbService volumes =
     \<lparr>svc_FloatingIPs = Some (networkFloatingIPService (os_neutron os) networkService),
      svc_LoadBalancers = Some (loadBalancerService (os_octavia os) lbService),
      svc_SecurityGroups = Some (networkSecurityGroupService (os_neutron os) networkService),
      svc_Snapshots = map_option (snapshotService (os_cinder os)) volumes,
      svc_Volumes = map_option (volumeService (os_cinder os)) volumes\<rparr>"

definition cleanupResources ::
  "('w, 'p, 'pool, 'c, 'entry) openstack \<Rightarrow> 'p cleanupSession \<Rightarrow> ('w, error, unit) act"
where
  "cleanupResources os s =
     andThen (NewNetworkService (os_neutron os) (Some (session_client s))) (\<lambda>networkService.
     andThen (NewLoadBalancerService (os_octavia os) (Some (session_client s))) (\<lambda>lbService.
     andThen (if DeleteVolumes (req_Policy (session_request s))
              then andThen (NewVolumeService (os_cinder os) (Some (session_client s))) (\<lambda>v. ret (Some v))
              else ret None) (\<lambda>volumes.
     andThen (Run (resourceServices os networkService lbService volumes) (session_request s)) (\<lambda>cleanupResult.
     if res_Outcome cleanupResult = OutcomeWaiting then fail ErrDeletePending
     else if res_Outcome cleanupResult \<noteq> OutcomeComplete
     then fail (Errorf [Txt ''cleanup returned unexpected outcome '', Quo (res_Outcome cleanupResult)])
     else ret ()))))"

definition SessionCleanup ::
  "('w, 'p, 'pool, 'c, 'entry) openstack \<Rightarrow> 'p cleanupSession \<Rightarrow> ('w, error, unit) act"
where
  "SessionCleanup os s =
     inspect (cleanupResources os s)
       (\<lambda>r. RedactError (os_gophercloud os) (os_fmt os) (session_client s) r)"

definition PurgeResources ::
  "('w, 'p, 'pool, 'c, 'entry) openstack \<Rightarrow> PurgeOptions \<Rightarrow> ('w, error, unit) act"
where
  "PurgeResources os options = andThen (NewCleanupSession os options) (SessionCleanup os)"

subsection \<open>What a session establishes\<close>

lemma RedactError_Inr_iff: "RedactError gc fmt c r w = (Inr u, w') \<longleftrightarrow> r = Inr () \<and> w' = w"
  by (auto simp: RedactError_def ret_def failRedacted_def inspect_def fail_def split: sum.splits prod.splits)

text \<open>The services a cleanup opens, one after the other.\<close>

definition openServices ::
  "('w, 'p, 'pool, 'c, 'entry) openstack \<Rightarrow> 'p cleanupSession
   \<Rightarrow> ('w, error, 'c Service \<times> 'c Service \<times> 'c Service option) act"
where
  "openServices os s =
     andThen (NewNetworkService (os_neutron os) (Some (session_client s))) (\<lambda>net.
     andThen (NewLoadBalancerService (os_octavia os) (Some (session_client s))) (\<lambda>lb.
     andThen (if DeleteVolumes (req_Policy (session_request s))
              then andThen (NewVolumeService (os_cinder os) (Some (session_client s))) (\<lambda>v. ret (Some v))
              else ret None) (\<lambda>vol. ret (net, lb, vol))))"

lemma openServices_Inr:
  assumes "openServices os s w = (Inr (net, lb, vol), w')"
  shows "service_projectID net = cl_projectID (session_client s)"
    and "service_projectID lb = cl_projectID (session_client s)"
    and "vol = Some v \<Longrightarrow> service_projectID v = cl_projectID (session_client s)"
proof -
  from assms obtain w0 w1 where
    new: "NewNetworkService (os_neutron os) (Some (session_client s)) w = (Inr net, w0)"
      "NewLoadBalancerService (os_octavia os) (Some (session_client s)) w0 = (Inr lb, w1)"
      "(if DeleteVolumes (req_Policy (session_request s))
        then andThen (NewVolumeService (os_cinder os) (Some (session_client s))) (\<lambda>v. ret (Some v))
        else ret None) w1 = (Inr vol, w')"
    by (auto simp: openServices_def andThen_def ret_def split: prod.splits sum.splits)
  show "service_projectID v = cl_projectID (session_client s)" if "vol = Some v"
    using new(3) that newProjectService_Inr
    by (fastforce simp: NewVolumeService_def andThen_def ret_def ProjectID_def
        split: if_splits prod.splits sum.splits)
  show "service_projectID net = cl_projectID (session_client s)"
    "service_projectID lb = cl_projectID (session_client s)"
    using newProjectService_Inr new(1,2)
    by (fastforce simp: NewNetworkService_def NewLoadBalancerService_def ProjectID_def)+
qed

lemma cleanupResources_Inr:
  assumes "cleanupResources os s w = (Inr (), w')"
  shows "\<exists>net lb vol w1 res. openServices os s w = (Inr (net, lb, vol), w1)
    \<and> Run (resourceServices os net lb vol) (session_request s) w1 = (Inr res, w')
    \<and> res_Outcome res = OutcomeComplete"
  using assms
  by (auto simp: cleanupResources_def openServices_def andThen_def fail_def ret_def
      split: prod.splits sum.splits if_splits)

text \<open>
  The pagers of the five lists, as Gophercloud documents them, in the hypotheses of the
  theorem below: which responses they meet depends on the world only.
\<close>

record 'w pagerResponses =
  lb_responses :: "'w \<Rightarrow> PageResult list"
  fip_responses :: "'w \<Rightarrow> PageResult list"
  sg_responses :: "'w \<Rightarrow> PageResult list"
  snap_responses :: "'w \<Rightarrow> PageResult list"
  vol_responses :: "'w \<Rightarrow> PageResult list"

definition documentedOpenstack ::
  "('w, 'p, 'pool, 'c, 'entry) openstack \<Rightarrow> 'w pagerResponses \<Rightarrow> ('w \<Rightarrow> error) \<Rightarrow> bool"
where
  "documentedOpenstack os r failure \<longleftrightarrow>
     (\<forall>c project. documentedPager (loadbalancers_EachPage (os_octavia os) c project) (lb_responses r) failure)
     \<and> (\<forall>c project. documentedPager (floatingips_EachPage (os_neutron os) c project) (fip_responses r) failure)
     \<and> (\<forall>c project. documentedPager (groups_EachPage (os_neutron os) c project) (sg_responses r) failure)
     \<and> (\<forall>c. documentedPager (snapshots_EachPage (os_cinder os) c) (snap_responses r) failure)
     \<and> (\<forall>c. documentedPager (volumes_EachPage (os_cinder os) c) (vol_responses r) failure)"

text \<open>
  Between the worlds \<open>w\<close> and \<open>w'\<close> the session has opened its services and has then received,
  one directly after the other and with nothing in between, complete collections of every
  kind in scope, in which no resource of the project belongs to the cluster.
\<close>

definition nothingLeft ::
  "('w, 'p, 'pool, 'c, 'entry) openstack \<Rightarrow> 'w pagerResponses \<Rightarrow> 'p cleanupSession \<Rightarrow> 'w \<Rightarrow> 'w \<Rightarrow> bool"
where
  "nothingLeft os r s w w' \<longleftrightarrow>
     (let c = ClusterName (req_Scope (session_request s)); project = ProjectID (Some (session_client s)) in
      (\<exists>net lb vol lbs fips sgs w1 w2 w3 w4.
         openServices os s w = (Inr (net, lb, vol), w1)
       \<and> ListServiceLoadBalancers (os_octavia os) lb w1 = (Inr lbs, w2)
       \<and> ListNetworkFloatingIPs (os_neutron os) net w2 = (Inr fips, w3)
       \<and> ListNetworkSecurityGroups (os_neutron os) net w3 = (Inr sgs, w4)
       \<and> completeListing ''loadbalancers'' (loadBalancersOnPage (os_octavia os) project) (lb_responses r w1) lbs
       \<and> completeListing ''floatingips'' (floatingIPsOnPage (os_neutron os) project) (fip_responses r w2) fips
       \<and> completeListing ''security_groups'' (securityGroupsOnPage (os_neutron os) project) (sg_responses r w3) sgs
       \<and> (\<forall>lb \<in> set lbs. \<not> ownedLoadBalancer c lb)
       \<and> (\<forall>fip \<in> set fips. \<not> ownedFloatingIP c lbs fip)
       \<and> (\<forall>sg \<in> set sgs. \<not> securityGroupDescriptionMatchesCluster sg c)
       \<and> (if DeleteVolumes (req_Policy (session_request s)) then
            \<exists>v snaps vols w5. vol = Some v
             \<and> ListServiceSnapshots (os_cinder os) v w4 = (Inr snaps, w5)
             \<and> ListServiceVolumes (os_cinder os) v w5 = (Inr vols, w')
             \<and> completeListing ''snapshots'' (snapshotsOnPage (os_cinder os) project) (snap_responses r w4) snaps
             \<and> completeListing ''volumes'' (volumesOnPage (os_cinder os) project) (vol_responses r w5) vols
             \<and> (\<forall>snap \<in> set snaps. \<not> snapshotMetadataMatchesCluster snap c)
             \<and> (\<forall>vol \<in> set vols. \<not> volumeShouldBeDeletedForCluster vol c)
          else w' = w4)))"

lemma session_services [simp]:
  "svc_LoadBalancers (resourceServices os net lb vol) = Some (loadBalancerService (os_octavia os) lb)"
  "svc_FloatingIPs (resourceServices os net lb vol) = Some (networkFloatingIPService (os_neutron os) net)"
  "svc_SecurityGroups (resourceServices os net lb vol) = Some (networkSecurityGroupService (os_neutron os) net)"
  "svc_Snapshots (resourceServices os net lb vol) = map_option (snapshotService (os_cinder os)) vol"
  "svc_Volumes (resourceServices os net lb vol) = map_option (volumeService (os_cinder os)) vol"
  "ListLoadBalancers (loadBalancerService octavia lb) = ListServiceLoadBalancers octavia lb"
  "ListFloatingIPs (networkFloatingIPService neutron net) = ListNetworkFloatingIPs neutron net"
  "ListSecurityGroups (networkSecurityGroupService neutron net) = ListNetworkSecurityGroups neutron net"
  "ListSnapshots (snapshotService cinder v) = ListServiceSnapshots cinder v"
  "ListVolumes (volumeService cinder v) = ListServiceVolumes cinder v"
  by (simp_all add: resourceServices_def loadBalancerService_def networkFloatingIPService_def
      networkSecurityGroupService_def snapshotService_def volumeService_def)

lemma session_listings:
  assumes "documentedOpenstack os r failure"
  shows "ListServiceLoadBalancers (os_octavia os) v w = (Inr lbs, w') \<Longrightarrow>
      completeListing ''loadbalancers'' (loadBalancersOnPage (os_octavia os) (service_projectID v)) (lb_responses r w) lbs"
    and "ListNetworkFloatingIPs (os_neutron os) v w = (Inr fips, w') \<Longrightarrow>
      completeListing ''floatingips'' (floatingIPsOnPage (os_neutron os) (service_projectID v)) (fip_responses r w) fips"
    and "ListNetworkSecurityGroups (os_neutron os) v w = (Inr sgs, w') \<Longrightarrow>
      completeListing ''security_groups'' (securityGroupsOnPage (os_neutron os) (service_projectID v)) (sg_responses r w) sgs"
    and "ListServiceSnapshots (os_cinder os) v w = (Inr snaps, w') \<Longrightarrow>
      completeListing ''snapshots'' (snapshotsOnPage (os_cinder os) (service_projectID v)) (snap_responses r w) snaps"
    and "ListServiceVolumes (os_cinder os) v w = (Inr vols, w') \<Longrightarrow>
      completeListing ''volumes'' (volumesOnPage (os_cinder os) (service_projectID v)) (vol_responses r w) vols"
  using assms
  unfolding documentedOpenstack_def ListServiceLoadBalancers_def ListNetworkFloatingIPs_def
    ListNetworkSecurityGroups_def ListServiceSnapshots_def ListServiceVolumes_def
  apply -
      apply (elim conjE, erule loadBalancerPages.listed, blast)
    apply (elim conjE, erule floatingIPPages.listed, blast)
   apply (elim conjE, erule securityGroupPages.listed, blast)
  apply (elim conjE, erule snapshotPages.listed, blast)
  apply (elim conjE, erule volumePages.listed, blast)
  done

lemma volumes_nothing_left:
  assumes doc: "documentedOpenstack os r failure"
    and svcs: "\<And>v. volumes = Some v \<Longrightarrow> service_projectID v = project"
    and run: "runSnapshots (resourceServices os net lb volumes) request w = (Inr res, w')"
      "res_Outcome res = OutcomeComplete"
  shows "if DeleteVolumes (req_Policy request) then
     \<exists>v snaps vols w5. volumes = Some v
       \<and> ListServiceSnapshots (os_cinder os) v w = (Inr snaps, w5)
       \<and> ListServiceVolumes (os_cinder os) v w5 = (Inr vols, w')
       \<and> completeListing ''snapshots'' (snapshotsOnPage (os_cinder os) project) (snap_responses r w) snaps
       \<and> completeListing ''volumes'' (volumesOnPage (os_cinder os) project) (vol_responses r w5) vols
       \<and> (\<forall>snap \<in> set snaps. \<not> snapshotMetadataMatchesCluster snap (ClusterName (req_Scope request)))
       \<and> (\<forall>vol \<in> set vols. \<not> volumeShouldBeDeletedForCluster vol (ClusterName (req_Scope request)))
   else w' = w"
proof (cases "DeleteVolumes (req_Policy request)")
  case True
  then obtain v snaps vols w5 where v: "volumes = Some v"
    and snaps: "ListServiceSnapshots (os_cinder os) v w = (Inr snaps, w5)"
    and vols: "ListServiceVolumes (os_cinder os) v w5 = (Inr vols, w')"
    and none: "\<forall>snap \<in> set snaps. \<not> snapshotMetadataMatchesCluster snap (ClusterName (req_Scope request))"
      "\<forall>vol \<in> set vols. \<not> volumeShouldBeDeletedForCluster vol (ClusterName (req_Scope request))"
    using runSnapshots_complete [OF run] by auto
  have p: "service_projectID v = project" using svcs [OF v] .
  have "completeListing ''snapshots'' (snapshotsOnPage (os_cinder os) project) (snap_responses r w) snaps"
    using session_listings(4) [OF doc snaps] p by simp
  moreover have "completeListing ''volumes'' (volumesOnPage (os_cinder os) project) (vol_responses r w5) vols"
    using session_listings(5) [OF doc vols] p by simp
  ultimately show ?thesis using none v snaps vols True by auto
next
  case False
  then show ?thesis using runSnapshots_complete [OF run] by simp
qed

lemma session_success_nothing_left:
  assumes doc: "documentedOpenstack os r failure" and "SessionCleanup os s w = (Inr (), w')"
  shows "nothingLeft os r s w w'"
proof -
  let ?p = "cl_projectID (session_client s)"
  let ?c = "ClusterName (req_Scope (session_request s))"
  from assms(2) have "cleanupResources os s w = (Inr (), w')"
    by (auto simp: SessionCleanup_def inspect_def RedactError_Inr_iff split: prod.splits)
  from cleanupResources_Inr [OF this] obtain net lb vol w1 res where
    opened: "openServices os s w = (Inr (net, lb, vol), w1)"
    and run: "Run (resourceServices os net lb vol) (session_request s) w1 = (Inr res, w')"
      "res_Outcome res = OutcomeComplete" by blast
  note projects = openServices_Inr [OF opened]
  from Run_complete [OF run] obtain lbs fips w2 w3 where
    lists: "ListServiceLoadBalancers (os_octavia os) lb w1 = (Inr lbs, w2)"
      "ListNetworkFloatingIPs (os_neutron os) net w2 = (Inr fips, w3)"
    and none: "\<forall>lb \<in> set lbs. \<not> ownedLoadBalancer ?c lb" "\<forall>fip \<in> set fips. \<not> ownedFloatingIP ?c lbs fip"
    and sgRun: "runSecurityGroups (resourceServices os net lb vol) (session_request s) w3 = (Inr res, w')"
    by auto
  from runSecurityGroups_complete [OF sgRun run(2)] obtain sgs w4 where
    sgs: "ListNetworkSecurityGroups (os_neutron os) net w3 = (Inr sgs, w4)"
    and sgNone: "\<forall>sg \<in> set sgs. \<not> securityGroupDescriptionMatchesCluster sg ?c"
    and snapRun: "runSnapshots (resourceServices os net lb vol) (session_request s) w4 = (Inr res, w')"
    by auto
  have complete: "completeListing ''loadbalancers'' (loadBalancersOnPage (os_octavia os) ?p) (lb_responses r w1) lbs"
    "completeListing ''floatingips'' (floatingIPsOnPage (os_neutron os) ?p) (fip_responses r w2) fips"
    "completeListing ''security_groups'' (securityGroupsOnPage (os_neutron os) ?p) (sg_responses r w3) sgs"
    using session_listings(1) [OF doc lists(1)] session_listings(2) [OF doc lists(2)]
      session_listings(3) [OF doc sgs] projects(1,2) by simp_all
  show ?thesis
    unfolding nothingLeft_def Let_def ProjectID_def option.case
    using opened lists sgs complete none sgNone volumes_nothing_left [OF doc projects(3) snapRun run(2)]
    by (intro exI [of _ net] exI [of _ lb] exI [of _ vol] exI [of _ lbs] exI [of _ fips] exI [of _ sgs]
        exI [of _ w1] exI [of _ w2] exI [of _ w3] exI [of _ w4]) simp
qed

subsection \<open>Properties of the services and of a session\<close>

text \<open>
  C28. The five resource deletions keep one contract. A deletion without an ID sends
  nothing and fails; any other sends exactly one request, a load balancer's with cascade,
  it succeeds exactly if the classified response is no error, and its error matches a
  sentinel of the cleanup package exactly if the classified response does, so a caller
  that tests for a pending deletion sees what the classification decided.
\<close>

theorem resource_deletions_keep_the_contract:
  "deletesOnce (DeleteNetworkFloatingIP neutron s) (floatingips_Delete neutron (service_client s)) ClassifyDelete
   \<and> deletesOnce (DeleteNetworkSecurityGroup neutron s) (groups_Delete neutron (service_client s)) ClassifyDelete
   \<and> deletesOnce (DeleteServiceLoadBalancer octavia s')
       (\<lambda>i. loadbalancers_Delete octavia (service_client s') i True) ClassifyDelete
   \<and> deletesOnce (DeleteServiceSnapshot cinder v) (snapshots_Delete cinder (service_client v)) ClassifyDelete
   \<and> deletesOnce (DeleteServiceVolume cinder v) (volumes_Delete cinder (service_client v)) ClassifyDelete"
  by (intro conjI floatingIPDelete.contract securityGroupDelete.contract loadBalancerDelete.contract
      snapshotDelete.contract volumeDelete.contract)

text \<open>
  C11. When the cleanup of a session reports success, nothing of the cluster is left. Over
  documented pagers, \<open>Cleanup\<close> returns nil only after it has received, one list after the
  other and after its last deletion, complete collections of load balancers, floating IPs
  and security groups, and of snapshots and volumes if they are to be deleted, in which no
  resource of the project belongs to the cluster.
\<close>

theorem cleanup_success_means_nothing_left:
  assumes "documentedOpenstack os r failure" and "SessionCleanup os s w = (Inr (), w')"
  shows "nothingLeft os r s w w'"
  by (rule session_success_nothing_left [OF assms])

lemma NewIdentityService_Inr:
  "NewIdentityService keystone c w = (Inr s, w') \<Longrightarrow> identity_userID s = UserID c \<and> UserID c \<noteq> ''''"
  by (cases c)
     (auto simp: NewIdentityService_def fail_def andThen_def wrapErr_def ret_def
       split: if_splits prod.splits sum.splits)

lemma SessionDelete_success:
  assumes "SessionDeleteApplicationCredential os s i w = (Inr (), w')"
  shows "i \<noteq> '''' \<and> i = cfg_CredentialID (cl_credentialConfig (session_client s))
    \<and> (\<exists>service w1 r.
         NewIdentityService (os_keystone os) (Some (session_client s)) w = (Inr service, w1)
         \<and> keystone_Delete (os_keystone os) (identity_client service)
             [''users'', cl_userID (session_client s), ''application_credentials'', i] [204] w1 = (r, w')
         \<and> ClassifyApplicationCredentialDelete r = None)"
proof -
  from assms have i: "i \<noteq> ''''" "i = cfg_CredentialID (cl_credentialConfig (session_client s))"
    by (auto simp: SessionDeleteApplicationCredential_def fail_def ApplicationCredentialID_def split: if_splits)
  from assms obtain service w1 where
    new: "NewIdentityService (os_keystone os) (Some (session_client s)) w = (Inr service, w1)"
    and del: "DeleteIdentityApplicationCredential (os_keystone os) service i w1 = (Inr (), w')"
    by (auto simp: SessionDeleteApplicationCredential_def fail_def inspect_def RedactError_Inr_iff
        split: if_splits prod.splits sum.splits)
  let ?req = "keystone_Delete (os_keystone os) (identity_client service) (credentialURL service i) [204] w1"
  have "ClassifyApplicationCredentialDelete (fst ?req) = None"
    using credentialDelete.succeeds_iff [of "os_keystone os" service i w1] del by simp
  moreover have "snd ?req = w'"
    using credentialDelete.effect [of "os_keystone os" service i w1] del i(1) by simp
  moreover have "identity_userID service = cl_userID (session_client s)"
    using NewIdentityService_Inr [OF new] by (simp add: UserID_def)
  ultimately show ?thesis
    using i new by (auto simp: credentialURL_def intro!: exI [of _ service] exI [of _ w1] exI [of _ "fst ?req"]
        simp del: split_paired_Ex)
qed

text \<open>
  C26. A session deletes only its own application credential. Any other ID is refused
  without a request. Success means that the last call asked Keystone to delete that
  credential of the authenticated user, accepting 204 only, and that it answered 204, or
  404 to the request itself (its error carries that status and is no failed reauthentication).
\<close>

theorem session_deletes_only_its_credential:
  "(i = '''' \<or> i \<noteq> ApplicationCredentialID (Some (session_client s)) \<longrightarrow>
      (\<exists>t. SessionDeleteApplicationCredential os s i w = (Inl (Errorf t), w)))
   \<and> (SessionDeleteApplicationCredential os s i w = (Inr (), w') \<longrightarrow>
      i = ApplicationCredentialID (Some (session_client s))
      \<and> (\<exists>handle w1 r.
           keystone_Delete (os_keystone os) handle
             [''users'', UserID (Some (session_client s)), ''application_credentials'', i] [204] w1 = (r, w')
           \<and> (\<forall>err. r = Some err \<longrightarrow> unable_to_reauthenticate err = None
                \<and> (responseCode (Some (targetResponse err)) = (204, True)
                   \<or> responseCode (Some (targetResponse err)) = (404, True)))))"
proof (intro conjI impI)
  assume "i = '''' \<or> i \<noteq> ApplicationCredentialID (Some (session_client s))"
  then show "\<exists>t. SessionDeleteApplicationCredential os s i w = (Inl (Errorf t), w)"
    by (auto simp: SessionDeleteApplicationCredential_def fail_def)
next
  assume run: "SessionDeleteApplicationCredential os s i w = (Inr (), w')"
  note del = SessionDelete_success [OF run]
  then show "i = ApplicationCredentialID (Some (session_client s))" by (simp add: ApplicationCredentialID_def)
  from del obtain handle w1 r where
    "keystone_Delete (os_keystone os) handle
       [''users'', cl_userID (session_client s), ''application_credentials'', i] [204] w1 = (r, w')"
    and none: "ClassifyApplicationCredentialDelete r = None" by blast
  moreover have "unable_to_reauthenticate err = None
      \<and> (responseCode (Some (targetResponse err)) = (204, True)
         \<or> responseCode (Some (targetResponse err)) = (404, True))" if "r = Some err" for err
    using none credentialVerdict_iff(1) [of err]
    by (simp add: that ClassifyApplicationCredentialDelete_verdict classified_Complete)
  ultimately show "\<exists>handle w1 r.
           keystone_Delete (os_keystone os) handle
             [''users'', UserID (Some (session_client s)), ''application_credentials'', i] [204] w1 = (r, w')
           \<and> (\<forall>err. r = Some err \<longrightarrow> unable_to_reauthenticate err = None
                \<and> (responseCode (Some (targetResponse err)) = (204, True)
                   \<or> responseCode (Some (targetResponse err)) = (404, True)))"
    by (intro exI [of _ handle] exI [of _ w1] exI [of _ r]) (simp add: UserID_def)
qed

text \<open>
  A stored binding is accepted exactly if it could have come from a session: its
  authority is canonical, its interface is one of the three endpoint types, the project,
  the user, the cloud name and the credential ID are not empty and, like the region, have
  no surrounding white space.
\<close>

theorem binding_validation_is_exact:
  "ValidateCredentialBinding net b = Inr () \<longleftrightarrow>
     NormalizeAuthority net (cb_Authority b) = Inr (cb_Authority b)
     \<and> cb_Interface b \<in> {''public'', ''internal'', ''admin''}
     \<and> list_all (\<lambda>field. field \<noteq> '''' \<and> TrimSpace field = field)
          [cb_ProjectID b, cb_UserID b, cb_CloudName b, cb_CredentialID b]
     \<and> TrimSpace (cb_Region b) = cb_Region b"
  by (auto simp: ValidateCredentialBinding_def split: sum.splits)


subsection \<open>A concrete OpenStack\<close>

text \<open>A project in which every list is empty: each pager answers 204.\<close>

definition noContent :: "PageResult list" where
  "noContent = [\<lparr>pr_StatusCode = 204, pr_page = LibraryPage Nil (Inr True) (Inr '''')\<rparr>]"

definition sampleOpenstack :: "(unit, unit, unit, unit, unit) openstack" where
  "sampleOpenstack =
     \<lparr>os_configs = sampleConfigs, os_certs = sampleCerts, os_gophercloud = sampleProvider,
      os_neutron = sampleNeutron
        \<lparr>floatingips_EachPage := (\<lambda>c p. samplePager noContent), groups_EachPage := (\<lambda>c p. samplePager noContent)\<rparr>,
      os_octavia = sampleOctavia\<lparr>loadbalancers_EachPage := (\<lambda>c p. samplePager noContent)\<rparr>,
      os_cinder = sampleCinder
        \<lparr>snapshots_EachPage := (\<lambda>c. samplePager noContent), volumes_EachPage := (\<lambda>c. samplePager noContent)\<rparr>,
      os_keystone = \<lparr>NewIdentityV3 = (\<lambda>p e. ret ()), keystone_Delete = (\<lambda>c url codes. yields None)\<rparr>,
      os_fmt = (\<lambda>f. '''')\<rparr>"

definition sampleResponses :: "unit pagerResponses" where
  "sampleResponses =
     \<lparr>lb_responses = (\<lambda>w. noContent), fip_responses = (\<lambda>w. noContent), sg_responses = (\<lambda>w. noContent),
      snap_responses = (\<lambda>w. noContent), vol_responses = (\<lambda>w. noContent)\<rparr>"

definition sampleSession :: "unit cleanupSession" where
  "sampleSession =
     \<lparr>session_client = sampleClient,
      session_request = \<lparr>req_Scope = \<lparr>ClusterName = ''demo''\<rparr>, req_Policy = \<lparr>DeleteVolumes = True\<rparr>\<rparr>\<rparr>"

lemma sample_openstack_documented: "documentedOpenstack sampleOpenstack sampleResponses (\<lambda>w. Errorf [])"
  by (simp add: documentedOpenstack_def sampleOpenstack_def sampleResponses_def samplePager_documented)

lemma traverse_noContent: "traverse (createPage key) handle noContent failure acc = (acc, None)"
  by (simp add: noContent_def createPage_def NewValidatedCollectionPage_def http_status)

lemma sample_cleanup: "SessionCleanup sampleOpenstack sampleSession () = (Inr (), ())"
proof -
  have svcs: "NewNetworkService (os_neutron sampleOpenstack) (Some sampleClient) () =
        (Inr \<lparr>service_client = (), service_projectID = ''p1''\<rparr>, ())"
      "NewLoadBalancerService (os_octavia sampleOpenstack) (Some sampleClient) () =
        (Inr \<lparr>service_client = (), service_projectID = ''p1''\<rparr>, ())"
      "NewVolumeService (os_cinder sampleOpenstack) (Some sampleClient) () =
        (Inr \<lparr>service_client = (), service_projectID = ''p1''\<rparr>, ())"
    by (simp_all add: NewNetworkService_def NewLoadBalancerService_def NewVolumeService_def
        newProjectService_def sampleOpenstack_def sampleNeutron_def sampleOctavia_def sampleCinder_def
        sampleClient_def IsAuthenticated_def ProjectID_def andThen_def wrapErr_def ret_def)
  have lists: "ListServiceLoadBalancers (os_octavia sampleOpenstack) v () = (Inr [], ())"
      "ListNetworkFloatingIPs (os_neutron sampleOpenstack) v () = (Inr [], ())"
      "ListNetworkSecurityGroups (os_neutron sampleOpenstack) v () = (Inr [], ())"
      "ListServiceSnapshots (os_cinder sampleOpenstack) v () = (Inr [], ())"
      "ListServiceVolumes (os_cinder sampleOpenstack) v () = (Inr [], ())" for v
    by (simp_all add: ListServiceLoadBalancers_def ListNetworkFloatingIPs_def ListNetworkSecurityGroups_def
        ListServiceSnapshots_def ListServiceVolumes_def sampleOpenstack_def listPages_def inspect_def
        samplePager_def traverse_noContent ret_def)
  have run: "Run (resourceServices sampleOpenstack net lb (Some v))
      (session_request sampleSession) () = (Inr \<lparr>res_Outcome = OutcomeComplete\<rparr>, ())" for net lb v
    by (simp add: Run_def runSecurityGroups_def runSnapshots_def runVolumes_def sampleSession_def
        andThen_def wrapErr_def lists lift_res_def Let_def ret_def
        selectLoadBalancersAndFloatingIPsForDeletion_def)
  have client: "session_client sampleSession = sampleClient" by (simp add: sampleSession_def)
  have "DeleteVolumes (req_Policy (session_request sampleSession))" by (simp add: sampleSession_def)
  then show ?thesis
    by (simp add: SessionCleanup_def cleanupResources_def client andThen_def svcs run inspect_def ret_def
        waiting_not_complete [symmetric])
qed

theorem cleanup_success_means_nothing_left_witness:
  "nothingLeft sampleOpenstack sampleResponses sampleSession () ()"
  using cleanup_success_means_nothing_left [OF sample_openstack_documented sample_cleanup] .

lemma sample_credential_delete:
  "SessionDeleteApplicationCredential sampleOpenstack sampleSession ''cred'' () = (Inr (), ())"
  by (simp add: SessionDeleteApplicationCredential_def sampleSession_def sampleClient_def
      ApplicationCredentialID_def NewIdentityService_def IsAuthenticated_def UserID_def sampleOpenstack_def
      inspect_def andThen_def wrapErr_def ret_def DeleteIdentityApplicationCredential_def yields_def)

theorem session_deletes_only_its_credential_witness:
  "''cred'' = ApplicationCredentialID (Some (session_client sampleSession))"
  using session_deletes_only_its_credential
    [of "''cred''" sampleSession sampleOpenstack "()" "()"] sample_credential_delete by blast


end
