(* ===== verification/Json_Text.thy ===== *)
theory Json_Text
  imports Prelude
begin

section \<open>The JSON text format\<close>

text \<open>
  What the checkpoint uses of the standard library's \<open>encoding/json\<close> and \<open>unicode/utf8\<close>:
  writing a value (with HTML escaping, as \<open>json.Marshal\<close> does), and reading one value from
  a text and what follows it (as \<open>json.Decoder\<close> does). A Go string is the list of its bytes.
  \<open>encoding/json\<close> first checks the syntax of a whole value and then decodes it; the reader
  here does both at once and answers \<open>None\<close> for a syntax error.
\<close>

abbreviation quoteChar :: char where "quoteChar \<equiv> CHR 0x22"
abbreviation backslash :: char where "backslash \<equiv> CHR 0x5C"

definition byte :: "char \<Rightarrow> nat" where "byte c = of_char c"

subsection \<open>UTF-8\<close>

text \<open>
  The length of the rune at the start of a string whose first byte is not ASCII, as
  \<open>utf8.DecodeRune\<close> finds it, and 0 if there is no valid one (then \<open>DecodeRune\<close> answers
  \<open>RuneError\<close> and 1). Overlong forms, surrogates and code points above 10FFFF are invalid.
\<close>

definition byteAt :: "string \<Rightarrow> nat \<Rightarrow> nat" where
  "byteAt s i = (if i < length s then byte (s ! i) else 0)"

definition continuation :: "string \<Rightarrow> nat \<Rightarrow> bool" where
  "continuation s i \<longleftrightarrow> 0x80 \<le> byteAt s i \<and> byteAt s i \<le> 0xBF"

definition runeLen :: "string \<Rightarrow> nat" where
  "runeLen s =
     (let b0 = byteAt s 0; b1 = byteAt s 1 in
      if 0xC2 \<le> b0 \<and> b0 \<le> 0xDF \<and> continuation s 1 then 2
      else if 0xE0 \<le> b0 \<and> b0 \<le> 0xEF \<and> continuation s 1 \<and> continuation s 2
           \<and> (b0 = 0xE0 \<longrightarrow> 0xA0 \<le> b1) \<and> (b0 = 0xED \<longrightarrow> b1 \<le> 0x9F) then 3
      else if 0xF0 \<le> b0 \<and> b0 \<le> 0xF4 \<and> continuation s 1 \<and> continuation s 2 \<and> continuation s 3
           \<and> (b0 = 0xF0 \<longrightarrow> 0x90 \<le> b1) \<and> (b0 = 0xF4 \<longrightarrow> b1 \<le> 0x8F) then 4
      else 0)"

text \<open>\<open>utf8.EncodeRune\<close> of a code point that is not a surrogate.\<close>

definition utf8Encode :: "nat \<Rightarrow> string" where
  "utf8Encode r =
     map char_of
       (if r < 0x80 then [r]
        else if r < 0x800 then [0xC0 + r div 64, 0x80 + r mod 64]
        else if r < 0x10000 then [0xE0 + r div 4096, 0x80 + r div 64 mod 64, 0x80 + r mod 64]
        else [0xF0 + r div 262144, 0x80 + r div 4096 mod 64, 0x80 + r div 64 mod 64, 0x80 + r mod 64])"

definition replacement :: string where
  "replacement = map char_of [0xEF, 0xBF, 0xBD :: nat]"

function utf8Valid :: "string \<Rightarrow> bool" where
  "utf8Valid [] = True"
| "utf8Valid (c # s) =
     (if byte c < 128 then utf8Valid s
      else runeLen (c # s) \<noteq> 0 \<and> utf8Valid (drop (runeLen (c # s) - 1) s))"
  by pat_completeness auto
termination by (relation "measure length") auto

text \<open>The string with every byte that is no part of a valid rune replaced by U+FFFD.\<close>

function toValidUTF8 :: "string \<Rightarrow> string" where
  "toValidUTF8 [] = []"
| "toValidUTF8 (c # s) =
     (if byte c < 128 then c # toValidUTF8 s
      else if runeLen (c # s) = 0 then replacement @ toValidUTF8 s
      else take (runeLen (c # s)) (c # s) @ toValidUTF8 (drop (runeLen (c # s) - 1) s))"
  by pat_completeness auto
termination by (relation "measure length") auto

lemma toValidUTF8_id: "utf8Valid s \<Longrightarrow> toValidUTF8 s = s"
proof (induction s rule: toValidUTF8.induct)
  case (2 c s)
  then show ?case
    using append_take_drop_id [of "runeLen (c # s)" "c # s"]
    by (cases "byte c < 128") (simp_all add: drop_Cons' take_Cons')
qed simp

subsection \<open>Writing strings\<close>

definition hexDigit :: "nat \<Rightarrow> char" where
  "hexDigit n = char_of (if n < 10 then 48 + n else 87 + n)"

definition escapeByte :: "char \<Rightarrow> string" where
  "escapeByte c =
     (if c = backslash \<or> c = quoteChar then [backslash, c]
      else if byte c = 8 then [backslash, CHR ''b'']
      else if byte c = 12 then [backslash, CHR ''f'']
      else if byte c = 10 then [backslash, CHR ''n'']
      else if byte c = 13 then [backslash, CHR ''r'']
      else if byte c = 9 then [backslash, CHR ''t'']
      else if byte c < 32 \<or> c = CHR ''<'' \<or> c = CHR ''>'' \<or> c = CHR ''&''
      then [backslash, CHR ''u'', CHR ''0'', CHR ''0'', hexDigit (byte c div 16), hexDigit (byte c mod 16)]
      else [c])"

text \<open>The line separators U+2028 and U+2029, which are escaped as well.\<close>

definition isLineSeparator :: "string \<Rightarrow> bool" where
  "isLineSeparator s \<longleftrightarrow> byteAt s 0 = 0xE2 \<and> byteAt s 1 = 0x80 \<and> (byteAt s 2 = 0xA8 \<or> byteAt s 2 = 0xA9)"

function quoteBody :: "string \<Rightarrow> string" where
  "quoteBody [] = []"
| "quoteBody (c # s) =
     (if byte c < 128 then escapeByte c @ quoteBody s
      else if runeLen (c # s) = 0 then backslash # ''ufffd'' @ quoteBody s
      else if isLineSeparator (c # s)
      then backslash # ''u202'' @ [hexDigit (byteAt (c # s) 2 mod 16)] @ quoteBody (drop 2 s)
      else take (runeLen (c # s)) (c # s) @ quoteBody (drop (runeLen (c # s) - 1) s))"
  by pat_completeness auto
termination by (relation "measure length") auto

definition quoted :: "string \<Rightarrow> string" where
  "quoted s = quoteChar # quoteBody s @ [quoteChar]"

subsection \<open>Reading strings\<close>

definition unhex :: "char \<Rightarrow> nat option" where
  "unhex c =
     (if 48 \<le> byte c \<and> byte c \<le> 57 then Some (byte c - 48)
      else if 97 \<le> byte c \<and> byte c \<le> 102 then Some (byte c - 87)
      else if 65 \<le> byte c \<and> byte c \<le> 70 then Some (byte c - 55)
      else None)"

text \<open>Four hexadecimal digits and the rest.\<close>

definition hex4 :: "string \<Rightarrow> (nat \<times> string) option" where
  "hex4 s =
     (case s of
        a # b # c # d # rest \<Rightarrow>
          (case (unhex a, unhex b, unhex c, unhex d) of
             (Some x, Some y, Some z, Some u) \<Rightarrow> Some (4096 * x + 256 * y + 16 * z + u, rest)
           | _ \<Rightarrow> None)
      | _ \<Rightarrow> None)"

text \<open>The second half of a surrogate pair whose first half is \<open>r\<close>: the code point and the rest.\<close>

definition secondSurrogate :: "nat \<Rightarrow> string \<Rightarrow> (nat \<times> string) option" where
  "secondSurrogate r s =
     (case s of
        b # u # digits \<Rightarrow>
          (if b = backslash \<and> u = CHR ''u'' then
             (case hex4 digits of
                Some (r', rest) \<Rightarrow>
                  (if 0xD800 \<le> r \<and> r < 0xDC00 \<and> 0xDC00 \<le> r' \<and> r' < 0xE000
                   then Some (0x10000 + 1024 * (r - 0xD800) + (r' - 0xDC00), rest) else None)
              | None \<Rightarrow> None)
           else None)
      | _ \<Rightarrow> None)"

definition simpleEscape :: "char \<Rightarrow> char option" where
  "simpleEscape c =
     (if c = quoteChar \<or> c = backslash \<or> c = CHR ''/'' then Some c
      else if c = CHR ''b'' then Some (char_of (8 :: nat))
      else if c = CHR ''f'' then Some (char_of (12 :: nat))
      else if c = CHR ''n'' then Some (char_of (10 :: nat))
      else if c = CHR ''r'' then Some (char_of (13 :: nat))
      else if c = CHR ''t'' then Some (char_of (9 :: nat))
      else None)"

text \<open>What an escape sequence after its backslash stands for, and the rest of the text.\<close>

definition readEscape :: "string \<Rightarrow> (string \<times> string) option" where
  "readEscape s =
     (case s of
        [] \<Rightarrow> None
      | e # rest \<Rightarrow>
          (case simpleEscape e of
             Some b \<Rightarrow> Some ([b], rest)
           | None \<Rightarrow>
               if e \<noteq> CHR ''u'' then None
               else
                 (case hex4 rest of
                    None \<Rightarrow> None
                  | Some (r, rest') \<Rightarrow>
                      if 0xD800 \<le> r \<and> r < 0xE000
                      then (case secondSurrogate r rest' of
                              Some (r', rest'') \<Rightarrow> Some (utf8Encode r', rest'')
                            | None \<Rightarrow> Some (replacement, rest'))
                      else Some (utf8Encode r, rest'))))"

definition prepend :: "string \<Rightarrow> (string \<times> string) option \<Rightarrow> (string \<times> string) option" where
  "prepend p r = map_option (\<lambda>(s, rest). (p @ s, rest)) r"

lemma hex4_length: "hex4 s = Some (r, rest) \<Longrightarrow> length rest < length s"
  by (auto simp: hex4_def split: list.splits option.splits)

lemma secondSurrogate_length: "secondSurrogate r s = Some (r', rest) \<Longrightarrow> length rest < length s"
  by (auto simp: secondSurrogate_def split: list.splits option.splits if_splits dest!: hex4_length)

lemma readEscape_length: "readEscape s = Some (e, rest) \<Longrightarrow> length rest < length s"
  by (auto simp: readEscape_def split: list.splits option.splits if_splits prod.splits
      dest!: hex4_length secondSurrogate_length)

text \<open>The rest of a string literal after its opening quote: its value, and what follows it.\<close>

function readString :: "string \<Rightarrow> (string \<times> string) option" where
  "readString [] = None"
| "readString (c # s) =
     (if c = quoteChar then Some ([], s)
      else if c = backslash
      then (case readEscape s of None \<Rightarrow> None | Some (e, rest) \<Rightarrow> prepend e (readString rest))
      else if byte c < 32 then None
      else if byte c < 128 then prepend [c] (readString s)
      else if runeLen (c # s) = 0 then prepend replacement (readString s)
      else prepend (take (runeLen (c # s)) (c # s)) (readString (drop (runeLen (c # s) - 1) s)))"
  by pat_completeness auto
termination by (relation "measure length") (auto dest: readEscape_length)

subsection \<open>Numbers\<close>

definition isDigit :: "char \<Rightarrow> bool" where "isDigit c \<longleftrightarrow> 48 \<le> byte c \<and> byte c \<le> 57"

text \<open>A sequence of at least one digit.\<close>

definition readDigits :: "string \<Rightarrow> (string \<times> string) option" where
  "readDigits s = (if takeWhile isDigit s = [] then None else Some (takeWhile isDigit s, dropWhile isDigit s))"

definition readInteger :: "string \<Rightarrow> (string \<times> string) option" where
  "readInteger s =
     (case s of
        c # rest \<Rightarrow> if c = CHR ''0'' then Some ([c], rest) else readDigits s
      | [] \<Rightarrow> None)"

definition readFraction :: "string \<Rightarrow> (string \<times> string) option" where
  "readFraction s =
     (case s of
        c # rest \<Rightarrow> if c = CHR ''.'' then prepend [c] (readDigits rest) else Some ([], s)
      | [] \<Rightarrow> Some ([], s))"

definition readExponent :: "string \<Rightarrow> (string \<times> string) option" where
  "readExponent s =
     (case s of
        c # rest \<Rightarrow>
          if c = CHR ''e'' \<or> c = CHR ''E''
          then (case rest of
                  d # rest' \<Rightarrow> if d = CHR ''+'' \<or> d = CHR ''-'' then prepend [c, d] (readDigits rest')
                              else prepend [c] (readDigits rest)
                | [] \<Rightarrow> None)
          else Some ([], s)
      | [] \<Rightarrow> Some ([], s))"

definition readUnsigned :: "string \<Rightarrow> (string \<times> string) option" where
  "readUnsigned s =
     (case readInteger s of
        None \<Rightarrow> None
      | Some (i, s1) \<Rightarrow>
          (case readFraction s1 of
             None \<Rightarrow> None
           | Some (f, s2) \<Rightarrow> prepend (i @ f) (readExponent s2)))"

definition readNumber :: "string \<Rightarrow> (string \<times> string) option" where
  "readNumber s =
     (case s of
        c # rest \<Rightarrow> if c = CHR ''-'' then prepend [c] (readUnsigned rest) else readUnsigned s
      | [] \<Rightarrow> None)"

text \<open>\<open>strconv.Itoa\<close>, and \<open>strconv.ParseInt\<close> of a number literal in base 10 with 64 bits.\<close>

fun decimalNat :: "nat \<Rightarrow> string" where
  "decimalNat n = (if n < 10 then [hexDigit n] else decimalNat (n div 10) @ [hexDigit (n mod 10)])"

declare decimalNat.simps [simp del]

definition decimal :: "int \<Rightarrow> string" where
  "decimal i = (if i < 0 then CHR ''-'' # decimalNat (nat (- i)) else decimalNat (nat i))"

definition digitsValue :: "string \<Rightarrow> nat" where
  "digitsValue s = foldl (\<lambda>n c. 10 * n + (byte c - 48)) 0 s"

definition parseUnsigned :: "string \<Rightarrow> nat option" where
  "parseUnsigned s = (if s \<noteq> [] \<and> list_all isDigit s then Some (digitsValue s) else None)"

definition parseInt :: "string \<Rightarrow> int option" where
  "parseInt s =
     (let negative = (s \<noteq> [] \<and> hd s = CHR ''-'') in
      case parseUnsigned (if negative then tl s else s) of
        None \<Rightarrow> None
      | Some n \<Rightarrow>
          (let i = (if negative then - int n else int n) in
           if - (2 ^ 63) \<le> i \<and> i < 2 ^ 63 then Some i else None))"

subsection \<open>Values\<close>

datatype json =
    JNull
  | JBool bool
  | JNumber string
  | JString string
  | JArray "json list"
  | JObject "(string \<times> json) list"

text \<open>A number is kept as its literal.\<close>

fun encode :: "json \<Rightarrow> string"
  and encodeElements :: "json list \<Rightarrow> string"
  and encodeMembers :: "(string \<times> json) list \<Rightarrow> string"
where
  "encode JNull = ''null''"
| "encode (JBool b) = (if b then ''true'' else ''false'')"
| "encode (JNumber literal) = literal"
| "encode (JString s) = quoted s"
| "encode (JArray xs) = CHR ''['' # encodeElements xs @ '']''"
| "encode (JObject ms) = CHR ''{'' # encodeMembers ms @ ''}''"
| "encodeElements [] = []"
| "encodeElements (x # xs) = encode x @ (if xs = [] then [] else CHR '','' # encodeElements xs)"
| "encodeMembers [] = []"
| "encodeMembers ((key, v) # ms) =
     quoted key @ CHR '':'' # encode v @ (if ms = [] then [] else CHR '','' # encodeMembers ms)"

definition isSpace :: "char \<Rightarrow> bool" where
  "isSpace c \<longleftrightarrow> byte c = 32 \<or> byte c = 9 \<or> byte c = 10 \<or> byte c = 13"

definition skipSpace :: "string \<Rightarrow> string" where
  "skipSpace s = dropWhile isSpace s"

definition readLiteral :: "string \<Rightarrow> json \<Rightarrow> string \<Rightarrow> (json \<times> string) option" where
  "readLiteral word v s = (if take (length word) s = word then Some (v, drop (length word) s) else None)"

text \<open>
  One value and the rest of the text. The first argument bounds the recursion; more than
  twice the length of the text is enough (\<open>readValue_enough\<close>). The decoder's limit of 10000 nested values is
  left out: a struct whose fields are strings, integers and one struct of strings rejects
  any such text anyway.
\<close>

fun readValue :: "nat \<Rightarrow> string \<Rightarrow> (json \<times> string) option"
  and readElements :: "nat \<Rightarrow> string \<Rightarrow> (json list \<times> string) option"
  and readMembers :: "nat \<Rightarrow> string \<Rightarrow> ((string \<times> json) list \<times> string) option"
where
  "readValue 0 text0 = None"
| "readValue (Suc n) text0 =
     (case skipSpace text0 of
        [] \<Rightarrow> None
      | c # s \<Rightarrow>
          if c = quoteChar then map_option (map_prod JString id) (readString s)
          else if c = CHR ''{''
          then (if take 1 (skipSpace s) = ''}'' then Some (JObject [], drop 1 (skipSpace s))
                else map_option (map_prod JObject id) (readMembers n s))
          else if c = CHR ''[''
          then (if take 1 (skipSpace s) = '']'' then Some (JArray [], drop 1 (skipSpace s))
                else map_option (map_prod JArray id) (readElements n s))
          else if c = CHR ''t'' then readLiteral ''true'' (JBool True) (c # s)
          else if c = CHR ''f'' then readLiteral ''false'' (JBool False) (c # s)
          else if c = CHR ''n'' then readLiteral ''null'' JNull (c # s)
          else map_option (map_prod JNumber id) (readNumber (c # s)))"
| "readElements 0 text0 = None"
| "readElements (Suc n) text0 =
     (case readValue n text0 of
        None \<Rightarrow> None
      | Some (v, r) \<Rightarrow>
          (case skipSpace r of
             [] \<Rightarrow> None
           | c # s \<Rightarrow>
               if c = CHR '','' then map_option (map_prod (Cons v) id) (readElements n s)
               else if c = CHR '']'' then Some ([v], s)
               else None))"
| "readMembers 0 text0 = None"
| "readMembers (Suc n) text0 =
     (case skipSpace text0 of
        [] \<Rightarrow> None
      | q # r0 \<Rightarrow>
          if q \<noteq> quoteChar then None
          else
            (case readString r0 of
               None \<Rightarrow> None
             | Some (key, r1) \<Rightarrow>
                 if take 1 (skipSpace r1) \<noteq> '':'' then None
                 else
                   (case readValue n (drop 1 (skipSpace r1)) of
                      None \<Rightarrow> None
                    | Some (v, r2) \<Rightarrow>
                        (case skipSpace r2 of
                           [] \<Rightarrow> None
                         | c # s \<Rightarrow>
                             if c = CHR '','' then map_option (map_prod (Cons (key, v)) id) (readMembers n s)
                             else if c = CHR ''}'' then Some ([(key, v)], s)
                             else None))))"

subsection \<open>A written string reads back\<close>

lemma byte_bound: "byte c < 256"
  by (simp add: byte_def)

lemma char_of_byte [simp]: "char_of (byte c) = c"
  by (simp add: byte_def)

lemma byte_char_of: "n < 256 \<Longrightarrow> byte (char_of n) = n"
  by (simp add: byte_def)

lemma byte_eq: "byte c = byte d \<longleftrightarrow> c = d"
  by (simp add: byte_def)

lemma prepend_prepend [simp]: "prepend p (prepend q r) = prepend (p @ q) r"
  by (cases r) (auto simp: prepend_def)

lemma prepend_Some [simp]: "prepend p (Some (s, rest)) = Some (p @ s, rest)"
  by (simp add: prepend_def)

lemma prepend_None [simp]: "prepend p None = None"
  by (simp add: prepend_def)

lemma unhex_hexDigit: "n < 16 \<Longrightarrow> unhex (hexDigit n) = Some n"
  by (auto simp: unhex_def hexDigit_def byte_char_of)

lemma hex4_digits:
  "x < 16 \<Longrightarrow> y < 16 \<Longrightarrow> z < 16 \<Longrightarrow> u < 16 \<Longrightarrow>
   hex4 (hexDigit x # hexDigit y # hexDigit z # hexDigit u # rest) = Some (4096 * x + 256 * y + 16 * z + u, rest)"
  by (simp add: hex4_def unhex_hexDigit)

lemma byte_special: "byte backslash = 92" "byte quoteChar = 34" "byte (CHR ''<'') = 60" "byte (CHR ''>'') = 62"
  "byte (CHR ''&'') = 38" "byte (CHR ''u'') = 117"
  by (simp_all add: byte_def)

lemma char_eq_byte: "c = d \<longleftrightarrow> byte c = byte d"
  by (simp add: byte_eq)

lemma hexDigit_chars: "CHR ''0'' = hexDigit 0" "CHR ''2'' = hexDigit 2"
  by (simp_all add: char_eq_byte hexDigit_def byte_char_of) (simp_all add: byte_def)

lemma readEscape_short:
  "readEscape (CHR ''b'' # r) = Some ([char_of (8 :: nat)], r)"
  "readEscape (CHR ''f'' # r) = Some ([char_of (12 :: nat)], r)"
  "readEscape (CHR ''n'' # r) = Some ([char_of (10 :: nat)], r)"
  "readEscape (CHR ''r'' # r) = Some ([char_of (13 :: nat)], r)"
  "readEscape (CHR ''t'' # r) = Some ([char_of (9 :: nat)], r)"
  "readEscape (backslash # r) = Some ([backslash], r)"
  "readEscape (quoteChar # r) = Some ([quoteChar], r)"
  by (simp_all add: readEscape_def simpleEscape_def)

lemma readEscape_u:
  "readEscape (CHR ''u'' # digits) =
     (case hex4 digits of
        None \<Rightarrow> None
      | Some (r, rest') \<Rightarrow>
          if 0xD800 \<le> r \<and> r < 0xE000
          then (case secondSurrogate r rest' of
                  Some (r', rest'') \<Rightarrow> Some (utf8Encode r', rest'')
                | None \<Rightarrow> Some (replacement, rest'))
          else Some (utf8Encode r, rest'))"
  by (simp add: readEscape_def simpleEscape_def)

lemma readString_escape:
  "readEscape s = Some (e, rest) \<Longrightarrow> readString (backslash # s) = prepend e (readString rest)"
  by simp

lemma readString_escapeByte:
  assumes "byte c < 128"
  shows "readString (escapeByte c @ r) = prepend [c] (readString r)"
proof -
  have control: "readEscape (CHR ''u'' # CHR ''0'' # CHR ''0'' # hexDigit (byte c div 16)
      # hexDigit (byte c mod 16) # r) = Some ([c], r)"
    using assms byte_bound [of c]
    by (simp add: readEscape_u hexDigit_chars hex4_digits utf8Encode_def)
  have short: "byte c = 8 \<Longrightarrow> c = char_of (8 :: nat)" "byte c = 12 \<Longrightarrow> c = char_of (12 :: nat)"
    "byte c = 10 \<Longrightarrow> c = char_of (10 :: nat)" "byte c = 13 \<Longrightarrow> c = char_of (13 :: nat)"
    "byte c = 9 \<Longrightarrow> c = char_of (9 :: nat)"
    by (metis char_of_byte)+
  consider "c = backslash \<or> c = quoteChar" | "c \<noteq> backslash \<and> c \<noteq> quoteChar" by blast
  then show ?thesis
  proof cases
    case 1
    then show ?thesis
      by (auto simp: escapeByte_def readString_escape readEscape_short simp del: readString.simps)
  next
    case 2
    show ?thesis
    proof (cases "byte c < 32 \<or> c = CHR ''<'' \<or> c = CHR ''>'' \<or> c = CHR ''&''")
      case True
      show ?thesis
        using 2 True short
        by (auto simp: escapeByte_def readString_escape [OF control] readString_escape [OF readEscape_short(1)]
            readString_escape [OF readEscape_short(2)] readString_escape [OF readEscape_short(3)]
            readString_escape [OF readEscape_short(4)] readString_escape [OF readEscape_short(5)]
            simp del: readString.simps)
    next
      case False
      with 2 assms show ?thesis by (auto simp: escapeByte_def)
    qed
  qed
qed

lemma runeLen_cases: "runeLen s \<noteq> 0 \<Longrightarrow> runeLen s \<in> {2, 3, 4}"
  by (simp add: runeLen_def Let_def split: if_splits)

lemma continuation_length: "continuation s i \<Longrightarrow> i < length s"
  by (simp add: continuation_def byteAt_def split: if_splits)

lemma runeLen_length: "runeLen s \<le> length s"
  using continuation_length [of s 1] continuation_length [of s 2] continuation_length [of s 3]
  by (auto simp: runeLen_def Let_def)

lemma byteAt_take: "i < n \<Longrightarrow> n \<le> length s \<Longrightarrow> byteAt (take n s @ r) i = byteAt s i"
  by (simp add: byteAt_def nth_append)

lemma runeLen_take:
  assumes "runeLen s \<noteq> 0"
  shows "runeLen (take (runeLen s) s @ r) = runeLen s"
proof -
  have same: "byteAt (take (runeLen s) s @ r) i = byteAt s i" if "i < runeLen s" for i
    using that runeLen_length by (rule byteAt_take)
  consider "runeLen s = 2" | "runeLen s = 3" | "runeLen s = 4" using runeLen_cases [OF assms] by blast
  then show ?thesis
  proof cases
    case 1
    then have "0xC2 \<le> byteAt s 0 \<and> byteAt s 0 \<le> 0xDF \<and> continuation s 1"
      by (simp add: runeLen_def Let_def split: if_splits)
    with same 1 show ?thesis by (simp add: runeLen_def [of "take 2 s @ r"] Let_def continuation_def)
  next
    case 2
    then have "0xE0 \<le> byteAt s 0 \<and> byteAt s 0 \<le> 0xEF \<and> continuation s 1 \<and> continuation s 2
        \<and> (byteAt s 0 = 0xE0 \<longrightarrow> 0xA0 \<le> byteAt s 1) \<and> (byteAt s 0 = 0xED \<longrightarrow> byteAt s 1 \<le> 0x9F)"
      by (simp add: runeLen_def Let_def split: if_splits)
    with same 2 show ?thesis by (simp add: runeLen_def [of "take 3 s @ r"] Let_def continuation_def)
  next
    case 3
    then have "0xF0 \<le> byteAt s 0 \<and> byteAt s 0 \<le> 0xF4 \<and> continuation s 1 \<and> continuation s 2
        \<and> continuation s 3 \<and> (byteAt s 0 = 0xF0 \<longrightarrow> 0x90 \<le> byteAt s 1) \<and> (byteAt s 0 = 0xF4 \<longrightarrow> byteAt s 1 \<le> 0x8F)"
      by (simp add: runeLen_def Let_def split: if_splits)
    with same 3 show ?thesis by (simp add: runeLen_def [of "take 4 s @ r"] Let_def continuation_def)
  qed
qed

lemma utf8Valid_toValidUTF8: "utf8Valid (toValidUTF8 s)"
proof (induction s rule: toValidUTF8.induct)
  case (2 c s)
  show ?case
  proof (cases "byte c < 128")
    case True
    with 2 show ?thesis by simp
  next
    case high: False
    show ?thesis
    proof (cases "runeLen (c # s) = 0")
      case True
      have "utf8Valid (replacement @ t) = utf8Valid t" for t
        by (simp add: replacement_def byte_char_of runeLen_def byteAt_def continuation_def)
      with 2 high True show ?thesis by simp
    next
      case False
      let ?n = "runeLen (c # s)"
      obtain m where n: "?n = Suc m" using False by (cases "?n") auto
      have "length (take m s) = m" using runeLen_length [of "c # s"] n by simp
      moreover have "runeLen (c # take m s @ toValidUTF8 (drop m s)) = Suc m"
        using runeLen_take [OF False, of "toValidUTF8 (drop m s)"] n by simp
      ultimately show ?thesis using 2 high False n by simp
    qed
  qed
qed simp

lemma toValidUTF8_idem [simp]: "toValidUTF8 (toValidUTF8 s) = toValidUTF8 s"
  by (rule toValidUTF8_id [OF utf8Valid_toValidUTF8])

lemma readString_rune:
  assumes "\<not> byte c < 128" and "runeLen (c # s) \<noteq> 0"
  shows "readString (take (runeLen (c # s)) (c # s) @ r) = prepend (take (runeLen (c # s)) (c # s)) (readString r)"
proof -
  let ?n = "runeLen (c # s)"
  obtain m where n: "?n = Suc m" using assms(2) by (cases "?n") auto
  have len: "m \<le> length s" using runeLen_length [of "c # s"] n by simp
  have whole: "take ?n (c # s) @ r = c # take m s @ r" using n by simp
  have same: "runeLen (c # take m s @ r) = Suc m" using runeLen_take [OF assms(2), of r] whole n by simp
  have "c \<noteq> quoteChar" "c \<noteq> backslash" "\<not> byte c < 32"
    using assms(1) by (auto simp: char_eq_byte byte_special)
  then show ?thesis
    unfolding whole using same assms(1) n len by simp
qed

lemma hexDigit_letters: "CHR ''f'' = hexDigit 15" "CHR ''d'' = hexDigit 13"
  by (simp_all add: char_eq_byte hexDigit_def byte_char_of) (simp_all add: byte_def)

lemma readString_replacement:
  "readString (backslash # ''ufffd'' @ r) = prepend replacement (readString r)"
proof -
  have "''ufffd'' @ r = CHR ''u'' # hexDigit 15 # hexDigit 15 # hexDigit 15 # hexDigit 13 # r"
    by (simp add: hexDigit_letters)
  moreover have "utf8Encode 0xFFFD = replacement" by (simp add: utf8Encode_def replacement_def)
  then have "readEscape (CHR ''u'' # hexDigit 15 # hexDigit 15 # hexDigit 15 # hexDigit 13 # r) = Some (replacement, r)"
    by (simp add: readEscape_u hex4_digits)
  ultimately have "readEscape (''ufffd'' @ r) = Some (replacement, r)" by (simp only:)
  then show ?thesis by (simp only: readString_escape)
qed

lemma readString_quoteBody:
  "readString (quoteBody s @ quoteChar # rest) = Some (toValidUTF8 s, rest)"
proof (induction s rule: quoteBody.induct)
  case 1
  show ?case by simp
next
  case (2 c s)
  show ?case
  proof (cases "byte c < 128")
    case True
    with 2 show ?thesis by (simp add: readString_escapeByte del: readString.simps)
  next
    case high: False
    show ?thesis
    proof (cases "runeLen (c # s) = 0")
      case invalid: True
      with high have "quoteBody (c # s) = backslash # ''ufffd'' @ quoteBody s" by simp
      then have "readString (quoteBody (c # s) @ quoteChar # rest)
          = prepend replacement (readString (quoteBody s @ quoteChar # rest))"
        using readString_replacement [of "quoteBody s @ quoteChar # rest"] by (simp del: readString.simps)
      with "2.IH"(2) high invalid show ?thesis by (simp del: readString.simps quoteBody.simps)
    next
      case rune: False
      show ?thesis
      proof (cases "isLineSeparator (c # s)")
        case sep: True
        then have bytes: "byteAt (c # s) 0 = 0xE2" "byteAt (c # s) 1 = 0x80"
          "byteAt (c # s) 2 = 0xA8 \<or> byteAt (c # s) 2 = 0xA9"
          by (auto simp: isLineSeparator_def)
        then have len: "runeLen (c # s) = 3" by (auto simp: runeLen_def Let_def continuation_def)
        obtain c1 c2 s' where s: "s = c1 # c2 # s'"
          using bytes by (cases s; cases "tl s") (auto simp: byteAt_def split: if_splits)
        have chars: "c = char_of (0xE2 :: nat)" "c1 = char_of (0x80 :: nat)" "c2 = char_of (byte c2)"
          using bytes(1,2) unfolding s by (simp_all add: byteAt_def) (metis char_of_byte)+
        have b2: "byte c2 = 0xA8 \<or> byte c2 = 0xA9" using bytes(3) by (simp add: s byteAt_def)
        have escape: "readEscape (''u202'' @ hexDigit (byte c2 mod 16) # r) = Some ([c, c1, c2], r)" for r
        proof -
          have "hex4 (''202'' @ hexDigit (byte c2 mod 16) # r) = Some (0x2020 + byte c2 mod 16, r)"
            by (simp add: hexDigit_chars hex4_digits)
          moreover have "utf8Encode (0x2020 + byte c2 mod 16) = [c, c1, char_of (byte c2)]"
            using b2 by (auto simp: chars(1,2) utf8Encode_def simp del: char_of_byte)
          moreover have "0x2020 + byte c2 mod 16 < 0xD800"
            using mod_less_divisor [of 16 "byte c2"] by simp
          ultimately show ?thesis by (simp add: readEscape_u)
        qed
        have ih: "readString (quoteBody s' @ quoteChar # rest) = Some (toValidUTF8 s', rest)"
          using "2.IH"(3) high rune sep len by (simp add: s)
        have "quoteBody (c # s) = backslash # ''u202'' @ hexDigit (byte c2 mod 16) # quoteBody s'"
          using high rune sep by (simp add: s byteAt_def)
        then show ?thesis
          using readString_escape [OF escape] ih high len by (simp add: s del: readString.simps quoteBody.simps)
      next
        case sep: False
        with high rune "2.IH"(4) show ?thesis by (simp add: readString_rune del: readString.simps)
      qed
    qed
  qed
qed

subsection \<open>The bound of the recursion is large enough\<close>

definition readJSON :: "string \<Rightarrow> (json \<times> string) option" where
  "readJSON s = readValue (2 * length s + 1) s"

lemma prepend_eq_Some: "prepend p r = Some (s, rest) \<longleftrightarrow> (\<exists>s'. r = Some (s', rest) \<and> s = p @ s')"
  by (auto simp: prepend_def)

lemma readString_length: "readString s = Some (v, r) \<Longrightarrow> length r < length s"
proof (induction s arbitrary: v rule: readString.induct)
  case (2 c s)
  show ?case
    using "2.prems" "2.IH"
    by (fastforce simp: prepend_eq_Some dest: readEscape_length split: if_splits option.splits)
qed simp

lemma readDigits_length: "readDigits s = Some (v, r) \<Longrightarrow> length r < length s"
  by (cases s) (auto simp: readDigits_def length_dropWhile_le le_imp_less_Suc split: if_splits)

lemma readInteger_length: "readInteger s = Some (v, r) \<Longrightarrow> length r < length s"
  by (auto simp: readInteger_def dest: readDigits_length split: list.splits if_splits)

lemma readFraction_length: "readFraction s = Some (v, r) \<Longrightarrow> length r \<le> length s"
  by (auto simp: readFraction_def prepend_eq_Some dest!: readDigits_length split: list.splits if_splits)

lemma readExponent_length: "readExponent s = Some (v, r) \<Longrightarrow> length r \<le> length s"
  by (auto simp: readExponent_def prepend_eq_Some dest!: readDigits_length split: list.splits if_splits)

lemma readUnsigned_length: "readUnsigned s = Some (v, r) \<Longrightarrow> length r < length s"
  by (fastforce simp: readUnsigned_def prepend_eq_Some
      dest: readInteger_length readFraction_length readExponent_length split: option.splits prod.splits)

lemma readNumber_length: "readNumber s = Some (v, r) \<Longrightarrow> length r < length s"
  by (fastforce simp: readNumber_def prepend_eq_Some dest: readUnsigned_length split: list.splits if_splits)

lemma skipSpace_length: "length (skipSpace s) \<le> length s"
  by (simp add: skipSpace_def length_dropWhile_le)

lemma skipSpace_Cons: "skipSpace s = c # s' \<Longrightarrow> length s' < length s"
  using skipSpace_length [of s] by simp

lemma readLiteral_length: "word \<noteq> [] \<Longrightarrow> readLiteral word v s = Some (v', r) \<Longrightarrow> length r < length s"
  by (cases s; cases word) (auto simp: readLiteral_def less_Suc_eq_le split: if_splits)

lemma drop1_skipSpace_length: "length (drop 1 (skipSpace s)) \<le> length s"
  using skipSpace_length [of s] by simp

lemma map_option_prod_Some: "map_option (map_prod f id) x = Some (v, r) \<longleftrightarrow> (\<exists>u. x = Some (u, r) \<and> v = f u)"
  by (cases x) auto

lemma read_length_all:
  "(\<forall>s v r. readValue n s = Some (v, r) \<longrightarrow> length r < length s)
   \<and> (\<forall>s v r. readElements n s = Some (v, r) \<longrightarrow> length r < length s)
   \<and> (\<forall>s v r. readMembers n s = Some (v, r) \<longrightarrow> length r < length s)"
proof (induction n)
  case (Suc n)
  then have V: "\<And>s v r. readValue n s = Some (v, r) \<Longrightarrow> length r < length s"
    and E: "\<And>s v r. readElements n s = Some (v, r) \<Longrightarrow> length r < length s"
    and M: "\<And>s v r. readMembers n s = Some (v, r) \<Longrightarrow> length r < length s" by blast+
  have "length r < length s" if "readValue (Suc n) s = Some (v, r)" for s v r
  proof -
    from that obtain c t where sk: "skipSpace s = c # t" by (auto split: list.splits)
    from that sk consider u where "readString t = Some (u, r)" | "r = drop 1 (skipSpace t)"
      | u where "readMembers n t = Some (u, r)" | u where "readElements n t = Some (u, r)"
      | "readLiteral ''true'' (JBool True) (c # t) = Some (v, r)"
      | "readLiteral ''false'' (JBool False) (c # t) = Some (v, r)"
      | "readLiteral ''null'' JNull (c # t) = Some (v, r)" | u where "readNumber (c # t) = Some (u, r)"
      by (auto simp: map_option_prod_Some split: if_splits)
    then show ?thesis
      using skipSpace_Cons [OF sk] skipSpace_length [of t] skipSpace_length [of s]
      by cases (auto simp: sk dest: readString_length M E readLiteral_length [rotated] readNumber_length)
  qed
  moreover have "length r < length s" if "readElements (Suc n) s = Some (v, r)" for s v r
  proof -
    from that obtain u r1 c t where one: "readValue n s = Some (u, r1)" and sk: "skipSpace r1 = c # t"
      by (auto split: list.splits option.splits)
    from that one sk consider us where "readElements n t = Some (us, r)" | "r = t"
      by (auto simp: map_option_prod_Some split: if_splits)
    then show ?thesis
      using V [OF one] skipSpace_Cons [OF sk] by cases (auto dest: E)
  qed
  moreover have "length r < length s" if "readMembers (Suc n) s = Some (v, r)" for s v r
  proof -
    from that obtain q t key r1 u r2 c t' where sk: "skipSpace s = q # t"
      and str: "readString t = Some (key, r1)" and one: "readValue n (drop 1 (skipSpace r1)) = Some (u, r2)"
      and sk': "skipSpace r2 = c # t'"
      by (auto split: list.splits option.splits if_splits)
    from that sk str one sk' consider us where "readMembers n t' = Some (us, r)" | "r = t'"
      by (auto simp: map_option_prod_Some split: if_splits)
    then show ?thesis
      using V [OF one] skipSpace_Cons [OF sk] skipSpace_Cons [OF sk'] readString_length [OF str]
        drop1_skipSpace_length [of r1]
      by cases (auto dest: M)
  qed
  ultimately show ?case by blast
qed simp

lemma read_length:
  "readValue n s = Some (v, r) \<Longrightarrow> length r < length s"
  "readElements n s = Some (vs, r) \<Longrightarrow> length r < length s"
  "readMembers n s = Some (ms, r) \<Longrightarrow> length r < length s"
  using read_length_all by blast+

text \<open>Two bounds that are both large enough give the same result.\<close>

lemma read_stable:
  "(\<forall>s m. 2 * length s < n \<longrightarrow> 2 * length s < m \<longrightarrow> readValue n s = readValue m s)
   \<and> (\<forall>s m. 2 * length s + 1 < n \<longrightarrow> 2 * length s + 1 < m \<longrightarrow> readElements n s = readElements m s)
   \<and> (\<forall>s m. 2 * length s + 1 < n \<longrightarrow> 2 * length s + 1 < m \<longrightarrow> readMembers n s = readMembers m s)"
proof (induction n)
  case (Suc n)
  then have V: "\<And>s m. 2 * length s < n \<Longrightarrow> 2 * length s < m \<Longrightarrow> readValue n s = readValue m s"
    and E: "\<And>s m. 2 * length s + 1 < n \<Longrightarrow> 2 * length s + 1 < m \<Longrightarrow> readElements n s = readElements m s"
    and M: "\<And>s m. 2 * length s + 1 < n \<Longrightarrow> 2 * length s + 1 < m \<Longrightarrow> readMembers n s = readMembers m s" by blast+
  have "readValue (Suc n) s = readValue m s" if n: "2 * length s < Suc n" and m: "2 * length s < m" for s m
  proof -
    obtain m' where m': "m = Suc m'" using m by (cases m) auto
    show ?thesis
    proof (cases "skipSpace s")
      case (Cons c t)
      then have "length t < length s" by (rule skipSpace_Cons)
      then have "readMembers n t = readMembers m' t" "readElements n t = readElements m' t"
        using n m m' by (auto intro!: M E)
      then show ?thesis by (simp add: m' Cons)
    qed (simp add: m')
  qed
  moreover have "readElements (Suc n) s = readElements m s"
    if n: "2 * length s + 1 < Suc n" and m: "2 * length s + 1 < m" for s m
  proof -
    obtain m' where m': "m = Suc m'" using m by (cases m) auto
    have one: "readValue n s = readValue m' s" using n m m' by (auto intro!: V)
    have rest: "readElements n t = readElements m' t"
      if "readValue m' s = Some (v, r)" and "skipSpace r = c # t" for v r c t
      using n m m' read_length(1) [OF that(1)] skipSpace_Cons [OF that(2)] by (auto intro!: E)
    show ?thesis by (auto simp: m' one rest split: option.splits list.splits)
  qed
  moreover have "readMembers (Suc n) s = readMembers m s"
    if n: "2 * length s + 1 < Suc n" and m: "2 * length s + 1 < m" for s m
  proof -
    obtain m' where m': "m = Suc m'" using m by (cases m) auto
    have one: "readValue n (drop 1 (skipSpace r)) = readValue m' (drop 1 (skipSpace r))"
      if "skipSpace s = q # t" and "readString t = Some (key, r)" for q t key r
      using n m m' skipSpace_Cons [OF that(1)] readString_length [OF that(2)] drop1_skipSpace_length [of r]
      by (intro V) auto
    have rest: "readMembers n t' = readMembers m' t'"
      if "skipSpace s = q # t" and "readString t = Some (key, r)"
        and "readValue m' (drop 1 (skipSpace r)) = Some (v, r')" and "skipSpace r' = c # t'" for q t key r v r' c t'
      using n m m' skipSpace_Cons [OF that(1)] readString_length [OF that(2)] drop1_skipSpace_length [of r]
        read_length(1) [OF that(3)] skipSpace_Cons [OF that(4)]
      by (intro M) auto
    show ?thesis
    proof (cases "\<exists>q t key r. skipSpace s = q # t \<and> readString t = Some (key, r)")
      case False
      then show ?thesis by (cases "skipSpace s") (auto simp: m' split: option.splits)
    next
      case True
      then obtain q t key r where sk: "skipSpace s = q # t" and str: "readString t = Some (key, r)" by blast
      note one = one [OF sk str]
      show ?thesis
      proof (cases "\<exists>v r' c t'. readValue m' (drop 1 (skipSpace r)) = Some (v, r') \<and> skipSpace r' = c # t'")
        case True
        then obtain v r' c t' where "readValue m' (drop 1 (skipSpace r)) = Some (v, r')" "skipSpace r' = c # t'"
          by blast
        with rest [OF sk str this] one show ?thesis by (simp add: m' sk str)
      next
        case False
        with one show ?thesis
          by (cases "readValue m' (drop 1 (skipSpace r))") (auto simp: m' sk str split: list.splits)
      qed
    qed
  qed
  ultimately show ?case by blast
qed simp

lemma readValue_enough: "2 * length s < n \<Longrightarrow> readValue n s = readJSON s"
  unfolding readJSON_def by (rule conjunct1 [OF read_stable, rule_format]) simp_all

subsection \<open>A written value reads back\<close>

lemma isDigit_hexDigit: "n < 10 \<Longrightarrow> isDigit (hexDigit n)"
  by (simp add: isDigit_def hexDigit_def byte_char_of)

lemma decimalNat_digits: "list_all isDigit (decimalNat n)"
  by (induction n rule: decimalNat.induct) (subst decimalNat.simps, auto simp: isDigit_hexDigit)

lemma decimalNat_not_Nil: "decimalNat n \<noteq> []"
  by (subst decimalNat.simps) simp

lemma hd_decimalNat: "0 < n \<Longrightarrow> hd (decimalNat n) \<noteq> CHR ''0''"
proof (induction n rule: decimalNat.induct)
  case (1 n)
  show ?case
  proof (cases "n < 10")
    case True
    with 1 show ?thesis
      by (subst decimalNat.simps) (simp add: char_eq_byte hexDigit_def byte_char_of, simp add: byte_def)
  next
    case False
    with 1 show ?thesis by (subst decimalNat.simps) (simp add: decimalNat_not_Nil)
  qed
qed

text \<open>What may follow a number: nothing, or a byte that is no part of a number.\<close>

definition endsNumber :: "string \<Rightarrow> bool" where
  "endsNumber rest \<longleftrightarrow>
     (case rest of [] \<Rightarrow> True
      | c # _ \<Rightarrow> \<not> isDigit c \<and> c \<noteq> CHR ''.'' \<and> c \<noteq> CHR ''e'' \<and> c \<noteq> CHR ''E'')"

lemma takeWhile_digits:
  assumes "list_all isDigit ds" and "endsNumber rest"
  shows "takeWhile isDigit (ds @ rest) = ds" and "dropWhile isDigit (ds @ rest) = rest"
  using assms by (induction ds) (auto simp: endsNumber_def split: list.splits)

lemma readInteger_decimalNat:
  assumes "endsNumber rest"
  shows "readInteger (decimalNat n @ rest) = Some (decimalNat n, rest)"
proof (cases "n = 0")
  case True
  then have "decimalNat n = [CHR ''0'']" by (subst decimalNat.simps) (simp add: hexDigit_chars)
  then show ?thesis by (simp add: readInteger_def)
next
  case False
  then have "hd (decimalNat n) \<noteq> CHR ''0''" by (simp add: hd_decimalNat)
  with takeWhile_digits [OF decimalNat_digits [of n] assms] decimalNat_not_Nil [of n] show ?thesis
    by (cases "decimalNat n") (auto simp: readInteger_def readDigits_def)
qed

lemma readUnsigned_decimalNat:
  "endsNumber rest \<Longrightarrow> readUnsigned (decimalNat n @ rest) = Some (decimalNat n, rest)"
  by (auto simp: readUnsigned_def readInteger_decimalNat readFraction_def readExponent_def endsNumber_def
      split: list.splits)

lemma hd_decimalNat_digit: "isDigit (hd (decimalNat n))"
  using decimalNat_digits [of n] decimalNat_not_Nil [of n] by (cases "decimalNat n") simp_all

lemma not_digit: "\<not> isDigit (CHR ''-'')" "\<not> isDigit quoteChar" "\<not> isDigit (CHR ''{'')" "\<not> isDigit (CHR ''['')"
  "\<not> isDigit (CHR ''t'')" "\<not> isDigit (CHR ''f'')" "\<not> isDigit (CHR ''n'')" "\<not> isDigit (CHR '']'')"
  "\<not> isDigit (CHR ''}'')" "\<not> isDigit (CHR '','')"
  by (simp_all add: isDigit_def byte_def)

lemma readNumber_decimal:
  assumes "endsNumber rest"
  shows "readNumber (decimal i @ rest) = Some (decimal i, rest)"
proof (cases "i < 0")
  case True
  with assms show ?thesis by (simp add: decimal_def readNumber_def readUnsigned_decimalNat)
next
  case False
  have "hd (decimalNat (nat i)) \<noteq> CHR ''-''" using hd_decimalNat_digit not_digit(1) by metis
  with False assms readUnsigned_decimalNat [OF assms, of "nat i"] decimalNat_not_Nil [of "nat i"] show ?thesis
    by (cases "decimalNat (nat i)") (auto simp: decimal_def readNumber_def)
qed

lemma byte_hexDigit: "n < 10 \<Longrightarrow> byte (hexDigit n) - 48 = n"
  by (simp add: hexDigit_def byte_char_of)

lemma digitsValue_decimalNat: "digitsValue (decimalNat n) = n"
proof (induction n rule: decimalNat.induct)
  case (1 n)
  show ?case
  proof (cases "n < 10")
    case True
    then show ?thesis by (subst decimalNat.simps) (simp add: digitsValue_def byte_hexDigit)
  next
    case False
    with 1 have "digitsValue (decimalNat (n div 10)) = n div 10" by simp
    with False show ?thesis by (subst decimalNat.simps) (simp add: digitsValue_def byte_hexDigit)
  qed
qed

lemma parseInt_decimal:
  assumes "- (2 ^ 63) \<le> i" and "i < 2 ^ 63"
  shows "parseInt (decimal i) = Some i"
proof -
  have "hd (decimalNat (nat i)) \<noteq> CHR ''-''" using hd_decimalNat_digit not_digit(1) by metis
  with assms show ?thesis
    by (auto simp: parseInt_def parseUnsigned_def decimal_def Let_def decimalNat_not_Nil decimalNat_digits
        digitsValue_decimalNat)
qed

text \<open>
  The values that read back: their numbers are integers as \<open>strconv.Itoa\<close> writes them.
  Their strings read back with U+FFFD for what was no UTF-8.
\<close>

fun plain :: "json \<Rightarrow> bool" where
  "plain (JNumber literal) \<longleftrightarrow> (\<exists>i. literal = decimal i)"
| "plain (JArray xs) \<longleftrightarrow> list_all plain xs"
| "plain (JObject ms) \<longleftrightarrow> list_all (\<lambda>(key, v). plain v) ms"
| "plain _ \<longleftrightarrow> True"

fun sanitised :: "json \<Rightarrow> json" where
  "sanitised (JString s) = JString (toValidUTF8 s)"
| "sanitised (JArray xs) = JArray (map sanitised xs)"
| "sanitised (JObject ms) = JObject (map (\<lambda>(key, v). (toValidUTF8 key, sanitised v)) ms)"
| "sanitised v = v"

lemma isSpace_digit: "isDigit c \<Longrightarrow> \<not> isSpace c"
  by (auto simp: isDigit_def isSpace_def)

lemma not_space: "\<not> isSpace (CHR ''-'')" "\<not> isSpace quoteChar" "\<not> isSpace (CHR ''{'')" "\<not> isSpace (CHR ''['')"
  "\<not> isSpace (CHR ''t'')" "\<not> isSpace (CHR ''f'')" "\<not> isSpace (CHR ''n'')" "\<not> isSpace (CHR '']'')"
  "\<not> isSpace (CHR ''}'')" "\<not> isSpace (CHR '','')" "\<not> isSpace (CHR '':'')"
  by (simp_all add: isSpace_def byte_def)

lemma decimal_start: "\<exists>c s. decimal i = c # s \<and> (isDigit c \<or> c = CHR ''-'')"
  using hd_decimalNat_digit [of "nat i"] decimalNat_not_Nil [of "nat i"]
  by (cases "decimalNat (nat i)") (auto simp: decimal_def)

lemma skipSpace_Nil [simp]: "skipSpace [] = []"
  by (simp add: skipSpace_def)

lemma skipSpace_id: "\<not> isSpace c \<Longrightarrow> skipSpace (c # s) = c # s"
  by (simp add: skipSpace_def)

lemma encode_start:
  "plain v \<Longrightarrow> \<exists>c s. encode v = c # s \<and> \<not> isSpace c \<and> c \<noteq> CHR '']'' \<and> c \<noteq> CHR ''}''"
proof (cases v)
  case (JNumber literal)
  assume "plain v"
  then obtain i where "literal = decimal i" using JNumber by auto
  with decimal_start [of i] JNumber show ?thesis by (auto simp: isSpace_digit not_space not_digit)
qed (auto simp: not_space quoted_def)

lemma endsNumber_separators: "endsNumber (CHR '','' # s)" "endsNumber (CHR '']'' # s)" "endsNumber (CHR ''}'' # s)"
  "endsNumber []"
  by (simp_all add: endsNumber_def not_digit)

lemma readValue_number:
  assumes "endsNumber rest"
  shows "readValue (Suc n) (decimal i @ rest) = Some (JNumber (decimal i), rest)"
proof -
  obtain c s where start: "decimal i = c # s" and c: "isDigit c \<or> c = CHR ''-''" using decimal_start by blast
  then have "\<not> isSpace c" "c \<noteq> quoteChar" "c \<noteq> CHR ''{''" "c \<noteq> CHR ''[''" "c \<noteq> CHR ''t''" "c \<noteq> CHR ''f''" "c \<noteq> CHR ''n''"
    using not_digit not_space isSpace_digit by auto
  then show ?thesis
    using readNumber_decimal [OF assms, of i] by (simp add: start skipSpace_id)
qed

lemma read_encode:
  "plain v \<Longrightarrow> 2 * length (encode v) \<le> n \<Longrightarrow> endsNumber rest \<Longrightarrow>
     readValue n (encode v @ rest) = Some (sanitised v, rest)"
  "list_all plain xs \<Longrightarrow> xs \<noteq> [] \<Longrightarrow> 2 * length (encodeElements xs) + 1 \<le> n \<Longrightarrow>
     readElements n (encodeElements xs @ CHR '']'' # rest) = Some (map sanitised xs, rest)"
  "list_all (\<lambda>(key, v). plain v) ms \<Longrightarrow> ms \<noteq> [] \<Longrightarrow> 2 * length (encodeMembers ms) + 1 \<le> n \<Longrightarrow>
     readMembers n (encodeMembers ms @ CHR ''}'' # rest) = Some (map (\<lambda>(key, v). (toValidUTF8 key, sanitised v)) ms, rest)"
proof (induction v and xs and ms arbitrary: n rest and n rest and n rest
    rule: encode_encodeElements_encodeMembers.induct)
  case 1
  then show ?case by (cases n) (simp_all add: skipSpace_id not_space readLiteral_def)
next
  case (2 b)
  then show ?case by (cases n; cases b) (simp_all add: skipSpace_id not_space readLiteral_def)
next
  case (3 literal)
  then obtain i where i: "literal = decimal i" by auto
  obtain m where "n = Suc m" using 3 decimal_start [of i] by (cases n) (auto simp: i)
  with readValue_number [OF "3.prems"(3)] show ?case by (simp add: i del: readValue.simps)
next
  case (4 s)
  then show ?case by (cases n) (simp_all add: quoted_def skipSpace_id not_space readString_quoteBody)
next
  case (5 xs)
  obtain m where n: "n = Suc m" using "5.prems"(2) by (cases n) auto
  show ?case
  proof (cases xs)
    case Nil
    then show ?thesis by (simp add: n skipSpace_id not_space)
  next
    case (Cons x xs')
    obtain c s where start: "encode x = c # s" "\<not> isSpace c" "c \<noteq> CHR '']''"
      using encode_start [of x] "5.prems"(1) Cons by auto
    then have "encodeElements xs = c # s @ (if xs' = [] then [] else CHR '','' # encodeElements xs')"
      using Cons by simp
    with start have "take 1 (skipSpace (encodeElements xs @ CHR '']'' # rest)) \<noteq> '']''"
      by (simp add: skipSpace_id)
    moreover have "readElements m (encodeElements xs @ CHR '']'' # rest) = Some (map sanitised xs, rest)"
      using 5 Cons n by simp
    ultimately show ?thesis by (simp add: n skipSpace_id not_space)
  qed
next
  case (6 ms)
  obtain m where n: "n = Suc m" using "6.prems"(2) by (cases n) auto
  show ?case
  proof (cases ms)
    case Nil
    then show ?thesis by (simp add: n skipSpace_id not_space)
  next
    case (Cons p ms')
    obtain s where "encodeMembers ms = quoteChar # s"
      using Cons by (cases p) (simp add: quoted_def)
    then have "take 1 (skipSpace (encodeMembers ms @ CHR ''}'' # rest)) \<noteq> ''}''"
      by (simp add: skipSpace_id not_space)
    moreover have "readMembers m (encodeMembers ms @ CHR ''}'' # rest) = Some (map (\<lambda>(key, v). (toValidUTF8 key, sanitised v)) ms, rest)"
      using 6 Cons n by simp
    ultimately show ?thesis by (simp add: n skipSpace_id not_space)
  qed
next
  case 7
  then show ?case by simp
next
  case (8 x xs)
  obtain m where n: "n = Suc m" using "8.prems"(3) by (cases n) auto
  show ?case
  proof (cases "xs = []")
    case True
    have "readValue m (encode x @ CHR '']'' # rest) = Some (sanitised x, CHR '']'' # rest)"
      using 8 True n by (intro "8.IH"(1)) (simp_all add: endsNumber_separators)
    with True show ?thesis by (simp add: n skipSpace_id not_space)
  next
    case False
    have "readValue m (encode x @ CHR '','' # encodeElements xs @ CHR '']'' # rest)
        = Some (sanitised x, CHR '','' # encodeElements xs @ CHR '']'' # rest)"
      using 8 n by (intro "8.IH"(1)) (simp_all add: endsNumber_separators)
    moreover have "readElements m (encodeElements xs @ CHR '']'' # rest) = Some (map sanitised xs, rest)"
      using 8 False n by (intro "8.IH"(2)) simp_all
    ultimately show ?thesis using False by (simp add: n skipSpace_id not_space)
  qed
next
  case 9
  then show ?case by simp
next
  case (10 key v ms)
  obtain m where n: "n = Suc m" using "10.prems"(3) by (cases n) auto
  have v: "plain v" and ms: "list_all (\<lambda>(key, v). plain v) ms"
    using "10.prems"(1) by auto
  have str: "readString (quoteBody key @ quoteChar # CHR '':'' # r) = Some (toValidUTF8 key, CHR '':'' # r)" for r
    by (rule readString_quoteBody)
  show ?case
  proof (cases "ms = []")
    case True
    have "readValue m (encode v @ CHR ''}'' # rest) = Some (sanitised v, CHR ''}'' # rest)"
      using 10 True n v by (intro "10.IH"(1)) (simp_all add: endsNumber_separators)
    with True show ?thesis by (simp add: n quoted_def str skipSpace_id not_space)
  next
    case False
    have "readValue m (encode v @ CHR '','' # encodeMembers ms @ CHR ''}'' # rest)
        = Some (sanitised v, CHR '','' # encodeMembers ms @ CHR ''}'' # rest)"
      using 10 n v by (intro "10.IH"(1)) (simp_all add: endsNumber_separators)
    moreover have "readMembers m (encodeMembers ms @ CHR ''}'' # rest) = Some (map (\<lambda>(key, v). (toValidUTF8 key, sanitised v)) ms, rest)"
      using 10 False n ms by (intro "10.IH"(2)) simp_all
    ultimately show ?thesis using False by (simp add: n quoted_def str skipSpace_id not_space)
  qed
qed

lemma readJSON_encode: "plain v \<Longrightarrow> readJSON (encode v) = Some (sanitised v, '''')"
  using read_encode(1) [of v "2 * length (encode v) + 1" "''''"]
  by (simp add: readJSON_def endsNumber_separators)

end
