(* ===== verification/Kubernetes.thy ===== *)
theory Kubernetes
  imports Purge
begin

section \<open>Kubernetes objects and the API of the controller\<close>

text \<open>
  The objects the controller reads and writes, with the fields it uses, and what it calls
  of client-go, controller-runtime, Cluster API and the OpenStack provider. None of that
  code is in the repository: the calls are parameters, and \<open>documentedKubernetes\<close> states
  what their documentation promises. A map of the Go code that is nil reads like an empty
  one, so both are \<open>Map.empty\<close>. A time stamp that \<open>IsZero\<close> is \<open>None\<close>.
\<close>

subsection \<open>Objects\<close>

record OwnerReference =
  ref_APIVersion :: string
  ref_Kind :: string
  ref_Name :: string
  ref_UID :: string

record IdentityReference =
  ident_Type :: string
  ident_Name :: string
  ident_CloudName :: string

record OpenStackCluster =
  osc_Name :: string
  osc_Namespace :: string
  osc_UID :: string
  osc_ResourceVersion :: string
  osc_Generation :: int
  osc_Labels :: "string \<rightharpoonup> string"
  osc_Annotations :: "string \<rightharpoonup> string"
  osc_Finalizers :: "string list"
  osc_OwnerReferences :: "OwnerReference list"
  osc_DeletionTimestamp :: "int option"
  osc_IdentityRef :: IdentityReference

record Cluster =
  cluster_Name :: string
  cluster_Namespace :: string
  cluster_UID :: string
  cluster_Annotations :: "string \<rightharpoonup> string"
  cluster_Paused :: bool

record Secret =
  secret_Name :: string
  secret_Namespace :: string
  secret_UID :: string
  secret_ResourceVersion :: string
  secret_Annotations :: "string \<rightharpoonup> string"
  secret_DeletionTimestamp :: "int option"
  secret_Data :: "string \<rightharpoonup> string"

text \<open>\<open>types.NamespacedName\<close> and \<open>client.ObjectKeyFromObject\<close>.\<close>

type_synonym ObjectKey = "string \<times> string"

definition objectKey :: "OpenStackCluster \<Rightarrow> ObjectKey" where
  "objectKey cluster = (osc_Namespace cluster, osc_Name cluster)"

subsection \<open>Clients\<close>

text \<open>
  \<open>client.Reader\<close> at the types it is used with. \<open>Patch base new\<close> is a merge patch from
  \<open>base\<close> to \<open>new\<close> with the resource version of \<open>base\<close> as a lock; it answers the object as
  the server has it. \<open>DeleteSecret\<close> has a UID and a resource version as preconditions, and
  \<open>ListMatching\<close> is the cached list with \<open>client.MatchingFields\<close>.
\<close>

record 'w Reader =
  GetOpenStackCluster :: "ObjectKey \<Rightarrow> ('w, error, OpenStackCluster) act"
  GetCluster :: "ObjectKey \<Rightarrow> ('w, error, Cluster) act"
  GetSecret :: "ObjectKey \<Rightarrow> ('w, error, Secret) act"
  ListOpenStackClusters :: "string \<Rightarrow> ('w, error, OpenStackCluster list) act"

record 'w KubeClient =
  client_Reader :: "'w Reader"
  ListMatching :: "string \<Rightarrow> string \<Rightarrow> string \<Rightarrow> ('w, error, OpenStackCluster list) act"
  PatchCluster :: "OpenStackCluster \<Rightarrow> OpenStackCluster \<Rightarrow> ('w, error, OpenStackCluster) act"
  DeleteSecret :: "Secret \<Rightarrow> string \<Rightarrow> string \<Rightarrow> ('w, error, unit) act"

text \<open>
  The pure functions of those packages. The first argument of \<open>NewConflict\<close> is the resource
  of the group resource that the code names.
\<close>

record kubernetes =
  IsNotFound :: "error \<Rightarrow> bool"
  IsConflict :: "error \<Rightarrow> bool"
  NewConflict :: "string \<Rightarrow> string \<Rightarrow> error \<Rightarrow> error"
  IgnoreNotFound :: "error \<Rightarrow> error option"
  ContainsFinalizer :: "OpenStackCluster \<Rightarrow> string \<Rightarrow> bool"
  AddFinalizer :: "OpenStackCluster \<Rightarrow> string \<Rightarrow> OpenStackCluster"
  RemoveFinalizer :: "OpenStackCluster \<Rightarrow> string \<Rightarrow> OpenStackCluster"
  ParseGroupVersion :: "string \<Rightarrow> error + (string \<times> string)"
  clusterv1_Group :: string
  clusterv1_PausedAnnotation :: string
  EventTypeNormal :: string
  EventTypeWarning :: string

definition documentedKubernetes :: "kubernetes \<Rightarrow> bool" where
  "documentedKubernetes k \<longleftrightarrow>
     (\<forall>e. IgnoreNotFound k e = (if IsNotFound k e then None else Some e))
   \<and> (\<forall>t e. IsNotFound k (Wrapf t e) = IsNotFound k e \<and> IsConflict k (Wrapf t e) = IsConflict k e)
   \<and> (\<forall>e \<in> {ErrPaused, ErrDeletePending}. \<not> IsNotFound k e \<and> \<not> IsConflict k e)
   \<and> (\<forall>res name e. let c = NewConflict k res name e in
        IsConflict k c \<and> \<not> IsNotFound k c \<and> \<not> Is c ErrPaused \<and> \<not> Is c ErrDeletePending)
   \<and> (\<forall>c f. ContainsFinalizer k c f \<longleftrightarrow> f \<in> set (osc_Finalizers c))
   \<and> (\<forall>c f. AddFinalizer k c f
            = c\<lparr>osc_Finalizers := (if f \<in> set (osc_Finalizers c) then osc_Finalizers c
                                  else osc_Finalizers c @ [f])\<rparr>)
   \<and> (\<forall>c f. RemoveFinalizer k c f = c\<lparr>osc_Finalizers := filter (\<lambda>g. g \<noteq> f) (osc_Finalizers c)\<rparr>)"

subsection \<open>A concrete library\<close>

text \<open>
  An instance for witnesses: a not-found error and a conflict are errors of their own types,
  found through wrapping, and a group version is split at its slash.
\<close>

definition sampleNotFound :: error where
  "sampleNotFound = Foreign ''NotFound'' ''not found'' []"

fun isConflictError :: "error \<Rightarrow> bool" where
  "isConflictError (Foreign t m es) \<longleftrightarrow> t = ''Conflict''"
| "isConflictError _ \<longleftrightarrow> False"

definition sampleKubernetes :: kubernetes where
  "sampleKubernetes =
     \<lparr>IsNotFound = (\<lambda>e. sampleNotFound \<in> set (chain e)),
      IsConflict = (\<lambda>e. list_ex isConflictError (chain e)),
      NewConflict = (\<lambda>res name e. Foreign ''Conflict'' (res @ '' '' @ name) []),
      IgnoreNotFound = (\<lambda>e. if sampleNotFound \<in> set (chain e) then None else Some e),
      ContainsFinalizer = (\<lambda>c f. f \<in> set (osc_Finalizers c)),
      AddFinalizer = (\<lambda>c f. c\<lparr>osc_Finalizers := (if f \<in> set (osc_Finalizers c) then osc_Finalizers c
                                                else osc_Finalizers c @ [f])\<rparr>),
      RemoveFinalizer = (\<lambda>c f. c\<lparr>osc_Finalizers := filter (\<lambda>g. g \<noteq> f) (osc_Finalizers c)\<rparr>),
      ParseGroupVersion = (\<lambda>s. case Cut s ''/'' of (g, version, found) \<Rightarrow>
          if found then Inr (g, version) else Inr ('''', s)),
      clusterv1_Group = ''cluster.x-k8s.io'',
      clusterv1_PausedAnnotation = ''cluster.x-k8s.io/paused'',
      EventTypeNormal = ''Normal'',
      EventTypeWarning = ''Warning''\<rparr>"

lemma sampleKubernetes_documented: "documentedKubernetes sampleKubernetes"
  by (auto simp: documentedKubernetes_def sampleKubernetes_def sampleNotFound_def Let_def Is_def)

end
