(* ===== verification/Checkpoint.thy ===== *)
theory Checkpoint
  imports Json_Text Kubernetes
begin

section \<open>The credential cleanup checkpoint\<close>

text \<open>
  The checkpoint of \<open>credential_cleanup.go\<close>: how it is written to an annotation of the
  cluster, how it is read back and validated, and the round trip between the two.
\<close>

definition Finalizer :: string where
  "Finalizer = ''janitor.capi.stackhpc.com''"
definition VolumesPolicyAnnotation :: string where
  "VolumesPolicyAnnotation = ''janitor.capi.stackhpc.com/volumes-policy''"
definition CredentialPolicyAnnotation :: string where
  "CredentialPolicyAnnotation = ''janitor.capi.stackhpc.com/credential-policy''"
definition ClusterNameLabel :: string where
  "ClusterNameLabel = ''cluster.x-k8s.io/cluster-name''"
definition PolicyDelete :: string where "PolicyDelete = ''delete''"
definition CredentialCheckpointAnnotation :: string where
  "CredentialCheckpointAnnotation = ''janitor.capi.stackhpc.com/credential-cleanup''"
definition credentialDeleteStarted :: string where "credentialDeleteStarted = ''credentialDeleteStarted''"
definition secretDeleteStarted :: string where "secretDeleteStarted = ''secretDeleteStarted''"

record credentialCheckpoint =
  ck_Version :: int
  ck_Phase :: string
  ck_ClusterUID :: string
  ck_ClusterName :: string
  ck_SecretName :: string
  ck_SecretUID :: string
  ck_Cloud :: CredentialBinding
  ck_VolumesPolicy :: string
  ck_CredentialPolicy :: string

subsection \<open>Writing\<close>

text \<open>\<open>json.Marshal\<close> of the two structs: the members in the order of the fields, by their tags.\<close>

definition bindingJSON :: "CredentialBinding \<Rightarrow> json" where
  "bindingJSON b =
     JObject [(''authority'', JString (cb_Authority b)), (''projectID'', JString (cb_ProjectID b)),
              (''userID'', JString (cb_UserID b)), (''region'', JString (cb_Region b)),
              (''interface'', JString (cb_Interface b)), (''cloudName'', JString (cb_CloudName b)),
              (''credentialID'', JString (cb_CredentialID b))]"

definition checkpointJSON :: "credentialCheckpoint \<Rightarrow> json" where
  "checkpointJSON state =
     JObject [(''version'', JNumber (decimal (ck_Version state))), (''phase'', JString (ck_Phase state)),
              (''clusterUID'', JString (ck_ClusterUID state)), (''clusterName'', JString (ck_ClusterName state)),
              (''secretName'', JString (ck_SecretName state)), (''secretUID'', JString (ck_SecretUID state)),
              (''cloud'', bindingJSON (ck_Cloud state)), (''volumesPolicy'', JString (ck_VolumesPolicy state)),
              (''credentialPolicy'', JString (ck_CredentialPolicy state))]"

definition marshalCheckpoint :: "credentialCheckpoint \<Rightarrow> string" where
  "marshalCheckpoint state = encode (checkpointJSON state)"

subsection \<open>Reading\<close>

text \<open>
  A key names the field with exactly that tag, otherwise the field whose tag equals it under
  Unicode case folding. The tags are ASCII, and the only runes outside ASCII that fold to an
  ASCII letter are U+017F (to S) and U+212A (to K); the bytes of any other rune are left as
  they are, since they match no tag.
\<close>

fun foldName :: "string \<Rightarrow> string" where
  "foldName [] = []"
| "foldName (c # s) =
     (if 97 \<le> byte c \<and> byte c \<le> 122 then char_of (byte c - 32) # foldName s
      else if byte c = 0xC5 \<and> byteAt s 0 = 0xBF then CHR ''S'' # foldName (drop 1 s)
      else if byte c = 0xE2 \<and> byteAt s 0 = 0x84 \<and> byteAt s 1 = 0xAA then CHR ''K'' # foldName (drop 2 s)
      else c # foldName s)"

definition fieldNamed :: "string list \<Rightarrow> string \<Rightarrow> string option" where
  "fieldNamed tags key =
     (if key \<in> set tags then Some key
      else List.find (\<lambda>tag. foldName tag = foldName key) tags)"

text \<open>
  Storing a value in a field: \<open>null\<close> leaves the field alone, a value of another type, or a
  number that is no 64-bit integer, is an error of the whole decoding (\<open>None\<close>).
\<close>

definition storeString :: "json \<Rightarrow> string \<Rightarrow> string option" where
  "storeString v old = (case v of JString s \<Rightarrow> Some s | JNull \<Rightarrow> Some old | _ \<Rightarrow> None)"

definition storeInt :: "json \<Rightarrow> int \<Rightarrow> int option" where
  "storeInt v old = (case v of JNumber literal \<Rightarrow> parseInt literal | JNull \<Rightarrow> Some old | _ \<Rightarrow> None)"

definition bindingTags :: "string list" where
  "bindingTags = [''authority'', ''projectID'', ''userID'', ''region'', ''interface'', ''cloudName'', ''credentialID'']"

text \<open>
  A member of the object sets a field of the struct; an unknown field is an error because of
  \<open>DisallowUnknownFields\<close>, and a later member of the same name overrides an earlier one.
\<close>

definition storeBindingField :: "string \<Rightarrow> json \<Rightarrow> CredentialBinding \<Rightarrow> CredentialBinding option" where
  "storeBindingField key v b =
     (case fieldNamed bindingTags key of
        None \<Rightarrow> None
      | Some tag \<Rightarrow>
          if tag = ''authority'' then map_option (\<lambda>s. b\<lparr>cb_Authority := s\<rparr>) (storeString v (cb_Authority b))
          else if tag = ''projectID'' then map_option (\<lambda>s. b\<lparr>cb_ProjectID := s\<rparr>) (storeString v (cb_ProjectID b))
          else if tag = ''userID'' then map_option (\<lambda>s. b\<lparr>cb_UserID := s\<rparr>) (storeString v (cb_UserID b))
          else if tag = ''region'' then map_option (\<lambda>s. b\<lparr>cb_Region := s\<rparr>) (storeString v (cb_Region b))
          else if tag = ''interface'' then map_option (\<lambda>s. b\<lparr>cb_Interface := s\<rparr>) (storeString v (cb_Interface b))
          else if tag = ''cloudName'' then map_option (\<lambda>s. b\<lparr>cb_CloudName := s\<rparr>) (storeString v (cb_CloudName b))
          else map_option (\<lambda>s. b\<lparr>cb_CredentialID := s\<rparr>) (storeString v (cb_CredentialID b)))"

fun storeMembers :: "(string \<Rightarrow> json \<Rightarrow> 's \<Rightarrow> 's option) \<Rightarrow> (string \<times> json) list \<Rightarrow> 's \<Rightarrow> 's option" where
  "storeMembers store [] s = Some s"
| "storeMembers store ((key, v) # ms) s =
     (case store key v s of None \<Rightarrow> None | Some s' \<Rightarrow> storeMembers store ms s')"

definition storeStruct :: "(string \<Rightarrow> json \<Rightarrow> 's \<Rightarrow> 's option) \<Rightarrow> json \<Rightarrow> 's \<Rightarrow> 's option" where
  "storeStruct store v s =
     (case v of JObject ms \<Rightarrow> storeMembers store ms s | JNull \<Rightarrow> Some s | _ \<Rightarrow> None)"

definition checkpointTags :: "string list" where
  "checkpointTags = [''version'', ''phase'', ''clusterUID'', ''clusterName'', ''secretName'', ''secretUID'',
                     ''cloud'', ''volumesPolicy'', ''credentialPolicy'']"

definition storeCheckpointField :: "string \<Rightarrow> json \<Rightarrow> credentialCheckpoint \<Rightarrow> credentialCheckpoint option" where
  "storeCheckpointField key v state =
     (case fieldNamed checkpointTags key of
        None \<Rightarrow> None
      | Some tag \<Rightarrow>
          if tag = ''version'' then map_option (\<lambda>i. state\<lparr>ck_Version := i\<rparr>) (storeInt v (ck_Version state))
          else if tag = ''phase'' then map_option (\<lambda>s. state\<lparr>ck_Phase := s\<rparr>) (storeString v (ck_Phase state))
          else if tag = ''clusterUID''
          then map_option (\<lambda>s. state\<lparr>ck_ClusterUID := s\<rparr>) (storeString v (ck_ClusterUID state))
          else if tag = ''clusterName''
          then map_option (\<lambda>s. state\<lparr>ck_ClusterName := s\<rparr>) (storeString v (ck_ClusterName state))
          else if tag = ''secretName''
          then map_option (\<lambda>s. state\<lparr>ck_SecretName := s\<rparr>) (storeString v (ck_SecretName state))
          else if tag = ''secretUID''
          then map_option (\<lambda>s. state\<lparr>ck_SecretUID := s\<rparr>) (storeString v (ck_SecretUID state))
          else if tag = ''cloud''
          then map_option (\<lambda>b. state\<lparr>ck_Cloud := b\<rparr>) (storeStruct storeBindingField v (ck_Cloud state))
          else if tag = ''volumesPolicy''
          then map_option (\<lambda>s. state\<lparr>ck_VolumesPolicy := s\<rparr>) (storeString v (ck_VolumesPolicy state))
          else map_option (\<lambda>s. state\<lparr>ck_CredentialPolicy := s\<rparr>) (storeString v (ck_CredentialPolicy state)))"

definition zeroBinding :: CredentialBinding where
  "zeroBinding = \<lparr>cb_Authority = '''', cb_ProjectID = '''', cb_UserID = '''', cb_Region = '''',
                 cb_Interface = '''', cb_CloudName = '''', cb_CredentialID = ''''\<rparr>"

definition zeroCheckpoint :: credentialCheckpoint where
  "zeroCheckpoint = \<lparr>ck_Version = 0, ck_Phase = '''', ck_ClusterUID = '''', ck_ClusterName = '''',
                    ck_SecretName = '''', ck_SecretUID = '''', ck_Cloud = zeroBinding,
                    ck_VolumesPolicy = '''', ck_CredentialPolicy = ''''\<rparr>"

text \<open>\<open>decoder.Decode(&state)\<close> and what is left of the text.\<close>

definition decodeCheckpoint :: "string \<Rightarrow> (credentialCheckpoint \<times> string) option" where
  "decodeCheckpoint data =
     (case readJSON data of
        None \<Rightarrow> None
      | Some (v, rest) \<Rightarrow> map_option (\<lambda>state. (state, rest)) (storeStruct storeCheckpointField v zeroCheckpoint))"

text \<open>The \<open>switch\<close> and the validation of the binding.\<close>

definition checkpointError :: "urls \<Rightarrow> credentialCheckpoint \<Rightarrow> error option" where
  "checkpointError net state =
     (if ck_Version state \<noteq> 1
      then Some (Errorf [Txt ''unsupported credential checkpoint version''])
      else if ck_Phase state \<noteq> credentialDeleteStarted \<and> ck_Phase state \<noteq> secretDeleteStarted
      then Some (Errorf [Txt ''unsupported credential checkpoint phase''])
      else if ck_ClusterUID state = '''' \<or> ck_ClusterName state = ''''
      then Some (Errorf [Txt ''credential checkpoint is missing cluster identity''])
      else if ck_SecretUID state = '''' \<or> ck_SecretName state = ''''
      then Some (Errorf [Txt ''credential checkpoint is missing Secret identity''])
      else if ck_CredentialPolicy state \<noteq> PolicyDelete
      then Some (Errorf [Txt ''credential checkpoint requires delete policy''])
      else if ck_VolumesPolicy state \<noteq> PolicyDelete \<and> ck_VolumesPolicy state \<noteq> ''keep''
      then Some (Errorf [Txt ''unsupported checkpoint volumes policy''])
      else
        (case ValidateCredentialBinding net (ck_Cloud state) of
           Inl err \<Rightarrow> Some (Wrapf [Txt ''invalid credential checkpoint cloud binding''] err)
         | Inr _ \<Rightarrow> None))"

text \<open>
  The second \<open>Decode\<close> answers \<open>io.EOF\<close> exactly if only white space is left.
\<close>

definition readCredentialCheckpoint ::
  "urls \<Rightarrow> OpenStackCluster \<Rightarrow> error + credentialCheckpoint option"
where
  "readCredentialCheckpoint net cluster =
     (case osc_Annotations cluster CredentialCheckpointAnnotation of
        None \<Rightarrow> Inr None
      | Some data \<Rightarrow>
          (case decodeCheckpoint data of
             None \<Rightarrow> Inl (Errorf [Txt ''credential cleanup checkpoint is invalid''])
           | Some (state, rest) \<Rightarrow>
               if skipSpace rest \<noteq> ''''
               then Inl (Errorf [Txt ''credential cleanup checkpoint contains trailing data''])
               else (case checkpointError net state of
                       Some err \<Rightarrow> Inl err
                     | None \<Rightarrow> Inr (Some state))))"

subsection \<open>Round trip\<close>

text \<open>
  The checkpoint with U+FFFD in place of every byte that is no UTF-8, as it reads back. A
  checkpoint of UTF-8 strings is its own.
\<close>

definition utf8Binding :: "CredentialBinding \<Rightarrow> bool" where
  "utf8Binding b \<longleftrightarrow> list_all utf8Valid
     [cb_Authority b, cb_ProjectID b, cb_UserID b, cb_Region b, cb_Interface b, cb_CloudName b, cb_CredentialID b]"

definition utf8Checkpoint :: "credentialCheckpoint \<Rightarrow> bool" where
  "utf8Checkpoint state \<longleftrightarrow> utf8Binding (ck_Cloud state) \<and> list_all utf8Valid
     [ck_Phase state, ck_ClusterUID state, ck_ClusterName state, ck_SecretName state, ck_SecretUID state,
      ck_VolumesPolicy state, ck_CredentialPolicy state]"

definition sanitisedBinding :: "CredentialBinding \<Rightarrow> CredentialBinding" where
  "sanitisedBinding b =
     \<lparr>cb_Authority = toValidUTF8 (cb_Authority b), cb_ProjectID = toValidUTF8 (cb_ProjectID b),
      cb_UserID = toValidUTF8 (cb_UserID b), cb_Region = toValidUTF8 (cb_Region b),
      cb_Interface = toValidUTF8 (cb_Interface b), cb_CloudName = toValidUTF8 (cb_CloudName b),
      cb_CredentialID = toValidUTF8 (cb_CredentialID b)\<rparr>"

definition sanitisedCheckpoint :: "credentialCheckpoint \<Rightarrow> credentialCheckpoint" where
  "sanitisedCheckpoint state =
     \<lparr>ck_Version = ck_Version state, ck_Phase = toValidUTF8 (ck_Phase state),
      ck_ClusterUID = toValidUTF8 (ck_ClusterUID state), ck_ClusterName = toValidUTF8 (ck_ClusterName state),
      ck_SecretName = toValidUTF8 (ck_SecretName state), ck_SecretUID = toValidUTF8 (ck_SecretUID state),
      ck_Cloud = sanitisedBinding (ck_Cloud state), ck_VolumesPolicy = toValidUTF8 (ck_VolumesPolicy state),
      ck_CredentialPolicy = toValidUTF8 (ck_CredentialPolicy state)\<rparr>"

lemma sanitisedCheckpoint_id: "utf8Checkpoint state \<Longrightarrow> sanitisedCheckpoint state = state"
  by (simp add: utf8Checkpoint_def utf8Binding_def sanitisedCheckpoint_def sanitisedBinding_def toValidUTF8_id)

text \<open>The conditions on a checkpoint that is read back.\<close>

definition validCheckpoint :: "urls \<Rightarrow> credentialCheckpoint \<Rightarrow> bool" where
  "validCheckpoint net state \<longleftrightarrow>
     ck_Version state = 1 \<and> ck_Phase state \<in> {credentialDeleteStarted, secretDeleteStarted}
   \<and> '''' \<notin> {ck_ClusterUID state, ck_ClusterName state, ck_SecretUID state, ck_SecretName state}
   \<and> ck_CredentialPolicy state = PolicyDelete \<and> ck_VolumesPolicy state \<in> {PolicyDelete, ''keep''}
   \<and> ValidateCredentialBinding net (ck_Cloud state) = Inr ()"

lemma tags_sanitised: "list_all (\<lambda>tag. toValidUTF8 tag = tag) (bindingTags @ checkpointTags)"
  by (simp add: bindingTags_def checkpointTags_def byte_def)

lemma checkpoint_plain: "plain (checkpointJSON state)"
  by (auto simp: checkpointJSON_def bindingJSON_def)

lemma sanitised_binding: "sanitised (bindingJSON b) = bindingJSON (sanitisedBinding b)"
  using tags_sanitised by (simp add: bindingJSON_def sanitisedBinding_def bindingTags_def del: toValidUTF8.simps)

lemma sanitised_checkpoint: "sanitised (checkpointJSON state) = checkpointJSON (sanitisedCheckpoint state)"
  using tags_sanitised
  by (simp add: checkpointJSON_def sanitisedCheckpoint_def sanitised_binding checkpointTags_def
      del: toValidUTF8.simps)

text \<open>A string under the exact tag of a field sets that field.\<close>

lemma fieldNamed_bindingTags:
  "fieldNamed bindingTags ''authority'' = Some ''authority''"
  "fieldNamed bindingTags ''projectID'' = Some ''projectID''"
  "fieldNamed bindingTags ''userID'' = Some ''userID''"
  "fieldNamed bindingTags ''region'' = Some ''region''"
  "fieldNamed bindingTags ''interface'' = Some ''interface''"
  "fieldNamed bindingTags ''cloudName'' = Some ''cloudName''"
  "fieldNamed bindingTags ''credentialID'' = Some ''credentialID''"
  by (simp_all add: fieldNamed_def bindingTags_def)

lemma fieldNamed_checkpointTags:
  "fieldNamed checkpointTags ''version'' = Some ''version''"
  "fieldNamed checkpointTags ''cloud'' = Some ''cloud''"
  "fieldNamed checkpointTags ''phase'' = Some ''phase''"
  "fieldNamed checkpointTags ''clusterUID'' = Some ''clusterUID''"
  "fieldNamed checkpointTags ''clusterName'' = Some ''clusterName''"
  "fieldNamed checkpointTags ''secretName'' = Some ''secretName''"
  "fieldNamed checkpointTags ''secretUID'' = Some ''secretUID''"
  "fieldNamed checkpointTags ''volumesPolicy'' = Some ''volumesPolicy''"
  "fieldNamed checkpointTags ''credentialPolicy'' = Some ''credentialPolicy''"
  by (simp_all add: fieldNamed_def checkpointTags_def)

lemma storeBindingField_tag:
  "storeBindingField ''authority'' (JString s) b = Some (b\<lparr>cb_Authority := s\<rparr>)"
  "storeBindingField ''projectID'' (JString s) b = Some (b\<lparr>cb_ProjectID := s\<rparr>)"
  "storeBindingField ''userID'' (JString s) b = Some (b\<lparr>cb_UserID := s\<rparr>)"
  "storeBindingField ''region'' (JString s) b = Some (b\<lparr>cb_Region := s\<rparr>)"
  "storeBindingField ''interface'' (JString s) b = Some (b\<lparr>cb_Interface := s\<rparr>)"
  "storeBindingField ''cloudName'' (JString s) b = Some (b\<lparr>cb_CloudName := s\<rparr>)"
  "storeBindingField ''credentialID'' (JString s) b = Some (b\<lparr>cb_CredentialID := s\<rparr>)"
  by (simp_all add: storeBindingField_def fieldNamed_bindingTags storeString_def)

lemma storeBinding_json:
  "storeStruct storeBindingField (bindingJSON b) b0 = Some b"
  by (simp add: storeStruct_def bindingJSON_def storeBindingField_tag)

lemma storeCheckpointField_tag:
  "storeCheckpointField ''phase'' (JString s) state = Some (state\<lparr>ck_Phase := s\<rparr>)"
  "storeCheckpointField ''clusterUID'' (JString s) state = Some (state\<lparr>ck_ClusterUID := s\<rparr>)"
  "storeCheckpointField ''clusterName'' (JString s) state = Some (state\<lparr>ck_ClusterName := s\<rparr>)"
  "storeCheckpointField ''secretName'' (JString s) state = Some (state\<lparr>ck_SecretName := s\<rparr>)"
  "storeCheckpointField ''secretUID'' (JString s) state = Some (state\<lparr>ck_SecretUID := s\<rparr>)"
  "storeCheckpointField ''volumesPolicy'' (JString s) state = Some (state\<lparr>ck_VolumesPolicy := s\<rparr>)"
  "storeCheckpointField ''credentialPolicy'' (JString s) state = Some (state\<lparr>ck_CredentialPolicy := s\<rparr>)"
  "storeCheckpointField ''version'' (JNumber literal) state = map_option (\<lambda>i. state\<lparr>ck_Version := i\<rparr>) (parseInt literal)"
  "storeCheckpointField ''cloud'' (bindingJSON b) state = Some (state\<lparr>ck_Cloud := b\<rparr>)"
  by (simp_all add: storeCheckpointField_def fieldNamed_checkpointTags storeString_def storeInt_def storeBinding_json)

lemma storeCheckpoint_json:
  assumes "ck_Version state = 1"
  shows "storeStruct storeCheckpointField (checkpointJSON state) state0 = Some state"
  using parseInt_decimal [of 1] assms
  by (simp add: storeStruct_def checkpointJSON_def storeCheckpointField_tag)

lemma decode_marshal:
  assumes "ck_Version state = 1"
  shows "decodeCheckpoint (marshalCheckpoint state) = Some (sanitisedCheckpoint state, '''')"
proof -
  have "ck_Version (sanitisedCheckpoint state) = 1" using assms by (simp add: sanitisedCheckpoint_def)
  then show ?thesis
    by (simp add: decodeCheckpoint_def marshalCheckpoint_def readJSON_encode checkpoint_plain
        sanitised_checkpoint storeCheckpoint_json)
qed

lemma phases_sanitised:
  "toValidUTF8 credentialDeleteStarted = credentialDeleteStarted"
  "toValidUTF8 secretDeleteStarted = secretDeleteStarted"
  "credentialDeleteStarted \<noteq> secretDeleteStarted"
  by (simp_all add: credentialDeleteStarted_def secretDeleteStarted_def byte_def)

text \<open>Which annotations are read as a checkpoint.\<close>

lemma checkpointError_None: "checkpointError net state = None \<longleftrightarrow> validCheckpoint net state"
  by (simp add: checkpointError_def validCheckpoint_def eq_commute [of "[]"] split: sum.split)

lemma readCredentialCheckpoint_Inr:
  "readCredentialCheckpoint net cluster = Inr (Some state) \<longleftrightarrow>
     (\<exists>data rest. osc_Annotations cluster CredentialCheckpointAnnotation = Some data
        \<and> decodeCheckpoint data = Some (state, rest) \<and> skipSpace rest = '''' \<and> validCheckpoint net state)"
  by (auto simp: readCredentialCheckpoint_def checkpointError_None [symmetric]
      split: option.splits prod.splits if_splits)

lemma readCredentialCheckpoint_None:
  "readCredentialCheckpoint net cluster = Inr None \<longleftrightarrow>
     osc_Annotations cluster CredentialCheckpointAnnotation = None"
  by (simp add: readCredentialCheckpoint_def split: option.split prod.split)

lemma read_marshalled:
  assumes "readCredentialCheckpoint net cluster = Inr (Some state)"
    and "osc_Annotations cluster CredentialCheckpointAnnotation = Some (marshalCheckpoint st)"
    and "ck_Version st = 1"
  shows "state = sanitisedCheckpoint st"
  using assms decode_marshal [of st] by (auto simp: readCredentialCheckpoint_Inr)

text \<open>
  C15. A saved checkpoint reads back. A checkpoint that passes the validation, and whose
  strings are UTF-8, is read back from the annotation it was written to, exactly as it
  was, whatever characters its fields have.
\<close>

theorem checkpoint_reads_back:
  assumes "validCheckpoint net state" and "utf8Checkpoint state"
    and "osc_Annotations cluster CredentialCheckpointAnnotation = Some (marshalCheckpoint state)"
  shows "readCredentialCheckpoint net cluster = Inr (Some state)"
  using assms decode_marshal [of state]
  by (simp add: readCredentialCheckpoint_Inr validCheckpoint_def sanitisedCheckpoint_id)

text \<open>
  C20. Only a complete checkpoint is believed. Whatever the annotation says, what is read
  from it is in one of the two phases, has cluster, Secret and cloud identities that are
  complete, and the delete policy; and it is all there is in the annotation. Without the
  annotation there is no checkpoint, and with one that is anything else there is an error.
\<close>

theorem checkpoint_is_validated:
  "case readCredentialCheckpoint net cluster of
     Inr None \<Rightarrow> osc_Annotations cluster CredentialCheckpointAnnotation = None
   | Inr (Some state) \<Rightarrow>
       validCheckpoint net state
       \<and> (\<exists>data rest. osc_Annotations cluster CredentialCheckpointAnnotation = Some data
             \<and> decodeCheckpoint data = Some (state, rest) \<and> list_all isSpace rest)
   | Inl err \<Rightarrow>
       (\<exists>data. osc_Annotations cluster CredentialCheckpointAnnotation = Some data
          \<and> (\<nexists>state rest. decodeCheckpoint data = Some (state, rest) \<and> list_all isSpace rest
                          \<and> validCheckpoint net state))"
proof -
  have space: "skipSpace rest = [] \<longleftrightarrow> list_all isSpace rest" for rest
    by (simp add: skipSpace_def list_all_iff)
  show ?thesis
    using readCredentialCheckpoint_Inr [of net cluster] readCredentialCheckpoint_None [of net cluster]
    by (auto simp: space split: sum.splits option.splits)
qed

end
