(* ===== verification/Lifecycle.thy ===== *)
theory Lifecycle
  imports Kubernetes
begin

section \<open>Pausing, owners and wake-ups\<close>

text \<open>
  \<open>lifecycle.go\<close>: when a cluster is paused, which \<open>Cluster\<close> owns it, the two indexes and
  the requests that a change of a referenced object causes. The reconciler's reader and
  client are arguments of the functions that use them.
\<close>

definition identitySecretIndex :: string where "identitySecretIndex = ''janitor.identitySecret''"
definition ownerClusterIndex :: string where "ownerClusterIndex = ''janitor.ownerCluster''"

subsection \<open>Pausing\<close>

definition hasPauseAnnotation :: "kubernetes \<Rightarrow> (string \<rightharpoonup> string) \<Rightarrow> bool" where
  "hasPauseAnnotation k annotations \<longleftrightarrow> annotations (clusterv1_PausedAnnotation k) \<noteq> None"

definition isClusterOwner :: "kubernetes \<Rightarrow> OwnerReference \<Rightarrow> bool" where
  "isClusterOwner k ref =
     (case ParseGroupVersion k (ref_APIVersion ref) of
        Inl err \<Rightarrow> False
      | Inr (g, version) \<Rightarrow>
          g = clusterv1_Group k \<and> ref_Kind ref = ''Cluster'' \<and> ref_Name ref \<noteq> '''' \<and> ref_UID ref \<noteq> '''')"

text \<open>The loop over the owner references, with its \<open>continue\<close>s and early returns.\<close>

fun ownerPaused ::
  "kubernetes \<Rightarrow> 'w Reader \<Rightarrow> string \<Rightarrow> OwnerReference list \<Rightarrow> ('w, error, bool) act"
where
  "ownerPaused k reader namespace [] = ret False"
| "ownerPaused k reader namespace (ref # refs) =
     (if \<not> isClusterOwner k ref then ownerPaused k reader namespace refs
      else
        inspect (GetCluster reader (namespace, ref_Name ref))
          (\<lambda>got. case got of
             Inl err \<Rightarrow>
               if IsNotFound k err then ownerPaused k reader namespace refs
               else fail (Wrapf [Txt ''reading owning Cluster''] err)
           | Inr owner \<Rightarrow>
               if cluster_UID owner = ref_UID ref
                  \<and> (cluster_Paused owner \<or> hasPauseAnnotation k (cluster_Annotations owner))
               then ret True
               else ownerPaused k reader namespace refs))"

definition isPaused :: "kubernetes \<Rightarrow> 'w Reader \<Rightarrow> OpenStackCluster \<Rightarrow> ('w, error, bool) act" where
  "isPaused k reader cluster =
     (if hasPauseAnnotation k (osc_Annotations cluster) then ret True
      else ownerPaused k reader (osc_Namespace cluster) (osc_OwnerReferences cluster))"

subsection \<open>Indexes\<close>

definition identitySecretKeys :: "OpenStackCluster \<Rightarrow> string list" where
  "identitySecretKeys cluster =
     (if ident_Name (osc_IdentityRef cluster) = ''''
         \<or> ident_Type (osc_IdentityRef cluster) \<noteq> '''' \<and> ident_Type (osc_IdentityRef cluster) \<noteq> ''Secret''
      then [] else [ident_Name (osc_IdentityRef cluster)])"

definition clusterOwnerIndexKey :: "string \<Rightarrow> string \<Rightarrow> string" where
  "clusterOwnerIndexKey name uid = name @ ''/'' @ uid"

definition ownerClusterKeys :: "kubernetes \<Rightarrow> OpenStackCluster \<Rightarrow> string list" where
  "ownerClusterKeys k cluster =
     map (\<lambda>ref. clusterOwnerIndexKey (ref_Name ref) (ref_UID ref))
       (filter (isClusterOwner k) (osc_OwnerReferences cluster))"

subsection \<open>Wake-ups\<close>

text \<open>The objects of an update event, \<open>None\<close> if it is not a \<open>Cluster\<close>.\<close>

definition clusterPauseChanged :: "kubernetes \<Rightarrow> Cluster option \<Rightarrow> Cluster option \<Rightarrow> bool" where
  "clusterPauseChanged k objectOld objectNew =
     (case (objectOld, objectNew) of
        (Some previous, Some current) \<Rightarrow>
          cluster_UID previous \<noteq> cluster_UID current
          \<or> cluster_Paused previous \<noteq> cluster_Paused current
          \<or> hasPauseAnnotation k (cluster_Annotations previous)
            \<noteq> hasPauseAnnotation k (cluster_Annotations current)
      | _ \<Rightarrow> False)"

text \<open>The error of the list is only logged.\<close>

definition requestsForReference ::
  "'w KubeClient \<Rightarrow> string \<Rightarrow> string \<Rightarrow> string \<Rightarrow> ('w, ObjectKey list) op"
where
  "requestsForReference client namespace index key =
     inspect (ListMatching client namespace index key)
       (\<lambda>listed. case listed of
          Inl err \<Rightarrow> yields []
        | Inr clusters \<Rightarrow> yields (map objectKey clusters))"

definition requestsForSecret :: "'w KubeClient \<Rightarrow> Secret \<Rightarrow> ('w, ObjectKey list) op" where
  "requestsForSecret client secret =
     requestsForReference client (secret_Namespace secret) identitySecretIndex (secret_Name secret)"

definition requestsForCluster :: "'w KubeClient \<Rightarrow> Cluster \<Rightarrow> ('w, ObjectKey list) op" where
  "requestsForCluster client cluster =
     requestsForReference client (cluster_Namespace cluster) ownerClusterIndex
       (clusterOwnerIndexKey (cluster_Name cluster) (cluster_UID cluster))"

text \<open>
  The two indexes that \<open>setupLifecycleWatches\<close> registers, by their names, and a client whose
  cache is up to date with \<open>clusters\<close>: a list by an index answers the objects of the
  namespace that have the key.
\<close>

definition indexKeys :: "kubernetes \<Rightarrow> string \<Rightarrow> OpenStackCluster \<Rightarrow> string list" where
  "indexKeys k index cluster =
     (if index = identitySecretIndex then identitySecretKeys cluster
      else if index = ownerClusterIndex then ownerClusterKeys k cluster
      else [])"

definition currentCache :: "kubernetes \<Rightarrow> 'w KubeClient \<Rightarrow> OpenStackCluster list \<Rightarrow> bool" where
  "currentCache k client clusters \<longleftrightarrow>
     (\<forall>namespace index key w. ListMatching client namespace index key w =
        (Inr (filter (\<lambda>c. osc_Namespace c = namespace \<and> key \<in> set (indexKeys k index c)) clusters), w))"

lemma indexKeys_simps [simp]:
  "indexKeys k identitySecretIndex = identitySecretKeys"
  "indexKeys k ownerClusterIndex = ownerClusterKeys k"
  by (simp_all add: fun_eq_iff indexKeys_def identitySecretIndex_def ownerClusterIndex_def)

lemma requestsForReference_current:
  "currentCache k client clusters \<Longrightarrow>
   requestsForReference client namespace index key w =
     (map objectKey (filter (\<lambda>c. osc_Namespace c = namespace \<and> key \<in> set (indexKeys k index c)) clusters), w)"
  by (simp add: currentCache_def requestsForReference_def inspect_def yields_def)

end
