(* ===== verification/Reconciler.thy ===== *)
theory Reconciler
  imports Checkpoint Lifecycle "HOL-Library.Word"
begin

section \<open>The reconciler and its helpers\<close>

text \<open>
  The state of \<open>OpenStackClusterReconciler\<close> and the helpers of
  \<open>openstackcluster_controller.go\<close>: the reader, the optional hooks, cluster names, policies,
  delays and environment variables.
\<close>

subsection \<open>The openstack package as the controller sees it\<close>

text \<open>\<open>openstack.CleanupSession\<close>, and a session of the \<open>openstack\<close> package as one.\<close>

record 'w CleanupSession =
  sess_Cleanup :: "('w, error, unit) act"
  sess_Binding :: CredentialBinding
  sess_DeleteApplicationCredential :: "string \<Rightarrow> ('w, error, unit) act"

definition openstackSession ::
  "('w, 'p, 'pool, 'c, 'entry) openstack \<Rightarrow> 'p cleanupSession \<Rightarrow> 'w CleanupSession"
where
  "openstackSession os s =
     \<lparr>sess_Cleanup = SessionCleanup os s, sess_Binding = Binding s,
      sess_DeleteApplicationCredential = SessionDeleteApplicationCredential os s\<rparr>"

text \<open>
  The functions of the package that the controller calls, with \<open>net/url\<close> (for
  \<open>ValidateCredentialBinding\<close>) and \<open>fmt\<close> (for the messages of events).
\<close>

record 'w openstackPackage =
  pkg_url :: urls
  pkg_fmt :: "frag \<Rightarrow> string"
  pkg_DescribeCredential :: "PurgeOptions \<Rightarrow> error + CredentialConfig"
  pkg_PurgeResources :: "PurgeOptions \<Rightarrow> ('w, error, unit) act"
  pkg_NewCleanupSession :: "PurgeOptions \<Rightarrow> ('w, error, 'w CleanupSession) act"

definition openstackPackageOf :: "('w, 'p, 'pool, 'c, 'entry) openstack \<Rightarrow> 'w openstackPackage" where
  "openstackPackageOf os =
     \<lparr>pkg_url = net_url (os_configs os), pkg_fmt = os_fmt os,
      pkg_DescribeCredential = DescribeCredential (os_configs os),
      pkg_PurgeResources = PurgeResources os,
      pkg_NewCleanupSession =
        (\<lambda>options. andThen (NewCleanupSession os options) (\<lambda>s. ret (openstackSession os s)))\<rparr>"

subsection \<open>The reconciler\<close>

text \<open>
  A field that may be nil is an option. The metrics counter and the event recorder are the
  operations \<open>CleanupsTotal.WithLabelValues(outcome).Inc()\<close> and \<open>Event\<close>.
\<close>

record 'w OpenStackClusterReconciler =
  rec_Client :: "'w KubeClient"
  rec_APIReader :: "'w Reader option"
  rec_DefaultVolumesPolicy :: string
  rec_RetryDefaultDelay :: "64 word"
  rec_Metrics :: "(string \<Rightarrow> ('w, unit) op) option"
  rec_Recorder :: "(OpenStackCluster \<Rightarrow> string \<Rightarrow> string \<Rightarrow> string \<Rightarrow> ('w, unit) op) option"
  rec_CleanupFunc :: "(PurgeOptions \<Rightarrow> ('w, error, unit) act) option"
  rec_NewSession :: "(PurgeOptions \<Rightarrow> ('w, error, 'w CleanupSession) act) option"

text \<open>\<open>ctrl.Result\<close>; durations are in nanoseconds.\<close>

record ReconcileResult =
  RequeueAfter :: int

definition emptyResult :: ReconcileResult where "emptyResult = \<lparr>RequeueAfter = 0\<rparr>"

definition pendingDeleteDelay :: int where "pendingDeleteDelay = 5 * 1000000000"

definition requeueResult :: ReconcileResult where "requeueResult = \<lparr>RequeueAfter = pendingDeleteDelay\<rparr>"

definition defaultRetryDelay :: "64 word" where "defaultRetryDelay = 60"

definition cleanResources ::
  "'w openstackPackage \<Rightarrow> 'w OpenStackClusterReconciler \<Rightarrow> PurgeOptions \<Rightarrow> ('w, error, unit) act"
where
  "cleanResources pkg r options =
     (case rec_CleanupFunc r of Some f \<Rightarrow> f options | None \<Rightarrow> pkg_PurgeResources pkg options)"

definition countCleanup :: "'w OpenStackClusterReconciler \<Rightarrow> string \<Rightarrow> ('w, unit) op" where
  "countCleanup r outcome = (case rec_Metrics r of Some inc \<Rightarrow> inc outcome | None \<Rightarrow> yields ())"

definition recordEvent ::
  "'w OpenStackClusterReconciler \<Rightarrow> OpenStackCluster \<Rightarrow> string \<Rightarrow> string \<Rightarrow> string \<Rightarrow> ('w, unit) op"
where
  "recordEvent r obj eventType reason message =
     (case rec_Recorder r of Some event \<Rightarrow> event obj eventType reason message | None \<Rightarrow> yields ())"

definition reader :: "'w OpenStackClusterReconciler \<Rightarrow> 'w Reader" where
  "reader r = (case rec_APIReader r of Some apiReader \<Rightarrow> apiReader | None \<Rightarrow> client_Reader (rec_Client r))"

subsection \<open>Names and policies\<close>

definition clusterNameFor :: "OpenStackCluster \<Rightarrow> string" where
  "clusterNameFor cluster =
     (case osc_Labels cluster ClusterNameLabel of Some name \<Rightarrow> name | None \<Rightarrow> osc_Name cluster)"

definition volumesPolicyFor :: "'w OpenStackClusterReconciler \<Rightarrow> OpenStackCluster \<Rightarrow> string" where
  "volumesPolicyFor r cluster =
     (let policy0 = (if rec_DefaultVolumesPolicy r = '''' then PolicyDelete else rec_DefaultVolumesPolicy r);
          policy = (case osc_Annotations cluster VolumesPolicyAnnotation of Some ann \<Rightarrow> ann | None \<Rightarrow> policy0)
      in if policy = PolicyDelete then PolicyDelete else ''keep'')"

text \<open>\<open>time.Duration(seconds) * time.Second\<close>: a 64-bit multiplication that wraps around.\<close>

definition maxRetryDelay :: "'w OpenStackClusterReconciler \<Rightarrow> 64 word" where
  "maxRetryDelay r =
     (let seconds = (if sint (rec_RetryDefaultDelay r) \<le> 0 then defaultRetryDelay else rec_RetryDefaultDelay r)
      in seconds * 1000000000)"

definition findSecret ::
  "kubernetes \<Rightarrow> 'w OpenStackClusterReconciler \<Rightarrow> string \<Rightarrow> string \<Rightarrow> ('w, error, Secret option) act"
where
  "findSecret k r name namespace =
     inspect (GetSecret (reader r) (namespace, name))
       (\<lambda>got. case got of
          Inl err \<Rightarrow> if IsNotFound k err then ret None else fail err
        | Inr secret \<Rightarrow> ret (Some secret))"

subsection \<open>Environment variables\<close>

definition DefaultVolumesFromEnv :: "(string \<Rightarrow> string) \<Rightarrow> string" where
  "DefaultVolumesFromEnv Getenv =
     (let v = Getenv ''CAPI_JANITOR_DEFAULT_VOLUMES_POLICY'' in if v \<noteq> '''' then v else PolicyDelete)"

text \<open>\<open>strconv.Atoi\<close>: an optional sign, decimal digits, and the range of a 64-bit \<open>int\<close>.\<close>

definition Atoi :: "string \<Rightarrow> 64 word option" where
  "Atoi s =
     (let signed = (s \<noteq> [] \<and> (hd s = CHR ''-'' \<or> hd s = CHR ''+'')) in
      case parseUnsigned (if signed then tl s else s) of
        None \<Rightarrow> None
      | Some n \<Rightarrow>
          (let i = (if signed \<and> hd s = CHR ''-'' then - int n else int n) in
           if - (2 ^ 63) \<le> i \<and> i < 2 ^ 63 then Some (word_of_int i) else None))"

definition RetryDelayFromEnv :: "(string \<Rightarrow> string) \<Rightarrow> 64 word" where
  "RetryDelayFromEnv Getenv =
     (let v = Getenv ''CAPI_JANITOR_RETRY_DEFAULT_DELAY'' in
      if v \<noteq> '''' then (case Atoi v of Some n \<Rightarrow> n | None \<Rightarrow> defaultRetryDelay) else defaultRetryDelay)"

subsection \<open>The bound of the retry delay\<close>

lemma sint_nanoseconds:
  fixes seconds :: "64 word"
  shows "sint (seconds * 1000000000) = (sint seconds * 1000000000 + 2 ^ 63) mod 2 ^ 64 - 2 ^ 63"
proof -
  have "sint (seconds * 1000000000) = sint (word_of_int (sint seconds * 1000000000) :: 64 word)"
    by simp
  also have "\<dots> = signed_take_bit 63 (sint seconds * 1000000000)"
    by (subst signed_of_int) simp
  also have "\<dots> = (sint seconds * 1000000000 + 2 ^ 63) mod 2 ^ 64 - 2 ^ 63"
    by (simp add: signed_take_bit_eq_take_bit_shift take_bit_eq_mod)
  finally show ?thesis .
qed

text \<open>
  C40. The bound of the retry delay, in nanoseconds. A delay that is not positive counts as a
  minute, and up to 9223372036 seconds it is the configured delay. Above that the
  multiplication wraps around: the environment value 9223372037 gives a negative bound.
\<close>

theorem retry_delay_wraps:
  "sint (maxRetryDelay r) =
     (let d = sint (rec_RetryDefaultDelay r) in
      if d \<le> 0 then 60000000000
      else if d \<le> 9223372036 then d * 1000000000
      else (d * 1000000000 + 2 ^ 63) mod 2 ^ 64 - 2 ^ 63)
   \<and> sint (maxRetryDelay (r\<lparr>rec_RetryDefaultDelay := RetryDelayFromEnv (\<lambda>_. ''9223372037'')\<rparr>)) < 0"
proof
  show "sint (maxRetryDelay r) =
     (let d = sint (rec_RetryDefaultDelay r) in
      if d \<le> 0 then 60000000000
      else if d \<le> 9223372036 then d * 1000000000
      else (d * 1000000000 + 2 ^ 63) mod 2 ^ 64 - 2 ^ 63)"
    by (auto simp: maxRetryDelay_def Let_def defaultRetryDelay_def sint_nanoseconds)
  have "RetryDelayFromEnv (\<lambda>_. ''9223372037'') = 9223372037"
    by (simp add: RetryDelayFromEnv_def Atoi_def parseUnsigned_def isDigit_def byte_def digitsValue_def)
  then show "sint (maxRetryDelay (r\<lparr>rec_RetryDefaultDelay := RetryDelayFromEnv (\<lambda>_. ''9223372037'')\<rparr>)) < 0"
    by (simp add: maxRetryDelay_def sint_nanoseconds)
qed

end
