(* ===== verification/Credential_Cleanup.thy ===== *)
theory Credential_Cleanup
  imports Reconciler
begin

section \<open>Deletion of a cluster and its credential\<close>

text \<open>
  \<open>credential_cleanup.go\<close> and \<open>finishCleanup\<close>: the deletion of a cluster's OpenStack
  resources, of its application credential and of its identity Secret, in steps that are
  recorded in the checkpoint. A step that returns \<open>client.IgnoreNotFound(err)\<close> as its error
  is \<open>ignoringNotFound\<close>.
\<close>

definition ignoringNotFound :: "kubernetes \<Rightarrow> error \<Rightarrow> ('w, error, ReconcileResult) act" where
  "ignoringNotFound k err = (case IgnoreNotFound k err of None \<Rightarrow> ret emptyResult | Some e \<Rightarrow> fail e)"

definition selectedCloudName :: "OpenStackCluster \<Rightarrow> string" where
  "selectedCloudName cluster =
     (if ident_CloudName (osc_IdentityRef cluster) \<noteq> '''' then ident_CloudName (osc_IdentityRef cluster)
      else ''openstack'')"

definition purgeOptions :: "'w OpenStackClusterReconciler \<Rightarrow> OpenStackCluster \<Rightarrow> Secret \<Rightarrow> PurgeOptions" where
  "purgeOptions r cluster secret =
     \<lparr>po_CloudsYAML = index_map (secret_Data secret) ''clouds.yaml'',
      po_CloudName = selectedCloudName cluster,
      po_CACert = index_map (secret_Data secret) ''cacert'',
      po_ClusterName = clusterNameFor cluster,
      po_DeleteVolumes = (volumesPolicyFor r cluster = PolicyDelete)\<rparr>"

definition newCleanupSession ::
  "'w openstackPackage \<Rightarrow> 'w OpenStackClusterReconciler \<Rightarrow> PurgeOptions \<Rightarrow> ('w, error, 'w CleanupSession) act"
where
  "newCleanupSession pkg r options =
     (case rec_NewSession r of Some f \<Rightarrow> f options | None \<Rightarrow> pkg_NewCleanupSession pkg options)"

subsection \<open>Fresh inputs\<close>

text \<open>Is the Secret that was read again another one, or another version, than the one at hand?\<close>

definition secretChanged :: "Secret option \<Rightarrow> Secret option \<Rightarrow> bool" where
  "secretChanged secret currentSecret \<longleftrightarrow>
     (secret = None) \<noteq> (currentSecret = None)
     \<or> (case (secret, currentSecret) of
          (Some s, Some s') \<Rightarrow>
            secret_UID s' \<noteq> secret_UID s \<or> secret_ResourceVersion s' \<noteq> secret_ResourceVersion s
        | _ \<Rightarrow> False)"

definition inputsChanged ::
  "kubernetes \<Rightarrow> 'w OpenStackClusterReconciler \<Rightarrow> OpenStackCluster \<Rightarrow> OpenStackCluster \<Rightarrow> bool"
where
  "inputsChanged k r observed latest \<longleftrightarrow>
     osc_UID latest \<noteq> osc_UID observed \<or> osc_Generation latest \<noteq> osc_Generation observed
     \<or> clusterNameFor latest \<noteq> clusterNameFor observed
     \<or> volumesPolicyFor r latest \<noteq> volumesPolicyFor r observed
     \<or> osc_Annotations latest CredentialCheckpointAnnotation \<noteq> osc_Annotations observed CredentialCheckpointAnnotation
     \<or> osc_DeletionTimestamp latest = None \<or> \<not> ContainsFinalizer k latest Finalizer"

definition checkCleanupInputs ::
  "kubernetes \<Rightarrow> 'w OpenStackClusterReconciler \<Rightarrow> OpenStackCluster \<Rightarrow> Secret option \<Rightarrow> bool
   \<Rightarrow> ('w, error, OpenStackCluster) act"
where
  "checkCleanupInputs k r observed secret soleFinalizer =
     andThen (findSecret k r (ident_Name (osc_IdentityRef observed)) (osc_Namespace observed)) (\<lambda>currentSecret.
     if secretChanged secret currentSecret
     then fail (NewConflict k ''secrets'' (ident_Name (osc_IdentityRef observed))
                  (Errorf [Txt ''identity Secret changed during reconciliation'']))
     else
       andThen (GetOpenStackCluster (reader r) (objectKey observed)) (\<lambda>latest.
       if inputsChanged k r observed latest
       then fail (NewConflict k ''openstackclusters'' (osc_Name observed)
                    (Errorf [Txt ''cleanup inputs changed during reconciliation'']))
       else
         andThen (isPaused k (reader r) latest) (\<lambda>paused.
         if paused then fail ErrPaused
         else if soleFinalizer \<and> length (osc_Finalizers latest) \<noteq> 1 then fail ErrDeletePending
         else ret latest)))"

definition finishCleanup ::
  "kubernetes \<Rightarrow> 'w OpenStackClusterReconciler \<Rightarrow> OpenStackCluster \<Rightarrow> Secret option \<Rightarrow> bool
   \<Rightarrow> ('w, error, ReconcileResult) act"
where
  "finishCleanup k r observed secret soleFinalizer =
     inspect (checkCleanupInputs k r observed secret soleFinalizer)
       (\<lambda>checked. case checked of
          Inl err \<Rightarrow> ignoringNotFound k err
        | Inr latest \<Rightarrow>
            inspect (PatchCluster (rec_Client r) latest (RemoveFinalizer k latest Finalizer))
              (\<lambda>patched. case patched of
                 Inl err \<Rightarrow> ignoringNotFound k (Wrapf [Txt ''removing finalizer''] err)
               | Inr updated \<Rightarrow>
                   inspect (countCleanup r ''success'') (\<lambda>_.
                   inspect (recordEvent r updated (EventTypeNormal k) ''CleanupSucceeded''
                              ''OpenStack resources cleaned up successfully'') (\<lambda>_.
                   ret emptyResult))))"

text \<open>
  \<open>json.Marshal\<close> of the checkpoint, a struct of strings and an integer, never fails, so the
  branch for its error is not there.
\<close>

definition saveCredentialCheckpoint ::
  "kubernetes \<Rightarrow> 'w OpenStackClusterReconciler \<Rightarrow> OpenStackCluster \<Rightarrow> Secret option \<Rightarrow> credentialCheckpoint
   \<Rightarrow> ('w, error, ReconcileResult) act"
where
  "saveCredentialCheckpoint k r observed secret state =
     inspect (checkCleanupInputs k r observed secret True)
       (\<lambda>checked. case checked of
          Inl err \<Rightarrow> ignoringNotFound k err
        | Inr latest \<Rightarrow>
            inspect (PatchCluster (rec_Client r) latest
                       (latest\<lparr>osc_Annotations :=
                          (osc_Annotations latest)(CredentialCheckpointAnnotation \<mapsto> marshalCheckpoint state)\<rparr>))
              (\<lambda>patched. case patched of
                 Inl err \<Rightarrow> ignoringNotFound k (Wrapf [Txt ''saving credential cleanup checkpoint''] err)
               | Inr updated \<Rightarrow> ret requeueResult))"

subsection \<open>References and bindings\<close>

definition referencesSameSecret :: "OpenStackCluster \<Rightarrow> OpenStackCluster \<Rightarrow> bool" where
  "referencesSameSecret cluster other \<longleftrightarrow>
     \<not> (osc_UID other = osc_UID cluster
        \<or> ident_Name (osc_IdentityRef other) \<noteq> ident_Name (osc_IdentityRef cluster))
     \<and> \<not> (ident_Type (osc_IdentityRef other) \<noteq> '''' \<and> ident_Type (osc_IdentityRef other) \<noteq> ''Secret'')"

definition hasOtherSecretReferences ::
  "'w OpenStackClusterReconciler \<Rightarrow> OpenStackCluster \<Rightarrow> ('w, error, bool) act"
where
  "hasOtherSecretReferences r cluster =
     andThen (wrapErr (Wrapf [Txt ''checking identity Secret references''])
                (ListOpenStackClusters (reader r) (osc_Namespace cluster)))
       (\<lambda>clusters. ret (list_ex (referencesSameSecret cluster) clusters))"

definition checkCheckpointBinding ::
  "'w openstackPackage \<Rightarrow> 'w OpenStackClusterReconciler \<Rightarrow> OpenStackCluster \<Rightarrow> Secret option
   \<Rightarrow> credentialCheckpoint \<Rightarrow> error + unit"
where
  "checkCheckpointBinding pkg r cluster secret0 state =
     (if osc_UID cluster \<noteq> ck_ClusterUID state \<or> clusterNameFor cluster \<noteq> ck_ClusterName state
         \<or> ident_Name (osc_IdentityRef cluster) \<noteq> ck_SecretName state
         \<or> selectedCloudName cluster \<noteq> cb_CloudName (ck_Cloud state)
         \<or> volumesPolicyFor r cluster \<noteq> ck_VolumesPolicy state
      then Inl (Errorf [Txt ''cluster binding changed after credential deletion started''])
      else
        (case secret0 of
           None \<Rightarrow>
             if ck_Phase state \<noteq> secretDeleteStarted
             then Inl (Errorf [Txt ''identity Secret is missing before its recorded deletion phase''])
             else Inr ()
         | Some secret \<Rightarrow>
             if secret_UID secret \<noteq> ck_SecretUID state
                \<or> index_map (secret_Annotations secret) CredentialPolicyAnnotation \<noteq> ck_CredentialPolicy state
             then Inl (Errorf [Txt ''identity Secret binding or credential policy changed after deletion started''])
             else
               (case pkg_DescribeCredential pkg (purgeOptions r cluster secret) of
                  Inl err \<Rightarrow> Inl (Wrapf [Txt ''checking recorded credential configuration''] err)
                | Inr config \<Rightarrow>
                    if cfg_Authority config \<noteq> cb_Authority (ck_Cloud state)
                       \<or> cfg_Region config \<noteq> cb_Region (ck_Cloud state)
                       \<or> cfg_Interface config \<noteq> cb_Interface (ck_Cloud state)
                       \<or> cfg_CloudName config \<noteq> cb_CloudName (ck_Cloud state)
                       \<or> cfg_CredentialID config \<noteq> cb_CredentialID (ck_Cloud state)
                       \<or> cfg_ProjectID config \<noteq> '''' \<and> cfg_ProjectID config \<noteq> cb_ProjectID (ck_Cloud state)
                       \<or> cfg_UserID config \<noteq> '''' \<and> cfg_UserID config \<noteq> cb_UserID (ck_Cloud state)
                    then Inl (Errorf [Txt ''cloud binding changed after credential deletion started''])
                    else Inr ())))"

subsection \<open>The two recorded phases\<close>

text \<open>
  The phase in which the credential is deleted. Without a Secret the code would dereference
  a nil pointer; \<open>checkCheckpointBinding\<close> has excluded that (\<open>resume_has_secret\<close>).
\<close>

definition nilDereference :: error where
  "nilDereference = Foreign ''runtime.Error'' ''invalid memory address or nil pointer dereference'' []"

definition resumeCredentialDeletion ::
  "kubernetes \<Rightarrow> 'w openstackPackage \<Rightarrow> 'w OpenStackClusterReconciler \<Rightarrow> OpenStackCluster \<Rightarrow> Secret
   \<Rightarrow> credentialCheckpoint \<Rightarrow> ('w, error, ReconcileResult) act"
where
  "resumeCredentialDeletion k pkg r cluster secret state =
     andThen (wrapErr (Wrapf [Txt ''resuming credential deletion''])
                (newCleanupSession pkg r (purgeOptions r cluster secret))) (\<lambda>session.
     if sess_Binding session \<noteq> ck_Cloud state
     then fail (Errorf [Txt ''authenticated credential binding changed after deletion started''])
     else
       inspect (checkCleanupInputs k r cluster (Some secret) True) (\<lambda>checked. case checked of
          Inl err \<Rightarrow> ignoringNotFound k err
        | Inr latest \<Rightarrow>
            andThen (hasOtherSecretReferences r cluster) (\<lambda>shared.
            if shared then fail ErrDeletePending
            else
              andThen (wrapErr (Wrapf [Txt ''confirming application credential deletion''])
                         (sess_DeleteApplicationCredential session (cb_CredentialID (ck_Cloud state)))) (\<lambda>_.
              saveCredentialCheckpoint k r cluster (Some secret) (state\<lparr>ck_Phase := secretDeleteStarted\<rparr>)))))"

text \<open>The phase in which the Secret is deleted, or its absence is observed.\<close>

definition resumeSecretDeletion ::
  "kubernetes \<Rightarrow> 'w OpenStackClusterReconciler \<Rightarrow> OpenStackCluster \<Rightarrow> Secret option
   \<Rightarrow> ('w, error, ReconcileResult) act"
where
  "resumeSecretDeletion k r cluster secret0 =
     (case secret0 of
        None \<Rightarrow> finishCleanup k r cluster None True
      | Some secret \<Rightarrow>
          if secret_DeletionTimestamp secret \<noteq> None then fail ErrDeletePending
          else
            inspect (checkCleanupInputs k r cluster (Some secret) True) (\<lambda>checked. case checked of
               Inl err \<Rightarrow> ignoringNotFound k err
             | Inr latest \<Rightarrow>
                 andThen (hasOtherSecretReferences r cluster) (\<lambda>shared.
                 if shared then fail ErrDeletePending
                 else
                   inspect (DeleteSecret (rec_Client r) secret (secret_UID secret) (secret_ResourceVersion secret))
                     (\<lambda>deleted. case deleted of
                        Inl err \<Rightarrow>
                          if IsNotFound k err then ret requeueResult
                          else fail (Wrapf [Txt ''deleting recorded identity Secret''] err)
                      | Inr _ \<Rightarrow> ret requeueResult))))"

definition resumeCredentialCleanup ::
  "kubernetes \<Rightarrow> 'w openstackPackage \<Rightarrow> 'w OpenStackClusterReconciler \<Rightarrow> OpenStackCluster \<Rightarrow> Secret option
   \<Rightarrow> credentialCheckpoint \<Rightarrow> ('w, error, ReconcileResult) act"
where
  "resumeCredentialCleanup k pkg r cluster secret0 state =
     andThen (lift_res (checkCheckpointBinding pkg r cluster secret0 state)) (\<lambda>_.
     if length (osc_Finalizers cluster) \<noteq> 1 then fail ErrDeletePending
     else if ck_Phase state = credentialDeleteStarted
     then (case secret0 of
             None \<Rightarrow> fail nilDereference
           | Some secret \<Rightarrow> resumeCredentialDeletion k pkg r cluster secret state)
     else resumeSecretDeletion k r cluster secret0)"

subsection \<open>Deletion\<close>

text \<open>
  The last part of \<open>reconcileDelete\<close>, for a Secret whose policy is to delete the credential:
  verify the resources, bind the session to a first checkpoint, save it.
\<close>

definition startCredentialCleanup ::
  "kubernetes \<Rightarrow> 'w openstackPackage \<Rightarrow> 'w OpenStackClusterReconciler \<Rightarrow> OpenStackCluster \<Rightarrow> Secret
   \<Rightarrow> ('w, error, ReconcileResult) act"
where
  "startCredentialCleanup k pkg r cluster secret =
     andThen (newCleanupSession pkg r (purgeOptions r cluster secret)) (\<lambda>session.
     andThen (wrapErr (Wrapf [Txt ''verifying resources before credential deletion''])
                (sess_Cleanup session)) (\<lambda>_.
     let state =
       \<lparr>ck_Version = 1, ck_Phase = credentialDeleteStarted,
        ck_ClusterUID = osc_UID cluster, ck_ClusterName = clusterNameFor cluster,
        ck_SecretName = secret_Name secret, ck_SecretUID = secret_UID secret,
        ck_Cloud = sess_Binding session, ck_VolumesPolicy = volumesPolicyFor r cluster,
        ck_CredentialPolicy = PolicyDelete\<rparr>
     in
       if ck_ClusterUID state = '''' \<or> ck_SecretUID state = ''''
          \<or> ValidateCredentialBinding (pkg_url pkg) (ck_Cloud state) \<noteq> Inr ()
       then fail (Errorf [Txt ''cannot bind credential cleanup to an incomplete identity''])
       else
         andThen (lift_res (checkCheckpointBinding pkg r cluster (Some secret) state)) (\<lambda>_.
         andThen (hasOtherSecretReferences r cluster) (\<lambda>shared.
         if shared then finishCleanup k r cluster (Some secret) True
         else saveCredentialCheckpoint k r cluster (Some secret) state))))"

definition reconcileDelete ::
  "kubernetes \<Rightarrow> 'w openstackPackage \<Rightarrow> 'w OpenStackClusterReconciler \<Rightarrow> OpenStackCluster
   \<Rightarrow> ('w, error, ReconcileResult) act"
where
  "reconcileDelete k pkg r cluster =
     (let identity = osc_IdentityRef cluster in
      if TrimSpace (clusterNameFor cluster) = '''' then fail (Errorf [Txt ''cluster name is empty''])
      else if ident_Type identity \<noteq> '''' \<and> ident_Type identity \<noteq> ''Secret''
      then fail (Errorf [Txt ''unsupported identity reference type '', Quo (ident_Type identity)])
      else if ident_Name identity = '''' then fail (Errorf [Txt ''identity Secret name is empty''])
      else
        andThen (lift_res (readCredentialCheckpoint (pkg_url pkg) cluster)) (\<lambda>state0.
        andThen (wrapErr (Wrapf [Txt ''fetching identity secret''])
                   (findSecret k r (ident_Name identity) (osc_Namespace cluster))) (\<lambda>secret0.
        case state0 of
          Some state \<Rightarrow> resumeCredentialCleanup k pkg r cluster secret0 state
        | None \<Rightarrow>
            (case secret0 of
               None \<Rightarrow> fail (Errorf [Txt ''identity Secret '', Quo (ident_Name identity), Txt '' not found''])
             | Some secret \<Rightarrow>
                 if index_map (secret_Annotations secret) CredentialPolicyAnnotation \<noteq> PolicyDelete
                 then andThen (wrapErr (Wrapf [Txt ''cleaning OpenStack resources''])
                                 (cleanResources pkg r (purgeOptions r cluster secret)))
                        (\<lambda>_. finishCleanup k r cluster (Some secret) False)
                 else startCredentialCleanup k pkg r cluster secret))))"

end
