(* ===== verification/Controller.thy ===== *)
theory Controller
  imports Credential_Cleanup
begin

section \<open>Reconciliation of an OpenStackCluster\<close>

text \<open>
  \<open>Reconcile\<close> and \<open>addFinalizer\<close> of \<open>openstackcluster_controller.go\<close>, and the recording
  versions of what they call. Logging is left out.
\<close>

definition addFinalizer ::
  "kubernetes \<Rightarrow> 'w OpenStackClusterReconciler \<Rightarrow> OpenStackCluster \<Rightarrow> ('w, error, bool) act"
where
  "addFinalizer k r observed =
     inspect (GetOpenStackCluster (reader r) (objectKey observed)) (\<lambda>got. case got of
        Inl err \<Rightarrow> (case IgnoreNotFound k err of None \<Rightarrow> ret False | Some e \<Rightarrow> fail e)
      | Inr latest \<Rightarrow>
          if osc_UID latest \<noteq> osc_UID observed
          then fail (NewConflict k ''openstackclusters'' (osc_Name observed)
                       (Errorf [Txt ''OpenStackCluster was replaced during reconciliation'']))
          else if osc_DeletionTimestamp latest \<noteq> None \<or> ContainsFinalizer k latest Finalizer
          then ret False
          else
            andThen (isPaused k (reader r) latest) (\<lambda>paused.
            if paused then ret False
            else
              inspect (PatchCluster (rec_Client r) latest (AddFinalizer k latest Finalizer))
                (\<lambda>patched. case patched of
                   Inl err \<Rightarrow> (case IgnoreNotFound k err of None \<Rightarrow> ret False | Some e \<Rightarrow> fail e)
                 | Inr updated \<Rightarrow> ret True)))"

definition Reconcile ::
  "kubernetes \<Rightarrow> 'w openstackPackage \<Rightarrow> 'w OpenStackClusterReconciler \<Rightarrow> ObjectKey
   \<Rightarrow> ('w, error, ReconcileResult) act"
where
  "Reconcile k pkg r req =
     inspect (GetOpenStackCluster (reader r) req) (\<lambda>got. case got of
        Inl err \<Rightarrow> ignoringNotFound k err
      | Inr cluster \<Rightarrow>
          andThen (isPaused k (reader r) cluster) (\<lambda>paused.
          if paused then ret emptyResult
          else if osc_DeletionTimestamp cluster = None
          then
            (if \<not> ContainsFinalizer k cluster Finalizer
             then andThen (wrapErr (Wrapf [Txt ''adding finalizer'']) (addFinalizer k r cluster))
                    (\<lambda>changed. ret emptyResult)
             else ret emptyResult)
          else if \<not> ContainsFinalizer k cluster Finalizer then ret emptyResult
          else
            inspect (reconcileDelete k pkg r cluster) (\<lambda>deleted. case deleted of
               Inl err \<Rightarrow>
                 if Is err ErrPaused then ret emptyResult
                 else if Is err ErrDeletePending then ret requeueResult
                 else if \<not> IsConflict k err
                 then
                   inspect (countCleanup r ''failure'') (\<lambda>_.
                   inspect (recordEvent r cluster (EventTypeWarning k) ''CleanupFailed'' (Error (pkg_fmt pkg) err)) (\<lambda>_.
                   fail err))
                 else fail err
             | Inr result \<Rightarrow> ret result)))"

end
