(* ===== verification/Controller_Calls.thy ===== *)
theory Controller_Calls
  imports Controller
begin

section \<open>Recorded calls of a reconciliation\<close>

text \<open>
  What a reconciliation does to the outside world, as the list of its calls with their
  answers. The recording is in the clients, the hooks and the sessions that the reconciler
  is given; \<open>Reconcile_recorded\<close> shows that it changes neither results nor effects.
\<close>

datatype apiCall =
    ClusterRead ObjectKey "error + OpenStackCluster"
  | OwnerRead ObjectKey "error + Cluster"
  | SecretRead ObjectKey "error + Secret"
  | ClustersListed string "error + OpenStackCluster list"
  | ClusterPatched OpenStackCluster OpenStackCluster "error + OpenStackCluster"
  | SecretDeleteCalled Secret string string "error + unit"
  | ResourcesCleaned PurgeOptions "error + unit"
  | SessionOpened PurgeOptions "error + CredentialBinding"
  | SessionCleaned PurgeOptions "error + unit"
  | CredentialDeleteCalled PurgeOptions string "error + unit"
  | CleanupCounted string
  | EventRecorded string string

text \<open>A call that is not recorded.\<close>

definition unrecorded :: "('w, 'r) op \<Rightarrow> ('w \<times> 'c list, 'r) op" where
  "unrecorded m = (\<lambda>(w, l). case m w of (r, w') \<Rightarrow> (r, (w', l)))"

definition recordedReader :: "'w Reader \<Rightarrow> ('w \<times> apiCall list) Reader" where
  "recordedReader rd =
     \<lparr>GetOpenStackCluster = (\<lambda>key. recorded (ClusterRead key) (GetOpenStackCluster rd key)),
      GetCluster = (\<lambda>key. recorded (OwnerRead key) (GetCluster rd key)),
      GetSecret = (\<lambda>key. recorded (SecretRead key) (GetSecret rd key)),
      ListOpenStackClusters = (\<lambda>ns. recorded (ClustersListed ns) (ListOpenStackClusters rd ns))\<rparr>"

definition recordedClient :: "'w KubeClient \<Rightarrow> ('w \<times> apiCall list) KubeClient" where
  "recordedClient c =
     \<lparr>client_Reader = recordedReader (client_Reader c),
      ListMatching = (\<lambda>ns index key. unrecorded (ListMatching c ns index key)),
      PatchCluster = (\<lambda>base new. recorded (ClusterPatched base new) (PatchCluster c base new)),
      DeleteSecret = (\<lambda>secret uid version.
         recorded (SecretDeleteCalled secret uid version) (DeleteSecret c secret uid version))\<rparr>"

definition recordedSession :: "PurgeOptions \<Rightarrow> 'w CleanupSession \<Rightarrow> ('w \<times> apiCall list) CleanupSession" where
  "recordedSession options s =
     \<lparr>sess_Cleanup = recorded (SessionCleaned options) (sess_Cleanup s),
      sess_Binding = sess_Binding s,
      sess_DeleteApplicationCredential =
        (\<lambda>i. recorded (CredentialDeleteCalled options i) (sess_DeleteApplicationCredential s i))\<rparr>"

definition recordedOpening ::
  "(PurgeOptions \<Rightarrow> ('w, error, 'w CleanupSession) act)
   \<Rightarrow> PurgeOptions \<Rightarrow> ('w \<times> apiCall list, error, ('w \<times> apiCall list) CleanupSession) act"
where
  "recordedOpening open options =
     (\<lambda>(w, l). case open options w of
        (Inl err, w') \<Rightarrow> (Inl err, (w', l @ [SessionOpened options (Inl err)]))
      | (Inr s, w') \<Rightarrow>
          (Inr (recordedSession options s), (w', l @ [SessionOpened options (Inr (sess_Binding s))])))"

definition recordedPackage :: "'w openstackPackage \<Rightarrow> ('w \<times> apiCall list) openstackPackage" where
  "recordedPackage pkg =
     \<lparr>pkg_url = pkg_url pkg, pkg_fmt = pkg_fmt pkg, pkg_DescribeCredential = pkg_DescribeCredential pkg,
      pkg_PurgeResources = (\<lambda>options. recorded (ResourcesCleaned options) (pkg_PurgeResources pkg options)),
      pkg_NewCleanupSession = recordedOpening (pkg_NewCleanupSession pkg)\<rparr>"

definition recordedReconciler ::
  "'w OpenStackClusterReconciler \<Rightarrow> ('w \<times> apiCall list) OpenStackClusterReconciler"
where
  "recordedReconciler r =
     \<lparr>rec_Client = recordedClient (rec_Client r),
      rec_APIReader = map_option recordedReader (rec_APIReader r),
      rec_DefaultVolumesPolicy = rec_DefaultVolumesPolicy r,
      rec_RetryDefaultDelay = rec_RetryDefaultDelay r,
      rec_Metrics = map_option (\<lambda>inc outcome. recorded (\<lambda>_. CleanupCounted outcome) (inc outcome)) (rec_Metrics r),
      rec_Recorder = map_option (\<lambda>event obj eventType reason message.
          recorded (\<lambda>_. EventRecorded eventType reason) (event obj eventType reason message)) (rec_Recorder r),
      rec_CleanupFunc = map_option (\<lambda>f options. recorded (ResourcesCleaned options) (f options)) (rec_CleanupFunc r),
      rec_NewSession = map_option recordedOpening (rec_NewSession r)\<rparr>"

subsection \<open>Recording changes nothing\<close>

text \<open>
  What a recorded answer of the \<open>openstack\<close> package says: the operation was run, in some
  world, and answered this; the session was one that opened for the same options.
\<close>

fun answered :: "'w openstackPackage \<Rightarrow> 'w OpenStackClusterReconciler \<Rightarrow> apiCall \<Rightarrow> bool" where
  "answered pkg r (ResourcesCleaned options a) \<longleftrightarrow> (\<exists>w. fst (cleanResources pkg r options w) = a)"
| "answered pkg r (SessionOpened options a) \<longleftrightarrow>
     (\<exists>w. map_sum id sess_Binding (fst (newCleanupSession pkg r options w)) = a)"
| "answered pkg r (SessionCleaned options a) \<longleftrightarrow>
     (\<exists>s w0 w. fst (newCleanupSession pkg r options w0) = Inr s \<and> fst (sess_Cleanup s w) = a)"
| "answered pkg r (CredentialDeleteCalled options i a) \<longleftrightarrow>
     (\<exists>s w0 w. fst (newCleanupSession pkg r options w0) = Inr s
        \<and> fst (sess_DeleteApplicationCredential s i w) = a)"
| "answered pkg r _ \<longleftrightarrow> True"

text \<open>The parts of a recorded reconciler, as the code uses them.\<close>

lemma recorded_reader: "reader (recordedReconciler r) = recordedReader (reader r)"
  by (simp add: reader_def recordedReconciler_def recordedClient_def split: option.split)

lemma recorded_policy [simp]:
  "rec_DefaultVolumesPolicy (recordedReconciler r) = rec_DefaultVolumesPolicy r"
  "volumesPolicyFor (recordedReconciler r) = volumesPolicyFor r"
proof -
  show default: "rec_DefaultVolumesPolicy (recordedReconciler r) = rec_DefaultVolumesPolicy r"
    by (simp add: recordedReconciler_def)
  show "volumesPolicyFor (recordedReconciler r) = volumesPolicyFor r"
    by (intro ext) (simp only: volumesPolicyFor_def default)
qed

lemma recorded_pure [simp]:
  "purgeOptions (recordedReconciler r) = purgeOptions r"
  "inputsChanged k (recordedReconciler r) = inputsChanged k r"
  "pkg_url (recordedPackage pkg) = pkg_url pkg"
  "pkg_fmt (recordedPackage pkg) = pkg_fmt pkg"
  "pkg_DescribeCredential (recordedPackage pkg) = pkg_DescribeCredential pkg"
  by (simp_all add: fun_eq_iff purgeOptions_def inputsChanged_def recordedPackage_def)

lemma recorded_binding [simp]:
  "checkCheckpointBinding (recordedPackage pkg) (recordedReconciler r) = checkCheckpointBinding pkg r"
  by (intro ext) (simp only: checkCheckpointBinding_def recorded_policy recorded_pure)

lemma recorded_calls:
  "GetOpenStackCluster (recordedReader rd) key = recorded (ClusterRead key) (GetOpenStackCluster rd key)"
  "GetCluster (recordedReader rd) key = recorded (OwnerRead key) (GetCluster rd key)"
  "GetSecret (recordedReader rd) key = recorded (SecretRead key) (GetSecret rd key)"
  "ListOpenStackClusters (recordedReader rd) ns = recorded (ClustersListed ns) (ListOpenStackClusters rd ns)"
  "PatchCluster (rec_Client (recordedReconciler r)) base new
     = recorded (ClusterPatched base new) (PatchCluster (rec_Client r) base new)"
  "DeleteSecret (rec_Client (recordedReconciler r)) secret uid version
     = recorded (SecretDeleteCalled secret uid version) (DeleteSecret (rec_Client r) secret uid version)"
  "sess_Cleanup (recordedSession options s) = recorded (SessionCleaned options) (sess_Cleanup s)"
  "sess_Binding (recordedSession options s) = sess_Binding s"
  "sess_DeleteApplicationCredential (recordedSession options s) i
     = recorded (CredentialDeleteCalled options i) (sess_DeleteApplicationCredential s i)"
  by (simp_all add: recordedReader_def recordedReconciler_def recordedClient_def recordedSession_def)

lemma recorded_cleanResources:
  "cleanResources (recordedPackage pkg) (recordedReconciler r) options
     = recorded (ResourcesCleaned options) (cleanResources pkg r options)"
  by (simp add: cleanResources_def recordedPackage_def recordedReconciler_def split: option.split)

lemma recorded_newCleanupSession:
  "newCleanupSession (recordedPackage pkg) (recordedReconciler r) = recordedOpening (newCleanupSession pkg r)"
  by (simp add: fun_eq_iff newCleanupSession_def recordedPackage_def recordedReconciler_def recordedOpening_def
      split: option.split)

lemmas recorded_parts = recorded_reader recorded_calls recorded_cleanResources recorded_newCleanupSession

lemma traced_countCleanup [traced_intro]:
  "traced (answered pkg r) (countCleanup (recordedReconciler r) outcome) (countCleanup r outcome)"
  by (auto simp: countCleanup_def recordedReconciler_def intro: traced_intro split: option.split)

lemma traced_recordEvent [traced_intro]:
  "traced (answered pkg r) (recordEvent (recordedReconciler r) obj eventType reason message)
     (recordEvent r obj eventType reason message)"
  by (auto simp: recordEvent_def recordedReconciler_def intro: traced_intro split: option.split)

lemma traced_sum [traced_intro]:
  "(\<And>e. traced P (M e) (m e)) \<Longrightarrow> (\<And>a. traced P (N a) (n a)) \<Longrightarrow>
   traced P (case x of Inl e \<Rightarrow> M e | Inr a \<Rightarrow> N a) (case x of Inl e \<Rightarrow> m e | Inr a \<Rightarrow> n a)"
  by (simp split: sum.split)

lemma traced_option [traced_intro]:
  "traced P M m \<Longrightarrow> (\<And>a. traced P (N a) (n a)) \<Longrightarrow>
   traced P (case x of None \<Rightarrow> M | Some a \<Rightarrow> N a) (case x of None \<Rightarrow> m | Some a \<Rightarrow> n a)"
  by (simp split: option.split)

text \<open>The calls of the API server are recorded whatever they answer.\<close>

lemma traced_reads [traced_intro]:
  "traced (answered pkg r) (recorded (ClusterRead key) m1) m1"
  "traced (answered pkg r) (recorded (OwnerRead key) m2) m2"
  "traced (answered pkg r) (recorded (SecretRead key) m3) m3"
  "traced (answered pkg r) (recorded (ClustersListed ns) m4) m4"
  "traced (answered pkg r) (recorded (ClusterPatched base new) m5) m5"
  "traced (answered pkg r) (recorded (SecretDeleteCalled secret uid version) m6) m6"
  by (rule traced_recorded; simp)+

lemma traced_cleanResources [traced_intro]:
  "traced (answered pkg r) (recorded (ResourcesCleaned options) (cleanResources pkg r options))
     (cleanResources pkg r options)"
  by (rule traced_recorded) auto

text \<open>A session is used by what follows its opening, so both are compared together.\<close>

lemma traced_opening:
  assumes "\<And>s w. fst (newCleanupSession pkg r options w) = Inr s \<Longrightarrow>
      traced (answered pkg r) (F (recordedSession options s)) (f s)"
  shows "traced (answered pkg r) (andThen (recordedOpening (newCleanupSession pkg r) options) F)
      (andThen (newCleanupSession pkg r options) f)" (is ?plain)
  and "traced (answered pkg r) (andThen (wrapErr g (recordedOpening (newCleanupSession pkg r) options)) F)
      (andThen (wrapErr g (newCleanupSession pkg r options)) f)" (is ?wrapped)
proof -
  let ?open = "newCleanupSession pkg r options"
  have opened: "answered pkg r (SessionOpened options (map_sum id sess_Binding (fst (?open w))))" for w by auto
  have follow: "\<exists>seg. F (recordedSession options s) (w', l @ [SessionOpened options (Inr (sess_Binding s))])
      = (fst (f s w'), snd (f s w'), l @ seg) \<and> list_all (answered pkg r) seg"
    if "?open w = (Inr s, w')" for s w w' l
  proof -
    have "traced (answered pkg r) (F (recordedSession options s)) (f s)"
      using that by (intro assms [of w]) simp
    from tracedD [OF this] obtain seg where "F (recordedSession options s) (w', l @ [SessionOpened options (Inr (sess_Binding s))])
        = (fst (f s w'), snd (f s w'), (l @ [SessionOpened options (Inr (sess_Binding s))]) @ seg)"
      "list_all (answered pkg r) seg"
      by blast
    then show ?thesis
      using opened [of w] that
      by (intro exI [of _ "SessionOpened options (Inr (sess_Binding s)) # seg"]) (simp del: answered.simps)
  qed
  show ?plain
    using opened follow
    by (intro tracedI)
       (auto simp: andThen_def recordedOpening_def simp del: answered.simps split: prod.split sum.split,
        metis fst_conv id_apply map_sum.simps(1))
  show ?wrapped
    using opened follow
    by (intro tracedI)
       (auto simp: andThen_def wrapErr_def recordedOpening_def simp del: answered.simps
         split: prod.split sum.split, metis fst_conv id_apply map_sum.simps(1))
qed

lemma traced_ownerPaused [traced_intro]:
  "traced (answered pkg r) (ownerPaused k (recordedReader rd) namespace refs) (ownerPaused k rd namespace refs)"
  by (induction refs) (auto simp: recorded_calls intro!: traced_intro)

lemma traced_isPaused [traced_intro]: "traced (answered pkg r) (isPaused k (recordedReader rd) cluster) (isPaused k rd cluster)"
  unfolding isPaused_def by (intro traced_intro)

lemma traced_findSecret [traced_intro]:
  "traced (answered pkg r) (findSecret k (recordedReconciler r) name namespace) (findSecret k r name namespace)"
  unfolding findSecret_def recorded_parts by (intro traced_intro)

lemma traced_checkCleanupInputs [traced_intro]:
  "traced (answered pkg r) (checkCleanupInputs k (recordedReconciler r) observed secret sole)
     (checkCleanupInputs k r observed secret sole)"
  unfolding checkCleanupInputs_def recorded_parts recorded_policy recorded_pure by (intro traced_intro)

lemma traced_ignoringNotFound [traced_intro]: "traced (answered pkg r) (ignoringNotFound k err) (ignoringNotFound k err)"
  unfolding ignoringNotFound_def by (intro traced_intro)

lemma traced_finishCleanup [traced_intro]:
  "traced (answered pkg r) (finishCleanup k (recordedReconciler r) observed secret sole) (finishCleanup k r observed secret sole)"
  unfolding finishCleanup_def recorded_parts by (intro traced_intro)

lemma traced_saveCredentialCheckpoint [traced_intro]:
  "traced (answered pkg r) (saveCredentialCheckpoint k (recordedReconciler r) observed secret state)
     (saveCredentialCheckpoint k r observed secret state)"
  unfolding saveCredentialCheckpoint_def recorded_parts by (intro traced_intro)

lemma traced_hasOtherSecretReferences [traced_intro]:
  "traced (answered pkg r) (hasOtherSecretReferences (recordedReconciler r) cluster) (hasOtherSecretReferences r cluster)"
  unfolding hasOtherSecretReferences_def recorded_parts by (intro traced_intro)

lemma traced_sessionCleanup:
  "fst (newCleanupSession pkg r options w0) = Inr s \<Longrightarrow>
   traced (answered pkg r) (recorded (SessionCleaned options) (sess_Cleanup s)) (sess_Cleanup s)"
  by (rule traced_recorded) auto

lemma traced_credentialDelete:
  "fst (newCleanupSession pkg r options w0) = Inr s \<Longrightarrow>
   traced (answered pkg r) (recorded (CredentialDeleteCalled options i) (sess_DeleteApplicationCredential s i))
     (sess_DeleteApplicationCredential s i)"
  by (rule traced_recorded) auto

lemma traced_resumeCredentialDeletion [traced_intro]:
  "traced (answered pkg r)
     (resumeCredentialDeletion k (recordedPackage pkg) (recordedReconciler r) cluster secret state)
     (resumeCredentialDeletion k pkg r cluster secret state)"
  unfolding resumeCredentialDeletion_def recorded_parts recorded_policy recorded_pure
  by (rule traced_opening) (simp only: recorded_calls, intro traced_credentialDelete traced_intro)

lemma traced_resumeSecretDeletion [traced_intro]:
  "traced (answered pkg r) (resumeSecretDeletion k (recordedReconciler r) cluster secret) (resumeSecretDeletion k r cluster secret)"
  unfolding resumeSecretDeletion_def recorded_parts by (intro traced_intro)

lemma traced_resumeCredentialCleanup [traced_intro]:
  "traced (answered pkg r) (resumeCredentialCleanup k (recordedPackage pkg) (recordedReconciler r) cluster secret state)
     (resumeCredentialCleanup k pkg r cluster secret state)"
  unfolding resumeCredentialCleanup_def recorded_binding by (intro traced_intro)

lemma traced_startCredentialCleanup [traced_intro]:
  "traced (answered pkg r)
     (startCredentialCleanup k (recordedPackage pkg) (recordedReconciler r) cluster secret)
     (startCredentialCleanup k pkg r cluster secret)"
  unfolding startCredentialCleanup_def recorded_parts recorded_policy recorded_pure Let_def recorded_binding
  by (rule traced_opening) (simp only: recorded_calls, intro traced_sessionCleanup traced_intro)

lemma traced_reconcileDelete [traced_intro]:
  "traced (answered pkg r) (reconcileDelete k (recordedPackage pkg) (recordedReconciler r) cluster) (reconcileDelete k pkg r cluster)"
  unfolding reconcileDelete_def recorded_parts recorded_policy recorded_pure Let_def by (intro traced_intro)

lemma traced_addFinalizer [traced_intro]:
  "traced (answered pkg r) (addFinalizer k (recordedReconciler r) observed) (addFinalizer k r observed)"
  unfolding addFinalizer_def recorded_parts by (intro traced_intro)

lemma traced_Reconcile:
  "traced (answered pkg r) (Reconcile k (recordedPackage pkg) (recordedReconciler r) req) (Reconcile k pkg r req)"
  unfolding Reconcile_def recorded_parts recorded_policy recorded_pure by (intro traced_intro)

lemma Reconcile_recorded:
  "\<exists>calls. Reconcile k (recordedPackage pkg) (recordedReconciler r) req (w, []) =
     (fst (Reconcile k pkg r req w), snd (Reconcile k pkg r req w), calls) \<and> list_all (answered pkg r) calls"
  using tracedD [OF traced_Reconcile, of k pkg r req w "[]"] by simp

end
