(* ===== verification/Controller_Protocol.thy ===== *)
theory Controller_Protocol
  imports Controller_Calls
begin

section \<open>The protocol of a reconciliation\<close>

text \<open>
  The rules by which a reconciliation may change anything: for every mutating call, what the
  calls before it must have answered. The predicates of this theory read the recorded
  calls only.
\<close>

subsection \<open>What the calls have shown\<close>

fun isRead :: "apiCall \<Rightarrow> bool" where
  "isRead (ClusterRead key a) = True"
| "isRead (OwnerRead key a) = True"
| "isRead (SecretRead key a) = True"
| "isRead (ClustersListed ns a) = True"
| "isRead _ = False"

fun isOwnerRead :: "apiCall \<Rightarrow> bool" where
  "isOwnerRead (OwnerRead key a) = True"
| "isOwnerRead _ = False"

fun isMutation :: "apiCall \<Rightarrow> bool" where
  "isMutation (ClusterPatched base new a) = True"
| "isMutation (SecretDeleteCalled s uid version a) = True"
| "isMutation (ResourcesCleaned options a) = True"
| "isMutation (SessionCleaned options a) = True"
| "isMutation (CredentialDeleteCalled options i a) = True"
| "isMutation _ = False"

definition pausedOwner :: "kubernetes \<Rightarrow> Cluster \<Rightarrow> bool" where
  "pausedOwner k owner \<longleftrightarrow> cluster_Paused owner \<or> hasPauseAnnotation k (cluster_Annotations owner)"

text \<open>One owner reference was looked up, and the answer does not pause the cluster.\<close>

fun notPausedBy :: "kubernetes \<Rightarrow> string \<Rightarrow> OwnerReference \<Rightarrow> apiCall \<Rightarrow> bool" where
  "notPausedBy k namespace ref (OwnerRead key a) \<longleftrightarrow>
     key = (namespace, ref_Name ref)
     \<and> (case a of Inl e \<Rightarrow> IsNotFound k e
        | Inr owner \<Rightarrow> \<not> (cluster_UID owner = ref_UID ref \<and> pausedOwner k owner))"
| "notPausedBy k namespace ref _ \<longleftrightarrow> False"

definition notPausedReads :: "kubernetes \<Rightarrow> OpenStackCluster \<Rightarrow> apiCall list \<Rightarrow> bool" where
  "notPausedReads k cluster seg \<longleftrightarrow>
     \<not> hasPauseAnnotation k (osc_Annotations cluster)
   \<and> list_all2 (notPausedBy k (osc_Namespace cluster))
       (filter (isClusterOwner k) (osc_OwnerReferences cluster)) seg"

text \<open>
  The last reads before a change: the Secret is still the one at hand (or still absent), and
  the cluster is the same object in the same generation, under the same name, policy and
  checkpoint, still being deleted, still with the finalizer, and not paused.
\<close>

fun sameSecret :: "kubernetes \<Rightarrow> Secret option \<Rightarrow> error + Secret \<Rightarrow> bool" where
  "sameSecret k None (Inl e) = IsNotFound k e"
| "sameSecret k (Some s) (Inr s') =
     (secret_UID s' = secret_UID s \<and> secret_ResourceVersion s' = secret_ResourceVersion s)"
| "sameSecret k _ _ = False"

definition freshInputs ::
  "kubernetes \<Rightarrow> 'w OpenStackClusterReconciler \<Rightarrow> OpenStackCluster \<Rightarrow> Secret option \<Rightarrow> bool
   \<Rightarrow> OpenStackCluster \<Rightarrow> apiCall list \<Rightarrow> bool"
where
  "freshInputs k r observed secret sole latest seg \<longleftrightarrow>
     (\<exists>answer owners.
        seg = [SecretRead (osc_Namespace observed, ident_Name (osc_IdentityRef observed)) answer,
               ClusterRead (objectKey observed) (Inr latest)] @ owners
      \<and> sameSecret k secret answer
      \<and> osc_UID latest = osc_UID observed \<and> osc_Generation latest = osc_Generation observed
      \<and> clusterNameFor latest = clusterNameFor observed
      \<and> volumesPolicyFor r latest = volumesPolicyFor r observed
      \<and> osc_Annotations latest CredentialCheckpointAnnotation
        = osc_Annotations observed CredentialCheckpointAnnotation
      \<and> osc_DeletionTimestamp latest \<noteq> None \<and> ContainsFinalizer k latest Finalizer
      \<and> notPausedReads k latest owners
      \<and> (sole \<longrightarrow> length (osc_Finalizers latest) = 1))"

text \<open>The first reads of a deletion: the cluster, its owners, its Secret.\<close>

definition firstReads :: "ObjectKey \<Rightarrow> OpenStackCluster \<Rightarrow> apiCall list \<Rightarrow> error + Secret \<Rightarrow> apiCall list" where
  "firstReads req observed owners answer =
     ClusterRead req (Inr observed) # owners
       @ [SecretRead (osc_Namespace observed, ident_Name (osc_IdentityRef observed)) answer]"

definition usableIdentity :: "OpenStackCluster \<Rightarrow> bool" where
  "usableIdentity cluster \<longleftrightarrow>
     TrimSpace (clusterNameFor cluster) \<noteq> '''' \<and> ident_Name (osc_IdentityRef cluster) \<noteq> ''''
   \<and> ident_Type (osc_IdentityRef cluster) \<in> {'''', ''Secret''}"

definition deleting :: "kubernetes \<Rightarrow> OpenStackCluster \<Rightarrow> apiCall list \<Rightarrow> bool" where
  "deleting k observed owners \<longleftrightarrow>
     notPausedReads k observed owners \<and> osc_DeletionTimestamp observed \<noteq> None
   \<and> ContainsFinalizer k observed Finalizer \<and> usableIdentity observed"

definition deletePolicy :: "Secret \<Rightarrow> bool" where
  "deletePolicy secret \<longleftrightarrow> secret_Annotations secret CredentialPolicyAnnotation = Some PolicyDelete"

definition sharedIn :: "OpenStackCluster \<Rightarrow> OpenStackCluster list \<Rightarrow> bool" where
  "sharedIn cluster clusters \<longleftrightarrow>
     (\<exists>other \<in> set clusters.
        osc_UID other \<noteq> osc_UID cluster
      \<and> ident_Name (osc_IdentityRef other) = ident_Name (osc_IdentityRef cluster)
      \<and> ident_Type (osc_IdentityRef other) \<in> {'''', ''Secret''})"

definition withCheckpoint :: "OpenStackCluster \<Rightarrow> credentialCheckpoint \<Rightarrow> OpenStackCluster" where
  "withCheckpoint cluster state =
     cluster\<lparr>osc_Annotations :=
       (osc_Annotations cluster)(CredentialCheckpointAnnotation \<mapsto> marshalCheckpoint state)\<rparr>"

definition firstCheckpoint ::
  "'w OpenStackClusterReconciler \<Rightarrow> OpenStackCluster \<Rightarrow> Secret \<Rightarrow> CredentialBinding \<Rightarrow> credentialCheckpoint"
where
  "firstCheckpoint r cluster secret binding =
     \<lparr>ck_Version = 1, ck_Phase = credentialDeleteStarted,
      ck_ClusterUID = osc_UID cluster, ck_ClusterName = clusterNameFor cluster,
      ck_SecretName = secret_Name secret, ck_SecretUID = secret_UID secret,
      ck_Cloud = binding, ck_VolumesPolicy = volumesPolicyFor r cluster,
      ck_CredentialPolicy = PolicyDelete\<rparr>"

text \<open>
  A checkpoint that was found on the cluster and still fits the cluster and the Secret, when
  no finalizer but the janitor's is left.
\<close>

definition resumes ::
  "'w openstackPackage \<Rightarrow> 'w OpenStackClusterReconciler \<Rightarrow> OpenStackCluster \<Rightarrow> Secret option
   \<Rightarrow> credentialCheckpoint \<Rightarrow> string \<Rightarrow> bool"
where
  "resumes pkg r observed secret state phase \<longleftrightarrow>
     readCredentialCheckpoint (pkg_url pkg) observed = Inr (Some state) \<and> ck_Phase state = phase
   \<and> checkCheckpointBinding pkg r observed secret state = Inr ()
   \<and> length (osc_Finalizers observed) = 1"

subsection \<open>Permitted changes\<close>

text \<open>
  \<open>permitted pre c\<close>: after the calls \<open>pre\<close> of a reconciliation, the mutating call \<open>c\<close> is
  permitted. One rule for each place where the code changes something.
\<close>

inductive permitted ::
  "kubernetes \<Rightarrow> 'w openstackPackage \<Rightarrow> 'w OpenStackClusterReconciler \<Rightarrow> ObjectKey
   \<Rightarrow> apiCall list \<Rightarrow> apiCall \<Rightarrow> bool"
  for k :: kubernetes and pkg :: "'w openstackPackage" and r :: "'w OpenStackClusterReconciler"
  and req :: ObjectKey
where
  add_finalizer:
  "notPausedReads k observed owners \<Longrightarrow> osc_DeletionTimestamp observed = None \<Longrightarrow>
   osc_UID latest = osc_UID observed \<Longrightarrow> osc_DeletionTimestamp latest = None \<Longrightarrow>
   \<not> ContainsFinalizer k latest Finalizer \<Longrightarrow> notPausedReads k latest owners' \<Longrightarrow>
   permitted k pkg r req
     (ClusterRead req (Inr observed) # owners @ ClusterRead (objectKey observed) (Inr latest) # owners')
     (ClusterPatched latest (AddFinalizer k latest Finalizer) a)"
| clean_resources:
  "deleting k observed owners \<Longrightarrow> osc_Annotations observed CredentialCheckpointAnnotation = None \<Longrightarrow>
   \<not> deletePolicy secret \<Longrightarrow>
   permitted k pkg r req (firstReads req observed owners (Inr secret))
     (ResourcesCleaned (purgeOptions r observed secret) a)"
| release_cleaned:
  "deleting k observed owners \<Longrightarrow> osc_Annotations observed CredentialCheckpointAnnotation = None \<Longrightarrow>
   \<not> deletePolicy secret \<Longrightarrow> freshInputs k r observed (Some secret) False latest seg \<Longrightarrow>
   permitted k pkg r req
     (firstReads req observed owners (Inr secret)
        @ ResourcesCleaned (purgeOptions r observed secret) (Inr ()) # seg)
     (ClusterPatched latest (RemoveFinalizer k latest Finalizer) a)"
| clean_session:
  "deleting k observed owners \<Longrightarrow> osc_Annotations observed CredentialCheckpointAnnotation = None \<Longrightarrow>
   deletePolicy secret \<Longrightarrow>
   permitted k pkg r req
     (firstReads req observed owners (Inr secret) @ [SessionOpened (purgeOptions r observed secret) (Inr binding)])
     (SessionCleaned (purgeOptions r observed secret) a)"
| release_shared:
  "deleting k observed owners \<Longrightarrow> osc_Annotations observed CredentialCheckpointAnnotation = None \<Longrightarrow>
   deletePolicy secret \<Longrightarrow> sharedIn observed clusters \<Longrightarrow>
   freshInputs k r observed (Some secret) True latest seg \<Longrightarrow>
   permitted k pkg r req
     (firstReads req observed owners (Inr secret)
        @ [SessionOpened (purgeOptions r observed secret) (Inr binding),
           SessionCleaned (purgeOptions r observed secret) (Inr ()),
           ClustersListed (osc_Namespace observed) (Inr clusters)] @ seg)
     (ClusterPatched latest (RemoveFinalizer k latest Finalizer) a)"
| start_credential_deletion:
  "deleting k observed owners \<Longrightarrow> osc_Annotations observed CredentialCheckpointAnnotation = None \<Longrightarrow>
   deletePolicy secret \<Longrightarrow> \<not> sharedIn observed clusters \<Longrightarrow>
   ValidateCredentialBinding (pkg_url pkg) binding = Inr () \<Longrightarrow>
   osc_UID observed \<noteq> '''' \<Longrightarrow> secret_UID secret \<noteq> '''' \<Longrightarrow>
   checkCheckpointBinding pkg r observed (Some secret) (firstCheckpoint r observed secret binding) = Inr () \<Longrightarrow>
   freshInputs k r observed (Some secret) True latest seg \<Longrightarrow>
   permitted k pkg r req
     (firstReads req observed owners (Inr secret)
        @ [SessionOpened (purgeOptions r observed secret) (Inr binding),
           SessionCleaned (purgeOptions r observed secret) (Inr ()),
           ClustersListed (osc_Namespace observed) (Inr clusters)] @ seg)
     (ClusterPatched latest (withCheckpoint latest (firstCheckpoint r observed secret binding)) a)"
| delete_credential:
  "deleting k observed owners \<Longrightarrow> resumes pkg r observed (Some secret) state credentialDeleteStarted \<Longrightarrow>
   freshInputs k r observed (Some secret) True latest seg \<Longrightarrow> \<not> sharedIn observed clusters \<Longrightarrow>
   permitted k pkg r req
     (firstReads req observed owners (Inr secret)
        @ SessionOpened (purgeOptions r observed secret) (Inr (ck_Cloud state)) # seg
        @ [ClustersListed (osc_Namespace observed) (Inr clusters)])
     (CredentialDeleteCalled (purgeOptions r observed secret) (cb_CredentialID (ck_Cloud state)) a)"
| start_secret_deletion:
  "deleting k observed owners \<Longrightarrow> resumes pkg r observed (Some secret) state credentialDeleteStarted \<Longrightarrow>
   freshInputs k r observed (Some secret) True latest seg \<Longrightarrow> \<not> sharedIn observed clusters \<Longrightarrow>
   freshInputs k r observed (Some secret) True latest' seg' \<Longrightarrow>
   permitted k pkg r req
     (firstReads req observed owners (Inr secret)
        @ SessionOpened (purgeOptions r observed secret) (Inr (ck_Cloud state)) # seg
        @ [ClustersListed (osc_Namespace observed) (Inr clusters),
           CredentialDeleteCalled (purgeOptions r observed secret) (cb_CredentialID (ck_Cloud state)) (Inr ())]
        @ seg')
     (ClusterPatched latest' (withCheckpoint latest' (state\<lparr>ck_Phase := secretDeleteStarted\<rparr>)) a)"
| delete_secret:
  "deleting k observed owners \<Longrightarrow> resumes pkg r observed (Some secret) state secretDeleteStarted \<Longrightarrow>
   secret_DeletionTimestamp secret = None \<Longrightarrow>
   freshInputs k r observed (Some secret) True latest seg \<Longrightarrow> \<not> sharedIn observed clusters \<Longrightarrow>
   permitted k pkg r req
     (firstReads req observed owners (Inr secret) @ seg @ [ClustersListed (osc_Namespace observed) (Inr clusters)])
     (SecretDeleteCalled secret (secret_UID secret) (secret_ResourceVersion secret) a)"
| release_deleted:
  "deleting k observed owners \<Longrightarrow> resumes pkg r observed None state secretDeleteStarted \<Longrightarrow>
   IsNotFound k e \<Longrightarrow> freshInputs k r observed None True latest seg \<Longrightarrow>
   permitted k pkg r req (firstReads req observed owners (Inl e) @ seg)
     (ClusterPatched latest (RemoveFinalizer k latest Finalizer) a)"

text \<open>Every change of a list of calls is permitted by the calls before it.\<close>

definition safe ::
  "kubernetes \<Rightarrow> 'w openstackPackage \<Rightarrow> 'w OpenStackClusterReconciler \<Rightarrow> ObjectKey \<Rightarrow> apiCall list \<Rightarrow> bool"
where
  "safe k pkg r req calls \<longleftrightarrow>
     (\<forall>pre c post. calls = pre @ c # post \<longrightarrow> isMutation c \<longrightarrow> permitted k pkg r req pre c)"

lemma safe_Nil [simp]: "safe k pkg r req []"
  by (simp add: safe_def)

lemma safe_snoc: "safe k pkg r req (l @ [c]) \<longleftrightarrow> safe k pkg r req l \<and> (isMutation c \<longrightarrow> permitted k pkg r req l c)"
proof
  assume *: "safe k pkg r req (l @ [c])"
  have "l = pre @ d # post \<Longrightarrow> l @ [c] = pre @ d # (post @ [c])" for pre d post by simp
  with * show "safe k pkg r req l \<and> (isMutation c \<longrightarrow> permitted k pkg r req l c)"
    unfolding safe_def by blast
next
  assume *: "safe k pkg r req l \<and> (isMutation c \<longrightarrow> permitted k pkg r req l c)"
  show "safe k pkg r req (l @ [c])"
    unfolding safe_def
  proof (intro allI impI)
    fix pre d post
    assume eq: "l @ [c] = pre @ d # post" and "isMutation d"
    show "permitted k pkg r req pre d"
    proof (cases post rule: rev_cases)
      case Nil
      with eq * \<open>isMutation d\<close> show ?thesis by simp
    next
      case (snoc post' c')
      with eq have "l = pre @ d # post'" by simp
      with * \<open>isMutation d\<close> show ?thesis by (auto simp: safe_def)
    qed
  qed
qed

lemma safe_quiet:
  "list_all (\<lambda>c. \<not> isMutation c) seg \<Longrightarrow> safe k pkg r req (l @ seg) \<longleftrightarrow> safe k pkg r req l"
proof (induction seg rule: rev_induct)
  case (snoc c seg)
  then show ?case by (simp add: safe_snoc flip: append_assoc)
qed simp

lemma reads_quiet: "list_all isRead seg \<Longrightarrow> list_all (\<lambda>c. \<not> isMutation c) seg"
proof -
  have "isRead c \<Longrightarrow> \<not> isMutation c" for c by (cases c) simp_all
  then show "list_all isRead seg \<Longrightarrow> list_all (\<lambda>c. \<not> isMutation c) seg" by (auto simp: list_all_iff)
qed

lemma ownerReads_reads: "list_all isOwnerRead seg \<Longrightarrow> list_all isRead seg"
proof -
  have "isOwnerRead c \<Longrightarrow> isRead c" for c by (cases c) simp_all
  then show "list_all isOwnerRead seg \<Longrightarrow> list_all isRead seg" by (auto simp: list_all_iff)
qed

lemmas safe_reads = safe_quiet [OF reads_quiet]

subsection \<open>Reasons to do nothing\<close>

text \<open>
  Errors that end a reconciliation without being reported: the cluster is gone, or cleanup is
  paused. A list of calls has an excuse if one of its answers was such an error or showed a
  pause. (A Secret or an owner that is not found is no excuse.)
\<close>

definition stopping :: "kubernetes \<Rightarrow> error \<Rightarrow> bool" where
  "stopping k e \<longleftrightarrow> IsNotFound k e \<or> Is e ErrPaused"

fun excuse :: "kubernetes \<Rightarrow> apiCall \<Rightarrow> bool" where
  "excuse k (ClusterRead key (Inl e)) = stopping k e"
| "excuse k (ClusterRead key (Inr c)) = hasPauseAnnotation k (osc_Annotations c)"
| "excuse k (OwnerRead key (Inl e)) = Is e ErrPaused"
| "excuse k (OwnerRead key (Inr owner)) = pausedOwner k owner"
| "excuse k (SecretRead key (Inl e)) = Is e ErrPaused"
| "excuse k (ClustersListed ns (Inl e)) = Is e ErrPaused"
| "excuse k (ClusterPatched base new (Inl e)) = stopping k e"
| "excuse k (SecretDeleteCalled s uid version (Inl e)) = Is e ErrPaused"
| "excuse k (ResourcesCleaned options (Inl e)) = Is e ErrPaused"
| "excuse k (SessionOpened options (Inl e)) = Is e ErrPaused"
| "excuse k (SessionCleaned options (Inl e)) = Is e ErrPaused"
| "excuse k (CredentialDeleteCalled options i (Inl e)) = Is e ErrPaused"
| "excuse k _ = False"

definition excused :: "kubernetes \<Rightarrow> apiCall list \<Rightarrow> bool" where
  "excused k calls \<longleftrightarrow> list_ex (excuse k) calls"

lemma excused_append [simp]: "excused k (l @ m) \<longleftrightarrow> excused k l \<or> excused k m"
  by (simp add: excused_def)

lemma excused_Cons [simp]: "excused k (c # m) \<longleftrightarrow> excuse k c \<or> excused k m"
  by (simp add: excused_def)

lemma excused_Nil [simp]: "\<not> excused k []"
  by (simp add: excused_def)

lemma stopping_Wrapf: "documentedKubernetes k \<Longrightarrow> stopping k (Wrapf t e) \<longleftrightarrow> stopping k e"
  by (simp add: stopping_def documentedKubernetes_def)

lemma IsNotFound_Wrapf: "documentedKubernetes k \<Longrightarrow> IsNotFound k (Wrapf t e) \<longleftrightarrow> IsNotFound k e"
  by (simp add: documentedKubernetes_def)

lemma stopping_NewConflict: "documentedKubernetes k \<Longrightarrow> \<not> stopping k (NewConflict k res name e)"
  by (simp add: stopping_def documentedKubernetes_def Let_def)

lemma stopping_pending: "documentedKubernetes k \<Longrightarrow> \<not> stopping k ErrDeletePending"
  by (simp add: stopping_def documentedKubernetes_def)

subsection \<open>Reading\<close>

text \<open>
  What a caller of each reading function may assume of the calls \<open>seg\<close> that it adds. An
  error that would end the reconciliation silently has an excuse among them.
\<close>

definition excusesError :: "kubernetes \<Rightarrow> error + 'a \<Rightarrow> apiCall list \<Rightarrow> bool" where
  "excusesError k res seg \<longleftrightarrow>
     documentedKubernetes k \<longrightarrow> (case res of Inl e \<Rightarrow> stopping k e \<longrightarrow> excused k seg | Inr _ \<Rightarrow> True)"

lemma wp_ownerPaused:
  assumes "\<And>res seg w'. list_all isOwnerRead seg \<Longrightarrow> excusesError k res seg
     \<Longrightarrow> (res = Inr False \<Longrightarrow> list_all2 (notPausedBy k namespace) (filter (isClusterOwner k) refs) seg)
     \<Longrightarrow> (res = Inr True \<Longrightarrow> excused k seg) \<Longrightarrow> Q res (w', l @ seg)"
  shows "wp (ownerPaused k (recordedReader rd) namespace refs) Q (w, l)"
  using assms
proof (induction refs arbitrary: l w Q)
  case Nil
  show ?case by (simp add: wp_rules) (rule Nil [of "[]" "Inr False", simplified]; simp add: excusesError_def)
next
  case (Cons ref refs)
  show ?case
  proof (cases "isClusterOwner k ref")
    case False
    then show ?thesis
      by (simp add: wp_rules) (rule Cons.IH, rule Cons.prems; simp)
  next
    case True
    have skip: "wp (ownerPaused k (recordedReader rd) namespace refs) Q (w', l @ [OwnerRead (namespace, ref_Name ref) a])"
      if unpaused: "notPausedBy k namespace ref (OwnerRead (namespace, ref_Name ref) a)" for a w'
    proof (rule Cons.IH)
      fix res seg w''
      assume *: "list_all isOwnerRead seg" "excusesError k res seg"
        "res = Inr False \<Longrightarrow> list_all2 (notPausedBy k namespace) (filter (isClusterOwner k) refs) seg"
        "res = Inr True \<Longrightarrow> excused k seg"
      have "Q res (w'', l @ (OwnerRead (namespace, ref_Name ref) a # seg))"
        using * unpaused True by (intro Cons.prems) (auto simp: excusesError_def split: sum.splits)
      then show "Q res (w'', (l @ [OwnerRead (namespace, ref_Name ref) a]) @ seg)" by simp
    qed
    have stop: "Q res (w', l @ [OwnerRead (namespace, ref_Name ref) a])"
      if "excusesError k res [OwnerRead (namespace, ref_Name ref) a]" and "res \<noteq> Inr False"
        and "res = Inr True \<Longrightarrow> excused k [OwnerRead (namespace, ref_Name ref) a]" for res a w'
      using that by (intro Cons.prems) auto
    show ?thesis
      using True
      by (auto simp: wp_rules recorded_calls pausedOwner_def excusesError_def stopping_def IsNotFound_Wrapf
          intro!: wp_recorded skip stop split: sum.splits)
  qed
qed

lemma wp_isPaused:
  assumes "\<And>res seg w'. list_all isOwnerRead seg \<Longrightarrow> excusesError k res seg
     \<Longrightarrow> (res = Inr False \<Longrightarrow> notPausedReads k cluster seg)
     \<Longrightarrow> (res = Inr True \<Longrightarrow> hasPauseAnnotation k (osc_Annotations cluster) \<or> excused k seg) \<Longrightarrow> Q res (w', l @ seg)"
  shows "wp (isPaused k (recordedReader rd) cluster) Q (w, l)"
proof (cases "hasPauseAnnotation k (osc_Annotations cluster)")
  case True
  with assms [of "[]" "Inr True"] show ?thesis by (simp add: isPaused_def wp_rules excusesError_def)
next
  case False
  then show ?thesis
    unfolding isPaused_def wp_rules if_not_P [OF False]
    by (intro wp_ownerPaused assms) (auto simp: notPausedReads_def)
qed

lemma wp_findSecret:
  assumes "\<And>a w'. Q (case a of Inl e \<Rightarrow> if IsNotFound k e then Inr None else Inl e | Inr s \<Rightarrow> Inr (Some s))
              (w', l @ [SecretRead (namespace, name) a])"
  shows "wp (findSecret k (recordedReconciler r) name namespace) Q (w, l)"
  unfolding findSecret_def recorded_parts wp_rules
proof (rule wp_recorded)
  fix a w'
  show "case a of Inl e \<Rightarrow> if IsNotFound k e then Q (Inr None) (w', l @ [SecretRead (namespace, name) a])
          else Q (Inl e) (w', l @ [SecretRead (namespace, name) a])
        | Inr s \<Rightarrow> Q (Inr (Some s)) (w', l @ [SecretRead (namespace, name) a])"
    using assms [of a w'] by (auto split: sum.splits if_splits)
qed

lemma wp_checkCleanupInputs:
  assumes "\<And>res seg w'. list_all isRead seg \<Longrightarrow> excusesError k res seg
     \<Longrightarrow> (\<And>latest. res = Inr latest \<Longrightarrow> freshInputs k r observed secret sole latest seg)
     \<Longrightarrow> Q res (w', l @ seg)"
  shows "wp (checkCleanupInputs k (recordedReconciler r) observed secret sole) Q (w, l)"
proof -
  let ?sread = "SecretRead (osc_Namespace observed, ident_Name (osc_IdentityRef observed))"
  let ?rest = "\<lambda>currentSecret. if secretChanged secret currentSecret
     then fail (NewConflict k ''secrets'' (ident_Name (osc_IdentityRef observed))
                  (Errorf [Txt ''identity Secret changed during reconciliation'']))
     else
       andThen (recorded (ClusterRead (objectKey observed)) (GetOpenStackCluster (reader r) (objectKey observed)))
         (\<lambda>latest.
       if inputsChanged k r observed latest
       then fail (NewConflict k ''openstackclusters'' (osc_Name observed)
                    (Errorf [Txt ''cleanup inputs changed during reconciliation'']))
       else
         andThen (isPaused k (recordedReader (reader r)) latest) (\<lambda>paused.
         if paused then fail ErrPaused
         else if sole \<and> length (osc_Finalizers latest) \<noteq> 1 then fail ErrDeletePending
         else ret latest))"
  have same: "sameSecret k secret answer"
    if "\<not> secretChanged secret s" and "(case answer of Inl e \<Rightarrow> if IsNotFound k e then Inr None else Inl e
          | Inr s \<Rightarrow> Inr (Some s)) = Inr s" for answer s
    using that by (cases secret; cases answer) (auto simp: secretChanged_def split: if_splits)
  have reads: "wp (?rest s) Q (w', l @ [?sread answer])"
    if "(case answer of Inl e \<Rightarrow> if IsNotFound k e then Inr None else Inl e | Inr s \<Rightarrow> Inr (Some s)) = Inr s"
    for answer s w'
  proof (cases "secretChanged secret s")
    case True
    then show ?thesis
      by (simp add: wp_rules, intro assms) (auto simp: excusesError_def stopping_NewConflict)
  next
    case unchanged: False
    have paused: "wp (isPaused k (recordedReader (reader r)) latest)
        (\<lambda>p w'. case p of Inl e \<Rightarrow> Q (Inl e) w'
          | Inr paused \<Rightarrow> if paused then Q (Inl ErrPaused) w'
              else if sole \<and> length (osc_Finalizers latest) \<noteq> 1 then Q (Inl ErrDeletePending) w' else Q (Inr latest) w')
        (w'', l @ [?sread answer, ClusterRead (objectKey observed) (Inr latest)])"
      if fresh: "\<not> inputsChanged k r observed latest" for latest w''
    proof (rule wp_isPaused)
      fix res seg w3
      assume owners: "list_all isOwnerRead seg" and *: "excusesError k res seg"
        "res = Inr False \<Longrightarrow> notPausedReads k latest seg"
        "res = Inr True \<Longrightarrow> hasPauseAnnotation k (osc_Annotations latest) \<or> excused k seg"
      let ?seg = "[?sread answer, ClusterRead (objectKey observed) (Inr latest)] @ seg"
      have ok: "freshInputs k r observed secret sole latest ?seg"
        if "res = Inr False" and "sole \<longrightarrow> length (osc_Finalizers latest) = 1"
        using that fresh * same [OF unchanged] \<open>_ = Inr s\<close>
        unfolding freshInputs_def by (intro exI [of _ answer] exI [of _ seg]) (auto simp: inputsChanged_def)
      have Q: "Q res' (w3, l @ ?sread answer # ClusterRead (objectKey observed) (Inr latest) # seg)"
        if "excusesError k res' ?seg" and "\<And>latest'. res' = Inr latest' \<Longrightarrow>
             freshInputs k r observed secret sole latest' ?seg" for res'
        using that ownerReads_reads [OF owners] assms [of ?seg res' w3] by simp
      show "case res of Inl e \<Rightarrow> Q (Inl e) (w3, (l @ [?sread answer, ClusterRead (objectKey observed) (Inr latest)]) @ seg)
          | Inr paused \<Rightarrow> if paused then Q (Inl ErrPaused) (w3, (l @ [?sread answer, ClusterRead (objectKey observed) (Inr latest)]) @ seg)
              else if sole \<and> length (osc_Finalizers latest) \<noteq> 1
              then Q (Inl ErrDeletePending) (w3, (l @ [?sread answer, ClusterRead (objectKey observed) (Inr latest)]) @ seg)
              else Q (Inr latest) (w3, (l @ [?sread answer, ClusterRead (objectKey observed) (Inr latest)]) @ seg)"
        using * ok
        by (auto split: sum.split intro!: Q simp: excusesError_def stopping_pending)
    qed
    have failed: "Q (Inl e) (w'', l @ [?sread answer, ClusterRead (objectKey observed) (Inl e)])" for e w''
      by (intro assms) (auto simp: excusesError_def)
    have conflict: "Q (Inl (NewConflict k ''openstackclusters'' (osc_Name observed) e))
        (w'', l @ [?sread answer, ClusterRead (objectKey observed) (Inr latest)])" for e latest w''
      by (intro assms) (auto simp: excusesError_def stopping_NewConflict)
    show ?thesis
      unfolding if_not_P [OF unchanged] wp_rules
      apply (rule wp_recorded)
      subgoal for ra w'' by (cases ra) (simp_all add: failed conflict paused [simplified])
      done
  qed
  show ?thesis
    unfolding checkCleanupInputs_def recorded_parts recorded_pure wp_andThen
  proof (rule wp_findSecret)
    fix a w'
    have failed: "Q (Inl e) (w', l @ [?sread (Inl e)])" if "\<not> IsNotFound k e" for e
      using that by (intro assms) (auto simp: excusesError_def stopping_def)
    have absent: "wp (?rest None) Q (w', l @ [?sread (Inl e)])" if "IsNotFound k e" for e
      using that by (intro reads) simp
    have present: "wp (?rest (Some s)) Q (w', l @ [?sread (Inr s)])" for s
      by (rule reads) simp
    show "case (case a of Inl e \<Rightarrow> if IsNotFound k e then Inr None else Inl e | Inr s \<Rightarrow> Inr (Some s)) of
        Inl e \<Rightarrow> Q (Inl e) (w', l @ [?sread a]) | Inr s \<Rightarrow> wp (?rest s) Q (w', l @ [?sread a])"
      by (cases a; cases "\<exists>e. a = Inl e \<and> IsNotFound k e")
         (simp_all only: sum.inject sum.case simp_thms if_True if_False failed absent present sum.distinct)
  qed
qed

subsection \<open>The deletion keeps the protocol\<close>

definition released :: "kubernetes \<Rightarrow> apiCall list \<Rightarrow> bool" where
  "released k calls \<longleftrightarrow>
     (\<exists>base updated. ClusterPatched base (RemoveFinalizer k base Finalizer) (Inr updated) \<in> set calls)"

text \<open>No outcome has been counted, and no patch has been accepted.\<close>

definition unsettled :: "apiCall list \<Rightarrow> bool" where
  "unsettled calls \<longleftrightarrow>
     (\<forall>outcome. CleanupCounted outcome \<notin> set calls)
   \<and> (\<forall>base new updated. ClusterPatched base new (Inr updated) \<notin> set calls)"

text \<open>Describing a credential never fails with the error that says paused.\<close>

definition plainDescriptions :: "'w openstackPackage \<Rightarrow> bool" where
  "plainDescriptions pkg \<longleftrightarrow> (\<forall>options e. pkg_DescribeCredential pkg options = Inl e \<longrightarrow> \<not> Is e ErrPaused)"

text \<open>
  What every part of a deletion guarantees of its result and of all calls so far: the
  changes are permitted; a result without a requeue has released the cluster or has an
  excuse, and so has the error that says paused; a success is counted only with a release.
\<close>

definition guaranteed ::
  "kubernetes \<Rightarrow> 'w openstackPackage \<Rightarrow> 'w OpenStackClusterReconciler \<Rightarrow> ObjectKey
   \<Rightarrow> error + ReconcileResult \<Rightarrow> apiCall list \<Rightarrow> bool"
where
  "guaranteed k pkg r req res l \<longleftrightarrow>
     safe k pkg r req l
   \<and> (documentedKubernetes k \<longrightarrow> plainDescriptions pkg \<longrightarrow>
        (case res of
           Inr result \<Rightarrow> result = requeueResult \<or> result = emptyResult \<and> (released k l \<or> excused k l)
         | Inl e \<Rightarrow> Is e ErrPaused \<longrightarrow> excused k l))
   \<and> (case res of
        Inr result \<Rightarrow> CleanupCounted ''failure'' \<notin> set l
          \<and> (CleanupCounted ''success'' \<in> set l \<longrightarrow> released k l)
      | Inl e \<Rightarrow> unsettled l)"

lemma unsettled_append [simp]: "unsettled (l @ m) \<longleftrightarrow> unsettled l \<and> unsettled m"
  by (auto simp: unsettled_def)

lemma unsettled_Cons [simp]:
  "unsettled (c # m) \<longleftrightarrow> (\<forall>outcome. c \<noteq> CleanupCounted outcome)
     \<and> (\<forall>base new updated. c \<noteq> ClusterPatched base new (Inr updated)) \<and> unsettled m"
  by (auto simp: unsettled_def)

lemma unsettled_Nil [simp]: "unsettled []"
  by (simp add: unsettled_def)

lemma unsettled_reads [simp]: "list_all isRead seg \<Longrightarrow> unsettled seg"
  by (auto simp: unsettled_def list_all_iff)

lemma unsettledD: "unsettled l \<Longrightarrow> CleanupCounted outcome \<notin> set l"
  by (simp add: unsettled_def)

lemma released_append [simp]: "released k (l @ m) \<longleftrightarrow> released k l \<or> released k m"
  by (auto simp: released_def)

lemma released_patch [simp]: "released k (ClusterPatched base (RemoveFinalizer k base Finalizer) (Inr updated) # m)"
  by (auto simp: released_def)

text \<open>An error, which has an excuse if it says paused, and a requeue.\<close>

lemma guaranteed_Inl:
  "safe k pkg r req l \<Longrightarrow> unsettled l \<Longrightarrow>
   (documentedKubernetes k \<Longrightarrow> plainDescriptions pkg \<Longrightarrow> Is e ErrPaused \<Longrightarrow> excused k l) \<Longrightarrow>
   guaranteed k pkg r req (Inl e) l"
  by (simp add: guaranteed_def)

lemma guaranteed_requeue:
  "safe k pkg r req l \<Longrightarrow> (\<And>outcome. CleanupCounted outcome \<notin> set l) \<Longrightarrow>
   guaranteed k pkg r req (Inr requeueResult) l"
  by (simp add: guaranteed_def)

lemma wp_ignoringNotFound:
  assumes "safe k pkg r req l" and "unsettled l"
    and "documentedKubernetes k \<Longrightarrow> stopping k err \<Longrightarrow> excused k l"
  shows "wp (ignoringNotFound k err) (\<lambda>res (w', l'). guaranteed k pkg r req res l') (w, l)"
proof -
  have None: "documentedKubernetes k \<Longrightarrow> IgnoreNotFound k err = None \<Longrightarrow> stopping k err"
    and Some: "documentedKubernetes k \<Longrightarrow> IgnoreNotFound k err = Some e \<Longrightarrow> Is e ErrPaused \<Longrightarrow> stopping k err" for e
    by (auto simp: documentedKubernetes_def stopping_def split: if_splits)
  show ?thesis
    using assms None Some
    by (auto simp: ignoringNotFound_def wp_rules guaranteed_def unsettledD split: option.split)
qed

lemma wp_countCleanup:
  assumes "\<And>w' seg. seg = [] \<or> seg = [CleanupCounted outcome] \<Longrightarrow> Q () (w', l @ seg)"
  shows "wp (countCleanup (recordedReconciler r) outcome) Q (w, l)"
  using assms [of "[]"] assms [of "[CleanupCounted outcome]"]
  by (auto simp: countCleanup_def recordedReconciler_def wp_rules intro!: wp_recorded split: option.split)

lemma wp_recordEvent:
  assumes "\<And>w' seg. seg = [] \<or> seg = [EventRecorded eventType reason] \<Longrightarrow> Q () (w', l @ seg)"
  shows "wp (recordEvent (recordedReconciler r) obj eventType reason message) Q (w, l)"
  using assms [of "[]"] assms [of "[EventRecorded eventType reason]"]
  by (auto simp: recordEvent_def recordedReconciler_def wp_rules intro!: wp_recorded split: option.split)

lemma wp_patched_finish:
  assumes "safe k pkg r req (l @ seg)" and "unsettled (l @ seg)"
    and "\<And>a. permitted k pkg r req (l @ seg) (ClusterPatched latest (RemoveFinalizer k latest Finalizer) a)"
  shows "wp (inspect (recorded (ClusterPatched latest (RemoveFinalizer k latest Finalizer)) patch)
            (\<lambda>patched. case patched of
               Inl err \<Rightarrow> ignoringNotFound k (Wrapf [Txt ''removing finalizer''] err)
             | Inr updated \<Rightarrow>
                 inspect (countCleanup (recordedReconciler r) ''success'') (\<lambda>_.
                 inspect (recordEvent (recordedReconciler r) updated (EventTypeNormal k) ''CleanupSucceeded''
                            ''OpenStack resources cleaned up successfully'') (\<lambda>_.
                 ret emptyResult))))
          (\<lambda>res (w', l'). guaranteed k pkg r req res l') (w, l @ seg)"
  unfolding wp_inspect
proof (rule wp_recorded)
  fix patched w'
  let ?l = "(l @ seg) @ [ClusterPatched latest (RemoveFinalizer k latest Finalizer) patched]"
  have safe: "safe k pkg r req ?l" using assms(1,3) by (simp add: safe_snoc del: append_assoc)
  have count: "CleanupCounted outcome \<notin> set ?l" for outcome using unsettledD [OF assms(2)] by simp
  show "wp (case patched of
              Inl err \<Rightarrow> ignoringNotFound k (Wrapf [Txt ''removing finalizer''] err)
            | Inr updated \<Rightarrow>
                inspect (countCleanup (recordedReconciler r) ''success'') (\<lambda>_.
                inspect (recordEvent (recordedReconciler r) updated (EventTypeNormal k) ''CleanupSucceeded''
                           ''OpenStack resources cleaned up successfully'') (\<lambda>_.
                ret emptyResult)))
          (\<lambda>res (w', l'). guaranteed k pkg r req res l') (w', ?l)"
  proof (cases patched)
    case (Inl err)
    then show ?thesis
      unfolding Inl sum.case
      using safe assms(2) by (intro wp_ignoringNotFound) (auto simp: stopping_Wrapf Inl)
  next
    case (Inr updated)
    have "guaranteed k pkg r req (Inr emptyResult) (?l @ seg1 @ seg2)"
      if "seg1 = [] \<or> seg1 = [CleanupCounted ''success'']"
        and "seg2 = [] \<or> seg2 = [EventRecorded (EventTypeNormal k) ''CleanupSucceeded'']" for seg1 seg2
    proof -
      have "safe k pkg r req (?l @ seg1 @ seg2)"
        using safe that by (auto simp: safe_quiet simp del: append_assoc simp flip: append_assoc)
      moreover have "CleanupCounted ''failure'' \<notin> set (?l @ seg1 @ seg2)"
        using count that by auto
      ultimately show ?thesis by (simp add: guaranteed_def Inr)
    qed
    then show ?thesis
      unfolding Inr sum.case wp_rules
      by (intro wp_countCleanup wp_recordEvent) (simp add: Inr)
  qed
qed

lemma wp_finishCleanup:
  assumes "safe k pkg r req l" and "unsettled l"
    and "\<And>seg latest a. freshInputs k r observed secret sole latest seg \<Longrightarrow>
      permitted k pkg r req (l @ seg) (ClusterPatched latest (RemoveFinalizer k latest Finalizer) a)"
  shows "wp (finishCleanup k (recordedReconciler r) observed secret sole)
           (\<lambda>res (w', l'). guaranteed k pkg r req res l') (w, l)"
  unfolding finishCleanup_def wp_inspect [of "checkCleanupInputs _ _ _ _ _"] recorded_parts
proof (rule wp_checkCleanupInputs)
  fix res seg w'
  assume seg: "list_all isRead seg" "excusesError k res seg"
    "\<And>latest. res = Inr latest \<Longrightarrow> freshInputs k r observed secret sole latest seg"
  have safe: "safe k pkg r req (l @ seg)" and count: "unsettled (l @ seg)"
    using assms(1,2) seg(1) by (simp_all add: safe_reads)
  show "wp (case res of
          Inl err \<Rightarrow> ignoringNotFound k err
        | Inr latest \<Rightarrow>
            inspect (recorded (ClusterPatched latest (RemoveFinalizer k latest Finalizer))
                       (PatchCluster (rec_Client r) latest (RemoveFinalizer k latest Finalizer)))
              (\<lambda>patched. case patched of
                 Inl err \<Rightarrow> ignoringNotFound k (Wrapf [Txt ''removing finalizer''] err)
               | Inr updated \<Rightarrow>
                   inspect (countCleanup (recordedReconciler r) ''success'') (\<lambda>_.
                   inspect (recordEvent (recordedReconciler r) updated (EventTypeNormal k) ''CleanupSucceeded''
                              ''OpenStack resources cleaned up successfully'') (\<lambda>_.
                   ret emptyResult))))
        (\<lambda>res (w', l'). guaranteed k pkg r req res l') (w', l @ seg)"
  proof (cases res)
    case (Inl e)
    with seg(2) have "documentedKubernetes k \<Longrightarrow> stopping k e \<Longrightarrow> excused k (l @ seg)"
      by (simp add: excusesError_def)
    with safe count show ?thesis unfolding Inl sum.case by (rule wp_ignoringNotFound)
  next
    case (Inr latest)
    show ?thesis
      unfolding Inr sum.case using safe count by (rule wp_patched_finish) (rule assms(3), rule seg(3), rule Inr)
  qed
qed

lemma wp_saveCredentialCheckpoint:
  assumes "safe k pkg r req l" and "unsettled l"
    and "\<And>seg latest a. freshInputs k r observed secret True latest seg \<Longrightarrow>
      permitted k pkg r req (l @ seg) (ClusterPatched latest (withCheckpoint latest state) a)"
  shows "wp (saveCredentialCheckpoint k (recordedReconciler r) observed secret state)
           (\<lambda>res (w', l'). guaranteed k pkg r req res l') (w, l)"
  unfolding saveCredentialCheckpoint_def wp_inspect [of "checkCleanupInputs _ _ _ _ _"] recorded_parts
    withCheckpoint_def [symmetric]
proof (rule wp_checkCleanupInputs)
  fix res seg w'
  assume seg: "list_all isRead seg" "excusesError k res seg"
    "\<And>latest. res = Inr latest \<Longrightarrow> freshInputs k r observed secret True latest seg"
  have safe: "safe k pkg r req (l @ seg)" and count: "unsettled (l @ seg)"
    using assms(1,2) seg(1) by (simp_all add: safe_reads)
  show "wp (case res of
          Inl err \<Rightarrow> ignoringNotFound k err
        | Inr latest \<Rightarrow>
            inspect (recorded (ClusterPatched latest (withCheckpoint latest state))
                       (PatchCluster (rec_Client r) latest (withCheckpoint latest state)))
              (\<lambda>patched. case patched of
                 Inl err \<Rightarrow> ignoringNotFound k (Wrapf [Txt ''saving credential cleanup checkpoint''] err)
               | Inr updated \<Rightarrow> ret requeueResult))
        (\<lambda>res (w', l'). guaranteed k pkg r req res l') (w', l @ seg)"
  proof (cases res)
    case (Inl e)
    with seg(2) have "documentedKubernetes k \<Longrightarrow> stopping k e \<Longrightarrow> excused k (l @ seg)"
      by (simp add: excusesError_def)
    with safe count show ?thesis unfolding Inl sum.case by (rule wp_ignoringNotFound)
  next
    case (Inr latest)
    have safe': "safe k pkg r req ((l @ seg) @ [ClusterPatched latest (withCheckpoint latest state) patched])"
      for patched using safe assms(3) [OF seg(3), OF Inr] by (simp add: safe_snoc del: append_assoc)
    have count': "unsettled ((l @ seg) @ [ClusterPatched latest (withCheckpoint latest state) (Inl err)])"
      "CleanupCounted outcome \<notin> set ((l @ seg) @ [ClusterPatched latest (withCheckpoint latest state) patched])"
      for err outcome patched using count unsettledD [OF count] by simp_all
    show ?thesis
      unfolding Inr sum.case wp_inspect
    proof (rule wp_recorded)
      fix patched w''
      show "wp (case patched of
                 Inl err \<Rightarrow> ignoringNotFound k (Wrapf [Txt ''saving credential cleanup checkpoint''] err)
               | Inr updated \<Rightarrow> ret requeueResult)
          (\<lambda>res (w', l'). guaranteed k pkg r req res l')
          (w'', (l @ seg) @ [ClusterPatched latest (withCheckpoint latest state) patched])"
        using safe' count'
        by (cases patched)
           (auto simp: stopping_Wrapf wp_ret simp del: append_assoc intro!: wp_ignoringNotFound guaranteed_requeue)
    qed
  qed
qed

subsection \<open>The two recorded phases\<close>

lemma list_ex_referencesSameSecret: "list_ex (referencesSameSecret cluster) clusters \<longleftrightarrow> sharedIn cluster clusters"
  by (auto simp: list_ex_iff sharedIn_def referencesSameSecret_def)

lemma wp_hasOtherSecretReferences:
  assumes "\<And>clusters w'. Q (Inr (sharedIn cluster clusters))
      (w', l @ [ClustersListed (osc_Namespace cluster) (Inr clusters)])"
    and "\<And>e w'. Q (Inl (Wrapf [Txt ''checking identity Secret references''] e))
      (w', l @ [ClustersListed (osc_Namespace cluster) (Inl e)])"
  shows "wp (hasOtherSecretReferences (recordedReconciler r) cluster) Q (w, l)"
  unfolding hasOtherSecretReferences_def recorded_parts wp_rules list_ex_referencesSameSecret
  by (rule wp_recorded) (auto simp: assms split: sum.split)

lemma wp_opened:
  assumes "\<And>s w'. Q (Inr (recordedSession options s)) (w', l @ [SessionOpened options (Inr (sess_Binding s))])"
    and "\<And>e w'. Q (Inl e) (w', l @ [SessionOpened options (Inl e)])"
  shows "wp (recordedOpening open options) Q (w, l)"
  using assms by (auto simp: wp_def recordedOpening_def split: prod.split sum.split)

text \<open>The gate before both deletions: fresh inputs, the janitor alone, no other reference.\<close>

lemma wp_gated:
  assumes safe: "safe k pkg r req l" and count: "unsettled l"
    and go: "\<And>seg latest clusters w'. list_all isRead seg \<Longrightarrow> freshInputs k r observed secret True latest seg
      \<Longrightarrow> \<not> sharedIn observed clusters \<Longrightarrow>
      wp m (\<lambda>res (w', l'). guaranteed k pkg r req res l')
        (w', (l @ seg) @ [ClustersListed (osc_Namespace observed) (Inr clusters)])"
  shows "wp (inspect (checkCleanupInputs k (recordedReconciler r) observed secret True)
        (\<lambda>checked. case checked of
          Inl err \<Rightarrow> ignoringNotFound k err
        | Inr latest \<Rightarrow>
            andThen (hasOtherSecretReferences (recordedReconciler r) observed) (\<lambda>shared.
            if shared then fail ErrDeletePending else m)))
      (\<lambda>res (w', l'). guaranteed k pkg r req res l') (w, l)" (is "wp _ ?post _")
  unfolding wp_inspect
proof (rule wp_checkCleanupInputs)
  fix res seg w2
  assume seg: "list_all isRead seg" "excusesError k res seg"
    "\<And>latest. res = Inr latest \<Longrightarrow> freshInputs k r observed secret True latest seg"
  have safe1: "safe k pkg r req (l @ seg)" and count1: "unsettled (l @ seg)"
    using safe count seg(1) by (simp_all add: safe_reads)
  have listed: "safe k pkg r req ((l @ seg) @ [ClustersListed (osc_Namespace observed) a])"
    "unsettled ((l @ seg) @ [ClustersListed (osc_Namespace observed) a])" for a
    using safe1 count1 by (simp_all add: safe_snoc del: append_assoc)
  show "wp (case res of
          Inl err \<Rightarrow> ignoringNotFound k err
        | Inr latest \<Rightarrow>
            andThen (hasOtherSecretReferences (recordedReconciler r) observed) (\<lambda>shared.
            if shared then fail ErrDeletePending else m)) ?post (w2, l @ seg)"
  proof (cases res)
    case (Inl e)
    with seg(2) have "documentedKubernetes k \<Longrightarrow> stopping k e \<Longrightarrow> excused k (l @ seg)"
      by (simp add: excusesError_def)
    with safe1 count1 show ?thesis unfolding Inl sum.case by (rule wp_ignoringNotFound)
  next
    case (Inr latest)
    show ?thesis
      unfolding Inr sum.case wp_andThen [of "hasOtherSecretReferences _ _"]
    proof (rule wp_hasOtherSecretReferences, goal_cases)
      case (1 clusters w3)
      have pending: "guaranteed k pkg r req (Inl ErrDeletePending)
          ((l @ seg) @ [ClustersListed (osc_Namespace observed) (Inr clusters)])"
        by (intro guaranteed_Inl listed) simp
      show ?case
        unfolding sum.case
        using pending go [OF seg(1) seg(3) [OF Inr]]
        by (cases "sharedIn observed clusters") (simp_all add: wp_fail del: append_assoc)
    next
      case (2 e w3)
      have "guaranteed k pkg r req (Inl (Wrapf t e))
          ((l @ seg) @ [ClustersListed (osc_Namespace observed) (Inl e)])" for t
        by (intro guaranteed_Inl listed) simp
      then show ?case unfolding sum.case by (simp del: append_assoc)
    qed
  qed
qed

lemma wp_resumeCredentialDeletion:
  assumes l: "l = firstReads req observed owners (Inr secret)" and safe: "safe k pkg r req l" and count: "unsettled l"
    and del: "deleting k observed owners"
    and state: "resumes pkg r observed (Some secret) state credentialDeleteStarted"
  shows "wp (resumeCredentialDeletion k (recordedPackage pkg) (recordedReconciler r) observed secret state)
           (\<lambda>res (w', l'). guaranteed k pkg r req res l') (w, l)"
proof -
  let ?options = "purgeOptions r observed secret"
  let ?open = "\<lambda>a. SessionOpened ?options a"
  let ?post = "\<lambda>res (w', l'). guaranteed k pkg r req res l'"
  have opened: "safe k pkg r req (l @ [?open a])" "unsettled (l @ [?open a])" for a
    using safe count by (simp_all add: safe_snoc)
  have delete: "wp (andThen (wrapErr (Wrapf [Txt ''confirming application credential deletion''])
        (recorded (CredentialDeleteCalled ?options (cb_CredentialID (ck_Cloud state))) D))
        (\<lambda>_. saveCredentialCheckpoint k (recordedReconciler r) observed (Some secret)
                (state\<lparr>ck_Phase := secretDeleteStarted\<rparr>))) ?post
      (w', ((l @ [?open (Inr (ck_Cloud state))]) @ seg) @ [ClustersListed (osc_Namespace observed) (Inr clusters)])"
    (is "wp _ ?post (w', ?l1)")
    if seg: "list_all isRead seg" and fresh: "freshInputs k r observed (Some secret) True latest seg"
      and shared: "\<not> sharedIn observed clusters" for seg latest clusters w' D
  proof -
    have safe1: "safe k pkg r req ?l1" and count1: "unsettled ?l1"
      using opened(1) [of "Inr (ck_Cloud state)"] opened(2) [of "Inr (ck_Cloud state)"] seg
      by (simp_all add: safe_quiet reads_quiet list_all_append del: append_assoc)
    have safe2: "safe k pkg r req (?l1 @ [CredentialDeleteCalled ?options (cb_CredentialID (ck_Cloud state)) a])" for a
      using safe1 delete_credential [OF del state fresh shared] l
      by (simp only: safe_snoc) simp
    have count2: "unsettled (?l1 @ [CredentialDeleteCalled ?options (cb_CredentialID (ck_Cloud state)) a])" for a
      using count1 by simp
    show ?thesis
      unfolding wp_rules
    proof (rule wp_recorded)
      fix a w2
      let ?l2 = "?l1 @ [CredentialDeleteCalled ?options (cb_CredentialID (ck_Cloud state)) a]"
      have save: "wp (saveCredentialCheckpoint k (recordedReconciler r) observed (Some secret)
          (state\<lparr>ck_Phase := secretDeleteStarted\<rparr>)) ?post (w2, ?l2)" if "a = Inr ()"
        using start_secret_deletion [OF del state fresh shared] that l
        by (intro wp_saveCredentialCheckpoint safe2 count2) simp
      have failed: "guaranteed k pkg r req (Inl (Wrapf t e)) ?l2" if "a = Inl e" for t e
        using that by (intro guaranteed_Inl safe2 count2) simp
      show "case a of
          Inl e \<Rightarrow> (case Inl (Wrapf [Txt ''confirming application credential deletion''] e) of
              Inl e \<Rightarrow> ?post (Inl e) (w2, ?l2)
            | Inr x \<Rightarrow> wp (saveCredentialCheckpoint k (recordedReconciler r) observed (Some secret)
                (state\<lparr>ck_Phase := secretDeleteStarted\<rparr>)) ?post (w2, ?l2))
        | Inr u \<Rightarrow> (case Inr u of
              Inl e \<Rightarrow> ?post (Inl e) (w2, ?l2)
            | Inr x \<Rightarrow> wp (saveCredentialCheckpoint k (recordedReconciler r) observed (Some secret)
                (state\<lparr>ck_Phase := secretDeleteStarted\<rparr>)) ?post (w2, ?l2))"
        using save failed by (simp del: append_assoc split: sum.split)
    qed
  qed
  note checked = wp_gated [OF opened delete]
  show ?thesis
    unfolding resumeCredentialDeletion_def recorded_parts recorded_policy recorded_pure
      wp_andThen [of "wrapErr _ (recordedOpening _ _)"] wp_wrapErr [of _ "recordedOpening _ _"]
  proof (rule wp_opened, goal_cases)
    case (1 s w')
    have mismatch: "guaranteed k pkg r req (Inl (Errorf t)) (l @ [?open (Inr b)])" for t b
      using opened by (intro guaranteed_Inl) auto
    show ?case
      unfolding sum.case recorded_calls
      using mismatch checked by (cases "sess_Binding s = ck_Cloud state") (simp_all add: wp_fail)
  next
    case (2 e w')
    show ?case
      unfolding sum.case using opened by (simp, intro guaranteed_Inl) auto
  qed
qed

lemma wp_resumeSecretDeletion:
  assumes l: "l = firstReads req observed owners answer"
    and answer: "case secret of None \<Rightarrow> \<exists>e. answer = Inl e \<and> IsNotFound k e | Some s \<Rightarrow> answer = Inr s"
    and safe: "safe k pkg r req l" and count: "unsettled l" and del: "deleting k observed owners"
    and state: "resumes pkg r observed secret state secretDeleteStarted"
  shows "wp (resumeSecretDeletion k (recordedReconciler r) observed secret)
           (\<lambda>res (w', l'). guaranteed k pkg r req res l') (w, l)" (is "wp _ ?post _")
proof (cases secret)
  case None
  with answer obtain e where e: "answer = Inl e" "IsNotFound k e" by auto
  show ?thesis
    unfolding resumeSecretDeletion_def None option.case
    using release_deleted [OF del state [unfolded None] e(2)] l e(1)
    by (intro wp_finishCleanup safe count) simp
next
  case (Some s)
  then have a: "answer = Inr s" using answer by simp
  show ?thesis
  proof (cases "secret_DeletionTimestamp s = None")
    case False
    with safe count show ?thesis
      by (auto simp: resumeSecretDeletion_def Some wp_fail intro: guaranteed_Inl)
  next
    case True
    let ?call = "SecretDeleteCalled s (secret_UID s) (secret_ResourceVersion s)"
    have delete: "wp (inspect (recorded ?call D) (\<lambda>deleted. case deleted of
          Inl err \<Rightarrow> if IsNotFound k err then ret requeueResult
            else fail (Wrapf [Txt ''deleting recorded identity Secret''] err)
        | Inr _ \<Rightarrow> ret requeueResult)) ?post
        (w', (l @ seg) @ [ClustersListed (osc_Namespace observed) (Inr clusters)])"
      if seg: "list_all isRead seg" and fresh: "freshInputs k r observed (Some s) True latest seg"
        and shared: "\<not> sharedIn observed clusters" for seg latest clusters w' D
    proof -
      let ?l1 = "(l @ seg) @ [ClustersListed (osc_Namespace observed) (Inr clusters)]"
      have "safe k pkg r req ?l1" using safe seg by (simp add: safe_quiet reads_quiet)
      then have after: "safe k pkg r req (?l1 @ [?call b])" "unsettled (?l1 @ [?call b])" for b
        using delete_secret [OF del state [unfolded Some] True fresh shared] l a count seg
        by (simp_all only: safe_snoc) simp_all
      show ?thesis
        unfolding wp_inspect
      proof (rule wp_recorded)
        fix b w2
        have "guaranteed k pkg r req (Inl (Wrapf t e)) (?l1 @ [?call (Inl e)])" for t e
          by (intro guaranteed_Inl after) simp
        moreover have "guaranteed k pkg r req (Inr requeueResult) (?l1 @ [?call b])"
          using unsettledD [OF after(2), of _ b] by (intro guaranteed_requeue after)
        ultimately show "wp (case b of
            Inl err \<Rightarrow> if IsNotFound k err then ret requeueResult
              else fail (Wrapf [Txt ''deleting recorded identity Secret''] err)
          | Inr _ \<Rightarrow> ret requeueResult) ?post (w2, ?l1 @ [?call b])"
          by (cases b) (simp_all add: wp_ret wp_fail wp_if del: append_assoc)
      qed
    qed
    show ?thesis
      unfolding resumeSecretDeletion_def Some option.case if_not_P [OF iffD2 [OF not_not True]] recorded_parts
      by (rule wp_gated [OF safe count delete])
  qed
qed

text \<open>A resumed deletion of the credential always has a Secret.\<close>

lemma resume_has_secret:
  "checkCheckpointBinding pkg r cluster None state = Inr () \<Longrightarrow> ck_Phase state = secretDeleteStarted"
  by (simp add: checkCheckpointBinding_def split: if_splits)

lemma phases_differ: "credentialDeleteStarted \<noteq> secretDeleteStarted"
  by (simp add: credentialDeleteStarted_def secretDeleteStarted_def)

lemma checkCheckpointBinding_error:
  "checkCheckpointBinding pkg r cluster secret state = Inl e \<Longrightarrow> plainDescriptions pkg \<Longrightarrow> \<not> Is e ErrPaused"
  by (auto simp: checkCheckpointBinding_def plainDescriptions_def split: if_splits option.splits sum.splits)

lemma wp_resumeCredentialCleanup:
  assumes l: "l = firstReads req observed owners answer"
    and answer: "case secret of None \<Rightarrow> \<exists>e. answer = Inl e \<and> IsNotFound k e | Some s \<Rightarrow> answer = Inr s"
    and safe: "safe k pkg r req l" and count: "unsettled l" and del: "deleting k observed owners"
    and state: "readCredentialCheckpoint (pkg_url pkg) observed = Inr (Some state)"
  shows "wp (resumeCredentialCleanup k (recordedPackage pkg) (recordedReconciler r) observed secret state)
           (\<lambda>res (w', l'). guaranteed k pkg r req res l') (w, l)"
proof (cases "checkCheckpointBinding pkg r observed secret state")
  case (Inl e)
  have "guaranteed k pkg r req (Inl e) l"
    using checkCheckpointBinding_error [OF Inl] by (intro guaranteed_Inl safe count) blast
  with Inl show ?thesis by (simp add: resumeCredentialCleanup_def wp_rules)
next
  case (Inr u)
  have phase: "ck_Phase state = credentialDeleteStarted \<or> ck_Phase state = secretDeleteStarted"
    using state by (auto simp: readCredentialCheckpoint_Inr validCheckpoint_def)
  have pending: "guaranteed k pkg r req (Inl ErrDeletePending) l" by (intro guaranteed_Inl safe count) simp
  show ?thesis
  proof (cases "length (osc_Finalizers observed) = 1")
    case False
    with Inr pending show ?thesis by (simp add: resumeCredentialCleanup_def wp_rules)
  next
    case True
    then have resumes: "resumes pkg r observed secret state (ck_Phase state)"
      using state Inr by (simp add: resumes_def)
    show ?thesis
    proof (cases "ck_Phase state = credentialDeleteStarted")
      case started: True
      then obtain s where s: "secret = Some s"
        using resume_has_secret [of pkg r observed state] Inr phases_differ by (cases secret) auto
      have "wp (resumeCredentialDeletion k (recordedPackage pkg) (recordedReconciler r) observed s state)
          (\<lambda>res (w', l'). guaranteed k pkg r req res l') (w, l)"
        using wp_resumeCredentialDeletion [OF _ safe count del] l answer resumes started s by simp
      with Inr True started s show ?thesis by (simp add: resumeCredentialCleanup_def wp_rules)
    next
      case False
      with phase have "ck_Phase state = secretDeleteStarted" by simp
      with resumes have "wp (resumeSecretDeletion k (recordedReconciler r) observed secret)
          (\<lambda>res (w', l'). guaranteed k pkg r req res l') (w, l)"
        by (intro wp_resumeSecretDeletion [OF l answer safe count del]) simp
      with Inr True False show ?thesis by (simp add: resumeCredentialCleanup_def wp_rules)
    qed
  qed
qed

subsection \<open>The first part of a deletion\<close>

lemma deletePolicy_iff:
  "index_map (secret_Annotations secret) CredentialPolicyAnnotation = PolicyDelete \<longleftrightarrow> deletePolicy secret"
  by (simp add: deletePolicy_def index_map_nonempty PolicyDelete_def)

lemma wp_startCredentialCleanup:
  assumes l: "l = firstReads req observed owners (Inr secret)" and safe: "safe k pkg r req l" and count: "unsettled l"
    and del: "deleting k observed owners"
    and none: "osc_Annotations observed CredentialCheckpointAnnotation = None" and policy: "deletePolicy secret"
  shows "wp (startCredentialCleanup k (recordedPackage pkg) (recordedReconciler r) observed secret)
           (\<lambda>res (w', l'). guaranteed k pkg r req res l') (w, l)" (is "wp _ ?post _")
proof -
  let ?options = "purgeOptions r observed secret"
  let ?state = "firstCheckpoint r observed secret"
  let ?m = "\<lambda>binding. if osc_UID observed = '''' \<or> secret_UID secret = ''''
          \<or> ValidateCredentialBinding (pkg_url pkg) binding \<noteq> Inr ()
       then fail (Errorf [Txt ''cannot bind credential cleanup to an incomplete identity''])
       else
         andThen (lift_res (checkCheckpointBinding pkg r observed (Some secret) (?state binding))) (\<lambda>_.
         andThen (hasOtherSecretReferences (recordedReconciler r) observed) (\<lambda>shared.
         if shared then finishCleanup k (recordedReconciler r) observed (Some secret) True
         else saveCredentialCheckpoint k (recordedReconciler r) observed (Some secret) (?state binding)))"
  have opened: "safe k pkg r req (l @ [SessionOpened ?options b])" "unsettled (l @ [SessionOpened ?options b])" for b
    using safe count by (simp_all add: safe_snoc)
  have cleaned: "safe k pkg r req ((l @ [SessionOpened ?options (Inr binding)]) @ [SessionCleaned ?options a])"
    "unsettled ((l @ [SessionOpened ?options (Inr binding)]) @ [SessionCleaned ?options a])" for binding a
    using opened [of "Inr binding"] clean_session [OF del none policy] l
    by (simp_all only: safe_snoc) simp_all
  have rest: "wp (?m binding) ?post (w', (l @ [SessionOpened ?options (Inr binding)]) @ [SessionCleaned ?options (Inr ())])"
    (is "wp _ ?post (w', ?l1)") for binding w'
  proof (cases "osc_UID observed = '''' \<or> secret_UID secret = '''' \<or> ValidateCredentialBinding (pkg_url pkg) binding \<noteq> Inr ()")
    case True
    have "guaranteed k pkg r req (Inl (Errorf t)) ?l1" for t by (intro guaranteed_Inl cleaned) simp
    with True show ?thesis by (simp add: wp_fail del: append_assoc)
  next
    case complete: False
    show ?thesis
    proof (cases "checkCheckpointBinding pkg r observed (Some secret) (?state binding)")
      case (Inl e)
      have "guaranteed k pkg r req (Inl e) ?l1"
        using checkCheckpointBinding_error [OF Inl] by (intro guaranteed_Inl cleaned) blast
      with complete Inl show ?thesis by (simp add: wp_rules del: append_assoc)
    next
      case (Inr u)
      have listed: "safe k pkg r req (?l1 @ [ClustersListed (osc_Namespace observed) a])"
        "unsettled (?l1 @ [ClustersListed (osc_Namespace observed) a])" for a
        using cleaned [of binding "Inr ()"] by (simp_all add: safe_snoc del: append_assoc)
      have finish: "wp (finishCleanup k (recordedReconciler r) observed (Some secret) True) ?post
          (w', ?l1 @ [ClustersListed (osc_Namespace observed) (Inr clusters)])"
        if "sharedIn observed clusters" for clusters w'
        using release_shared [OF del none policy that] l by (intro wp_finishCleanup listed) simp
      have save: "wp (saveCredentialCheckpoint k (recordedReconciler r) observed (Some secret) (?state binding)) ?post
          (w', ?l1 @ [ClustersListed (osc_Namespace observed) (Inr clusters)])"
        if "\<not> sharedIn observed clusters" for clusters w'
      proof (intro wp_saveCredentialCheckpoint listed)
        fix seg latest a
        assume "freshInputs k r observed (Some secret) True latest seg"
        with start_credential_deletion [OF del none policy that, of pkg binding r latest seg] complete Inr l
        show "permitted k pkg r req ((?l1 @ [ClustersListed (osc_Namespace observed) (Inr clusters)]) @ seg)
            (ClusterPatched latest (withCheckpoint latest (?state binding)) a)" by simp
      qed
      have failed: "guaranteed k pkg r req (Inl (Wrapf t e)) (?l1 @ [ClustersListed (osc_Namespace observed) (Inl e)])"
        for t e by (intro guaranteed_Inl listed) simp
      show ?thesis
        unfolding if_not_P [OF complete] Inr wp_andThen wp_lift_res sum.case
        by (rule wp_hasOtherSecretReferences) (simp_all add: finish save failed wp_if del: append_assoc)
    qed
  qed
  have failed: "guaranteed k pkg r req (Inl e) (l @ [SessionOpened ?options (Inl e)])" for e
    by (intro guaranteed_Inl opened) simp
  have unclean: "guaranteed k pkg r req (Inl (Wrapf t e))
      ((l @ [SessionOpened ?options (Inr binding)]) @ [SessionCleaned ?options (Inl e)])" for t e binding
    by (intro guaranteed_Inl cleaned) simp
  show ?thesis
    unfolding startCredentialCleanup_def recorded_parts recorded_policy recorded_pure recorded_binding Let_def
      credentialCheckpoint.select_convs
    unfolding firstCheckpoint_def [symmetric] wp_andThen [of "recordedOpening _ _"]
  proof (rule wp_opened, goal_cases)
    case (1 s w')
    show ?case
      unfolding sum.case recorded_calls wp_andThen [of "wrapErr _ (recorded _ _)"] wp_wrapErr
    proof (rule wp_recorded, goal_cases)
      case (1 a w2)
      show ?case using rest unclean by (cases a) (simp_all del: append_assoc)
    qed
  next
    case (2 e w')
    show ?case using failed by simp
  qed
qed

lemma readCredentialCheckpoint_error:
  "readCredentialCheckpoint net cluster = Inl e \<Longrightarrow> \<not> Is e ErrPaused"
proof -
  have fields: "checkFields fs = Inl e' \<Longrightarrow> \<not> Is e' ErrPaused" for fs e'
    by (induction fs) (auto split: if_splits)
  have authority: "NormalizeAuthority net url = Inl e' \<Longrightarrow> \<not> Is e' ErrPaused" for url e'
    by (auto simp: NormalizeAuthority_def split: if_splits option.splits)
  have "ValidateCredentialBinding net b = Inl e' \<Longrightarrow> \<not> Is e' ErrPaused" for b e'
    by (auto simp: ValidateCredentialBinding_def dest: fields authority split: if_splits sum.splits)
  then have "checkpointError net state = Some e' \<Longrightarrow> \<not> Is e' ErrPaused" for state e'
    by (auto simp: checkpointError_def split: if_splits sum.splits)
  then show "readCredentialCheckpoint net cluster = Inl e \<Longrightarrow> \<not> Is e ErrPaused"
    by (auto simp: readCredentialCheckpoint_def split: option.splits prod.splits if_splits)
qed

lemma wp_reconcileDelete:
  assumes owners: "notPausedReads k observed owners" "list_all isRead owners"
    and observed: "osc_DeletionTimestamp observed \<noteq> None" "ContainsFinalizer k observed Finalizer"
  shows "wp (reconcileDelete k (recordedPackage pkg) (recordedReconciler r) observed)
           (\<lambda>res (w', l'). guaranteed k pkg r req res l') (w, ClusterRead req (Inr observed) # owners)"
    (is "wp _ ?post (w, ?l0)")
proof -
  let ?identity = "osc_IdentityRef observed"
  have l0: "safe k pkg r req ?l0" "unsettled ?l0"
    using owners(2) safe_reads [of ?l0 k pkg r req "[]"] by simp_all
  have failed: "guaranteed k pkg r req (Inl (Errorf t)) ?l0" for t by (intro guaranteed_Inl l0) simp
  consider (name) "TrimSpace (clusterNameFor observed) = ''''"
    | (idtype) "TrimSpace (clusterNameFor observed) \<noteq> ''''" "ident_Type ?identity \<noteq> ''''" "ident_Type ?identity \<noteq> ''Secret''"
    | (secret) "TrimSpace (clusterNameFor observed) \<noteq> ''''" "ident_Type ?identity \<in> {'''', ''Secret''}" "ident_Name ?identity = ''''"
    | (usable) "usableIdentity observed" by (auto simp: usableIdentity_def)
  then show ?thesis
  proof cases
    case usable
    then have guards: "\<not> TrimSpace (clusterNameFor observed) = ''''"
      "\<not> (ident_Type ?identity \<noteq> '''' \<and> ident_Type ?identity \<noteq> ''Secret'')" "\<not> ident_Name ?identity = ''''"
      by (auto simp: usableIdentity_def)
    have del: "deleting k observed owners" using owners(1) observed usable by (simp add: deleting_def)
    let ?sread = "\<lambda>a. SecretRead (osc_Namespace observed, ident_Name ?identity) a"
    have reads: "safe k pkg r req (?l0 @ [?sread a])" "unsettled (?l0 @ [?sread a])" for a
      using l0 by (simp_all only: safe_snoc) simp_all
    have l: "?l0 @ [?sread a] = firstReads req observed owners a" for a by (simp add: firstReads_def)
    have failed1: "guaranteed k pkg r req (Inl (Wrapf t e)) (?l0 @ [?sread (Inl e)])" for t e
      by (intro guaranteed_Inl reads) simp
    have resume: "wp (resumeCredentialCleanup k (recordedPackage pkg) (recordedReconciler r) observed secret state) ?post
        (w', ?l0 @ [?sread a])"
      if "readCredentialCheckpoint (pkg_url pkg) observed = Inr (Some state)"
        and "case secret of None \<Rightarrow> \<exists>e. a = Inl e \<and> IsNotFound k e | Some s \<Rightarrow> a = Inr s" for state secret a w'
      using that by (intro wp_resumeCredentialCleanup [OF l _ reads del])
    have clean: "wp (andThen (wrapErr (Wrapf [Txt ''cleaning OpenStack resources''])
          (recorded (ResourcesCleaned (purgeOptions r observed secret)) C))
          (\<lambda>_. finishCleanup k (recordedReconciler r) observed (Some secret) False)) ?post (w', ?l0 @ [?sread (Inr secret)])"
      if none: "osc_Annotations observed CredentialCheckpointAnnotation = None" and policy: "\<not> deletePolicy secret"
      for secret w' C
      unfolding wp_andThen wp_wrapErr
    proof (rule wp_recorded)
      fix a w2
      let ?l1 = "(?l0 @ [?sread (Inr secret)]) @ [ResourcesCleaned (purgeOptions r observed secret) a]"
      have after: "safe k pkg r req ?l1" "unsettled ?l1"
        using reads [of "Inr secret"] clean_resources [OF del none policy] l by (simp_all only: safe_snoc) simp_all
      have "guaranteed k pkg r req (Inl (Wrapf t e)) ?l1" if "a = Inl e" for t e
        using that by (intro guaranteed_Inl after) simp
      moreover have "wp (finishCleanup k (recordedReconciler r) observed (Some secret) False) ?post (w2, ?l1)" if "a = Inr ()"
        using release_cleaned [OF del none policy] that by (intro wp_finishCleanup after) (simp add: firstReads_def)
      ultimately show "case a of
          Inl e \<Rightarrow> (case Inl (Wrapf [Txt ''cleaning OpenStack resources''] e) of Inl e \<Rightarrow> ?post (Inl e) (w2, ?l1)
            | Inr x \<Rightarrow> wp (finishCleanup k (recordedReconciler r) observed (Some secret) False) ?post (w2, ?l1))
        | Inr u \<Rightarrow> (case Inr u of Inl e \<Rightarrow> ?post (Inl e) (w2, ?l1)
            | Inr x \<Rightarrow> wp (finishCleanup k (recordedReconciler r) observed (Some secret) False) ?post (w2, ?l1))"
        by (cases a) (simp_all del: append_assoc append_Cons)
    qed
    have start: "wp (startCredentialCleanup k (recordedPackage pkg) (recordedReconciler r) observed secret) ?post
        (w', ?l0 @ [?sread (Inr secret)])"
      if "osc_Annotations observed CredentialCheckpointAnnotation = None" and "deletePolicy secret" for secret w'
      using that by (intro wp_startCredentialCleanup [OF l reads del])
    have missing: "guaranteed k pkg r req (Inl (Errorf t)) (?l0 @ [?sread a])" for t a
      by (intro guaranteed_Inl reads) simp
    show ?thesis
    proof (cases "readCredentialCheckpoint (pkg_url pkg) observed")
      case (Inl e)
      have "guaranteed k pkg r req (Inl e) ?l0"
        using readCredentialCheckpoint_error [OF Inl] by (intro guaranteed_Inl l0) blast
      with Inl show ?thesis
        by (simp add: reconcileDelete_def Let_def guards(1,3) wp_rules failed)
    next
      case (Inr state0)
      show ?thesis
        unfolding reconcileDelete_def recorded_parts recorded_policy recorded_pure Let_def if_not_P [OF guards(1)]
          if_not_P [OF guards(2)] if_not_P [OF guards(3)] Inr wp_andThen [of "lift_res _"] wp_lift_res sum.case
          wp_andThen [of "wrapErr _ (findSecret _ _ _ _)"] wp_wrapErr [of _ "findSecret _ _ _ _"]
        apply (rule wp_findSecret)
        subgoal for a w'
        proof (cases state0)
          case (Some state)
          show ?thesis
            using resume [OF Inr [unfolded Some]] failed1
            by (cases a) (simp_all add: Some)
        next
          case None
          then have none: "osc_Annotations observed CredentialCheckpointAnnotation = None"
            using Inr by (simp add: readCredentialCheckpoint_None)
          show ?thesis
            using start [OF none] clean [OF none] failed1 missing
            by (cases a) (simp_all add: None wp_fail deletePolicy_iff del: append_Cons)
        qed
        done
    qed
  qed (simp_all add: reconcileDelete_def Let_def wp_fail failed)
qed

subsection \<open>The whole reconciliation\<close>

lemma wp_addFinalizer:
  assumes owners: "notPausedReads k observed owners" "list_all isRead owners"
    and observed: "osc_DeletionTimestamp observed = None"
  shows "wp (addFinalizer k (recordedReconciler r) observed)
           (\<lambda>res (w', l'). safe k pkg r req l') (w, ClusterRead req (Inr observed) # owners)"
    (is "wp _ ?post (w, ?l0)")
proof -
  have l0: "safe k pkg r req ?l0"
    using owners(2) safe_reads [of ?l0 k pkg r req "[]"] by simp
  have patch: "wp (inspect (recorded (ClusterPatched latest (AddFinalizer k latest Finalizer)) P)
        (\<lambda>patched. case patched of
           Inl err \<Rightarrow> (case IgnoreNotFound k err of None \<Rightarrow> ret False | Some e \<Rightarrow> fail e)
         | Inr updated \<Rightarrow> ret True)) ?post
      (w', (?l0 @ [ClusterRead (objectKey observed) (Inr latest)]) @ seg)"
    if latest: "osc_UID latest = osc_UID observed" "osc_DeletionTimestamp latest = None"
        "\<not> ContainsFinalizer k latest Finalizer"
      and seg: "notPausedReads k latest seg" "list_all isOwnerRead seg" for latest seg P w'
    unfolding wp_inspect
  proof (rule wp_recorded, goal_cases)
    case (1 patched w2)
    let ?l1 = "(?l0 @ [ClusterRead (objectKey observed) (Inr latest)]) @ seg"
    have "safe k pkg r req ?l1"
      using l0 ownerReads_reads [OF seg(2)] by (simp add: safe_reads safe_snoc del: append_assoc append_Cons)
    then have "safe k pkg r req (?l1 @ [ClusterPatched latest (AddFinalizer k latest Finalizer) patched])"
      using add_finalizer [OF owners(1) observed latest seg(1)] by (simp only: safe_snoc) simp
    then show ?case
      by (cases patched) (simp_all add: wp_rules del: append_assoc append_Cons split: option.split)
  qed
  show ?thesis
    unfolding addFinalizer_def recorded_parts wp_inspect [of "recorded (ClusterRead _) _"]
  proof (rule wp_recorded, goal_cases)
    case (1 got w')
    have read: "safe k pkg r req (?l0 @ [ClusterRead (objectKey observed) got])"
      using l0 by (simp add: safe_snoc del: append_Cons)
    show ?case
    proof (cases got)
      case (Inl e)
      with read show ?thesis by (simp add: wp_rules del: append_Cons split: option.split)
    next
      case (Inr latest)
      consider "osc_UID latest \<noteq> osc_UID observed"
        | "osc_UID latest = osc_UID observed" "osc_DeletionTimestamp latest \<noteq> None \<or> ContainsFinalizer k latest Finalizer"
        | (add) "osc_UID latest = osc_UID observed" "osc_DeletionTimestamp latest = None"
            "\<not> ContainsFinalizer k latest Finalizer" by blast
      then show ?thesis
      proof cases
        case add
        have "wp (andThen (isPaused k (recordedReader (reader r)) latest) (\<lambda>paused.
            if paused then ret False
            else inspect (recorded (ClusterPatched latest (AddFinalizer k latest Finalizer))
                   (PatchCluster (rec_Client r) latest (AddFinalizer k latest Finalizer)))
              (\<lambda>patched. case patched of
                 Inl err \<Rightarrow> (case IgnoreNotFound k err of None \<Rightarrow> ret False | Some e \<Rightarrow> fail e)
               | Inr updated \<Rightarrow> ret True))) ?post (w', ?l0 @ [ClusterRead (objectKey observed) got])"
          unfolding wp_andThen
        proof (rule wp_isPaused, goal_cases)
          case (1 res seg w2)
          have "safe k pkg r req ((?l0 @ [ClusterRead (objectKey observed) got]) @ seg)"
            using read ownerReads_reads [OF 1(1)] by (simp add: safe_reads del: append_assoc append_Cons)
          with patch [OF add 1(3) 1(1)] show ?case
            by (auto simp: Inr wp_ret wp_if simp del: append_assoc append_Cons split: sum.split)
        qed
        with add show ?thesis by (simp add: Inr)
      qed (use read Inr in \<open>simp_all add: wp_rules del: append_Cons\<close>)
    qed
  qed
qed

text \<open>
  How a reconciliation of a deletion ends: with a requeue, with the release, with an excuse
  or with an error. An error comes without an accepted patch and is counted as a failure,
  unless it is a conflict or the lookup of the owners failed.
\<close>

definition deletionOutcome ::
  "kubernetes \<Rightarrow> 'w openstackPackage \<Rightarrow> 'w OpenStackClusterReconciler \<Rightarrow> ObjectKey \<Rightarrow> OpenStackCluster
   \<Rightarrow> error + ReconcileResult \<Rightarrow> apiCall list \<Rightarrow> bool"
where
  "deletionOutcome k pkg r req observed res calls \<longleftrightarrow>
     (case res of
        Inr result \<Rightarrow>
          CleanupCounted ''failure'' \<notin> set calls \<and> (CleanupCounted ''success'' \<in> set calls \<longrightarrow> released k calls)
        \<and> (documentedKubernetes k \<longrightarrow> plainDescriptions pkg \<longrightarrow>
             result = requeueResult \<or> result = emptyResult \<and> (released k calls \<or> excused k calls))
      | Inl e \<Rightarrow>
          \<not> released k calls \<and> CleanupCounted ''success'' \<notin> set calls
        \<and> (rec_Metrics r = None \<or> IsConflict k e \<or> CleanupCounted ''failure'' \<in> set calls
           \<or> (\<exists>owners. calls = ClusterRead req (Inr observed) # owners \<and> list_all isOwnerRead owners)))"

lemma unsettled_released: "unsettled l \<Longrightarrow> \<not> released k l"
  by (auto simp: unsettled_def released_def)

lemma wp_countCleanup_exact:
  assumes "\<And>w'. Q () (w', l @ (if rec_Metrics r = None then [] else [CleanupCounted outcome]))"
  shows "wp (countCleanup (recordedReconciler r) outcome) Q (w, l)"
  using assms
  by (auto simp: countCleanup_def recordedReconciler_def wp_rules intro!: wp_recorded split: option.split)

text \<open>What \<open>Reconcile\<close> does with the result of the deletion.\<close>

lemma wp_report:
  assumes g: "guaranteed k pkg r req deleted l"
  shows "wp (case deleted of
               Inl err \<Rightarrow>
                 if Is err ErrPaused then ret emptyResult
                 else if Is err ErrDeletePending then ret requeueResult
                 else if \<not> IsConflict k err
                 then
                   inspect (countCleanup (recordedReconciler r) ''failure'') (\<lambda>_.
                   inspect (recordEvent (recordedReconciler r) cluster (EventTypeWarning k) ''CleanupFailed''
                              (Error (pkg_fmt pkg) err)) (\<lambda>_.
                   fail err))
                 else fail err
             | Inr result \<Rightarrow> ret result)
           (\<lambda>res (w', l'). safe k pkg r req l' \<and> deletionOutcome k pkg r req observed res l') (w, l)"
    (is "wp _ ?post _")
proof (cases deleted)
  case (Inr result)
  with g show ?thesis by (auto simp: wp_ret guaranteed_def deletionOutcome_def)
next
  case (Inl err)
  have safe: "safe k pkg r req l" and un: "unsettled l"
    and paused: "documentedKubernetes k \<Longrightarrow> plainDescriptions pkg \<Longrightarrow> Is err ErrPaused \<Longrightarrow> excused k l"
    using g by (simp_all add: guaranteed_def Inl)
  note un' = unsettledD [OF un] unsettled_released [OF un]
  have counted: "?post (Inl err) (w', (l @ (if rec_Metrics r = None then [] else [CleanupCounted ''failure''])) @ seg)"
    if "seg = [] \<or> seg = [EventRecorded (EventTypeWarning k) ''CleanupFailed'']" for seg w'
  proof -
    let ?l = "(l @ (if rec_Metrics r = None then [] else [CleanupCounted ''failure''])) @ seg"
    have "safe k pkg r req ?l" using safe that by (auto simp: safe_quiet)
    moreover have "\<not> released k ?l" using un' that by (auto simp: released_def)
    moreover have "CleanupCounted ''success'' \<notin> set ?l" using un' that by auto
    ultimately show ?thesis by (simp add: deletionOutcome_def)
  qed
  have failure: "wp (inspect (countCleanup (recordedReconciler r) ''failure'') (\<lambda>_.
      inspect (recordEvent (recordedReconciler r) cluster (EventTypeWarning k) ''CleanupFailed''
                 (Error (pkg_fmt pkg) err)) (\<lambda>_. fail err))) ?post (w, l)"
    unfolding wp_inspect
    by (rule wp_countCleanup_exact, rule wp_recordEvent, unfold wp_fail, erule counted)
  have "?post (Inr emptyResult) (w, l)" if "Is err ErrPaused"
    using that safe un' paused by (simp add: deletionOutcome_def)
  moreover have "?post (Inr requeueResult) (w, l)"
    using safe un' by (simp add: deletionOutcome_def)
  moreover have "?post (Inl err) (w, l)" if "IsConflict k err"
    using that safe un' by (simp add: deletionOutcome_def)
  ultimately show ?thesis
    unfolding Inl sum.case wp_if wp_ret wp_fail using failure by simp
qed

lemma wp_Reconcile:
  "wp (Reconcile k (recordedPackage pkg) (recordedReconciler r) req)
     (\<lambda>res (w', l'). safe k pkg r req l'
        \<and> (\<forall>observed. fst (GetOpenStackCluster (reader r) req w) = Inr observed
             \<longrightarrow> osc_DeletionTimestamp observed \<noteq> None \<longrightarrow> ContainsFinalizer k observed Finalizer
             \<longrightarrow> deletionOutcome k pkg r req observed res l')) (w, [])"
    (is "wp _ ?post _")
proof -
  obtain got w1 where got: "GetOpenStackCluster (reader r) req w = (got, w1)" by fastforce
  let ?read = "ClusterRead req got"
  have first: "recorded (ClusterRead req) (GetOpenStackCluster (reader r) req) (w, []) = (got, w1, [?read])"
    by (simp add: recorded_run got)
  have safe1: "safe k pkg r req [?read]"
    using safe_reads [of "[?read]" k pkg r req "[]"] by simp
  have step: "wp (inspect (recorded (ClusterRead req) (GetOpenStackCluster (reader r) req)) h) Q (w, [])
      = wp (h got) Q (w1, [?read])" for h Q
    by (simp add: wp_def inspect_def first)
  show ?thesis
    unfolding Reconcile_def recorded_parts recorded_pure step
  proof (cases got, goal_cases)
    case (1 e)
    then show ?case
      using safe1 by (simp add: ignoringNotFound_def wp_rules got split: option.split)
  next
    case Inr: (2 observed)
    have "wp (isPaused k (recordedReader (reader r)) observed)
        (\<lambda>res w'. case res of Inl e \<Rightarrow> ?post (Inl e) w'
          | Inr paused \<Rightarrow> wp
            (if paused then ret emptyResult
             else if osc_DeletionTimestamp observed = None
             then
               (if \<not> ContainsFinalizer k observed Finalizer
                then andThen (wrapErr (Wrapf [Txt ''adding finalizer'']) (addFinalizer k (recordedReconciler r) observed))
                       (\<lambda>changed. ret emptyResult)
                else ret emptyResult)
             else if \<not> ContainsFinalizer k observed Finalizer then ret emptyResult
             else
               inspect (reconcileDelete k (recordedPackage pkg) (recordedReconciler r) observed) (\<lambda>deleted.
                 case deleted of
                  Inl err \<Rightarrow>
                    if Is err ErrPaused then ret emptyResult
                    else if Is err ErrDeletePending then ret requeueResult
                    else if \<not> IsConflict k err
                    then
                      inspect (countCleanup (recordedReconciler r) ''failure'') (\<lambda>_.
                      inspect (recordEvent (recordedReconciler r) observed (EventTypeWarning k) ''CleanupFailed''
                                 (Error (pkg_fmt pkg) err)) (\<lambda>_.
                      fail err))
                    else fail err
                | Inr result \<Rightarrow> ret result)) ?post w') (w1, [?read])"
    proof (rule wp_isPaused, goal_cases)
      case (1 res seg w2)
      have safe2: "safe k pkg r req ([?read] @ seg)"
        using safe1 ownerReads_reads [OF 1(1)] by (simp add: safe_reads del: append_Cons)
      have un: "unsettled ([?read] @ seg)" using ownerReads_reads [OF 1(1)] by simp
      show ?case
      proof (cases res)
        case e: (Inl e)
        have "deletionOutcome k pkg r req observed (Inl e) ([?read] @ seg)"
          using unsettled_released [OF un] unsettledD [OF un] 1(1) by (simp add: deletionOutcome_def Inr)
        with safe2 show ?thesis by (simp add: e got Inr del: append_Cons)
      next
        case paused: (Inr paused)
        show ?thesis
        proof (cases paused)
          case True
          then have "excused k ([?read] @ seg)" using 1(4) paused by (auto simp: Inr)
          then have "deletionOutcome k pkg r req observed (Inr emptyResult) ([?read] @ seg)"
            using unsettledD [OF un] by (simp add: deletionOutcome_def)
          with safe2 show ?thesis by (simp add: paused True wp_ret got Inr del: append_Cons)
        next
          case False
          then have np: "notPausedReads k observed seg" using 1(3) paused by simp
          show ?thesis
          proof (cases "osc_DeletionTimestamp observed = None")
            case alive: True
            have "wp (addFinalizer k (recordedReconciler r) observed) (\<lambda>res (w', l'). safe k pkg r req l')
                (w2, [?read] @ seg)"
              using wp_addFinalizer [OF np ownerReads_reads [OF 1(1)] alive] by (simp add: Inr)
            then show ?thesis
              using safe2
              by (simp add: paused False alive wp_rules got Inr del: append_Cons)
                 (auto simp: wp_def ret_def split: sum.split prod.splits)
          next
            case deleting: False
            show ?thesis
            proof (cases "ContainsFinalizer k observed Finalizer")
              case fin: True
              have "wp (reconcileDelete k (recordedPackage pkg) (recordedReconciler r) observed)
                  (\<lambda>res (w', l'). guaranteed k pkg r req res l') (w2, [?read] @ seg)"
                using wp_reconcileDelete [OF np ownerReads_reads [OF 1(1)] deleting fin] by (simp add: Inr)
              then have "wp (reconcileDelete k (recordedPackage pkg) (recordedReconciler r) observed)
                  (\<lambda>deleted w'. wp (case deleted of
                    Inl err \<Rightarrow>
                      if Is err ErrPaused then ret emptyResult
                      else if Is err ErrDeletePending then ret requeueResult
                      else if \<not> IsConflict k err
                      then
                        inspect (countCleanup (recordedReconciler r) ''failure'') (\<lambda>_.
                        inspect (recordEvent (recordedReconciler r) observed (EventTypeWarning k) ''CleanupFailed''
                                   (Error (pkg_fmt pkg) err)) (\<lambda>_.
                        fail err))
                      else fail err
                  | Inr result \<Rightarrow> ret result)
                  (\<lambda>res (w', l'). safe k pkg r req l' \<and> deletionOutcome k pkg r req observed res l') w')
                  (w2, [?read] @ seg)"
                by (rule wp_mono) (auto intro: wp_report)
              moreover have "\<exists>y. osc_DeletionTimestamp observed = Some y" using deleting by auto
              ultimately show ?thesis
                by (simp add: paused False deleting fin wp_inspect got Inr del: append_Cons)
            next
              case False
              with safe2 deleting \<open>\<not> paused\<close> show ?thesis
                by (auto simp: paused wp_ret got Inr simp del: append_Cons)
            qed
          qed
        qed
      qed
    qed
    then show ?case unfolding Inr sum.case wp_andThen .
  qed
qed

end
