(* ===== verification/Controller_Safety.thy ===== *)
theory Controller_Safety
  imports Controller_Protocol
begin

section \<open>What a reconciliation may change\<close>

text \<open>
  The properties of a single reconciliation, read off the protocol: when the finalizer goes,
  when the credential and the Secret are deleted, what a pause prevents, and how a
  reconciliation of a deletion ends.
\<close>

subsection \<open>The calls of a reconciliation\<close>

text \<open>The calls, with their answers, of the reconciliation that starts in the world \<open>w\<close>.\<close>

definition reconcileCalls ::
  "kubernetes \<Rightarrow> 'w openstackPackage \<Rightarrow> 'w OpenStackClusterReconciler \<Rightarrow> ObjectKey \<Rightarrow> 'w \<Rightarrow> apiCall list"
where
  "reconcileCalls k pkg r req w =
     snd (snd (Reconcile k (recordedPackage pkg) (recordedReconciler r) req (w, [])))"

lemma reconcileCalls_run:
  "Reconcile k (recordedPackage pkg) (recordedReconciler r) req (w, []) =
     (fst (Reconcile k pkg r req w), snd (Reconcile k pkg r req w), reconcileCalls k pkg r req w)"
  using Reconcile_recorded [of k pkg r req w] by (auto simp: reconcileCalls_def)

lemma reconcileCalls_answered: "list_all (answered pkg r) (reconcileCalls k pkg r req w)"
  using Reconcile_recorded [of k pkg r req w] by (auto simp: reconcileCalls_def)

lemma reconcileCalls_safe: "safe k pkg r req (reconcileCalls k pkg r req w)"
  using wp_Reconcile [of k pkg r req w] by (simp add: wp_def reconcileCalls_run)

lemma reconcileCalls_outcome:
  assumes "fst (GetOpenStackCluster (reader r) req w) = Inr observed"
    and "osc_DeletionTimestamp observed \<noteq> None" and "ContainsFinalizer k observed Finalizer"
  shows "deletionOutcome k pkg r req observed (fst (Reconcile k pkg r req w)) (reconcileCalls k pkg r req w)"
  using wp_Reconcile [of k pkg r req w] assms by (auto simp: wp_def reconcileCalls_run)

lemma change_permitted:
  assumes "reconcileCalls k pkg r req w = pre @ c # post" and "isMutation c"
  shows "permitted k pkg r req pre c"
  using reconcileCalls_safe [of k pkg r req w] assms by (simp add: safe_def)

inductive_cases permitted_patchE: "permitted k pkg r req pre (ClusterPatched base new a)"
inductive_cases permitted_credentialE: "permitted k pkg r req pre (CredentialDeleteCalled options i a)"
inductive_cases permitted_secretE: "permitted k pkg r req pre (SecretDeleteCalled secret uid version a)"
inductive_cases permitted_cleanupE: "permitted k pkg r req pre (ResourcesCleaned options a)"
inductive_cases permitted_sessionE: "permitted k pkg r req pre (SessionCleaned options a)"

subsection \<open>Reading the protocol\<close>

lemma freshInputs_reads:
  assumes "freshInputs k r observed secret sole latest seg"
  shows "\<exists>answer owners. seg = [SecretRead (osc_Namespace observed, ident_Name (osc_IdentityRef observed)) answer,
            ClusterRead (objectKey observed) (Inr latest)] @ owners \<and> notPausedReads k latest owners
            \<and> sameSecret k secret answer"
  using assms unfolding freshInputs_def by blast

lemma list_all2_right: "list_all2 R xs ys \<Longrightarrow> (\<And>x y. R x y \<Longrightarrow> P y) \<Longrightarrow> list_all P ys"
  by (induction rule: list_all2_induct) auto

lemma notPausedReads_owner: "notPausedReads k cluster seg \<Longrightarrow> list_all isOwnerRead seg"
proof -
  have "notPausedBy k namespace ref c \<Longrightarrow> isOwnerRead c" for namespace ref c by (cases c) auto
  then show "notPausedReads k cluster seg \<Longrightarrow> list_all isOwnerRead seg"
    unfolding notPausedReads_def using list_all2_right by metis
qed

lemma notPausedReads_reads: "notPausedReads k cluster seg \<Longrightarrow> list_all isRead seg"
  by (intro ownerReads_reads notPausedReads_owner)

lemma freshInputs_isRead: "freshInputs k r observed secret sole latest seg \<Longrightarrow> list_all isRead seg"
  using freshInputs_reads [of k r observed secret sole latest seg] notPausedReads_reads by fastforce

lemma readCredentialCheckpoint_annotation:
  "readCredentialCheckpoint net cluster = Inr (Some state) \<Longrightarrow>
     \<exists>data. osc_Annotations cluster CredentialCheckpointAnnotation = Some data"
  by (auto simp: readCredentialCheckpoint_Inr)

subsection \<open>Properties of a reconciliation\<close>

text \<open>
  C6. A reconciliation changes something only as the protocol permits. The calls of a
  reconciliation can be recorded without any effect on its result or on the world, and
  every patch, deletion and cleanup among them is permitted by the answers of the calls
  before it, whatever the API server and the cloud answer.
\<close>

theorem changes_follow_protocol:
  "Reconcile k (recordedPackage pkg) (recordedReconciler r) req (w, []) =
     (fst (Reconcile k pkg r req w), snd (Reconcile k pkg r req w), reconcileCalls k pkg r req w)
   \<and> safe k pkg r req (reconcileCalls k pkg r req w)"
  by (simp add: reconcileCalls_run reconcileCalls_safe)

lemma RemoveFinalizer_documented:
  "documentedKubernetes k \<Longrightarrow>
     RemoveFinalizer k c Finalizer = c\<lparr>osc_Finalizers := filter (\<lambda>g. g \<noteq> Finalizer) (osc_Finalizers c)\<rparr>"
  by (simp add: documentedKubernetes_def)

lemma AddFinalizer_keeps: "documentedKubernetes k \<Longrightarrow> set (osc_Finalizers c) \<subseteq> set (osc_Finalizers (AddFinalizer k c f))"
  by (auto simp: documentedKubernetes_def)

lemma permitted_release:
  assumes "documentedKubernetes k"
    and "permitted k pkg r req pre (ClusterPatched base new a)"
    and "Finalizer \<in> set (osc_Finalizers base)" and "Finalizer \<notin> set (osc_Finalizers new)"
  shows "new = base\<lparr>osc_Finalizers := filter (\<lambda>g. g \<noteq> Finalizer) (osc_Finalizers base)\<rparr>
    \<and> (\<exists>observed secret0 sole pre' seg.
         pre = pre' @ seg \<and> ClusterRead req (Inr observed) \<in> set pre'
       \<and> osc_DeletionTimestamp observed \<noteq> None \<and> freshInputs k r observed secret0 sole base seg
       \<and> ((\<exists>secret. secret0 = Some secret \<and> \<not> deletePolicy secret
              \<and> ResourcesCleaned (purgeOptions r observed secret) (Inr ()) \<in> set pre')
          \<or> (\<exists>secret clusters. secret0 = Some secret \<and> deletePolicy secret
              \<and> SessionCleaned (purgeOptions r observed secret) (Inr ()) \<in> set pre'
              \<and> ClustersListed (osc_Namespace observed) (Inr clusters) \<in> set pre' \<and> sharedIn observed clusters)
          \<or> (\<exists>state e. secret0 = None \<and> sole \<and> resumes pkg r observed None state secretDeleteStarted
              \<and> SecretRead (osc_Namespace observed, ident_Name (osc_IdentityRef observed)) (Inl e) \<in> set pre'
              \<and> IsNotFound k e)))"
proof -
  have gone: "RemoveFinalizer k base Finalizer
      = base\<lparr>osc_Finalizers := filter (\<lambda>g. g \<noteq> Finalizer) (osc_Finalizers base)\<rparr>"
    by (rule RemoveFinalizer_documented [OF assms(1)])
  from assms(2) show ?thesis
  proof (rule permitted_patchE, goal_cases)
    case (1 observed owners owners')
    then show ?thesis using AddFinalizer_keeps [OF assms(1), of base Finalizer] assms(3,4) by auto
  next
    case (2 observed owners secret seg)
    then show ?thesis unfolding gone
      by (intro conjI exI [of _ observed] exI [of _ "Some secret"] exI [of _ False]
          exI [of _ "firstReads req observed owners (Inr secret)
             @ [ResourcesCleaned (purgeOptions r observed secret) (Inr ())]"] exI [of _ seg])
         (auto simp: firstReads_def deleting_def)
  next
    case (3 observed owners secret clusters seg binding)
    then show ?thesis unfolding gone
      by (intro conjI exI [of _ observed] exI [of _ "Some secret"] exI [of _ True]
          exI [of _ "firstReads req observed owners (Inr secret)
             @ [SessionOpened (purgeOptions r observed secret) (Inr binding),
                SessionCleaned (purgeOptions r observed secret) (Inr ()),
                ClustersListed (osc_Namespace observed) (Inr clusters)]"] exI [of _ seg])
         (auto simp: firstReads_def deleting_def)
  next
    case (4 observed owners secret clusters binding seg)
    then show ?thesis using assms(3,4) by (simp add: withCheckpoint_def)
  next
    case (5 observed owners secret state latest seg clusters seg')
    then show ?thesis using assms(3,4) by (simp add: withCheckpoint_def)
  next
    case (6 observed owners state e seg)
    then show ?thesis unfolding gone
      by (intro conjI exI [of _ observed] exI [of _ None] exI [of _ True]
          exI [of _ "firstReads req observed owners (Inl e)"] exI [of _ seg])
         (auto simp: firstReads_def deleting_def)
  qed
qed

text \<open>
  C8. The finalizer goes only when the cleanup is done. A patch that takes the janitor's
  finalizer from a cluster changes nothing else of it, the cluster was read as being
  deleted and has just been read again, unpaused and unchanged, and the same reconciliation
  has seen one of three things: the resources cleaned up, for a Secret that keeps its
  credential; the resources verified by a session, for a Secret that another cluster uses;
  or the Secret gone, after a checkpoint that records the confirmed deletion of the
  credential, with no other finalizer left.
\<close>

theorem finalizer_removed_only_after_cleanup:
  assumes "documentedKubernetes k"
    and "reconcileCalls k pkg r req w = pre @ ClusterPatched base new a # post"
    and "Finalizer \<in> set (osc_Finalizers base)" and "Finalizer \<notin> set (osc_Finalizers new)"
  shows "new = base\<lparr>osc_Finalizers := filter (\<lambda>g. g \<noteq> Finalizer) (osc_Finalizers base)\<rparr>
    \<and> (\<exists>observed secret0 sole pre' seg.
         pre = pre' @ seg \<and> ClusterRead req (Inr observed) \<in> set pre'
       \<and> osc_DeletionTimestamp observed \<noteq> None \<and> freshInputs k r observed secret0 sole base seg
       \<and> ((\<exists>secret. secret0 = Some secret \<and> \<not> deletePolicy secret
              \<and> ResourcesCleaned (purgeOptions r observed secret) (Inr ()) \<in> set pre')
          \<or> (\<exists>secret clusters. secret0 = Some secret \<and> deletePolicy secret
              \<and> SessionCleaned (purgeOptions r observed secret) (Inr ()) \<in> set pre'
              \<and> ClustersListed (osc_Namespace observed) (Inr clusters) \<in> set pre' \<and> sharedIn observed clusters)
          \<or> (\<exists>state e. secret0 = None \<and> sole \<and> resumes pkg r observed None state secretDeleteStarted
              \<and> SecretRead (osc_Namespace observed, ident_Name (osc_IdentityRef observed)) (Inl e) \<in> set pre'
              \<and> IsNotFound k e)))"
  using change_permitted [OF assms(2), simplified] by (rule permitted_release [OF assms(1) _ assms(3,4)])

text \<open>What a checkpoint that is resumed says of the cluster and of the Secret that is there.\<close>

lemma resumes_bound:
  assumes "resumes pkg r observed (Some secret) state phase"
  shows "readCredentialCheckpoint (pkg_url pkg) observed = Inr (Some state)" "ck_Phase state = phase"
    and "validCheckpoint (pkg_url pkg) state"
    and "ck_ClusterUID state = osc_UID observed" "ck_ClusterName state = clusterNameFor observed"
    and "ck_SecretName state = ident_Name (osc_IdentityRef observed)" "ck_SecretUID state = secret_UID secret"
    and "deletePolicy secret" "length (osc_Finalizers observed) = 1"
    and "\<exists>config. pkg_DescribeCredential pkg (purgeOptions r observed secret) = Inr config
           \<and> cfg_CredentialID config = cb_CredentialID (ck_Cloud state)
           \<and> cfg_Authority config = cb_Authority (ck_Cloud state)"
proof -
  show read: "readCredentialCheckpoint (pkg_url pkg) observed = Inr (Some state)" "ck_Phase state = phase"
    and "length (osc_Finalizers observed) = 1"
    using assms by (simp_all add: resumes_def)
  have check: "checkCheckpointBinding pkg r observed (Some secret) state = Inr ()"
    using assms by (simp add: resumes_def)
  show valid: "validCheckpoint (pkg_url pkg) state" using read(1) by (auto simp: readCredentialCheckpoint_Inr)
  show "ck_ClusterUID state = osc_UID observed" "ck_ClusterName state = clusterNameFor observed"
    "ck_SecretName state = ident_Name (osc_IdentityRef observed)" "ck_SecretUID state = secret_UID secret"
    "\<exists>config. pkg_DescribeCredential pkg (purgeOptions r observed secret) = Inr config
       \<and> cfg_CredentialID config = cb_CredentialID (ck_Cloud state)
       \<and> cfg_Authority config = cb_Authority (ck_Cloud state)"
    using check by (simp_all add: checkCheckpointBinding_def split: if_splits sum.splits)
  have "index_map (secret_Annotations secret) CredentialPolicyAnnotation = ck_CredentialPolicy state"
    using check by (simp add: checkCheckpointBinding_def split: if_splits)
  then show "deletePolicy secret"
    using valid by (simp add: validCheckpoint_def deletePolicy_def index_map_nonempty PolicyDelete_def)
qed

text \<open>
  C9. The credential is deleted only as recorded. A reconciliation asks for the deletion of
  an application credential only for a cluster that is being deleted, whose checkpoint says
  that the deletion has started and names this cluster, this Secret and this credential;
  the session that deletes it has authenticated with exactly the recorded binding, the
  Secret still asks for the deletion, no other cluster refers to it, and no finalizer but
  the janitor's is left; all of this is read again, unpaused, after the session was opened.
\<close>

theorem credential_deletion_is_gated:
  assumes "reconcileCalls k pkg r req w = pre @ CredentialDeleteCalled options i a # post"
  shows "\<exists>observed owners secret state latest seg clusters config.
     pre = firstReads req observed owners (Inr secret)
           @ SessionOpened options (Inr (ck_Cloud state)) # seg
           @ [ClustersListed (osc_Namespace observed) (Inr clusters)]
   \<and> options = purgeOptions r observed secret \<and> i = cb_CredentialID (ck_Cloud state)
   \<and> pkg_DescribeCredential pkg options = Inr config \<and> cfg_CredentialID config = i
   \<and> deleting k observed owners
   \<and> readCredentialCheckpoint (pkg_url pkg) observed = Inr (Some state)
   \<and> ck_Phase state = credentialDeleteStarted
   \<and> ck_ClusterUID state = osc_UID observed \<and> ck_SecretUID state = secret_UID secret
   \<and> deletePolicy secret \<and> \<not> sharedIn observed clusters
   \<and> length (osc_Finalizers observed) = 1 \<and> freshInputs k r observed (Some secret) True latest seg"
  using change_permitted [OF assms, simplified]
proof (rule permitted_credentialE)
  fix observed owners secret state latest seg clusters
  assume *: "pre = firstReads req observed owners (Inr secret)
        @ SessionOpened (purgeOptions r observed secret) (Inr (ck_Cloud state))
        # seg @ [ClustersListed (osc_Namespace observed) (Inr clusters)]"
    "deleting k observed owners" "resumes pkg r observed (Some secret) state credentialDeleteStarted"
    "freshInputs k r observed (Some secret) True latest seg" "\<not> sharedIn observed clusters"
    "options = purgeOptions r observed secret" "i = cb_CredentialID (ck_Cloud state)"
  note bound = resumes_bound [OF *(3)]
  obtain config where "pkg_DescribeCredential pkg (purgeOptions r observed secret) = Inr config"
    "cfg_CredentialID config = cb_CredentialID (ck_Cloud state)" using bound(10) by blast
  with * bound show ?thesis by metis
qed

text \<open>
  C10. The Secret is deleted only after its credential. A reconciliation deletes a Secret only
  by the UID and the version that it has just read twice, for a cluster that is being
  deleted and whose checkpoint says, for this cluster and this Secret, that the deletion of
  the credential was confirmed; no other cluster refers to the Secret, it still asks for the
  deletion and is not being deleted yet, no finalizer but the janitor's is left, and
  nothing is paused. OpenStack is not needed any more: no session was opened.
\<close>

theorem secret_deletion_is_gated:
  assumes "reconcileCalls k pkg r req w = pre @ SecretDeleteCalled secret uid version a # post"
  shows "uid = secret_UID secret \<and> version = secret_ResourceVersion secret
   \<and> secret_DeletionTimestamp secret = None \<and> deletePolicy secret
   \<and> (\<forall>options binding. SessionOpened options binding \<notin> set pre)
   \<and> (\<exists>observed owners state latest seg clusters.
        pre = firstReads req observed owners (Inr secret) @ seg
              @ [ClustersListed (osc_Namespace observed) (Inr clusters)]
      \<and> deleting k observed owners
      \<and> readCredentialCheckpoint (pkg_url pkg) observed = Inr (Some state)
      \<and> ck_Phase state = secretDeleteStarted
      \<and> ck_ClusterUID state = osc_UID observed \<and> ck_SecretUID state = uid
      \<and> \<not> sharedIn observed clusters
      \<and> length (osc_Finalizers observed) = 1 \<and> freshInputs k r observed (Some secret) True latest seg)"
  using change_permitted [OF assms, simplified]
proof (rule permitted_secretE)
  fix observed owners state latest seg clusters
  assume *: "pre = firstReads req observed owners (Inr secret)
        @ seg @ [ClustersListed (osc_Namespace observed) (Inr clusters)]"
    "deleting k observed owners" "resumes pkg r observed (Some secret) state secretDeleteStarted"
    "secret_DeletionTimestamp secret = None"
    "freshInputs k r observed (Some secret) True latest seg" "\<not> sharedIn observed clusters"
    "uid = secret_UID secret" "version = secret_ResourceVersion secret"
  note bound = resumes_bound [OF *(3)]
  have "list_all isRead pre"
    using *(2) freshInputs_isRead [OF *(5)] notPausedReads_reads
    by (auto simp: *(1) firstReads_def deleting_def)
  then have "SessionOpened options binding \<notin> set pre" for options binding by (auto simp: list_all_iff)
  with * bound show ?thesis by blast
qed

subsection \<open>Pausing\<close>

text \<open>
  The last cluster that was read was not paused: neither itself nor, by the reads of its
  owners that followed, through its owners.
\<close>

definition lastReadUnpaused :: "kubernetes \<Rightarrow> apiCall list \<Rightarrow> bool" where
  "lastReadUnpaused k l \<longleftrightarrow>
     (\<exists>p key latest owners rest. l = p @ ClusterRead key (Inr latest) # owners @ rest
        \<and> notPausedReads k latest owners \<and> (\<forall>key' answer. ClusterRead key' answer \<notin> set rest))"

lemma lastReadUnpaused_append: "lastReadUnpaused k seg \<Longrightarrow> lastReadUnpaused k (l @ seg)"
  unfolding lastReadUnpaused_def by (metis append_assoc)

lemma lastReadUnpaused_Cons: "lastReadUnpaused k seg \<Longrightarrow> lastReadUnpaused k (c # seg)"
  using lastReadUnpaused_append [of k seg "[c]"] by simp

lemma lastReadUnpaused_more:
  "lastReadUnpaused k l \<Longrightarrow> (\<And>key answer. ClusterRead key answer \<notin> set seg) \<Longrightarrow> lastReadUnpaused k (l @ seg)"
  unfolding lastReadUnpaused_def by clarsimp (metis UnE set_append)

lemma lastReadUnpaused_first:
  "deleting k observed owners \<Longrightarrow> lastReadUnpaused k (firstReads req observed owners answer)"
  unfolding lastReadUnpaused_def firstReads_def deleting_def
  by (intro exI [of _ "[]"] exI [of _ req] exI [of _ observed] exI [of _ owners]
      exI [of _ "[SecretRead (osc_Namespace observed, ident_Name (osc_IdentityRef observed)) answer]"]) simp

lemma lastReadUnpaused_read: "notPausedReads k latest owners \<Longrightarrow> lastReadUnpaused k (ClusterRead key (Inr latest) # owners)"
  unfolding lastReadUnpaused_def
  by (intro exI [of _ "[]"] exI [of _ key] exI [of _ latest] exI [of _ owners]) simp

lemma lastReadUnpaused_fresh: "freshInputs k r observed secret sole latest seg \<Longrightarrow> lastReadUnpaused k seg"
  using freshInputs_reads [of k r observed secret sole latest seg]
  by (auto intro!: lastReadUnpaused_Cons lastReadUnpaused_read)

lemma permitted_unpaused:
  assumes "permitted k pkg r req pre c"
  shows "lastReadUnpaused k pre"
  using assms
proof cases
  case (add_finalizer observed owners latest owners' a)
  then show ?thesis
    using lastReadUnpaused_append [OF lastReadUnpaused_read [OF add_finalizer(8)],
        of "ClusterRead req (Inr observed) # owners" "objectKey observed"] by simp
next
  case clean_resources
  then show ?thesis by (auto intro: lastReadUnpaused_first)
next
  case clean_session
  then show ?thesis by (auto intro!: lastReadUnpaused_more lastReadUnpaused_first)
next
  case (delete_credential observed owners secret state latest seg clusters a)
  have "lastReadUnpaused k ((firstReads req observed owners (Inr secret)
      @ SessionOpened (purgeOptions r observed secret) (Inr (ck_Cloud state)) # seg)
      @ [ClustersListed (osc_Namespace observed) (Inr clusters)])"
    using lastReadUnpaused_fresh [OF delete_credential(5)]
    by (intro lastReadUnpaused_more lastReadUnpaused_append lastReadUnpaused_Cons) auto
  then show ?thesis by (simp add: delete_credential(1))
next
  case (delete_secret observed owners secret state latest seg clusters a)
  have "lastReadUnpaused k ((firstReads req observed owners (Inr secret) @ seg)
      @ [ClustersListed (osc_Namespace observed) (Inr clusters)])"
    using lastReadUnpaused_fresh [OF delete_secret(6)]
    by (intro lastReadUnpaused_more lastReadUnpaused_append) auto
  then show ?thesis by (simp add: delete_secret(1))
qed (simp_all add: lastReadUnpaused_append lastReadUnpaused_Cons lastReadUnpaused_fresh)

text \<open>
  C16. Nothing is changed while cleanup is paused. Before every patch, deletion and cleanup
  of a reconciliation, the cluster as it was last read had no pause annotation, and each of
  its owning Clusters was then looked up and found to be gone, replaced, or not paused.
\<close>

theorem changes_require_unpaused:
  assumes "reconcileCalls k pkg r req w = pre @ c # post" and "isMutation c"
  shows "\<exists>p key latest owners rest. pre = p @ ClusterRead key (Inr latest) # owners @ rest
     \<and> \<not> hasPauseAnnotation k (osc_Annotations latest)
     \<and> list_all2 (notPausedBy k (osc_Namespace latest))
         (filter (isClusterOwner k) (osc_OwnerReferences latest)) owners
     \<and> (\<forall>key' answer. ClusterRead key' answer \<notin> set rest)"
  using permitted_unpaused [OF change_permitted [OF assms]]
  by (auto simp: lastReadUnpaused_def notPausedReads_def)

subsection \<open>One step at a time\<close>

datatype change =
    FinalizerOrCheckpoint | SecretDeletion | ResourceCleanup | SessionCleanupStep | CredentialDeletion

fun changeOf :: "apiCall \<Rightarrow> change option" where
  "changeOf (ClusterPatched base new a) = Some FinalizerOrCheckpoint"
| "changeOf (SecretDeleteCalled s uid version a) = Some SecretDeletion"
| "changeOf (ResourcesCleaned options a) = Some ResourceCleanup"
| "changeOf (SessionCleaned options a) = Some SessionCleanupStep"
| "changeOf (CredentialDeleteCalled options i a) = Some CredentialDeletion"
| "changeOf _ = None"

definition changes :: "apiCall list \<Rightarrow> change list" where
  "changes calls = List.map_filter changeOf calls"

text \<open>The changes that may come before a change of a kind.\<close>

fun before :: "change \<Rightarrow> change list set" where
  "before FinalizerOrCheckpoint = {[], [ResourceCleanup], [SessionCleanupStep], [CredentialDeletion]}"
| "before _ = {[]}"

lemma changes_append [simp]: "changes (l @ m) = changes l @ changes m"
  by (simp add: changes_def map_filter_def)

lemma changes_Cons: "changes (c # m) = (case changeOf c of None \<Rightarrow> changes m | Some d \<Rightarrow> d # changes m)"
  by (simp add: changes_def map_filter_def split: option.split)

lemma changes_Nil [simp]: "changes [] = []"
  by (simp add: changes_def map_filter_def)

lemma changes_reads: "list_all isRead l \<Longrightarrow> changes l = []"
proof (induction l)
  case (Cons c l)
  then show ?case by (cases c) (auto simp: changes_Cons)
qed simp

lemma isMutation_changeOf: "isMutation c \<longleftrightarrow> (\<exists>d. changeOf c = Some d)"
  by (cases c) simp_all

lemma firstReads_isRead: "deleting k observed owners \<Longrightarrow> list_all isRead (firstReads req observed owners answer)"
  by (auto simp: deleting_def firstReads_def dest: notPausedReads_reads)

lemmas quiet_changes = changes_Cons changes_reads [OF firstReads_isRead] changes_reads [OF freshInputs_isRead]
  changes_reads [OF notPausedReads_reads]

lemma permitted_before: "permitted k pkg r req pre c \<Longrightarrow> changeOf c = Some d \<Longrightarrow> changes pre \<in> before d"
  by (induction rule: permitted.induct) (auto simp: quiet_changes)

lemma safe_changes:
  assumes "safe k pkg r req l"
  shows "changes l = [] \<or> (\<exists>p d. changes l = p @ [d] \<and> p \<in> before d)"
  using assms
proof (induction l rule: rev_induct)
  case (snoc c l)
  show ?case
  proof (cases "changeOf c")
    case None
    with snoc show ?thesis by (simp add: safe_snoc changes_Cons)
  next
    case (Some d)
    then have "permitted k pkg r req l c" using snoc.prems by (simp add: safe_snoc isMutation_changeOf)
    with Some show ?thesis by (auto simp: changes_Cons dest: permitted_before)
  qed
qed simp

text \<open>
  C17. A reconciliation makes one step. It patches the cluster at most once and last; before
  that it makes at most one other change, either the cleanup of the resources or the
  deletion of the credential; and it deletes the Secret only if it changes nothing else. So
  the deletion of the credential, the deletion of the Secret and the removal of the
  finalizer always happen in different reconciliations.
\<close>

theorem one_step_at_a_time:
  "changes (reconcileCalls k pkg r req w) \<in>
     {[], [FinalizerOrCheckpoint], [SecretDeletion],
      [ResourceCleanup], [ResourceCleanup, FinalizerOrCheckpoint],
      [SessionCleanupStep], [SessionCleanupStep, FinalizerOrCheckpoint],
      [CredentialDeletion], [CredentialDeletion, FinalizerOrCheckpoint]}"
proof -
  let ?calls = "reconcileCalls k pkg r req w"
  consider "changes ?calls = []" | p d where "changes ?calls = p @ [d]" "p \<in> before d"
    using safe_changes [OF reconcileCalls_safe, of k pkg r req w] by blast
  then show ?thesis
  proof cases
    case (2 p d)
    then show ?thesis by (cases d) auto
  qed simp
qed

subsection \<open>How a reconciliation of a deletion ends\<close>

text \<open>
  C13. A deletion is never dropped. When the reconciliation of a cluster that is being
  deleted returns no error, either it asks to be run again after five seconds, or the
  finalizer was removed, or one of its own calls gave a reason to wait for a change: the
  cluster was gone, or the cluster or one of its owners was paused.
\<close>

theorem deletion_is_never_dropped:
  assumes "documentedKubernetes k" and "plainDescriptions pkg"
    and "fst (GetOpenStackCluster (reader r) req w) = Inr observed"
    and "osc_DeletionTimestamp observed \<noteq> None" and "Finalizer \<in> set (osc_Finalizers observed)"
    and "Reconcile k pkg r req w = (Inr result, w')"
  shows "RequeueAfter result = pendingDeleteDelay
    \<or> (\<exists>base updated. ClusterPatched base (base\<lparr>osc_Finalizers := filter (\<lambda>g. g \<noteq> Finalizer) (osc_Finalizers base)\<rparr>)
          (Inr updated) \<in> set (reconcileCalls k pkg r req w))
    \<or> (\<exists>c \<in> set (reconcileCalls k pkg r req w). excuse k c)"
proof -
  have "ContainsFinalizer k observed Finalizer" using assms(1,5) by (simp add: documentedKubernetes_def)
  with reconcileCalls_outcome [of r req w observed k pkg] assms
  have "result = requeueResult \<or> released k (reconcileCalls k pkg r req w) \<or> excused k (reconcileCalls k pkg r req w)"
    by (auto simp: deletionOutcome_def)
  then show ?thesis
    by (auto simp: requeueResult_def released_def excused_def list_ex_iff RemoveFinalizer_documented [OF assms(1)])
qed


end
