(* ===== verification/Controller_History.thy ===== *)
theory Controller_History
  imports Controller_Safety
begin

section \<open>Histories of reconciliations\<close>

text \<open>
  What holds over all reconciliations of a janitor, also across restarts: a history is the
  list of the calls of any number of reconciliations, each of which may have been cut off
  after any of its calls. Between the calls the cluster, the Secret and the cloud may change
  in any way; the one assumption is that nobody else writes the checkpoint annotation.
\<close>

inductive history ::
  "kubernetes \<Rightarrow> 'w openstackPackage \<Rightarrow> 'w OpenStackClusterReconciler \<Rightarrow> apiCall list \<Rightarrow> bool"
  for k :: kubernetes and pkg :: "'w openstackPackage" and r :: "'w OpenStackClusterReconciler"
where
  nothing: "history k pkg r []"
| reconciled: "history k pkg r l \<Longrightarrow> history k pkg r (l @ take n (reconcileCalls k pkg r req w))"

text \<open>
  A checkpoint annotation that is read was sent in an earlier patch of the same cluster. The
  answer to that patch may have been lost.
\<close>

definition authenticCheckpoints :: "apiCall list \<Rightarrow> bool" where
  "authenticCheckpoints l \<longleftrightarrow>
     (\<forall>pre key c post data. l = pre @ ClusterRead key (Inr c) # post
        \<longrightarrow> osc_Annotations c CredentialCheckpointAnnotation = Some data
        \<longrightarrow> (\<exists>base new a. ClusterPatched base new a \<in> set pre \<and> osc_UID base = osc_UID c
               \<and> osc_Annotations new CredentialCheckpointAnnotation = Some data))"

lemma history_answered: "history k pkg r l \<Longrightarrow> list_all (answered pkg r) l"
proof (induction rule: history.induct)
  case (reconciled l n req w)
  then show ?case
    using reconcileCalls_answered [of pkg r k req w] by (auto simp: list_all_iff dest: in_set_takeD)
qed simp

text \<open>Every change of a history was permitted in its reconciliation.\<close>

lemma history_permitted:
  assumes "history k pkg r l" and "l = pre @ c # post" and "isMutation c"
  shows "\<exists>h pre2 req. pre = h @ pre2 \<and> permitted k pkg r req pre2 c"
  using assms
proof (induction arbitrary: pre post rule: history.induct)
  case (reconciled l n req w)
  let ?t = "take n (reconcileCalls k pkg r req w)"
  consider (old) post' where "l = pre @ c # post'" | (new) p where "pre = l @ p" "?t = p @ c # post"
    using reconciled.prems(1) by (auto simp: append_eq_append_conv2 append_eq_Cons_conv Cons_eq_append_conv)
  then show ?case
  proof cases
    case old
    then show ?thesis using reconciled by blast
  next
    case new
    then have "reconcileCalls k pkg r req w = p @ c # (post @ drop n (reconcileCalls k pkg r req w))"
      using append_take_drop_id [of n "reconcileCalls k pkg r req w"] by simp
    then have "permitted k pkg r req p c" by (rule change_permitted) (rule reconciled.prems)
    with new show ?thesis by blast
  qed
qed simp

subsection \<open>Where a checkpoint comes from\<close>

text \<open>
  Every checkpoint annotation of a history was written as a checkpoint: the first one after
  the resources were verified, the second one after the credential's deletion was confirmed.
\<close>

definition writtenFirst ::
  "kubernetes \<Rightarrow> 'w openstackPackage \<Rightarrow> 'w OpenStackClusterReconciler \<Rightarrow> apiCall list \<Rightarrow> string \<Rightarrow> bool"
where
  "writtenFirst k pkg r l data \<longleftrightarrow>
     (\<exists>observed secret binding.
        data = marshalCheckpoint (firstCheckpoint r observed secret binding)
      \<and> SessionOpened (purgeOptions r observed secret) (Inr binding) \<in> set l
      \<and> SessionCleaned (purgeOptions r observed secret) (Inr ()) \<in> set l)"

definition writtenSecond ::
  "kubernetes \<Rightarrow> 'w openstackPackage \<Rightarrow> 'w OpenStackClusterReconciler \<Rightarrow> apiCall list \<Rightarrow> string \<Rightarrow> bool"
where
  "writtenSecond k pkg r l data \<longleftrightarrow>
     (\<exists>p q req observed owners secret state.
        l = p @ ClusterRead req (Inr observed) # owners
            @ SecretRead (osc_Namespace observed, ident_Name (osc_IdentityRef observed)) (Inr secret) # q
      \<and> data = marshalCheckpoint (state\<lparr>ck_Phase := secretDeleteStarted\<rparr>)
      \<and> resumes pkg r observed (Some secret) state credentialDeleteStarted
      \<and> CredentialDeleteCalled (purgeOptions r observed secret) (cb_CredentialID (ck_Cloud state)) (Inr ()) \<in> set q)"

lemma writtenFirst_mono: "writtenFirst k pkg r l data \<Longrightarrow> writtenFirst k pkg r (h @ l @ m) data"
  unfolding writtenFirst_def by auto

lemma writtenSecond_mono: "writtenSecond k pkg r l data \<Longrightarrow> writtenSecond k pkg r (h @ l @ m) data"
proof -
  assume "writtenSecond k pkg r l data"
  then obtain p q req observed owners secret state where *:
    "l = p @ ClusterRead req (Inr observed) # owners
       @ SecretRead (osc_Namespace observed, ident_Name (osc_IdentityRef observed)) (Inr secret) # q"
    "data = marshalCheckpoint (state\<lparr>ck_Phase := secretDeleteStarted\<rparr>)"
    "resumes pkg r observed (Some secret) state credentialDeleteStarted"
    "CredentialDeleteCalled (purgeOptions r observed secret) (cb_CredentialID (ck_Cloud state)) (Inr ()) \<in> set q"
    unfolding writtenSecond_def by blast
  have "h @ l @ m = (h @ p) @ ClusterRead req (Inr observed) # owners
       @ SecretRead (osc_Namespace observed, ident_Name (osc_IdentityRef observed)) (Inr secret) # (q @ m)"
    using *(1) by simp
  moreover have "CredentialDeleteCalled (purgeOptions r observed secret) (cb_CredentialID (ck_Cloud state)) (Inr ())
      \<in> set (q @ m)" using *(4) by simp
  ultimately show ?thesis unfolding writtenSecond_def using *(2,3) by blast
qed

lemmas written_mono = writtenFirst_mono [where m = "[]", simplified] writtenFirst_mono
  writtenSecond_mono [where m = "[]", simplified] writtenSecond_mono

text \<open>A patch either writes a checkpoint, or keeps the annotations of the cluster it was read from.\<close>

lemma freshInputs_split: "freshInputs k r observed secret sole base seg \<Longrightarrow>
  \<exists>p key q. l @ seg = p @ ClusterRead key (Inr base) # q"
proof -
  assume "freshInputs k r observed secret sole base seg"
  then obtain answer owners where "l @ seg = (l @ [SecretRead (osc_Namespace observed, ident_Name (osc_IdentityRef observed)) answer])
      @ ClusterRead (objectKey observed) (Inr base) # owners"
    unfolding freshInputs_def by auto
  then show ?thesis by blast
qed

lemma permitted_patch_source:
  assumes "documentedKubernetes k" and "permitted k pkg r req pre (ClusterPatched base new a)"
    and "osc_Annotations new CredentialCheckpointAnnotation = Some data"
  shows "(\<exists>p key q. pre = p @ ClusterRead key (Inr base) # q
            \<and> osc_Annotations base CredentialCheckpointAnnotation = Some data)
    \<or> writtenFirst k pkg r pre data \<or> writtenSecond k pkg r pre data"
proof -
  have keep: "osc_Annotations (AddFinalizer k base f) = osc_Annotations base"
    "osc_Annotations (RemoveFinalizer k base f) = osc_Annotations base" for f
    using assms(1) by (simp_all add: documentedKubernetes_def)
  from assms(2) show ?thesis
  proof (rule permitted_patchE, goal_cases)
    case (1 observed owners owners')
    then show ?thesis using assms(3) keep(1)
      by (intro disjI1 exI [of _ "ClusterRead req (Inr observed) # owners"] exI [of _ "objectKey observed"]
          exI [of _ owners']) simp
  next
    case (2 observed owners secret seg)
    then show ?thesis using assms(3) keep(2)
        freshInputs_split [OF 2(6), of "firstReads req observed owners (Inr secret)
           @ [ResourcesCleaned (purgeOptions r observed secret) (Inr ())]"]
      by simp
  next
    case (3 observed owners secret clusters seg binding)
    then show ?thesis using assms(3) keep(2)
        freshInputs_split [OF 3(7), of "firstReads req observed owners (Inr secret)
           @ [SessionOpened (purgeOptions r observed secret) (Inr binding),
              SessionCleaned (purgeOptions r observed secret) (Inr ()),
              ClustersListed (osc_Namespace observed) (Inr clusters)]"]
      by simp
  next
    case (4 observed owners secret clusters binding seg)
    then have "data = marshalCheckpoint (firstCheckpoint r observed secret binding)"
      using assms(3) by (simp add: withCheckpoint_def)
    with 4(1) show ?thesis unfolding writtenFirst_def
      by (intro disjI2 disjI1 exI [of _ observed] exI [of _ secret] exI [of _ binding]) simp
  next
    case (5 observed owners secret state latest seg clusters seg')
    then have "data = marshalCheckpoint (state\<lparr>ck_Phase := secretDeleteStarted\<rparr>)"
      using assms(3) by (simp add: withCheckpoint_def)
    with 5(1,4) show ?thesis unfolding writtenSecond_def firstReads_def
      by (intro disjI2 exI [of _ "[]"] exI [of _ req] exI [of _ observed] exI [of _ owners]
          exI [of _ secret] exI [of _ state]
          exI [of _ "SessionOpened (purgeOptions r observed secret) (Inr (ck_Cloud state))
             # seg @ ClustersListed (osc_Namespace observed) (Inr clusters)
             # CredentialDeleteCalled (purgeOptions r observed secret) (cb_CredentialID (ck_Cloud state)) (Inr ()) # seg'"])
         simp
  next
    case (6 observed owners state e seg)
    then show ?thesis using assms(3) keep(2)
        freshInputs_split [OF 6(6), of "firstReads req observed owners (Inl e)"] by simp
  qed
qed

lemma checkpoint_origin:
  assumes "documentedKubernetes k" and "history k pkg r l" and "authenticCheckpoints l"
    and "l = pre @ ClusterRead key (Inr c) # post"
    and "osc_Annotations c CredentialCheckpointAnnotation = Some data"
  shows "writtenFirst k pkg r pre data \<or> writtenSecond k pkg r pre data"
  using assms(4,5)
proof (induction "length pre" arbitrary: pre key c post rule: less_induct)
  case less
  from assms(3) less.prems obtain base new a where "ClusterPatched base new a \<in> set pre"
    and new: "osc_Annotations new CredentialCheckpointAnnotation = Some data"
    unfolding authenticCheckpoints_def by blast
  then obtain u v where pre: "pre = u @ ClusterPatched base new a # v" by (auto simp: in_set_conv_decomp)
  then obtain h pre2 req where u: "u = h @ pre2" and perm: "permitted k pkg r req pre2 (ClusterPatched base new a)"
    using history_permitted [OF assms(2), of u "ClusterPatched base new a"] less.prems(1) by auto
  from permitted_patch_source [OF assms(1) perm new] consider
      (kept) p key' q where "pre2 = p @ ClusterRead key' (Inr base) # q"
        "osc_Annotations base CredentialCheckpointAnnotation = Some data"
    | (written) "writtenFirst k pkg r pre2 data \<or> writtenSecond k pkg r pre2 data" by blast
  then show ?case
  proof cases
    case kept
    have "writtenFirst k pkg r (h @ p) data \<or> writtenSecond k pkg r (h @ p) data"
      using kept less.prems(1) by (intro less.hyps [of "h @ p" key' base]) (simp_all add: pre u)
    then show ?thesis
      using written_mono(2,4) [of k pkg r "h @ p" data "[]"] by (auto simp: pre u kept(1))
  next
    case written
    then show ?thesis
      using written_mono(2,4) [of k pkg r pre2 data h "ClusterPatched base new a # v"] by (auto simp: pre u)
  qed
qed

subsection \<open>What a checkpoint stands for\<close>

text \<open>The first checkpoint, as it reads back.\<close>

lemma sanitised_first [simp]:
  "ck_Phase (sanitisedCheckpoint (firstCheckpoint r observed secret binding)) = credentialDeleteStarted"
  "ck_Version (firstCheckpoint r observed secret binding) = 1"
  by (simp_all add: sanitisedCheckpoint_def firstCheckpoint_def phases_sanitised)

lemma sanitisedCheckpoint_phase:
  "sanitisedCheckpoint (sanitisedCheckpoint st\<lparr>ck_Phase := secretDeleteStarted\<rparr>)
     = (sanitisedCheckpoint st)\<lparr>ck_Phase := secretDeleteStarted\<rparr>"
  by (simp add: sanitisedCheckpoint_def sanitisedBinding_def phases_sanitised)

lemma resumes_version: "resumes pkg r observed secret state phase \<Longrightarrow> ck_Version state = 1"
  by (auto simp: resumes_def readCredentialCheckpoint_Inr validCheckpoint_def)

text \<open>
  A checkpoint that says that the deletion of the Secret has started: before it was read,
  the resources were verified by a session, then the credential's deletion was confirmed.
\<close>

lemma second_checkpoint_means:
  assumes "documentedKubernetes k" and "history k pkg r l" and "authenticCheckpoints l"
    and "l = pre @ ClusterRead key (Inr c) # post"
    and "readCredentialCheckpoint net c = Inr (Some state)" and "ck_Phase state = secretDeleteStarted"
  shows "\<exists>p q observed secret binding options.
     pre = p @ q
   \<and> SessionOpened (purgeOptions r observed secret) (Inr binding) \<in> set p
   \<and> SessionCleaned (purgeOptions r observed secret) (Inr ()) \<in> set p
   \<and> CredentialDeleteCalled options (cb_CredentialID (ck_Cloud state)) (Inr ()) \<in> set q
   \<and> po_ClusterName options = ck_ClusterName state
   \<and> state = (sanitisedCheckpoint (firstCheckpoint r observed secret binding))\<lparr>ck_Phase := secretDeleteStarted\<rparr>"
proof -
  obtain data where data: "osc_Annotations c CredentialCheckpointAnnotation = Some data"
    using readCredentialCheckpoint_annotation [OF assms(5)] by blast
  have not_first: "\<not> writtenFirst k pkg r pre data"
  proof
    assume "writtenFirst k pkg r pre data"
    then obtain observed secret binding where
      "data = marshalCheckpoint (firstCheckpoint r observed secret binding)" unfolding writtenFirst_def by blast
    then have "state = sanitisedCheckpoint (firstCheckpoint r observed secret binding)"
      using read_marshalled [OF assms(5), where st = "firstCheckpoint r observed secret binding"] data by simp
    then show False using assms(6) phases_sanitised(3) by simp
  qed
  then obtain p q req observed owners secret st where
    pre: "pre = p @ ClusterRead req (Inr observed) # owners
       @ SecretRead (osc_Namespace observed, ident_Name (osc_IdentityRef observed)) (Inr secret) # q"
    and second: "data = marshalCheckpoint (st\<lparr>ck_Phase := secretDeleteStarted\<rparr>)"
      "resumes pkg r observed (Some secret) st credentialDeleteStarted"
      "CredentialDeleteCalled (purgeOptions r observed secret) (cb_CredentialID (ck_Cloud st)) (Inr ()) \<in> set q"
    using checkpoint_origin [OF assms(1-4) data] unfolding writtenSecond_def by blast
  have state: "state = sanitisedCheckpoint (st\<lparr>ck_Phase := secretDeleteStarted\<rparr>)"
    using read_marshalled [OF assms(5), where st = "st\<lparr>ck_Phase := secretDeleteStarted\<rparr>"] data second(1) resumes_version [OF second(2)] by simp
  note bound = resumes_bound [OF second(2)]
  obtain data1 where data1: "osc_Annotations observed CredentialCheckpointAnnotation = Some data1"
    using readCredentialCheckpoint_annotation [OF bound(1)] by blast
  have l: "l = p @ ClusterRead req (Inr observed) # (owners
       @ SecretRead (osc_Namespace observed, ident_Name (osc_IdentityRef observed)) (Inr secret) # q
       @ ClusterRead key (Inr c) # post)" using assms(4) pre by simp
  have "\<not> writtenSecond k pkg r p data1"
  proof
    assume "writtenSecond k pkg r p data1"
    then obtain observed' secret' st' where "data1 = marshalCheckpoint (st'\<lparr>ck_Phase := secretDeleteStarted\<rparr>)"
      "resumes pkg r observed' (Some secret') st' credentialDeleteStarted" unfolding writtenSecond_def by blast
    then have "st = sanitisedCheckpoint (st'\<lparr>ck_Phase := secretDeleteStarted\<rparr>)"
      using read_marshalled [OF bound(1), where st = "st'\<lparr>ck_Phase := secretDeleteStarted\<rparr>"] data1 by (simp add: resumes_version)
    then show False using bound(2) phases_sanitised by (simp add: sanitisedCheckpoint_def)
  qed
  then obtain observed1 secret1 binding where
    first: "data1 = marshalCheckpoint (firstCheckpoint r observed1 secret1 binding)"
      "SessionOpened (purgeOptions r observed1 secret1) (Inr binding) \<in> set p"
      "SessionCleaned (purgeOptions r observed1 secret1) (Inr ()) \<in> set p"
    using checkpoint_origin [OF assms(1-3) l data1] unfolding writtenFirst_def by blast
  have st: "st = sanitisedCheckpoint (firstCheckpoint r observed1 secret1 binding)"
    using read_marshalled [OF bound(1), where st = "firstCheckpoint r observed1 secret1 binding"] data1 first(1) by simp
  have state': "state = st\<lparr>ck_Phase := secretDeleteStarted\<rparr>"
    unfolding state st by (rule sanitisedCheckpoint_phase)
  have "po_ClusterName (purgeOptions r observed secret) = ck_ClusterName state"
    using bound(5) by (simp add: purgeOptions_def state')
  with first second(3) show ?thesis
    unfolding state' pre st
    by (intro exI [of _ p] exI [of _ "ClusterRead req (Inr observed) # owners
       @ SecretRead (osc_Namespace observed, ident_Name (osc_IdentityRef observed)) (Inr secret) # q"]
        exI [of _ observed1] exI [of _ secret1] exI [of _ binding] exI [of _ "purgeOptions r observed secret"]) simp
qed


subsection \<open>Released clusters\<close>

text \<open>The third reason for a release goes back to a session that verified the same cluster.\<close>

lemma released_after_secret:
  assumes "documentedKubernetes k" and "history k pkg r l" and "authenticCheckpoints l"
    and "l = pre @ ClusterRead key (Inr observed) # post"
    and "resumes pkg r observed None state secretDeleteStarted"
  shows "\<exists>options. SessionCleaned options (Inr ()) \<in> set pre
     \<and> toValidUTF8 (po_ClusterName options) = clusterNameFor observed
     \<and> po_DeleteVolumes options = (volumesPolicyFor r observed = PolicyDelete)"
proof -
  have read: "readCredentialCheckpoint (pkg_url pkg) observed = Inr (Some state)" "ck_Phase state = secretDeleteStarted"
    and bound: "ck_ClusterName state = clusterNameFor observed" "ck_VolumesPolicy state = volumesPolicyFor r observed"
    using assms(5) by (auto simp: resumes_def checkCheckpointBinding_def split: if_splits)
  obtain p q observed1 secret1 binding where *: "pre = p @ q"
    "SessionCleaned (purgeOptions r observed1 secret1) (Inr ()) \<in> set p"
    "state = (sanitisedCheckpoint (firstCheckpoint r observed1 secret1 binding))\<lparr>ck_Phase := secretDeleteStarted\<rparr>"
    using second_checkpoint_means [OF assms(1-4) read] by blast
  have policy: "toValidUTF8 (volumesPolicyFor r observed1) = volumesPolicyFor r observed1"
    by (simp add: volumesPolicyFor_def Let_def PolicyDelete_def byte_def)
  have "ck_ClusterName state = toValidUTF8 (clusterNameFor observed1)"
    "ck_VolumesPolicy state = volumesPolicyFor r observed1"
    by (simp_all add: *(3) sanitisedCheckpoint_def firstCheckpoint_def policy)
  with bound * show ?thesis
    by (intro exI [of _ "purgeOptions r observed1 secret1"]) (simp add: purgeOptions_def)
qed

text \<open>
  What the controller relies on in the code that cleans up: a cleanup or a verification that
  reports success, by the hooks or the package that the reconciler uses, stands for
  \<open>clean options\<close>.
\<close>

locale cleanup_provider =
  fixes pkg :: "'w openstackPackage" and r :: "'w OpenStackClusterReconciler"
    and clean :: "PurgeOptions \<Rightarrow> bool"
  assumes cleaned: "cleanResources pkg r options w = (Inr (), w') \<Longrightarrow> clean options"
    and verified: "newCleanupSession pkg r options w0 = (Inr s, w1) \<Longrightarrow> sess_Cleanup s w = (Inr (), w') \<Longrightarrow> clean options"
begin

lemma answered_clean:
  assumes "answered pkg r (ResourcesCleaned options (Inr ())) \<or> answered pkg r (SessionCleaned options (Inr ()))"
  shows "clean options"
  using assms
proof
  assume "answered pkg r (ResourcesCleaned options (Inr ()))"
  then obtain w where "fst (cleanResources pkg r options w) = Inr ()" by auto
  then show ?thesis using cleaned [of options w "snd (cleanResources pkg r options w)"]
    by (metis prod.collapse)
next
  assume "answered pkg r (SessionCleaned options (Inr ()))"
  then obtain s w0 w where "fst (newCleanupSession pkg r options w0) = Inr s" "fst (sess_Cleanup s w) = Inr ()"
    by auto
  then show ?thesis using verified by (metis prod.collapse)
qed

lemma released_clean:
  assumes "documentedKubernetes k" and "history k pkg r l" and "authenticCheckpoints l"
    and "l = pre @ ClusterPatched base new a # post"
    and "Finalizer \<in> set (osc_Finalizers base)" and "Finalizer \<notin> set (osc_Finalizers new)"
  shows "\<exists>options. (ResourcesCleaned options (Inr ()) \<in> set pre \<or> SessionCleaned options (Inr ()) \<in> set pre)
      \<and> toValidUTF8 (po_ClusterName options) = toValidUTF8 (clusterNameFor base)
      \<and> po_DeleteVolumes options = (volumesPolicyFor r base = PolicyDelete) \<and> clean options"
proof -
  obtain h pre2 req where pre: "pre = h @ pre2"
    and perm: "permitted k pkg r req pre2 (ClusterPatched base new a)"
    using history_permitted [OF assms(2,4)] by auto
  from permitted_release [OF assms(1) perm assms(5,6)] obtain observed secret0 sole pre' seg where
    pre2: "pre2 = pre' @ seg" and read: "ClusterRead req (Inr observed) \<in> set pre'"
    and fresh: "freshInputs k r observed secret0 sole base seg"
    and reasons: "(\<exists>secret. ResourcesCleaned (purgeOptions r observed secret) (Inr ()) \<in> set pre')
        \<or> (\<exists>secret. SessionCleaned (purgeOptions r observed secret) (Inr ()) \<in> set pre')
        \<or> (\<exists>state. resumes pkg r observed None state secretDeleteStarted)" by blast
  have same: "clusterNameFor base = clusterNameFor observed" "volumesPolicyFor r base = volumesPolicyFor r observed"
    using fresh by (auto simp: freshInputs_def)
  have options: "po_ClusterName (purgeOptions r observed secret) = clusterNameFor base"
    "po_DeleteVolumes (purgeOptions r observed secret) = (volumesPolicyFor r base = PolicyDelete)" for secret
    by (simp_all add: purgeOptions_def same)
  obtain u v where "pre' = u @ ClusterRead req (Inr observed) # v" using read by (auto simp: in_set_conv_decomp)
  then have l: "l = (h @ u) @ ClusterRead req (Inr observed) # (v @ seg @ ClusterPatched base new a # post)"
    and sub: "set (h @ u) \<subseteq> set pre" using assms(4) pre pre2 by auto
  have "\<exists>options. (ResourcesCleaned options (Inr ()) \<in> set pre \<or> SessionCleaned options (Inr ()) \<in> set pre)
      \<and> toValidUTF8 (po_ClusterName options) = toValidUTF8 (clusterNameFor base)
      \<and> po_DeleteVolumes options = (volumesPolicyFor r base = PolicyDelete)"
    using reasons
  proof (elim disjE exE)
    fix state assume "resumes pkg r observed None state secretDeleteStarted"
    from released_after_secret [OF assms(1-3) l this] show ?thesis
      using sub same by (metis subsetD toValidUTF8_idem)
  qed (use options pre pre2 in fastforce)+
  then obtain options where *:
    "ResourcesCleaned options (Inr ()) \<in> set pre \<or> SessionCleaned options (Inr ()) \<in> set pre"
    "toValidUTF8 (po_ClusterName options) = toValidUTF8 (clusterNameFor base)"
    "po_DeleteVolumes options = (volumesPolicyFor r base = PolicyDelete)" by blast
  have "answered pkg r (ResourcesCleaned options (Inr ())) \<or> answered pkg r (SessionCleaned options (Inr ()))"
    using * history_answered [OF assms(2)] assms(4) by (auto simp: list_all_iff simp del: answered.simps)
  with * show ?thesis using answered_clean by blast
qed

end

text \<open>
  The janitor as it is deployed has no hooks: the functions of the \<open>openstack\<close> package clean
  up, and their success means that nothing is left.
\<close>

definition withoutHooks :: "'w OpenStackClusterReconciler \<Rightarrow> 'w OpenStackClusterReconciler" where
  "withoutHooks r = r\<lparr>rec_CleanupFunc := None, rec_NewSession := None\<rparr>"

definition leftClean ::
  "('w, 'p, 'pool, 'c, 'entry) openstack \<Rightarrow> 'w pagerResponses \<Rightarrow> PurgeOptions \<Rightarrow> bool"
where
  "leftClean os responses options \<longleftrightarrow>
     (\<exists>s w0 w1 w w'. NewCleanupSession os options w0 = (Inr s, w1) \<and> nothingLeft os responses s w w')"

interpretation deployed: cleanup_provider "openstackPackageOf os" "withoutHooks r"
  "\<lambda>options. documentedOpenstack os responses failure \<longrightarrow> leftClean os responses options"
proof (unfold_locales, goal_cases)
  case (1 options w w')
  then obtain s w1 where "NewCleanupSession os options w = (Inr s, w1)" "SessionCleanup os s w1 = (Inr (), w')"
    by (auto simp: cleanResources_def withoutHooks_def openstackPackageOf_def PurgeResources_def andThen_def
        split: prod.splits sum.splits)
  then show ?case unfolding leftClean_def using session_success_nothing_left [of os responses failure s w1 w'] by blast
next
  case (2 options w0 s w1 w w')
  then obtain s' where "NewCleanupSession os options w0 = (Inr s', w1)" "SessionCleanup os s' w = (Inr (), w')"
    by (auto simp: newCleanupSession_def withoutHooks_def openstackPackageOf_def openstackSession_def
        andThen_def ret_def split: prod.splits sum.splits)
  then show ?case unfolding leftClean_def using session_success_nothing_left [of os responses failure s' w w'] by blast
qed

text \<open>
  C1. A released cluster has left nothing behind. In every history of the janitor as it is
  deployed, over documented pagers, before the finalizer of a cluster is removed, by
  whichever way, a cleanup or a verification for this cluster's name and volumes policy has
  succeeded, and that means that a session for it has received complete collections of
  every kind, one directly after the other, in which no resource of its project belongs to
  the cluster.
\<close>

theorem released_clusters_are_clean:
  assumes "documentedKubernetes k" and "documentedOpenstack os responses failure"
    and "rec_CleanupFunc r = None" and "rec_NewSession r = None"
    and "history k (openstackPackageOf os) r l" and "authenticCheckpoints l"
    and "l = pre @ ClusterPatched base new a # post"
    and "Finalizer \<in> set (osc_Finalizers base)" and "Finalizer \<notin> set (osc_Finalizers new)"
  shows "\<exists>options s w0 w1 w w'.
     (ResourcesCleaned options (Inr ()) \<in> set pre \<or> SessionCleaned options (Inr ()) \<in> set pre)
   \<and> toValidUTF8 (po_ClusterName options) = toValidUTF8 (clusterNameFor base)
   \<and> po_DeleteVolumes options = (volumesPolicyFor r base = PolicyDelete)
   \<and> NewCleanupSession os options w0 = (Inr s, w1) \<and> nothingLeft os responses s w w'"
proof -
  have r: "withoutHooks r = r" using assms(3,4) by (simp add: withoutHooks_def)
  from deployed.released_clean [of k os r l pre base new a post responses failure] assms(1,2,5-9)
  show ?thesis unfolding r leftClean_def by blast
qed

end
