(* ===== verification/Controller_Liveness.thy ===== *)
theory Controller_Liveness
  imports Controller_Protocol Cleanup_Convergence
begin

section \<open>Deletion completes\<close>

text \<open>
  What the reconciliations of a deletion achieve when nobody interferes: an API server on
  which only the janitor writes, and a project in which every cleanup iteration has its
  effect at once. What is assumed of both is stated over the part of the world that matters,
  which \<open>look\<close> reads off.
\<close>

record view =
  the_cluster :: "OpenStackCluster option"
  the_secret :: "Secret option"
  credential_live :: bool
  inventory :: Inventory

subsection \<open>A quiet API server\<close>

text \<open>
  Reads answer what is stored. A patch of the stored cluster stores the new object under some
  resource version, or removes it, if it was being deleted and has no finalizer left. A Secret
  is deleted at its UID and resource version. Owners do not pause \<open>c\<close>, no other cluster of its
  namespace uses its Secret.
\<close>

definition stores :: "('w \<Rightarrow> view) \<Rightarrow> 'w OpenStackClusterReconciler \<Rightarrow> kubernetes \<Rightarrow> bool" where
  "stores look r k \<longleftrightarrow>
     (\<forall>key w. wp (GetOpenStackCluster (reader r) key) (\<lambda>a w'. look w' = look w
        \<and> (case the_cluster (look w) of None \<Rightarrow> (\<exists>e. a = Inl e \<and> IsNotFound k e)
           | Some c \<Rightarrow> key = objectKey c \<longrightarrow> a = Inr c)) w)
   \<and> (\<forall>key w. wp (GetSecret (reader r) key) (\<lambda>a w'. look w' = look w
        \<and> (case the_secret (look w) of None \<Rightarrow> (\<exists>e. a = Inl e \<and> IsNotFound k e)
           | Some s \<Rightarrow> key = (secret_Namespace s, secret_Name s) \<longrightarrow> a = Inr s)) w)
   \<and> (\<forall>base new w. the_cluster (look w) = Some base \<longrightarrow>
        wp (PatchCluster (rec_Client r) base new) (\<lambda>a w'. \<exists>version.
           a = Inr (new\<lparr>osc_ResourceVersion := version\<rparr>)
         \<and> look w' = (look w)\<lparr>the_cluster :=
             (if osc_DeletionTimestamp new \<noteq> None \<and> osc_Finalizers new = [] then None
              else Some (new\<lparr>osc_ResourceVersion := version\<rparr>))\<rparr>) w)
   \<and> (\<forall>s w. the_secret (look w) = Some s \<longrightarrow>
        wp (DeleteSecret (rec_Client r) s (secret_UID s) (secret_ResourceVersion s))
          (\<lambda>a w'. a = Inr () \<and> look w' = (look w)\<lparr>the_secret := None\<rparr>) w)"

definition leavesAlone :: "('w \<Rightarrow> view) \<Rightarrow> 'w OpenStackClusterReconciler \<Rightarrow> kubernetes \<Rightarrow> OpenStackCluster \<Rightarrow> bool" where
  "leavesAlone look r k c \<longleftrightarrow>
     \<not> hasPauseAnnotation k (osc_Annotations c)
   \<and> clusterv1_PausedAnnotation k \<noteq> CredentialCheckpointAnnotation
   \<and> (\<forall>key w. wp (GetCluster (reader r) key) (\<lambda>a w'. look w' = look w
        \<and> (case a of Inl e \<Rightarrow> IsNotFound k e
           | Inr owner \<Rightarrow> \<not> cluster_Paused owner \<and> \<not> hasPauseAnnotation k (cluster_Annotations owner))) w)
   \<and> (\<forall>w. wp (ListOpenStackClusters (reader r) (osc_Namespace c)) (\<lambda>a w'. look w' = look w
        \<and> (\<exists>clusters. a = Inr clusters \<and> \<not> sharedIn c clusters)) w)
   \<and> (\<forall>outcome w. wp (countCleanup r outcome) (\<lambda>_ w'. look w' = look w) w)
   \<and> (\<forall>obj eventType reason message w.
        wp (recordEvent r obj eventType reason message) (\<lambda>_ w'. look w' = look w) w)"

subsection \<open>A cloud that gives way\<close>

text \<open>
  A cleanup deletes the next kind of resources that the cluster owns and reports that it has to
  wait, or finds nothing left and succeeds. A session opens as long as the credential exists,
  always with the same binding, and deletes the credential at once.
\<close>

definition givesWay :: "('w \<Rightarrow> view) \<Rightarrow> string \<Rightarrow> Policy \<Rightarrow> ('w, error, unit) act \<Rightarrow> bool" where
  "givesWay look name policy m \<longleftrightarrow>
     (\<forall>w. credential_live (look w) \<longrightarrow> cleanable name (inventory (look w)) \<longrightarrow>
        wp m (\<lambda>a w'.
          case nextKind name policy (inventory (look w)) of
            None \<Rightarrow> a = Inr () \<and> look w' = look w
          | Some k \<Rightarrow> look w' = (look w)\<lparr>inventory := purgeKind name k (inventory (look w))\<rparr>
              \<and> (\<exists>e. a = Inl e \<and> \<not> Is e ErrPaused)) w)"

abbreviation policyOf :: "PurgeOptions \<Rightarrow> Policy" where
  "policyOf options \<equiv> \<lparr>DeleteVolumes = po_DeleteVolumes options\<rparr>"

definition cooperates ::
  "('w \<Rightarrow> view) \<Rightarrow> 'w OpenStackClusterReconciler \<Rightarrow> 'w openstackPackage \<Rightarrow> PurgeOptions \<Rightarrow> CredentialBinding \<Rightarrow> bool"
where
  "cooperates look r pkg options b \<longleftrightarrow>
     givesWay look (po_ClusterName options) (policyOf options) (cleanResources pkg r options)
   \<and> (\<forall>w. credential_live (look w) \<longrightarrow>
        wp (newCleanupSession pkg r options) (\<lambda>a w'. look w' = look w
          \<and> (\<exists>session. a = Inr session \<and> sess_Binding session = b
             \<and> givesWay look (po_ClusterName options) (policyOf options) (sess_Cleanup session)
             \<and> (\<forall>w. credential_live (look w) \<longrightarrow>
                  wp (sess_DeleteApplicationCredential session (cb_CredentialID b))
                   (\<lambda>a w'. a = Inr () \<and> look w' = (look w)\<lparr>credential_live := False\<rparr>) w))) w)"

subsection \<open>A cluster that can be deleted\<close>

definition describes :: "CredentialConfig \<Rightarrow> CredentialBinding \<Rightarrow> bool" where
  "describes config b \<longleftrightarrow>
     cfg_Authority config = cb_Authority b \<and> cfg_Region config = cb_Region b
   \<and> cfg_Interface config = cb_Interface b \<and> cfg_CloudName config = cb_CloudName b
   \<and> cfg_CredentialID config = cb_CredentialID b
   \<and> cfg_ProjectID config \<in> {'''', cb_ProjectID b} \<and> cfg_UserID config \<in> {'''', cb_UserID b}"

text \<open>
  The cluster is being deleted, its only finalizer is the janitor's, its Secret is there, and
  the credential's configuration is that of the session.
\<close>

definition deletable ::
  "'w OpenStackClusterReconciler \<Rightarrow> 'w openstackPackage \<Rightarrow> OpenStackCluster \<Rightarrow> Secret \<Rightarrow> CredentialBinding \<Rightarrow> bool"
where
  "deletable r pkg c s b \<longleftrightarrow>
     osc_DeletionTimestamp c \<noteq> None \<and> osc_Finalizers c = [Finalizer] \<and> usableIdentity c
   \<and> osc_Annotations c CredentialCheckpointAnnotation = None
   \<and> secret_Namespace s = osc_Namespace c \<and> secret_Name s = ident_Name (osc_IdentityRef c)
   \<and> secret_DeletionTimestamp s = None
   \<and> cb_CloudName b = selectedCloudName c
   \<and> (\<exists>config. pkg_DescribeCredential pkg (purgeOptions r c s) = Inr config \<and> describes config b)
   \<and> validCheckpoint (pkg_url pkg) (firstCheckpoint r c s b) \<and> utf8Checkpoint (firstCheckpoint r c s b)"

text \<open>The cluster under another resource version, with the checkpoint annotation that is given.\<close>

definition recordedAs :: "OpenStackCluster \<Rightarrow> credentialCheckpoint option \<Rightarrow> OpenStackCluster \<Rightarrow> bool" where
  "recordedAs c state c' \<longleftrightarrow>
     (\<exists>version. c' = c\<lparr>osc_Annotations := (osc_Annotations c)(CredentialCheckpointAnnotation :=
                          map_option marshalCheckpoint state),
                       osc_ResourceVersion := version\<rparr>)"

subsection \<open>The reads and the checks\<close>

lemma wp_inspectI: "wp m (\<lambda>a w'. wp (h a) Q w') w \<Longrightarrow> wp (inspect m h) Q w"
  by (simp add: wp_rules)

lemma recordedAs_fields:
  assumes "recordedAs c state c'"
  shows "osc_Name c' = osc_Name c" "osc_Namespace c' = osc_Namespace c" "osc_UID c' = osc_UID c"
    "osc_Generation c' = osc_Generation c" "osc_Labels c' = osc_Labels c" "osc_Finalizers c' = osc_Finalizers c"
    "osc_OwnerReferences c' = osc_OwnerReferences c" "osc_DeletionTimestamp c' = osc_DeletionTimestamp c"
    "osc_IdentityRef c' = osc_IdentityRef c"
    "osc_Annotations c' = (osc_Annotations c)(CredentialCheckpointAnnotation := map_option marshalCheckpoint state)"
  using assms by (auto simp: recordedAs_def)

lemma recordedAs_names:
  assumes "recordedAs c state c'"
  shows "clusterNameFor c' = clusterNameFor c" "selectedCloudName c' = selectedCloudName c"
    "objectKey c' = objectKey c" "volumesPolicyFor r c' = volumesPolicyFor r c"
    "purgeOptions r c' s = purgeOptions r c s" "usableIdentity c' = usableIdentity c"
    "sharedIn c' = sharedIn c"
    "clusterv1_PausedAnnotation k \<noteq> CredentialCheckpointAnnotation \<Longrightarrow>
       hasPauseAnnotation k (osc_Annotations c') = hasPauseAnnotation k (osc_Annotations c)"
proof -
  show name: "clusterNameFor c' = clusterNameFor c"
    by (simp add: clusterNameFor_def recordedAs_fields [OF assms] split: option.split)
  show cloud: "selectedCloudName c' = selectedCloudName c"
    by (simp add: selectedCloudName_def recordedAs_fields [OF assms])
  show "objectKey c' = objectKey c" by (simp add: objectKey_def recordedAs_fields [OF assms])
  show policy: "volumesPolicyFor r c' = volumesPolicyFor r c"
    by (simp add: volumesPolicyFor_def recordedAs_fields [OF assms] VolumesPolicyAnnotation_def
        CredentialCheckpointAnnotation_def)
  show "purgeOptions r c' s = purgeOptions r c s" by (simp add: purgeOptions_def name cloud policy)
  show "usableIdentity c' = usableIdentity c" by (simp add: usableIdentity_def name recordedAs_fields [OF assms])
  show "sharedIn c' = sharedIn c" by (simp add: fun_eq_iff sharedIn_def recordedAs_fields [OF assms])
  show "clusterv1_PausedAnnotation k \<noteq> CredentialCheckpointAnnotation \<Longrightarrow>
       hasPauseAnnotation k (osc_Annotations c') = hasPauseAnnotation k (osc_Annotations c)"
    by (simp add: hasPauseAnnotation_def recordedAs_fields [OF assms])
qed

lemma quiet_cluster:
  assumes "stores look r k" and "look w = v" and "the_cluster v = Some c" and "key = objectKey c"
    and "\<And>w'. look w' = v \<Longrightarrow> Q (Inr c) w'"
  shows "wp (GetOpenStackCluster (reader r) key) Q w"
proof -
  have "wp (GetOpenStackCluster (reader r) key) (\<lambda>a w'. look w' = look w
        \<and> (case the_cluster (look w) of None \<Rightarrow> (\<exists>e. a = Inl e \<and> IsNotFound k e)
           | Some c \<Rightarrow> key = objectKey c \<longrightarrow> a = Inr c)) w"
    using assms(1) unfolding stores_def by blast
  then show ?thesis by (rule wp_mono) (use assms(2-5) in auto)
qed

lemma quiet_secret:
  assumes "stores look r k" and "documentedKubernetes k" and "look w = v"
    and "\<And>s. the_secret v = Some s \<Longrightarrow> (namespace, name) = (secret_Namespace s, secret_Name s)"
    and "\<And>w'. look w' = v \<Longrightarrow> Q (Inr (the_secret v)) w'"
  shows "wp (findSecret k r name namespace) Q w"
proof -
  have "wp (GetSecret (reader r) (namespace, name)) (\<lambda>a w'. look w' = look w
        \<and> (case the_secret (look w) of None \<Rightarrow> (\<exists>e. a = Inl e \<and> IsNotFound k e)
           | Some s \<Rightarrow> (namespace, name) = (secret_Namespace s, secret_Name s) \<longrightarrow> a = Inr s)) w"
    using assms(1) unfolding stores_def by blast
  then show ?thesis unfolding findSecret_def
    by (intro wp_inspectI, elim wp_mono) (use assms(3-5) in \<open>auto simp: wp_rules split: option.splits\<close>)
qed

lemma quiet_owners:
  assumes "leavesAlone look r k c" and "look w = v" and "\<And>w'. look w' = v \<Longrightarrow> Q (Inr False) w'"
  shows "wp (ownerPaused k (reader r) namespace refs) Q w"
  using assms(2)
proof (induction refs arbitrary: w)
  case (Cons ref refs)
  have "wp (GetCluster (reader r) (namespace, ref_Name ref)) (\<lambda>a w'. look w' = look w
        \<and> (case a of Inl e \<Rightarrow> IsNotFound k e
           | Inr owner \<Rightarrow> \<not> cluster_Paused owner \<and> \<not> hasPauseAnnotation k (cluster_Annotations owner))) w"
    using assms(1) unfolding leavesAlone_def by blast
  then have "wp (GetCluster (reader r) (namespace, ref_Name ref)) (\<lambda>a w'.
      wp (case a of Inl err \<Rightarrow>
               if IsNotFound k err then ownerPaused k (reader r) namespace refs
               else fail (Wrapf [Txt ''reading owning Cluster''] err)
           | Inr owner \<Rightarrow>
               if cluster_UID owner = ref_UID ref
                  \<and> (cluster_Paused owner \<or> hasPauseAnnotation k (cluster_Annotations owner))
               then ret True
               else ownerPaused k (reader r) namespace refs) Q w') w"
    by (rule wp_mono) (use Cons in \<open>auto split: sum.splits\<close>)
  then show ?case using Cons by (auto intro: wp_inspectI)
qed (simp add: wp_rules assms(3))

lemma quiet_pause:
  assumes "leavesAlone look r k c" and "recordedAs c state c'" and "look w = v"
    and "\<And>w'. look w' = v \<Longrightarrow> Q (Inr False) w'"
  shows "wp (isPaused k (reader r) c') Q w"
proof -
  have "\<not> hasPauseAnnotation k (osc_Annotations c')"
    using assms(1) recordedAs_names(8) [OF assms(2), of k] unfolding leavesAlone_def by simp
  then show ?thesis unfolding isPaused_def using quiet_owners [where Q = Q, OF assms(1,3,4)] by simp
qed

lemma quiet_inputs:
  assumes "stores look r k" and "documentedKubernetes k" and "leavesAlone look r k c"
    and "deletable r pkg c s b" and "recordedAs c state c'"
    and "look w = v" and "the_cluster v = Some c'" and "the_secret v \<in> {None, Some s}"
    and "\<And>w'. look w' = v \<Longrightarrow> Q (Inr c') w'"
  shows "wp (checkCleanupInputs k r c' (the_secret v) sole) Q w"
proof -
  note same = recordedAs_fields [OF assms(5)] recordedAs_names [OF assms(5)]
  have unchanged: "\<not> secretChanged (the_secret v) (the_secret v)" "\<not> inputsChanged k r c' c'"
    using assms(2,4) by (auto simp: secretChanged_def inputsChanged_def deletable_def documentedKubernetes_def
        same split: option.splits)
  have sole: "length (osc_Finalizers c') = 1" using assms(4) by (simp add: deletable_def same)
  have key: "the_secret v = Some s' \<Longrightarrow>
      (osc_Namespace c', ident_Name (osc_IdentityRef c')) = (secret_Namespace s', secret_Name s')" for s'
    using assms(4,8) by (auto simp: deletable_def same)
  show ?thesis unfolding checkCleanupInputs_def wp_andThen
    by (rule quiet_secret [OF assms(1,2,6)])
       (use key in \<open>auto simp: unchanged wp_rules sole
          intro!: quiet_cluster [OF assms(1) _ assms(7)] quiet_pause [OF assms(3,5)] assms(9)\<close>)
qed

lemma quiet_references:
  assumes "leavesAlone look r k c" and "recordedAs c state c'" and "look w = v"
    and "\<And>w'. look w' = v \<Longrightarrow> Q (Inr False) w'"
  shows "wp (hasOtherSecretReferences r c') Q w"
proof -
  have "wp (ListOpenStackClusters (reader r) (osc_Namespace c)) (\<lambda>a w'. look w' = look w
        \<and> (\<exists>clusters. a = Inr clusters \<and> \<not> sharedIn c clusters)) w"
    using assms(1) unfolding leavesAlone_def by blast
  then show ?thesis unfolding hasOtherSecretReferences_def wp_andThen wp_wrapErr recordedAs_fields [OF assms(2)]
    by (rule wp_mono)
       (use assms(3,4) in \<open>auto simp: wp_rules list_ex_referencesSameSecret recordedAs_names [OF assms(2)]\<close>)
qed

lemma quiet_reports:
  assumes "leavesAlone look r k c" and "\<And>a w'. look w' = look w \<Longrightarrow> Q a w'"
  shows "wp (countCleanup r outcome) Q w" "wp (recordEvent r obj eventType reason message) Q w"
proof -
  have "wp (countCleanup r outcome) (\<lambda>_ w'. look w' = look w) w"
    "wp (recordEvent r obj eventType reason message) (\<lambda>_ w'. look w' = look w) w"
    using assms(1) unfolding leavesAlone_def by blast+
  then show "wp (countCleanup r outcome) Q w" "wp (recordEvent r obj eventType reason message) Q w"
    by (auto elim!: wp_mono simp: assms(2))
qed

text \<open>A patch of the cluster that was just read.\<close>

lemma quiet_patch:
  assumes "stores look r k" and "look w = v" and "the_cluster v = Some base"
    and "\<And>version w'. look w' = v\<lparr>the_cluster :=
            (if osc_DeletionTimestamp new \<noteq> None \<and> osc_Finalizers new = [] then None
             else Some (new\<lparr>osc_ResourceVersion := version\<rparr>))\<rparr> \<Longrightarrow> Q (Inr (new\<lparr>osc_ResourceVersion := version\<rparr>)) w'"
  shows "wp (PatchCluster (rec_Client r) base new) Q w"
proof -
  have "wp (PatchCluster (rec_Client r) base new) (\<lambda>a w'. \<exists>version.
           a = Inr (new\<lparr>osc_ResourceVersion := version\<rparr>)
         \<and> look w' = (look w)\<lparr>the_cluster :=
             (if osc_DeletionTimestamp new \<noteq> None \<and> osc_Finalizers new = [] then None
              else Some (new\<lparr>osc_ResourceVersion := version\<rparr>))\<rparr>) w"
    using assms(1-3) unfolding stores_def by blast
  then show ?thesis by (rule wp_mono) (use assms(2,4) in blast)
qed

lemma quiet_save:
  assumes "stores look r k" and "documentedKubernetes k" and "leavesAlone look r k c"
    and "deletable r pkg c s b" and "recordedAs c state c'"
    and "look w = v" and "the_cluster v = Some c'" and "the_secret v = Some s"
    and "\<And>c'' w'. look w' = v\<lparr>the_cluster := Some c''\<rparr> \<Longrightarrow> recordedAs c (Some state') c'' \<Longrightarrow> Q (Inr requeueResult) w'"
  shows "wp (saveCredentialCheckpoint k r c' (Some s) state') Q w"
proof -
  let ?new = "c'\<lparr>osc_Annotations := (osc_Annotations c')(CredentialCheckpointAnnotation \<mapsto> marshalCheckpoint state')\<rparr>"
  have kept: "osc_Finalizers ?new \<noteq> []"
    using assms(4) by (simp add: deletable_def recordedAs_fields [OF assms(5)])
  have recorded: "recordedAs c (Some state') (?new\<lparr>osc_ResourceVersion := version\<rparr>)" for version
    using assms(5) by (auto simp: recordedAs_def)
  have "wp (checkCleanupInputs k r c' (the_secret v) True)
      (\<lambda>a w'. wp (case a of Inl err \<Rightarrow> ignoringNotFound k err
        | Inr latest \<Rightarrow>
            inspect (PatchCluster (rec_Client r) latest
                       (latest\<lparr>osc_Annotations :=
                          (osc_Annotations latest)(CredentialCheckpointAnnotation \<mapsto> marshalCheckpoint state')\<rparr>))
              (\<lambda>patched. case patched of
                 Inl err \<Rightarrow> ignoringNotFound k (Wrapf [Txt ''saving credential cleanup checkpoint''] err)
               | Inr updated \<Rightarrow> ret requeueResult)) Q w') w"
    by (rule quiet_inputs [OF assms(1-7)])
       (use assms(8) kept in \<open>auto intro!: wp_inspectI quiet_patch [OF assms(1) _ assms(7)] assms(9) [OF _ recorded]
          simp: wp_ret split: if_splits\<close>)
  then show ?thesis unfolding saveCredentialCheckpoint_def using assms(8) by (intro wp_inspectI) simp
qed

lemma quiet_finish:
  assumes "stores look r k" and "documentedKubernetes k" and "leavesAlone look r k c"
    and "deletable r pkg c s b" and "recordedAs c state c'"
    and "look w = v" and "the_cluster v = Some c'" and "the_secret v = secret" and "secret \<in> {None, Some s}"
    and "\<And>w'. look w' = v\<lparr>the_cluster := None\<rparr> \<Longrightarrow> Q (Inr emptyResult) w'"
  shows "wp (finishCleanup k r c' secret sole) Q w"
proof -
  have gone: "osc_DeletionTimestamp (RemoveFinalizer k c' Finalizer) \<noteq> None
      \<and> osc_Finalizers (RemoveFinalizer k c' Finalizer) = []"
    using assms(2,4) by (simp add: documentedKubernetes_def deletable_def recordedAs_fields [OF assms(5)])
  have "wp (checkCleanupInputs k r c' (the_secret v) sole) (\<lambda>a w'. wp (case a of
        Inl err \<Rightarrow> ignoringNotFound k err
      | Inr latest \<Rightarrow>
            inspect (PatchCluster (rec_Client r) latest (RemoveFinalizer k latest Finalizer))
              (\<lambda>patched. case patched of
                 Inl err \<Rightarrow> ignoringNotFound k (Wrapf [Txt ''removing finalizer''] err)
               | Inr updated \<Rightarrow>
                   inspect (countCleanup r ''success'') (\<lambda>_.
                   inspect (recordEvent r updated (EventTypeNormal k) ''CleanupSucceeded''
                              ''OpenStack resources cleaned up successfully'') (\<lambda>_.
                   ret emptyResult)))) Q w') w"
    by (rule quiet_inputs [OF assms(1-7)])
       (use assms(8,9) gone in \<open>auto intro!: wp_inspectI quiet_patch [OF assms(1) _ assms(7)]
          quiet_reports [OF assms(3)] assms(10) simp: wp_ret\<close>)
  then show ?thesis unfolding finishCleanup_def using assms(8) by (intro wp_inspectI) simp
qed

subsection \<open>One cleanup attempt\<close>

lemma quiet_attempt:
  assumes "givesWay look name policy m" and "look w = v" and "credential_live v" and "cleanable name (inventory v)"
    and "\<And>w'. nextKind name policy (inventory v) = None \<Longrightarrow> look w' = v \<Longrightarrow> Q (Inr ()) w'"
    and "\<And>k e w'. nextKind name policy (inventory v) = Some k \<Longrightarrow> \<not> Is e ErrPaused \<Longrightarrow>
           look w' = v\<lparr>inventory := purgeKind name k (inventory v)\<rparr> \<Longrightarrow> Q (Inl e) w'"
  shows "wp m Q w"
proof -
  have "wp m (\<lambda>a w'.
          case nextKind name policy (inventory (look w)) of
            None \<Rightarrow> a = Inr () \<and> look w' = look w
          | Some k \<Rightarrow> look w' = (look w)\<lparr>inventory := purgeKind name k (inventory (look w))\<rparr>
              \<and> (\<exists>e. a = Inl e \<and> \<not> Is e ErrPaused)) w"
    using assms(1-4) unfolding givesWay_def by blast
  then show ?thesis by (rule wp_mono) (use assms(2,5,6) in \<open>auto split: option.splits\<close>)
qed

lemma quiet_session:
  assumes "cooperates look r pkg options b" and "look w = v" and "credential_live v"
    and "\<And>session w'. look w' = v \<Longrightarrow> sess_Binding session = b \<Longrightarrow>
       givesWay look (po_ClusterName options) (policyOf options) (sess_Cleanup session) \<Longrightarrow>
       (\<forall>w. credential_live (look w) \<longrightarrow> wp (sess_DeleteApplicationCredential session (cb_CredentialID b))
           (\<lambda>a w'. a = Inr () \<and> look w' = (look w)\<lparr>credential_live := False\<rparr>) w) \<Longrightarrow> Q (Inr session) w'"
  shows "wp (newCleanupSession pkg r options) Q w"
proof -
  have "wp (newCleanupSession pkg r options) (\<lambda>a w'. look w' = look w
          \<and> (\<exists>session. a = Inr session \<and> sess_Binding session = b
             \<and> givesWay look (po_ClusterName options) (policyOf options) (sess_Cleanup session)
             \<and> (\<forall>w. credential_live (look w) \<longrightarrow>
                  wp (sess_DeleteApplicationCredential session (cb_CredentialID b))
                   (\<lambda>a w'. a = Inr () \<and> look w' = (look w)\<lparr>credential_live := False\<rparr>) w))) w"
    using assms(1-3) unfolding cooperates_def by blast
  then show ?thesis by (rule wp_mono) (use assms(2,4) in auto)
qed

subsection \<open>The reconciliations\<close>

text \<open>The setting of a deletion nobody interferes with, and what is recorded after a step.\<close>

definition undisturbed ::
  "kubernetes \<Rightarrow> 'w openstackPackage \<Rightarrow> 'w OpenStackClusterReconciler \<Rightarrow> ('w \<Rightarrow> view)
   \<Rightarrow> OpenStackCluster \<Rightarrow> Secret \<Rightarrow> CredentialBinding \<Rightarrow> bool"
where
  "undisturbed k pkg r look c s b \<longleftrightarrow>
     documentedKubernetes k \<and> stores look r k \<and> leavesAlone look r k c \<and> deletable r pkg c s b
   \<and> cooperates look r pkg (purgeOptions r c s) b"

lemma undisturbedD:
  assumes "undisturbed k pkg r look c s b"
  shows "documentedKubernetes k" "stores look r k" "leavesAlone look r k c" "deletable r pkg c s b"
    "cooperates look r pkg (purgeOptions r c s) b" "givesWay look (clusterNameFor c) (policyOf (purgeOptions r c s)) (cleanResources pkg r (purgeOptions r c s))"
  using assms by (auto simp: undisturbed_def cooperates_def purgeOptions_def)

abbreviation secondCheckpoint ::
  "'w OpenStackClusterReconciler \<Rightarrow> OpenStackCluster \<Rightarrow> Secret \<Rightarrow> CredentialBinding \<Rightarrow> credentialCheckpoint"
where
  "secondCheckpoint r c s b \<equiv> (firstCheckpoint r c s b)\<lparr>ck_Phase := secretDeleteStarted\<rparr>"

lemma checkpoints_differ [simp]: "secondCheckpoint r c s b \<noteq> firstCheckpoint r c s b"
  by (simp add: firstCheckpoint_def phases_sanitised(3) [symmetric])

lemma recorded_reads_back:
  assumes "deletable r pkg c s b" and "recordedAs c (Some state) c'"
    and "state \<in> {firstCheckpoint r c s b, secondCheckpoint r c s b}"
  shows "readCredentialCheckpoint (pkg_url pkg) c' = Inr (Some state)"
proof -
  have valid: "validCheckpoint (pkg_url pkg) state"
    using assms(1,3) by (auto simp: deletable_def validCheckpoint_def)
  have "utf8Valid secretDeleteStarted" by (simp add: secretDeleteStarted_def byte_def)
  then have utf8: "utf8Checkpoint state" using assms(1,3) by (auto simp: deletable_def utf8Checkpoint_def)
  have "ck_Version state = 1" using valid by (simp add: validCheckpoint_def)
  with decode_marshal [of state] valid show ?thesis
    by (simp add: readCredentialCheckpoint_Inr recordedAs_fields [OF assms(2)] sanitisedCheckpoint_id [OF utf8])
qed

lemma recorded_binds:
  assumes "deletable r pkg c s b" and "recordedAs c old c'" and "deletePolicy s"
    and "secret = Some s \<and> state \<in> {firstCheckpoint r c s b, secondCheckpoint r c s b}
       \<or> secret = None \<and> state = secondCheckpoint r c s b"
  shows "checkCheckpointBinding pkg r c' secret state = Inr ()"
proof -
  have policy: "index_map (secret_Annotations s) CredentialPolicyAnnotation = PolicyDelete"
    using assms(3) by (simp add: deletePolicy_def index_map_def)
  show ?thesis
    using assms(1,4) by (auto simp: checkCheckpointBinding_def deletable_def describes_def firstCheckpoint_def policy
        recordedAs_fields [OF assms(2)] recordedAs_names [OF assms(2)])
qed

text \<open>What \<open>reconcileDelete\<close> does first, when the cluster is as recorded.\<close>

lemma quiet_deletion:
  assumes "undisturbed k pkg r look c s b" and "recordedAs c state c'"
    and "state \<in> {None, Some (firstCheckpoint r c s b), Some (secondCheckpoint r c s b)}"
    and "look w = v" and "the_secret v \<in> {None, Some s}"
    and "\<And>w'. look w' = v \<Longrightarrow>
       wp (case state of
             Some st \<Rightarrow> resumeCredentialCleanup k pkg r c' (the_secret v) st
           | None \<Rightarrow>
              (case the_secret v of
                 None \<Rightarrow> fail (Errorf [Txt ''identity Secret '', Quo (ident_Name (osc_IdentityRef c')), Txt '' not found''])
               | Some secret \<Rightarrow>
                   if index_map (secret_Annotations secret) CredentialPolicyAnnotation \<noteq> PolicyDelete
                   then andThen (wrapErr (Wrapf [Txt ''cleaning OpenStack resources''])
                                   (cleanResources pkg r (purgeOptions r c' secret)))
                          (\<lambda>_. finishCleanup k r c' (Some secret) False)
                   else startCredentialCleanup k pkg r c' secret)) Q w'"
  shows "wp (reconcileDelete k pkg r c') Q w"
proof -
  note facts = undisturbedD [OF assms(1)]
  have "usableIdentity c'" using facts(4) by (simp add: deletable_def recordedAs_names [OF assms(2)])
  then have usable: "TrimSpace (clusterNameFor c') \<noteq> ''''" "ident_Name (osc_IdentityRef c') \<noteq> ''''"
    "\<not> (ident_Type (osc_IdentityRef c') \<noteq> '''' \<and> ident_Type (osc_IdentityRef c') \<noteq> ''Secret'')"
    by (auto simp: usableIdentity_def)
  have read: "readCredentialCheckpoint (pkg_url pkg) c' = Inr state"
  proof (cases state)
    case None
    then show ?thesis by (simp add: readCredentialCheckpoint_None recordedAs_fields [OF assms(2)])
  next
    case (Some st)
    then show ?thesis using recorded_reads_back [OF facts(4)] assms(2,3) by auto
  qed
  have key: "the_secret v = Some s' \<Longrightarrow>
      (osc_Namespace c', ident_Name (osc_IdentityRef c')) = (secret_Namespace s', secret_Name s')" for s'
    using facts(4) assms(5) by (auto simp: deletable_def recordedAs_fields [OF assms(2)])
  have "wp (findSecret k r (ident_Name (osc_IdentityRef c')) (osc_Namespace c')) P w"
    if "\<And>w'. look w' = v \<Longrightarrow> P (Inr (the_secret v)) w'" for P
    using key that by (intro quiet_secret [OF facts(2,1) assms(4)]) simp_all
  then show ?thesis
    unfolding reconcileDelete_def Let_def
    by (simp only: usable if_False wp_andThen wp_wrapErr wp_lift_res read sum.case) (simp add: assms(6))
qed

lemma quiet_inputs_present:
  assumes "undisturbed k pkg r look c s b" and "recordedAs c state c'"
    and "look w = v" and "the_cluster v = Some c'" and "the_secret v = Some s"
    and "\<And>w'. look w' = v \<Longrightarrow> Q (Inr c') w'"
  shows "wp (checkCleanupInputs k r c' (Some s) sole) Q w"
  using quiet_inputs [OF undisturbedD(2,1,3,4) [OF assms(1)] assms(2-4), where Q = Q and sole = sole] assms(5,6)
  by simp

text \<open>A cluster whose Secret keeps the credential: the resources, then the release.\<close>

lemma keep_step:
  assumes "undisturbed k pkg r look c s b" and "recordedAs c None c'" and "\<not> deletePolicy s"
    and "look w = v" and "the_cluster v = Some c'" and "the_secret v = Some s" and "credential_live v"
    and "cleanable (clusterNameFor c) (inventory v)"
    and "\<And>w'. nextKind (clusterNameFor c) (policyOf (purgeOptions r c s)) (inventory v) = None \<Longrightarrow>
           look w' = v\<lparr>the_cluster := None\<rparr> \<Longrightarrow> Q (Inr emptyResult) w'"
    and "\<And>k e w'. nextKind (clusterNameFor c) (policyOf (purgeOptions r c s)) (inventory v) = Some k \<Longrightarrow>
           \<not> Is e ErrPaused \<Longrightarrow>
           look w' = v\<lparr>inventory := purgeKind (clusterNameFor c) k (inventory v)\<rparr> \<Longrightarrow> Q (Inl e) w'"
  shows "wp (reconcileDelete k pkg r c') Q w"
proof -
  note facts = undisturbedD [OF assms(1)]
  have policy: "index_map (secret_Annotations s) CredentialPolicyAnnotation \<noteq> PolicyDelete"
    using assms(3) by (simp add: deletePolicy_def PolicyDelete_def index_map_nonempty)
  show ?thesis
    by (rule quiet_deletion [OF assms(1,2) _ assms(4)])
       (auto simp: assms(6) policy wp_andThen wp_wrapErr recordedAs_names [OF assms(2)]
          intro!: quiet_attempt [OF facts(6) _ assms(7,8)] quiet_finish [OF facts(2,1,3,4) assms(2) _ assms(5) assms(6)]
            assms(9,10))
qed

text \<open>The three steps that delete the credential and its Secret, and the release.\<close>

lemma first_step:
  assumes "undisturbed k pkg r look c s b" and "recordedAs c None c'" and "deletePolicy s"
    and "look w = v" and "the_cluster v = Some c'" and "the_secret v = Some s" and "credential_live v"
    and "cleanable (clusterNameFor c) (inventory v)"
    and "\<And>c'' w'. nextKind (clusterNameFor c) (policyOf (purgeOptions r c s)) (inventory v) = None \<Longrightarrow>
           look w' = v\<lparr>the_cluster := Some c''\<rparr> \<Longrightarrow>
           recordedAs c (Some (firstCheckpoint r c s b)) c'' \<Longrightarrow> Q (Inr requeueResult) w'"
    and "\<And>k e w'. nextKind (clusterNameFor c) (policyOf (purgeOptions r c s)) (inventory v) = Some k \<Longrightarrow>
           \<not> Is e ErrPaused \<Longrightarrow>
           look w' = v\<lparr>inventory := purgeKind (clusterNameFor c) k (inventory v)\<rparr> \<Longrightarrow> Q (Inl e) w'"
  shows "wp (reconcileDelete k pkg r c') Q w"
proof -
  note facts = undisturbedD [OF assms(1)]
  have policy: "index_map (secret_Annotations s) CredentialPolicyAnnotation = PolicyDelete"
    using assms(3) by (simp add: deletePolicy_def index_map_def)
  have checkpoint: "\<lparr>ck_Version = 1, ck_Phase = credentialDeleteStarted,
        ck_ClusterUID = osc_UID c', ck_ClusterName = clusterNameFor c',
        ck_SecretName = secret_Name s, ck_SecretUID = secret_UID s,
        ck_Cloud = b, ck_VolumesPolicy = volumesPolicyFor r c',
        ck_CredentialPolicy = PolicyDelete\<rparr> = firstCheckpoint r c s b"
    by (simp add: firstCheckpoint_def recordedAs_fields [OF assms(2)] recordedAs_names [OF assms(2)])
  have complete: "ck_ClusterUID (firstCheckpoint r c s b) \<noteq> ''''" "ck_SecretUID (firstCheckpoint r c s b) \<noteq> ''''"
    "ValidateCredentialBinding (pkg_url pkg) (ck_Cloud (firstCheckpoint r c s b)) = Inr ()"
    using facts(4) by (auto simp: deletable_def validCheckpoint_def)
  have binds: "checkCheckpointBinding pkg r c' (Some s) (firstCheckpoint r c s b) = Inr ()"
    by (rule recorded_binds [OF facts(4) assms(2,3)]) simp
  have options: "purgeOptions r c' s = purgeOptions r c s" by (rule recordedAs_names [OF assms(2)])
  have name: "po_ClusterName (purgeOptions r c s) = clusterNameFor c" by (simp add: purgeOptions_def)
  have start: "wp (startCredentialCleanup k pkg r c' s) Q w1" if "look w1 = v" for w1
    unfolding startCredentialCleanup_def Let_def wp_andThen options
  proof (rule quiet_session [OF facts(5) that assms(7)], goal_cases)
    case (1 session w2)
    show ?case unfolding sum.case wp_andThen wp_wrapErr
    proof (rule quiet_attempt [OF 1(3) [unfolded name] 1(1) assms(7,8)], goal_cases)
      case (1 w3)
      have "wp (hasOtherSecretReferences r c') P w3" if "\<And>w'. look w' = v \<Longrightarrow> P (Inr False) w'" for P
        by (rule quiet_references [OF facts(3) assms(2) 1(2)]) (rule that)
      moreover have "wp (saveCredentialCheckpoint k r c' (Some s) (firstCheckpoint r c s b)) Q w4" if "look w4 = v" for w4
        by (rule quiet_save [OF facts(2,1,3,4) assms(2) that assms(5,6)]) (rule assms(9) [OF 1(1)])
      ultimately show ?case
        by (simp add: \<open>sess_Binding session = b\<close> checkpoint complete binds wp_rules)
    qed (simp add: assms(10))
  qed
  show ?thesis
    by (rule quiet_deletion [OF assms(1,2) _ assms(4)]) (auto simp: assms(6) policy intro: start)
qed

lemma resumed:
  assumes "undisturbed k pkg r look c s b" and "recordedAs c (Some state) c'" and "deletePolicy s"
    and "secret = Some s \<and> state \<in> {firstCheckpoint r c s b, secondCheckpoint r c s b}
       \<or> secret = None \<and> state = secondCheckpoint r c s b"
  shows "resumeCredentialCleanup k pkg r c' secret state =
    (if state = firstCheckpoint r c s b then resumeCredentialDeletion k pkg r c' s state
     else resumeSecretDeletion k r c' secret)"
proof -
  note facts = undisturbedD [OF assms(1)]
  have "ck_Phase (firstCheckpoint r c s b) = credentialDeleteStarted" by (simp add: firstCheckpoint_def)
  moreover have "length (osc_Finalizers c') = 1"
    using facts(4) by (simp add: deletable_def recordedAs_fields [OF assms(2)])
  ultimately show ?thesis
    using assms(4) recorded_binds [OF facts(4) assms(2,3,4)] phases_sanitised(3)
    by (auto simp: resumeCredentialCleanup_def fun_eq_iff andThen_def lift_res_def)
qed

lemma second_step:
  assumes "undisturbed k pkg r look c s b" and "recordedAs c (Some (firstCheckpoint r c s b)) c'" and "deletePolicy s"
    and "look w = v" and "the_cluster v = Some c'" and "the_secret v = Some s" and "credential_live v"
    and "\<And>c'' w'. look w' = v\<lparr>credential_live := False, the_cluster := Some c''\<rparr> \<Longrightarrow>
           recordedAs c (Some (secondCheckpoint r c s b)) c'' \<Longrightarrow> Q (Inr requeueResult) w'"
  shows "wp (reconcileDelete k pkg r c') Q w"
proof -
  note facts = undisturbedD [OF assms(1)]
  have bound: "ck_Cloud (firstCheckpoint r c s b) = b" by (simp add: firstCheckpoint_def)
  note inputs = quiet_inputs_present [OF assms(1,2) _ assms(5,6)]
  have options: "purgeOptions r c' s = purgeOptions r c s" by (rule recordedAs_names [OF assms(2)])
  have resume: "wp (resumeCredentialDeletion k pkg r c' s (firstCheckpoint r c s b)) Q w1" if "look w1 = v" for w1
    unfolding resumeCredentialDeletion_def wp_andThen wp_wrapErr bound options
  proof (rule quiet_session [OF facts(5) that assms(7)], goal_cases)
    case (1 session w2)
    have deleted: "wp (sess_DeleteApplicationCredential session (cb_CredentialID b)) P w3"
      if "look w3 = v" "\<And>w'. look w' = v\<lparr>credential_live := False\<rparr> \<Longrightarrow> P (Inr ()) w'" for P w3
      by (rule wp_mono [OF 1(4) [rule_format, of w3]]) (simp_all add: that assms(7))
    have refs: "wp (hasOtherSecretReferences r c') P w3" if "look w3 = v" "\<And>w'. look w' = v \<Longrightarrow> P (Inr False) w'" for P w3
      by (rule quiet_references [OF facts(3) assms(2) that(1)]) (rule that)
    have saved: "wp (saveCredentialCheckpoint k r c' (Some s) (secondCheckpoint r c s b)) Q w3"
      if "look w3 = v\<lparr>credential_live := False\<rparr>" for w3
      by (rule quiet_save [OF facts(2,1,3,4) assms(2) that])
         (use assms(5,6) in \<open>auto intro: assms(8)\<close>)
    show ?case
      by (simp add: 1(2) wp_inspect) (rule inputs, rule 1(1), simp add: wp_andThen, erule refs,
        simp add: wp_andThen wp_wrapErr, erule deleted, simp add: saved)
  qed
  show ?thesis
    by (rule quiet_deletion [OF assms(1,2) _ assms(4)])
       (auto simp: assms(6) resumed [OF assms(1-3)] intro: resume)
qed

lemma third_step:
  assumes "undisturbed k pkg r look c s b" and "recordedAs c (Some (secondCheckpoint r c s b)) c'" and "deletePolicy s"
    and "look w = v" and "the_cluster v = Some c'" and "the_secret v = Some s"
    and "\<And>w'. look w' = v\<lparr>the_secret := None\<rparr> \<Longrightarrow> Q (Inr requeueResult) w'"
  shows "wp (reconcileDelete k pkg r c') Q w"
proof -
  note facts = undisturbedD [OF assms(1)]
  note inputs = quiet_inputs_present [OF assms(1,2) _ assms(5,6)]
  have deleted: "wp (DeleteSecret (rec_Client r) s (secret_UID s) (secret_ResourceVersion s)) P w1"
    if "look w1 = v" "\<And>w'. look w' = v\<lparr>the_secret := None\<rparr> \<Longrightarrow> P (Inr ()) w'" for P w1
  proof -
    have "wp (DeleteSecret (rec_Client r) s (secret_UID s) (secret_ResourceVersion s))
          (\<lambda>a w'. a = Inr () \<and> look w' = (look w1)\<lparr>the_secret := None\<rparr>) w1"
      using facts(2) that(1) assms(6) unfolding stores_def by blast
    then show ?thesis by (rule wp_mono) (use that in auto)
  qed
  have present: "secret_DeletionTimestamp s = None" using facts(4) by (simp add: deletable_def)
  have resume: "wp (resumeSecretDeletion k r c' (Some s)) Q w1" if "look w1 = v" for w1
    unfolding resumeSecretDeletion_def
    by (auto simp: present wp_rules intro!: inputs that quiet_references [OF facts(3) assms(2), where v = v] deleted assms(7))
  show ?thesis
    by (rule quiet_deletion [OF assms(1,2) _ assms(4)])
       (auto simp: assms(6) resumed [OF assms(1-3)] intro: resume)
qed

lemma last_step:
  assumes "undisturbed k pkg r look c s b" and "recordedAs c (Some (secondCheckpoint r c s b)) c'" and "deletePolicy s"
    and "look w = v" and "the_cluster v = Some c'" and "the_secret v = None"
    and "\<And>w'. look w' = v\<lparr>the_cluster := None\<rparr> \<Longrightarrow> Q (Inr emptyResult) w'"
  shows "wp (reconcileDelete k pkg r c') Q w"
proof -
  note facts = undisturbedD [OF assms(1)]
  have resume: "wp (resumeSecretDeletion k r c' None) Q w1" if "look w1 = v" for w1
    unfolding resumeSecretDeletion_def
    by (auto intro!: quiet_finish [OF facts(2,1,3,4) assms(2) that assms(5,6)] assms(7))
  show ?thesis
    by (rule quiet_deletion [OF assms(1,2) _ assms(4)])
       (auto simp: assms(6) resumed [OF assms(1-3)] intro: resume)
qed


text \<open>The whole reconciliation: a failure is counted, reported and returned, unless it is pending.\<close>

definition again :: "error + ReconcileResult \<Rightarrow> bool" where
  "again a \<longleftrightarrow> (case a of Inl err \<Rightarrow> True | Inr result \<Rightarrow> RequeueAfter result \<noteq> 0)"

lemma again_simps [simp]: "again (Inl err)" "again (Inr requeueResult)" "\<not> again (Inr emptyResult)"
  by (simp_all add: again_def requeueResult_def emptyResult_def pendingDeleteDelay_def)

lemma quiet_reconcile:
  assumes "undisturbed k pkg r look c s b" and "recordedAs c state c'"
    and "look w = v" and "the_cluster v = Some c'"
    and "\<And>w'. look w' = v \<Longrightarrow> wp (reconcileDelete k pkg r c')
           (\<lambda>a w'. case a of Inl err \<Rightarrow> \<not> Is err ErrPaused \<and> P True (look w') | Inr res \<Rightarrow> P (again a) (look w')) w'"
  shows "wp (Reconcile k pkg r (objectKey c)) (\<lambda>a w'. P (again a) (look w')) w"
proof -
  note facts = undisturbedD [OF assms(1)]
  have key: "objectKey c = objectKey c'" by (simp add: recordedAs_names [OF assms(2)])
  have ours: "osc_DeletionTimestamp c' \<noteq> None" "ContainsFinalizer k c' Finalizer"
    using facts(1,4) by (simp_all add: documentedKubernetes_def deletable_def recordedAs_fields [OF assms(2)])
  let ?handler = "\<lambda>deleted. case deleted of
       Inl err \<Rightarrow>
         if Is err ErrPaused then ret emptyResult
         else if Is err ErrDeletePending then ret requeueResult
         else if \<not> IsConflict k err
         then inspect (countCleanup r ''failure'') (\<lambda>_.
              inspect (recordEvent r c' (EventTypeWarning k) ''CleanupFailed'' (Error (pkg_fmt pkg) err)) (\<lambda>_.
              fail err))
         else fail err
     | Inr result \<Rightarrow> ret result"
  have handled: "wp (reconcileDelete k pkg r c') (\<lambda>a. wp (?handler a) (\<lambda>a w'. P (again a) (look w'))) w1"
    if "look w1 = v" for w1
    by (rule wp_mono [OF assms(5) [OF that]])
       (auto split: sum.splits simp: wp_rules intro!: quiet_reports [OF facts(3)])
  have "wp (isPaused k (reader r) c') P' w1" if "look w1 = v" "\<And>w'. look w' = v \<Longrightarrow> P' (Inr False) w'" for P' w1
    by (rule quiet_pause [OF facts(3) assms(2) that(1)]) (rule that(2))
  then show ?thesis unfolding Reconcile_def key
    by (intro wp_inspectI quiet_cluster [OF facts(2) assms(3,4)] refl) (simp add: ours wp_andThen wp_inspect handled)
qed

subsection \<open>Until nothing is left to do\<close>

text \<open>
  The work queue runs a reconciliation again after an error and after a \<open>RequeueAfter\<close>. At most
  \<open>n\<close> reconciliations: the world after the last one, \<open>None\<close> if it would have to run again.
\<close>

fun untilSettled :: "nat \<Rightarrow> ('w, error, ReconcileResult) act \<Rightarrow> 'w \<Rightarrow> 'w option" where
  "untilSettled 0 m w = None"
| "untilSettled (Suc n) m w = (case m w of (a, w') \<Rightarrow> if again a then untilSettled n m w' else Some w')"

definition settles :: "('w \<Rightarrow> view) \<Rightarrow> nat \<Rightarrow> ('w, error, ReconcileResult) act \<Rightarrow> view \<Rightarrow> view \<Rightarrow> bool" where
  "settles look n m v v' \<longleftrightarrow> (\<forall>w. look w = v \<longrightarrow> (\<exists>w'. untilSettled n m w = Some w' \<and> look w' = v'))"

lemma settles_Suc:
  assumes "\<And>w. look w = v \<Longrightarrow>
      wp m (\<lambda>a w'. if again a then settles look n m (look w') v' else look w' = v') w"
  shows "settles look (Suc n) m v v'"
  unfolding settles_def
proof (intro allI impI)
  fix w assume "look w = v"
  from assms [OF this] show "\<exists>w'. untilSettled (Suc n) m w = Some w' \<and> look w' = v'"
    by (cases "m w") (auto simp: wp_def settles_def split: if_splits)
qed

text \<open>One reconciliation, by what \<open>reconcileDelete\<close> does.\<close>

lemma settles_step:
  assumes "undisturbed k pkg r look c s b" and "recordedAs c state c'" and "the_cluster v = Some c'"
    and "\<And>w'. look w' = v \<Longrightarrow> wp (reconcileDelete k pkg r c')
           (\<lambda>a w'. case a of Inl err \<Rightarrow> \<not> Is err ErrPaused
                \<and> settles look n (Reconcile k pkg r (objectKey c)) (look w') v'
              | Inr res \<Rightarrow> if again a then settles look n (Reconcile k pkg r (objectKey c)) (look w') v'
                         else look w' = v') w'"
  shows "settles look (Suc n) (Reconcile k pkg r (objectKey c)) v v'"
proof (rule settles_Suc)
  fix w assume "look w = v"
  then show "wp (Reconcile k pkg r (objectKey c)) (\<lambda>a w'. if again a
      then settles look n (Reconcile k pkg r (objectKey c)) (look w') v' else look w' = v') w"
    by (rule quiet_reconcile [OF assms(1,2) _ assms(3), where P = "\<lambda>busy u. if busy
           then settles look n (Reconcile k pkg r (objectKey c)) u v' else u = v'"])
       (rule wp_mono [OF assms(4)], auto split: sum.splits)
qed

abbreviation worldView :: "OpenStackCluster option \<Rightarrow> Secret option \<Rightarrow> bool \<Rightarrow> Inventory \<Rightarrow> view" where
  "worldView cluster secret live left \<equiv>
     \<lparr>the_cluster = cluster, the_secret = secret, credential_live = live, inventory = left\<rparr>"

lemma iterations_None:
  "nextKind name policy left = None \<Longrightarrow> length (remaining name policy left) = 0 \<and> purged name policy left = left"
  by (simp add: purged_none remaining_def nextKind_None filter_empty_conv)

lemma iterations_Some:
  assumes "cleanable name left" and "nextKind name policy left = Some k"
  shows "length (remaining name policy left) = Suc (length (remaining name policy (purgeKind name k left)))
    \<and> purged name policy (purgeKind name k left) = purged name policy left \<and> cleanable name (purgeKind name k left)"
  using assms remaining_purgeKind [OF assms] cleanable_purgeKind [OF assms(1), of k]
    purged_purgeKind [OF assms(1), of policy k]
  by (simp add: nextKind_Some)

lemma settles_keep:
  assumes "undisturbed k pkg r look c s b" and "recordedAs c None c'" and "\<not> deletePolicy s"
    and "cleanable (clusterNameFor c) left" and "n = length (remaining (clusterNameFor c) (policyOf (purgeOptions r c s)) left)"
  shows "settles look (Suc n) (Reconcile k pkg r (objectKey c)) (worldView (Some c') (Some s) True left)
     (worldView None (Some s) True (purged (clusterNameFor c) (policyOf (purgeOptions r c s)) left))"
  using assms(4,5)
proof (induction n arbitrary: left)
  case 0
  then show ?case
    by (intro settles_step [OF assms(1,2)], simp, intro keep_step [OF assms(1-3)])
       (auto dest: iterations_None iterations_Some)
next
  case (Suc n)
  have "settles look (Suc n) (Reconcile k pkg r (objectKey c))
      (worldView (Some c') (Some s) True (purgeKind (clusterNameFor c) ka left))
      (worldView None (Some s) True (purged (clusterNameFor c) (policyOf (purgeOptions r c s)) left))"
    if "nextKind (clusterNameFor c) (policyOf (purgeOptions r c s)) left = Some ka" for ka
    using Suc.IH [of "purgeKind (clusterNameFor c) ka left"] iterations_Some [OF Suc.prems(1) that] Suc.prems(2)
    by simp
  then show ?case using Suc.prems
    by (intro settles_step [OF assms(1,2)], simp, intro keep_step [OF assms(1-3)])
       (auto dest: iterations_None)
qed

lemma settles_last:
  assumes "undisturbed k pkg r look c s b" and "recordedAs c (Some (secondCheckpoint r c s b)) c'" and "deletePolicy s"
  shows "settles look 1 (Reconcile k pkg r (objectKey c)) (worldView (Some c') None live left) (worldView None None live left)"
  unfolding One_nat_def
  by (rule settles_step [OF assms(1,2)], simp, rule last_step [OF assms(1-3)]) auto

lemma settles_third:
  assumes "undisturbed k pkg r look c s b" and "recordedAs c (Some (secondCheckpoint r c s b)) c'" and "deletePolicy s"
  shows "settles look 2 (Reconcile k pkg r (objectKey c)) (worldView (Some c') (Some s) live left) (worldView None None live left)"
  unfolding numeral_2_eq_2
  by (rule settles_step [OF assms(1,2)], simp, rule third_step [OF assms(1-3)])
     (use settles_last [OF assms] in auto)

lemma settles_second:
  assumes "undisturbed k pkg r look c s b" and "recordedAs c (Some (firstCheckpoint r c s b)) c'" and "deletePolicy s"
  shows "settles look 3 (Reconcile k pkg r (objectKey c)) (worldView (Some c') (Some s) True left) (worldView None None False left)"
  unfolding numeral_3_eq_3
  by (rule settles_step [OF assms(1,2)], simp, rule second_step [OF assms(1-3)])
     (use settles_third [OF assms(1) _ assms(3)] in \<open>auto simp: numeral_2_eq_2\<close>)

lemma settles_first:
  assumes "undisturbed k pkg r look c s b" and "recordedAs c None c'" and "deletePolicy s"
    and "cleanable (clusterNameFor c) left" and "n = length (remaining (clusterNameFor c) (policyOf (purgeOptions r c s)) left)"
  shows "settles look (n + 4) (Reconcile k pkg r (objectKey c)) (worldView (Some c') (Some s) True left)
     (worldView None None False (purged (clusterNameFor c) (policyOf (purgeOptions r c s)) left))"
  using assms(4,5)
proof (induction n arbitrary: left)
  case 0
  then have "settles look (Suc 3) (Reconcile k pkg r (objectKey c)) (worldView (Some c') (Some s) True left)
     (worldView None None False (purged (clusterNameFor c) (policyOf (purgeOptions r c s)) left))"
    by (intro settles_step [OF assms(1,2)], simp, intro first_step [OF assms(1-3)])
       (use settles_second [OF assms(1) _ assms(3)] in \<open>auto dest: iterations_None iterations_Some\<close>)
  then show ?case by simp
next
  case (Suc n)
  have "settles look (n + 4) (Reconcile k pkg r (objectKey c))
      (worldView (Some c') (Some s) True (purgeKind (clusterNameFor c) ka left))
      (worldView None None False (purged (clusterNameFor c) (policyOf (purgeOptions r c s)) left))"
    if "nextKind (clusterNameFor c) (policyOf (purgeOptions r c s)) left = Some ka" for ka
    using Suc.IH [of "purgeKind (clusterNameFor c) ka left"] iterations_Some [OF Suc.prems(1) that] Suc.prems(2)
    by simp
  then show ?case using Suc.prems unfolding add_Suc
    by (intro settles_step [OF assms(1,2)], simp, intro first_step [OF assms(1-3)])
       (auto dest: iterations_None)
qed

lemma undisturbed_settles:
  assumes "undisturbed k pkg r look c s b" and "look w = worldView (Some c) (Some s) True left"
    and "cleanable (clusterNameFor c) left" and "n = length (remaining (clusterNameFor c) (policyOf (purgeOptions r c s)) left)"
  shows "\<exists>w'. untilSettled (n + (if deletePolicy s then 4 else 1)) (Reconcile k pkg r (objectKey c)) w = Some w'
     \<and> look w' = (let rest = purged (clusterNameFor c) (policyOf (purgeOptions r c s)) left in
         if deletePolicy s then worldView None None False rest else worldView None (Some s) True rest)"
proof -
  have "osc_Annotations c CredentialCheckpointAnnotation = None"
    using undisturbedD(4) [OF assms(1)] by (simp add: deletable_def)
  then have "recordedAs c None c"
    unfolding recordedAs_def by (intro exI [of _ "osc_ResourceVersion c"]) (simp add: fun_upd_idem)
  note runs = settles_keep [OF assms(1) this _ assms(3,4)] settles_first [OF assms(1) this _ assms(3,4)]
  show ?thesis
    using assms(2) runs by (cases "deletePolicy s") (simp_all add: settles_def Let_def)
qed

end
