(* ===== verification/Controller_Completion.thy ===== *)
theory Controller_Completion
  imports Controller_Liveness
begin

section \<open>The deployed janitor completes deletions\<close>

text \<open>
  The theorem of the previous theory, for the reconciler without hooks over the package
  \<open>internal/openstack\<close>: the cleanup is that of a session, and what is assumed is how the
  project's inventory answers the lists and the deletions of the service packages.
\<close>

subsection \<open>Operations that follow the inventory\<close>

text \<open>
  \<open>M\<close> answers as \<open>m\<close> does on the inventory, and leaves what \<open>m\<close> leaves; nothing else that is
  looked at changes.
\<close>

definition tracks :: "('w \<Rightarrow> view) \<Rightarrow> ('w, 'r) op \<Rightarrow> (Inventory, 'r) op \<Rightarrow> bool" where
  "tracks look M m \<longleftrightarrow>
     (\<forall>w. fst (M w) = fst (m (inventory (look w)))
        \<and> look (snd (M w)) = (look w)\<lparr>inventory := snd (m (inventory (look w)))\<rparr>)"

named_theorems tracks_intro \<open>operations that follow the inventory\<close>

lemma tracksD:
  "tracks look M m \<Longrightarrow> fst (M w) = fst (m (inventory (look w)))"
  "tracks look M m \<Longrightarrow> look (snd (M w)) = (look w)\<lparr>inventory := snd (m (inventory (look w)))\<rparr>"
  by (simp_all add: tracks_def)

lemma tracks_basic [tracks_intro]:
  "tracks look (ret a) (ret a)" "tracks look (fail e) (fail e)" "tracks look (lift_res x) (lift_res x)"
  by (simp_all add: tracks_def ret_def fail_def lift_res_def)

lemma tracks_inspect [tracks_intro]:
  assumes "tracks look M m" and "\<And>a. tracks look (H a) (h a)"
  shows "tracks look (inspect M H) (inspect m h)"
  unfolding tracks_def
proof
  fix w
  show "fst (inspect M H w) = fst (inspect m h (inventory (look w)))
      \<and> look (snd (inspect M H w)) = (look w)\<lparr>inventory := snd (inspect m h (inventory (look w)))\<rparr>"
    using tracksD [OF assms(1), of w] tracksD [OF assms(2), of _ "snd (M w)"]
    by (cases "M w"; cases "m (inventory (look w))") (simp add: inspect_def)
qed

lemma tracks_andThen [tracks_intro]:
  "tracks look M m \<Longrightarrow> (\<And>a. tracks look (H a) (h a)) \<Longrightarrow> tracks look (andThen M H) (andThen m h)"
  unfolding andThen_inspect by (intro tracks_inspect) (auto intro: tracks_intro split: sum.split)

lemma tracks_wrapErr [tracks_intro]: "tracks look M m \<Longrightarrow> tracks look (wrapErr g M) (wrapErr g m)"
  unfolding wrapErr_inspect by (intro tracks_inspect) (auto intro: tracks_intro split: sum.split)

lemma tracks_if [tracks_intro]:
  "(b \<Longrightarrow> tracks look M m) \<Longrightarrow> (\<not> b \<Longrightarrow> tracks look N n) \<Longrightarrow>
   tracks look (if b then M else N) (if b then m else n)"
  by simp

lemma tracks_forEach:
  "(\<And>x. x \<in> set xs \<Longrightarrow> tracks look (F x) (f x)) \<Longrightarrow> tracks look (forEach F xs) (forEach f xs)"
  by (induction xs) (auto intro!: tracks_intro)

lemma tracks_deletePhase:
  assumes "\<And>i. i \<noteq> '''' \<Longrightarrow> tracks look (D i) (d i)"
  shows "tracks look (deleteResourcesForCurrentPhase rk ids D) (deleteResourcesForCurrentPhase rk ids d)"
proof -
  have "tracks look (deleteOne rk D i) (deleteOne rk d i)" if "i \<noteq> ''''" for i
    unfolding deleteOne_def using assms [OF that]
    by (intro tracks_inspect) (auto intro: tracks_intro split: sum.split)
  then show ?thesis unfolding deleteResourcesForCurrentPhase_def
    by (intro tracks_if tracks_andThen tracks_forEach tracks_basic) metis
qed

subsection \<open>Services that follow the inventory\<close>

abbreviation lists :: "(Inventory \<Rightarrow> 'a) \<Rightarrow> (Inventory, error, 'a) act" where
  "lists f \<equiv> \<lambda>i. (Inr (f i), i)"

definition serves :: "('w \<Rightarrow> view) \<Rightarrow> Policy \<Rightarrow> 'w Services \<Rightarrow> bool" where
  "serves look policy S \<longleftrightarrow>
     (case svc_FloatingIPs S of None \<Rightarrow> False | Some v \<Rightarrow>
        tracks look (ListFloatingIPs v) (lists inv_FloatingIPs)
      \<and> (\<forall>i. i \<noteq> '''' \<longrightarrow> tracks look (DeleteFloatingIP v i) (removes KFloatingIP i)))
   \<and> (case svc_LoadBalancers S of None \<Rightarrow> False | Some v \<Rightarrow>
        tracks look (ListLoadBalancers v) (lists inv_LoadBalancers)
      \<and> (\<forall>i. i \<noteq> '''' \<longrightarrow> tracks look (DeleteLoadBalancer v i) (removes KLoadBalancer i)))
   \<and> (case svc_SecurityGroups S of None \<Rightarrow> False | Some v \<Rightarrow>
        tracks look (ListSecurityGroups v) (lists inv_SecurityGroups)
      \<and> (\<forall>i. i \<noteq> '''' \<longrightarrow> tracks look (DeleteSecurityGroup v i) (removes KSecurityGroup i)))
   \<and> (DeleteVolumes policy \<longrightarrow>
        (case svc_Snapshots S of None \<Rightarrow> False | Some v \<Rightarrow>
           tracks look (ListSnapshots v) (lists inv_Snapshots)
         \<and> (\<forall>i. i \<noteq> '''' \<longrightarrow> tracks look (DeleteSnapshot v i) (removes KSnapshot i)))
      \<and> (case svc_Volumes S of None \<Rightarrow> False | Some v \<Rightarrow>
           tracks look (ListVolumes v) (lists inv_Volumes)
         \<and> (\<forall>i. i \<noteq> '''' \<longrightarrow> tracks look (DeleteVolume v i) (removes KVolume i))))"

text \<open>An iteration over such services is an iteration over the inventory.\<close>

lemma tracks_Run:
  assumes "serves look (req_Policy request) S"
  shows "tracks look (Run S request) (Run idealServices request)"
proof -
  obtain fips lbs groups where svc: "svc_FloatingIPs S = Some fips" "svc_LoadBalancers S = Some lbs"
      "svc_SecurityGroups S = Some groups"
    using assms by (auto simp: serves_def split: option.splits)
  have "tracks look (runVolumes S request) (runVolumes idealServices request)"
    if "DeleteVolumes (req_Policy request)"
    using assms that unfolding runVolumes_def idealServices_def
    by (auto simp: serves_def Let_def split: option.splits intro!: tracks_intro tracks_deletePhase)
  then have "tracks look (runSnapshots S request) (runSnapshots idealServices request)"
    using assms unfolding runSnapshots_def idealServices_def
    by (auto simp: serves_def Let_def split: option.splits intro!: tracks_intro tracks_deletePhase)
  then have "tracks look (runSecurityGroups S request) (runSecurityGroups idealServices request)"
    using assms unfolding runSecurityGroups_def svc idealServices_def
    by (auto simp: serves_def svc Let_def intro!: tracks_intro tracks_deletePhase)
  then show ?thesis
    using assms unfolding Run_def svc idealServices_def
    by (auto simp: serves_def svc intro!: tracks_intro tracks_deletePhase)
qed

subsection \<open>A cooperative cloud\<close>

text \<open>The session that \<open>NewCleanupSession\<close> makes of a client.\<close>

definition sessionFor :: "PurgeOptions \<Rightarrow> 'p Client \<Rightarrow> 'p cleanupSession" where
  "sessionFor options client =
     \<lparr>session_client = client,
      session_request = \<lparr>req_Scope = \<lparr>ClusterName = po_ClusterName options\<rparr>, req_Policy = policyOf options\<rparr>\<rparr>"

text \<open>
  As long as the credential exists a client authenticates with it. Its services open and follow
  the inventory, its token can be read, and Keystone confirms the deletion of its credential.
\<close>

definition projectServes ::
  "('w \<Rightarrow> view) \<Rightarrow> ('w, 'p, 'pool, 'c, 'entry) openstack \<Rightarrow> 'p cleanupSession \<Rightarrow> bool"
where
  "projectServes look os s \<longleftrightarrow>
     (\<forall>w. wp (openServices os s) (\<lambda>a w'. look w' = look w
        \<and> (\<exists>net lb vol. a = Inr (net, lb, vol)
             \<and> serves look (req_Policy (session_request s)) (resourceServices os net lb vol))) w)
   \<and> (\<forall>w. wp (gc_Token (os_gophercloud os) (cl_provider (session_client s))) (\<lambda>_ w'. look w' = look w) w)
   \<and> (\<forall>w. wp (NewIdentityService (os_keystone os) (Some (session_client s))) (\<lambda>a w'. look w' = look w
        \<and> (\<exists>service. a = Inr service \<and> (\<forall>w. credential_live (look w) \<longrightarrow>
             wp (DeleteIdentityApplicationCredential (os_keystone os) service
                   (ApplicationCredentialID (Some (session_client s))))
               (\<lambda>a w'. a = Inr () \<and> look w' = (look w)\<lparr>credential_live := False\<rparr>) w))) w)"

definition cloudServes ::
  "('w \<Rightarrow> view) \<Rightarrow> ('w, 'p, 'pool, 'c, 'entry) openstack \<Rightarrow> PurgeOptions \<Rightarrow> CredentialBinding \<Rightarrow> bool"
where
  "cloudServes look os options b \<longleftrightarrow>
     (\<forall>w. credential_live (look w) \<longrightarrow>
        wp (NewClient (os_configs os) (os_certs os) (os_gophercloud os) (os_fmt os) (clientOptions options))
          (\<lambda>a w'. look w' = look w \<and> (\<exists>client. a = Inr client
             \<and> Binding (sessionFor options client) = b \<and> cb_CredentialID b \<noteq> ''''
             \<and> projectServes look os (sessionFor options client))) w)"

subsection \<open>The cleanup of a session\<close>

lemma cleanupResources_opens:
  "cleanupResources os s =
     andThen (openServices os s) (\<lambda>(net, lb, vol).
     andThen (Run (resourceServices os net lb vol) (session_request s)) (\<lambda>cleanupResult.
     if res_Outcome cleanupResult = OutcomeWaiting then fail ErrDeletePending
     else if res_Outcome cleanupResult \<noteq> OutcomeComplete
     then fail (Errorf [Txt ''cleanup returned unexpected outcome '', Quo (res_Outcome cleanupResult)])
     else ret ()))"
  by (auto simp: fun_eq_iff cleanupResources_def openServices_def andThen_def ret_def
      split: prod.splits sum.splits)

lemma wp_tracked_Run:
  assumes "serves look (req_Policy request) S" and "ClusterName (req_Scope request) \<noteq> ''''"
    and "cleanable (ClusterName (req_Scope request)) (inventory (look w))"
    and "\<And>w'. nextKind (ClusterName (req_Scope request)) (req_Policy request) (inventory (look w)) = None \<Longrightarrow>
           look w' = look w \<Longrightarrow> Q (Inr \<lparr>res_Outcome = OutcomeComplete\<rparr>) w'"
    and "\<And>k w'. nextKind (ClusterName (req_Scope request)) (req_Policy request) (inventory (look w)) = Some k \<Longrightarrow>
           look w' = (look w)\<lparr>inventory := purgeKind (ClusterName (req_Scope request)) k (inventory (look w))\<rparr> \<Longrightarrow>
           Q (Inr \<lparr>res_Outcome = OutcomeWaiting\<rparr>) w'"
  shows "wp (Run S request) Q w"
  using tracksD [OF tracks_Run [OF assms(1)], of w] assms(4,5)
  by (cases "Run S request w") (auto simp: wp_def Run_ideal [OF assms(3,2)] idealStep_def split: option.splits)

lemma session_gives_way:
  assumes "projectServes look os s" and "ClusterName (req_Scope (session_request s)) \<noteq> ''''"
  shows "givesWay look (ClusterName (req_Scope (session_request s))) (req_Policy (session_request s)) (SessionCleanup os s)"
  unfolding givesWay_def
proof (intro allI impI)
  let ?name = "ClusterName (req_Scope (session_request s))" and ?policy = "req_Policy (session_request s)"
  let ?Q = "\<lambda>w a w'. case nextKind ?name ?policy (inventory (look w)) of
      None \<Rightarrow> a = Inr () \<and> look w' = look w
    | Some k \<Rightarrow> look w' = (look w)\<lparr>inventory := purgeKind ?name k (inventory (look w))\<rparr>
        \<and> (\<exists>e. a = Inl e \<and> \<not> Is e ErrPaused)"
  have redact_none: "RedactError (os_gophercloud os) (os_fmt os) (session_client s) (Inr ()) = ret ()"
    by (simp add: RedactError_def)
  fix w assume clean: "cleanable ?name (inventory (look w))"
  have redact: "wp (RedactError (os_gophercloud os) (os_fmt os) (session_client s) (Inl ErrDeletePending))
      (\<lambda>a w'. look w' = (look w)\<lparr>inventory := purgeKind ?name k (inventory (look w))\<rparr>
         \<and> (\<exists>e. a = Inl e \<and> \<not> Is e ErrPaused)) w1"
    if "nextKind ?name ?policy (inventory (look w)) = Some k"
      "look w1 = (look w)\<lparr>inventory := purgeKind ?name k (inventory (look w))\<rparr>" for k w1
  proof -
    have "wp (gc_Token (os_gophercloud os) (cl_provider (session_client s))) (\<lambda>_ w'. look w' = look w1) w1"
      using assms(1) unfolding projectServes_def by blast
    then show ?thesis
      unfolding RedactError_def sum.case failRedacted_def
      by (intro wp_inspectI, elim wp_mono) (simp add: wp_fail that)
  qed
  have run: "wp (Run (resourceServices os net lb vol) (session_request s)) P w1"
    if "serves look ?policy (resourceServices os net lb vol)" "look w1 = look w"
      "\<And>w'. nextKind ?name ?policy (inventory (look w)) = None \<Longrightarrow> look w' = look w \<Longrightarrow>
         P (Inr \<lparr>res_Outcome = OutcomeComplete\<rparr>) w'"
      "\<And>k w'. nextKind ?name ?policy (inventory (look w)) = Some k \<Longrightarrow>
         look w' = (look w)\<lparr>inventory := purgeKind ?name k (inventory (look w))\<rparr> \<Longrightarrow>
         P (Inr \<lparr>res_Outcome = OutcomeWaiting\<rparr>) w'" for net lb vol P w1
    using wp_tracked_Run [OF that(1) assms(2), of w1 P] clean that(2-4) by simp
  have opened: "wp (openServices os s) (\<lambda>a w'. look w' = look w
        \<and> (\<exists>net lb vol. a = Inr (net, lb, vol) \<and> serves look ?policy (resourceServices os net lb vol))) w"
    using assms(1) unfolding projectServes_def by blast
  show "wp (SessionCleanup os s) (?Q w) w"
    unfolding SessionCleanup_def cleanupResources_opens wp_inspect wp_andThen
    by (rule wp_mono [OF opened])
       (auto simp: wp_andThen wp_if wp_fail wp_ret redact_none waiting_not_complete
          waiting_not_complete [symmetric] intro!: run redact)
qed

lemma session_deletes:
  assumes "projectServes look os s" and "cb_CredentialID (Binding s) \<noteq> ''''" and "credential_live (look w)"
  shows "wp (SessionDeleteApplicationCredential os s (cb_CredentialID (Binding s)))
    (\<lambda>a w'. a = Inr () \<and> look w' = (look w)\<lparr>credential_live := False\<rparr>) w"
proof -
  have own: "cb_CredentialID (Binding s) = ApplicationCredentialID (Some (session_client s))"
    by (simp add: Binding_def Let_def ApplicationCredentialID_def)
  have created: "wp (NewIdentityService (os_keystone os) (Some (session_client s))) (\<lambda>a w'. look w' = look w
        \<and> (\<exists>service. a = Inr service \<and> (\<forall>w. credential_live (look w) \<longrightarrow>
             wp (DeleteIdentityApplicationCredential (os_keystone os) service
                   (ApplicationCredentialID (Some (session_client s))))
               (\<lambda>a w'. a = Inr () \<and> look w' = (look w)\<lparr>credential_live := False\<rparr>) w))) w"
    using assms(1) unfolding projectServes_def by blast
  have deleted: "wp (inspect (DeleteIdentityApplicationCredential (os_keystone os) service
          (ApplicationCredentialID (Some (session_client s))))
        (\<lambda>deleted. RedactError (os_gophercloud os) (os_fmt os) (session_client s) deleted))
      (\<lambda>a w'. a = Inr () \<and> look w' = (look w)\<lparr>credential_live := False\<rparr>) w1"
    if "look w1 = look w" "\<forall>w. credential_live (look w) \<longrightarrow>
        wp (DeleteIdentityApplicationCredential (os_keystone os) service
          (ApplicationCredentialID (Some (session_client s))))
        (\<lambda>a w'. a = Inr () \<and> look w' = (look w)\<lparr>credential_live := False\<rparr>) w" for service w1
    by (rule wp_inspectI, rule wp_mono [OF that(2) [rule_format, of w1]])
       (simp_all add: RedactError_def wp_ret that(1) assms(3))
  have "ApplicationCredentialID (Some (session_client s)) \<noteq> ''''" using assms(2) by (simp add: own)
  then show ?thesis
    unfolding SessionDeleteApplicationCredential_def own wp_if wp_inspect
    by (simp, intro wp_mono [OF created]) (auto intro: deleted)
qed

text \<open>Such a cloud is one that the reconciler without hooks can count on.\<close>

lemma cloud_cooperates:
  assumes "cloudServes look os options b" and "rec_CleanupFunc r = None" and "rec_NewSession r = None"
    and "TrimSpace (po_ClusterName options) \<noteq> ''''"
  shows "cooperates look r (openstackPackageOf os) options b"
proof -
  have name: "po_ClusterName options \<noteq> ''''" using assms(4) by auto
  let ?s = "sessionFor options"
  have scope: "ClusterName (req_Scope (session_request (?s client))) = po_ClusterName options"
    "req_Policy (session_request (?s client)) = policyOf options" for client
    by (simp_all add: sessionFor_def)
  have gives: "givesWay look (po_ClusterName options) (policyOf options) (SessionCleanup os (?s client))"
    if "projectServes look os (?s client)" for client
    using session_gives_way [OF that] name by (simp add: scope)
  have session: "wp (NewCleanupSession os options) Q w"
    if "credential_live (look w)" "\<And>client w'. look w' = look w \<Longrightarrow> Binding (?s client) = b \<Longrightarrow>
      cb_CredentialID b \<noteq> '''' \<Longrightarrow> projectServes look os (?s client) \<Longrightarrow> Q (Inr (?s client)) w'" for w Q
  proof -
    have created: "wp (NewClient (os_configs os) (os_certs os) (os_gophercloud os) (os_fmt os) (clientOptions options))
          (\<lambda>a w'. look w' = look w \<and> (\<exists>client. a = Inr client
             \<and> Binding (?s client) = b \<and> cb_CredentialID b \<noteq> '''' \<and> projectServes look os (?s client))) w"
      using assms(1) that(1) unfolding cloudServes_def by blast
    have unfolded: "NewCleanupSession os options = andThen (wrapErr (Wrapf [Txt ''creating OpenStack client''])
        (NewClient (os_configs os) (os_certs os) (os_gophercloud os) (os_fmt os) (clientOptions options)))
        (\<lambda>client. ret (?s client))"
      using assms(4) by (simp add: NewCleanupSession_def sessionFor_def)
    show ?thesis
      unfolding unfolded wp_andThen wp_wrapErr
    proof (rule wp_mono [OF created], goal_cases)
      case (1 a w')
      then obtain client where a: "a = Inr client" and rest: "look w' = look w" "Binding (?s client) = b"
        "cb_CredentialID b \<noteq> ''''" "projectServes look os (?s client)" by blast
      show ?case unfolding a sum.case wp_ret by (rule that(2) [OF rest])
    qed
  qed
  have "givesWay look (po_ClusterName options) (policyOf options) (cleanResources (openstackPackageOf os) r options)"
    unfolding givesWay_def
  proof (intro allI impI)
    fix w assume live: "credential_live (look w)" "cleanable (po_ClusterName options) (inventory (look w))"
    show "wp (cleanResources (openstackPackageOf os) r options) (\<lambda>a w'.
          case nextKind (po_ClusterName options) (policyOf options) (inventory (look w)) of
            None \<Rightarrow> a = Inr () \<and> look w' = look w
          | Some k \<Rightarrow> look w' = (look w)\<lparr>inventory := purgeKind (po_ClusterName options) k (inventory (look w))\<rparr>
              \<and> (\<exists>e. a = Inl e \<and> \<not> Is e ErrPaused)) w"
      unfolding cleanResources_def assms(2) option.case openstackPackageOf_def openstackPackage.simps
        PurgeResources_def wp_andThen
    proof (rule session [OF live(1)], goal_cases)
      case (1 client w')
      show ?case
        unfolding sum.case
        using gives [OF 1(4), unfolded givesWay_def, rule_format, of w', unfolded 1(1), OF live] .
    qed
  qed
  moreover have "wp (newCleanupSession (openstackPackageOf os) r options) (\<lambda>a w'. look w' = look w
          \<and> (\<exists>session. a = Inr session \<and> sess_Binding session = b
             \<and> givesWay look (po_ClusterName options) (policyOf options) (sess_Cleanup session)
             \<and> (\<forall>w. credential_live (look w) \<longrightarrow>
                  wp (sess_DeleteApplicationCredential session (cb_CredentialID b))
                   (\<lambda>a w'. a = Inr () \<and> look w' = (look w)\<lparr>credential_live := False\<rparr>) w))) w"
    if "credential_live (look w)" for w
    unfolding newCleanupSession_def assms(3) option.case openstackPackageOf_def openstackPackage.simps wp_andThen
    by (rule session [OF that])
       (auto simp: wp_ret openstackSession_def gives intro: session_deletes)
  ultimately show ?thesis unfolding cooperates_def by blast
qed

text \<open>
  C2. A deletion completes. The deployed janitor, on an API server that nobody else writes to,
  for a project in which deletions take effect at once: the reconciliations of a cluster that
  is being deleted come to an end. One is needed per kind of resources that the cluster owns,
  which are five at most, and one more; or four more, if the Secret says that the credential
  goes with the cluster. Up to there each of them asks to be run again. At the end the cluster
  is released, the project is left with exactly the resources that the cluster does not own or
  that the policy keeps, and the credential and its Secret are both deleted or both untouched,
  as the Secret says.
\<close>

theorem deletion_completes:
  assumes "documentedKubernetes k" and "stores look r k" and "leavesAlone look r k c"
    and "rec_CleanupFunc r = None" and "rec_NewSession r = None"
    and "deletable r (openstackPackageOf os) c s b" and "cloudServes look os (purgeOptions r c s) b"
    and "look w = worldView (Some c) (Some s) True left" and "cleanable (clusterNameFor c) left"
  shows "\<exists>n w'. n \<le> 5
     \<and> untilSettled (n + (if deletePolicy s then 4 else 1)) (Reconcile k (openstackPackageOf os) r (objectKey c)) w
         = Some w'
     \<and> look w' = (let rest = purged (clusterNameFor c) (policyOf (purgeOptions r c s)) left in
         if deletePolicy s then worldView None None False rest else worldView None (Some s) True rest)"
proof -
  have "TrimSpace (po_ClusterName (purgeOptions r c s)) \<noteq> ''''"
    using assms(6) by (simp add: deletable_def usableIdentity_def purgeOptions_def)
  then have "undisturbed k (openstackPackageOf os) r look c s b"
    using assms(1-3,6) cloud_cooperates [OF assms(7,4,5)] by (simp add: undisturbed_def)
  from undisturbed_settles [OF this assms(8,9) refl]
  show ?thesis
    by (intro exI [of _ "length (remaining (clusterNameFor c) (policyOf (purgeOptions r c s)) left)"])
       (simp add: remaining_few)
qed

end
