(* ===== verification/Wake_Ups.thy ===== *)
theory Wake_Ups
  imports Controller_Protocol
begin

section \<open>What wakes a paused cluster\<close>

text \<open>
  The wake-ups of \<open>lifecycle.go\<close> beside the reads of \<open>isPaused\<close>: the owner that a read found
  pausing is the last call of \<open>isPaused\<close>, and the index and the filter of the watch let the end
  of that pause, and of the pause of any other owner, through to the cluster.
\<close>

text \<open>A pause by an owner is found by the last read, which names a reference of the cluster.\<close>

lemma ownerPaused_True:
  assumes "ownerPaused k (recordedReader rd) namespace refs (w, l) = (Inr True, (w', l'))"
  shows "\<exists>ref owner reads. l' = l @ reads @ [OwnerRead (namespace, ref_Name ref) (Inr owner)]
     \<and> ref \<in> set refs \<and> isClusterOwner k ref \<and> cluster_UID owner = ref_UID ref \<and> pausedOwner k owner"
  using assms
proof (induction refs arbitrary: w l)
  case (Cons ref refs)
  show ?case
  proof (cases "isClusterOwner k ref")
    case False
    with Cons.prems have "ownerPaused k (recordedReader rd) namespace refs (w, l) = (Inr True, (w', l'))" by simp
    from Cons.IH [OF this] show ?thesis by (metis list.set_intros(2))
  next
    case True
    define got where "got = fst (GetCluster rd (namespace, ref_Name ref) w)"
    define w1 where "w1 = snd (GetCluster rd (namespace, ref_Name ref) w)"
    let ?l = "l @ [OwnerRead (namespace, ref_Name ref) got]"
    consider (stop) owner where "got = Inr owner" "cluster_UID owner = ref_UID ref" "pausedOwner k owner" "l' = ?l"
      | (skip) "ownerPaused k (recordedReader rd) namespace refs (w1, ?l) = (Inr True, (w', l'))"
      using Cons.prems True
      by (auto simp: inspect_def fail_def ret_def recorded_calls recorded_run pausedOwner_def simp flip: got_def w1_def
          split: sum.splits if_splits)
    then show ?thesis
    proof cases
      case stop
      then show ?thesis using True by (intro exI [of _ ref] exI [of _ owner] exI [of _ "[]"]) simp
    next
      case skip
      from Cons.IH [OF this] obtain ref' owner reads where
        "l' = l @ (OwnerRead (namespace, ref_Name ref) got # reads) @ [OwnerRead (namespace, ref_Name ref') (Inr owner)]"
        "ref' \<in> set (ref # refs)" "isClusterOwner k ref'" "cluster_UID owner = ref_UID ref'" "pausedOwner k owner"
        by auto
      then show ?thesis by blast
    qed
  qed
qed (simp add: ret_def)

text \<open>Every owner is indexed, and the end of its pause passes the filter of the watch.\<close>

lemma owner_wakes:
  assumes "currentCache k client clusters" and "cluster \<in> set clusters"
    and "ref \<in> set (osc_OwnerReferences cluster)" and "isClusterOwner k ref"
    and "cluster_Namespace new = osc_Namespace cluster" and "cluster_Name new = ref_Name ref"
    and "cluster_UID new = ref_UID ref"
  shows "objectKey cluster \<in> set (fst (requestsForCluster client new u))"
  using assms(2-7)
  by (auto simp: requestsForCluster_def requestsForReference_current [OF assms(1)] ownerClusterKeys_def)

text \<open>
  C21. Whatever pauses a cluster wakes it up again. If \<open>isPaused\<close> answers that a cluster is paused
  that has no pause annotation itself, then its last call has read the \<open>Cluster\<close> of one of
  the owner references of the cluster, with the UID of that reference, and found it paused.
  For every owner reference to a \<open>Cluster\<close>, the first or not, an update of the \<open>Cluster\<close> with
  the reference's name and UID that ends its pause passes the filter of the watch and, as
  long as the cache is current, requests a reconciliation of the cluster. An update of an
  identity Secret requests one for exactly the clusters of the namespace that use it.
\<close>

theorem pause_end_wakes_cluster:
  assumes "currentCache k client clusters" and "cluster \<in> set clusters"
    and "isPaused k (recordedReader rd) cluster (w, []) = (Inr True, (w', calls))"
    and "\<not> hasPauseAnnotation k (osc_Annotations cluster)"
    and "secret_Name secret \<noteq> ''''"
  shows "(\<exists>ref owner reads. calls = reads @ [OwnerRead (osc_Namespace cluster, ref_Name ref) (Inr owner)]
      \<and> ref \<in> set (osc_OwnerReferences cluster) \<and> isClusterOwner k ref
      \<and> cluster_UID owner = ref_UID ref \<and> pausedOwner k owner)
   \<and> (\<forall>ref \<in> set (osc_OwnerReferences cluster). \<forall>owner new u. isClusterOwner k ref
        \<and> (cluster_Namespace new, cluster_Name new, cluster_UID new)
            = (osc_Namespace cluster, ref_Name ref, ref_UID ref)
        \<and> pausedOwner k owner \<and> \<not> pausedOwner k new
      \<longrightarrow> clusterPauseChanged k (Some owner) (Some new)
        \<and> objectKey cluster \<in> set (fst (requestsForCluster client new u)))
   \<and> fst (requestsForSecret client secret v) = map objectKey
       (filter (\<lambda>c. osc_Namespace c = secret_Namespace secret
             \<and> ident_Name (osc_IdentityRef c) = secret_Name secret
             \<and> ident_Type (osc_IdentityRef c) \<in> {'''', ''Secret''}) clusters)"
proof (intro conjI ballI allI impI)
  from assms(3,4) have
    "ownerPaused k (recordedReader rd) (osc_Namespace cluster) (osc_OwnerReferences cluster) (w, []) = (Inr True, (w', calls))"
    by (simp add: isPaused_def)
  from ownerPaused_True [OF this] show "\<exists>ref owner reads.
      calls = reads @ [OwnerRead (osc_Namespace cluster, ref_Name ref) (Inr owner)]
      \<and> ref \<in> set (osc_OwnerReferences cluster) \<and> isClusterOwner k ref
      \<and> cluster_UID owner = ref_UID ref \<and> pausedOwner k owner" by simp
next
  fix ref owner new u
  assume "ref \<in> set (osc_OwnerReferences cluster)" and "isClusterOwner k ref
        \<and> (cluster_Namespace new, cluster_Name new, cluster_UID new)
            = (osc_Namespace cluster, ref_Name ref, ref_UID ref)
        \<and> pausedOwner k owner \<and> \<not> pausedOwner k new"
  then show "clusterPauseChanged k (Some owner) (Some new)"
    and "objectKey cluster \<in> set (fst (requestsForCluster client new u))"
    by (auto simp: clusterPauseChanged_def pausedOwner_def intro: owner_wakes [OF assms(1,2)])
next
  show "fst (requestsForSecret client secret v) = map objectKey
       (filter (\<lambda>c. osc_Namespace c = secret_Namespace secret
             \<and> ident_Name (osc_IdentityRef c) = secret_Name secret
             \<and> ident_Type (osc_IdentityRef c) \<in> {'''', ''Secret''}) clusters)"
    using assms(5)
    by (auto simp: requestsForSecret_def requestsForReference_current [OF assms(1)] identitySecretKeys_def
        intro!: arg_cong [of _ _ "map objectKey"] filter_cong)
qed

end
