(* ===== verification/Controller_Samples.thy ===== *)
theory Controller_Samples
  imports Controller_History Controller_Completion Wake_Ups
begin

section \<open>A janitor at work\<close>

text \<open>
  A concrete API server and cloud, on which the properties of the controller are applied: the
  world is the cluster and the Secret as the API server stores them. The four
  reconciliations that delete a cluster with its credential and its Secret are evaluated,
  and one that keeps the credential.
\<close>

subsection \<open>The API server and the cloud\<close>

type_synonym store = "OpenStackCluster \<times> Secret option"

definition sampleReader :: "('w \<Rightarrow> store) \<Rightarrow> 'w Reader" where
  "sampleReader stored =
     \<lparr>GetOpenStackCluster = (\<lambda>key w. (Inr (fst (stored w)), w)),
      GetCluster = (\<lambda>key w. (Inl sampleNotFound, w)),
      GetSecret = (\<lambda>key w. (case snd (stored w) of None \<Rightarrow> Inl sampleNotFound | Some s \<Rightarrow> Inr s, w)),
      ListOpenStackClusters = (\<lambda>ns w. (Inr [fst (stored w)], w))\<rparr>"

definition sampleClientOf :: "('w \<Rightarrow> store) \<Rightarrow> (store \<Rightarrow> 'w \<Rightarrow> 'w) \<Rightarrow> 'w KubeClient" where
  "sampleClientOf stored update =
     \<lparr>client_Reader = sampleReader stored,
      ListMatching = (\<lambda>ns index key w.
        (Inr (filter (\<lambda>c. osc_Namespace c = ns \<and> key \<in> set (indexKeys sampleKubernetes index c)) [fst (stored w)]), w)),
      PatchCluster = (\<lambda>base new w. (Inr new, update (new, snd (stored w)) w)),
      DeleteSecret = (\<lambda>secret uid version w. (Inr (), update (fst (stored w), None) w))\<rparr>"

definition sampleReconcilerOf :: "('w \<Rightarrow> store) \<Rightarrow> (store \<Rightarrow> 'w \<Rightarrow> 'w) \<Rightarrow> 'w OpenStackClusterReconciler" where
  "sampleReconcilerOf stored update =
     \<lparr>rec_Client = sampleClientOf stored update, rec_APIReader = None, rec_DefaultVolumesPolicy = '''',
      rec_RetryDefaultDelay = 60, rec_Metrics = Some (\<lambda>outcome. yields ()), rec_Recorder = None,
      rec_CleanupFunc = None, rec_NewSession = None\<rparr>"

definition sampleReconciler :: "store OpenStackClusterReconciler" where
  "sampleReconciler = sampleReconcilerOf (\<lambda>w. w) (\<lambda>w' w. w')"

definition sampleCloudSession :: "store CleanupSession" where
  "sampleCloudSession =
     \<lparr>sess_Cleanup = ret (), sess_Binding = Binding sampleSession,
      sess_DeleteApplicationCredential = (\<lambda>i. ret ())\<rparr>"

definition samplePackage :: "store openstackPackage" where
  "samplePackage =
     \<lparr>pkg_url = sampleURLs, pkg_fmt = (\<lambda>f. ''''),
      pkg_DescribeCredential = (\<lambda>options. Inr (cl_credentialConfig sampleClient)),
      pkg_PurgeResources = (\<lambda>options. ret ()),
      pkg_NewCleanupSession = (\<lambda>options. ret sampleCloudSession)\<rparr>"

subsection \<open>The objects\<close>

definition sampleCluster :: OpenStackCluster where
  "sampleCluster =
     \<lparr>osc_Name = ''demo'', osc_Namespace = ''ns'', osc_UID = ''u'', osc_ResourceVersion = ''1'', osc_Generation = 1,
      osc_Labels = Map.empty, osc_Annotations = Map.empty, osc_Finalizers = [Finalizer],
      osc_OwnerReferences = [], osc_DeletionTimestamp = Some 0,
      osc_IdentityRef = \<lparr>ident_Type = '''', ident_Name = ''secret'', ident_CloudName = ''''\<rparr>\<rparr>"

definition sampleSecret :: "(string \<rightharpoonup> string) \<Rightarrow> Secret" where
  "sampleSecret annotations =
     \<lparr>secret_Name = ''secret'', secret_Namespace = ''ns'', secret_UID = ''s'', secret_ResourceVersion = ''7'',
      secret_Annotations = annotations, secret_DeletionTimestamp = None, secret_Data = Map.empty\<rparr>"

abbreviation keptSecret :: Secret where "keptSecret \<equiv> sampleSecret Map.empty"
abbreviation deletedSecret :: Secret where
  "deletedSecret \<equiv> sampleSecret [CredentialPolicyAnnotation \<mapsto> PolicyDelete]"

definition sampleCheckpoint :: "string \<Rightarrow> credentialCheckpoint" where
  "sampleCheckpoint phase =
     \<lparr>ck_Version = 1, ck_Phase = phase, ck_ClusterUID = ''u'', ck_ClusterName = ''demo'',
      ck_SecretName = ''secret'', ck_SecretUID = ''s'', ck_Cloud = Binding sampleSession,
      ck_VolumesPolicy = PolicyDelete, ck_CredentialPolicy = PolicyDelete\<rparr>"

abbreviation sampleRequest :: ObjectKey where "sampleRequest \<equiv> (''ns'', ''demo'')"

text \<open>The cluster with a checkpoint.\<close>

abbreviation clusterIn :: "string \<Rightarrow> OpenStackCluster" where
  "clusterIn phase \<equiv> withCheckpoint sampleCluster (sampleCheckpoint phase)"

abbreviation releasedFrom :: "OpenStackCluster \<Rightarrow> OpenStackCluster" where
  "releasedFrom cluster \<equiv> cluster\<lparr>osc_Finalizers := []\<rparr>"

lemma sample_binding:
  "Binding sampleSession =
     \<lparr>cb_Authority = ''https://keystone/v3'', cb_ProjectID = ''p1'', cb_UserID = ''u1'', cb_Region = ''R1'',
      cb_Interface = ''public'', cb_CloudName = ''openstack'', cb_CredentialID = ''cred''\<rparr>"
  by (simp add: Binding_def sampleSession_def sampleClient_def ProjectID_def UserID_def Let_def)

lemma sample_trimmed: "TrimSpace ''demo'' = ''demo''" "TrimSpace ''p1'' = ''p1''" "TrimSpace ''u1'' = ''u1''"
  "TrimSpace ''openstack'' = ''openstack''" "TrimSpace ''cred'' = ''cred''" "TrimSpace ''R1'' = ''R1''"
  by (simp_all add: TrimSpace_def trim_left.simps leading_space_def space_runes_def trim_right.simps
      trailing_space_def HasSuffix_def)

lemma sample_canonical: "NormalizeAuthority sampleURLs ''https://keystone/v3'' = Inr ''https://keystone/v3''"
proof -
  have "acceptedURL (sampleURL ''keystone'' ''/v3'')"
    by (simp add: acceptedURL_def sampleURL_def Hostname_def sample_hosts)
  then show ?thesis
    using sample_trim by (simp add: NormalizeAuthority_accepted sample_parsed sample_normalized)
qed

lemma sample_validated: "ValidateCredentialBinding sampleURLs (Binding sampleSession) = Inr ()"
  by (simp add: ValidateCredentialBinding_def sample_binding sample_canonical sample_trimmed)

lemma sample_valid:
  "phase \<in> {credentialDeleteStarted, secretDeleteStarted} \<Longrightarrow> validCheckpoint sampleURLs (sampleCheckpoint phase)"
  by (simp add: validCheckpoint_def sampleCheckpoint_def sample_validated)

lemma sample_utf8:
  "phase \<in> {credentialDeleteStarted, secretDeleteStarted} \<Longrightarrow> utf8Checkpoint (sampleCheckpoint phase)"
  by (auto simp: utf8Checkpoint_def utf8Binding_def sampleCheckpoint_def sample_binding PolicyDelete_def
      credentialDeleteStarted_def secretDeleteStarted_def byte_def)

lemma sample_read:
  assumes "phase \<in> {credentialDeleteStarted, secretDeleteStarted}"
  shows "readCredentialCheckpoint sampleURLs (clusterIn phase) = Inr (Some (sampleCheckpoint phase))"
  using decode_marshal [of "sampleCheckpoint phase"] sample_valid [OF assms]
    sanitisedCheckpoint_id [OF sample_utf8 [OF assms]]
  by (simp add: readCredentialCheckpoint_Inr withCheckpoint_def sampleCheckpoint_def)

subsection \<open>Five reconciliations\<close>

lemma sample_calls:
  "GetOpenStackCluster (reader sampleReconciler) key w = (Inr (fst w), w)"
  "GetSecret (reader sampleReconciler) key w = (case snd w of None \<Rightarrow> Inl sampleNotFound | Some s \<Rightarrow> Inr s, w)"
  "ListOpenStackClusters (reader sampleReconciler) ns w = (Inr [fst w], w)"
  "PatchCluster (rec_Client sampleReconciler) base new w = (Inr new, new, snd w)"
  "DeleteSecret (rec_Client sampleReconciler) secret uid version w = (Inr (), fst w, None)"
  "cleanResources samplePackage sampleReconciler options w = (Inr (), w)"
  "newCleanupSession samplePackage sampleReconciler options w = (Inr sampleCloudSession, w)"
  "sess_Cleanup sampleCloudSession w = (Inr (), w)"
  "sess_Binding sampleCloudSession = Binding sampleSession"
  "sess_DeleteApplicationCredential sampleCloudSession i w = (Inr (), w)"
  "countCleanup sampleReconciler outcome w = ((), w)"
  "recordEvent sampleReconciler obj eventType reason message w = ((), w)"
  "countCleanup (recordedReconciler sampleReconciler) outcome (w, l) = ((), w, l @ [CleanupCounted outcome])"
  "recordEvent (recordedReconciler sampleReconciler) obj eventType reason message (w, l) = ((), w, l)"
  "pkg_DescribeCredential samplePackage options = Inr (cl_credentialConfig sampleClient)"
  "pkg_url samplePackage = sampleURLs"
  by (simp_all add: reader_def sampleReconciler_def sampleReconcilerOf_def sampleClientOf_def sampleReader_def
      samplePackage_def sampleCloudSession_def cleanResources_def newCleanupSession_def countCleanup_def
      recordEvent_def recordedReconciler_def recorded_def ret_def yields_def)

lemma sample_functions:
  "IsNotFound sampleKubernetes sampleNotFound"
  "IgnoreNotFound sampleKubernetes sampleNotFound = None"
  "ContainsFinalizer sampleKubernetes c f \<longleftrightarrow> f \<in> set (osc_Finalizers c)"
  "RemoveFinalizer sampleKubernetes c f = c\<lparr>osc_Finalizers := filter (\<lambda>g. g \<noteq> f) (osc_Finalizers c)\<rparr>"
  "hasPauseAnnotation sampleKubernetes m \<longleftrightarrow> m ''cluster.x-k8s.io/paused'' \<noteq> None"
  by (simp_all add: sampleKubernetes_def sampleNotFound_def hasPauseAnnotation_def)

lemma sample_cluster:
  "osc_Name sampleCluster = ''demo''" "osc_Namespace sampleCluster = ''ns''" "osc_UID sampleCluster = ''u''"
  "osc_Labels sampleCluster = Map.empty" "osc_Annotations sampleCluster = Map.empty"
  "osc_Finalizers sampleCluster = [Finalizer]" "osc_OwnerReferences sampleCluster = []"
  "osc_DeletionTimestamp sampleCluster = Some 0"
  "osc_IdentityRef sampleCluster = \<lparr>ident_Type = '''', ident_Name = ''secret'', ident_CloudName = ''''\<rparr>"
  by (simp_all add: sampleCluster_def)

lemma sample_secret:
  "secret_Name (sampleSecret m) = ''secret''" "secret_UID (sampleSecret m) = ''s''"
  "secret_ResourceVersion (sampleSecret m) = ''7''" "secret_Annotations (sampleSecret m) = m"
  "secret_DeletionTimestamp (sampleSecret m) = None"
  by (simp_all add: sampleSecret_def)

lemma sample_checkpointed:
  "osc_Name (withCheckpoint c st) = osc_Name c" "osc_Namespace (withCheckpoint c st) = osc_Namespace c"
  "osc_UID (withCheckpoint c st) = osc_UID c" "osc_Generation (withCheckpoint c st) = osc_Generation c"
  "osc_Labels (withCheckpoint c st) = osc_Labels c"
  "osc_Finalizers (withCheckpoint c st) = osc_Finalizers c"
  "osc_OwnerReferences (withCheckpoint c st) = osc_OwnerReferences c"
  "osc_DeletionTimestamp (withCheckpoint c st) = osc_DeletionTimestamp c"
  "osc_IdentityRef (withCheckpoint c st) = osc_IdentityRef c"
  "osc_Annotations (withCheckpoint c st) a
     = (if a = CredentialCheckpointAnnotation then Some (marshalCheckpoint st) else osc_Annotations c a)"
  by (simp_all add: withCheckpoint_def)

text \<open>The patch that saves a checkpoint, where there was none and where there was one.\<close>

lemma sample_saved:
  "sampleCluster\<lparr>osc_Annotations := [CredentialCheckpointAnnotation \<mapsto> marshalCheckpoint st]\<rparr>
     = withCheckpoint sampleCluster st"
  "withCheckpoint c st\<lparr>osc_Annotations := (osc_Annotations (withCheckpoint c st))(CredentialCheckpointAnnotation \<mapsto> marshalCheckpoint st')\<rparr>
     = withCheckpoint c st'"
  "sampleCheckpoint phase\<lparr>ck_Phase := phase'\<rparr> = sampleCheckpoint phase'"
  by (simp_all add: withCheckpoint_def sampleCluster_def sampleCheckpoint_def)

lemma sample_names:
  "clusterNameFor sampleCluster = ''demo''" "clusterNameFor (withCheckpoint c st) = clusterNameFor c"
  "selectedCloudName sampleCluster = ''openstack''" "selectedCloudName (withCheckpoint c st) = selectedCloudName c"
  "volumesPolicyFor sampleReconciler sampleCluster = PolicyDelete"
  "volumesPolicyFor sampleReconciler (withCheckpoint c st) = volumesPolicyFor sampleReconciler c"
  "objectKey sampleCluster = sampleRequest" "objectKey (withCheckpoint c st) = objectKey c"
  by (simp_all add: clusterNameFor_def selectedCloudName_def volumesPolicyFor_def objectKey_def sample_cluster
      withCheckpoint_def sampleReconciler_def sampleReconcilerOf_def VolumesPolicyAnnotation_def
      CredentialCheckpointAnnotation_def split: option.split)

lemma sample_annotations:
  "CredentialCheckpointAnnotation \<noteq> ''cluster.x-k8s.io/paused''" "''cluster.x-k8s.io/paused'' \<noteq> CredentialCheckpointAnnotation"
  "PolicyDelete \<noteq> ''''" "'''' \<noteq> PolicyDelete"
  by (simp_all add: CredentialCheckpointAnnotation_def PolicyDelete_def)

lemma sample_bound:
  "checkCheckpointBinding samplePackage sampleReconciler sampleCluster (Some deletedSecret) (sampleCheckpoint phase) = Inr ()"
  "checkCheckpointBinding samplePackage sampleReconciler (withCheckpoint sampleCluster st) (Some deletedSecret) (sampleCheckpoint phase) = Inr ()"
  "checkCheckpointBinding samplePackage sampleReconciler (withCheckpoint sampleCluster st) None (sampleCheckpoint secretDeleteStarted) = Inr ()"
  by (simp_all add: checkCheckpointBinding_def sample_names sample_cluster sample_checkpointed sample_secret
      sample_calls sampleCheckpoint_def sample_binding sampleClient_def)

lemma sample_unread: "readCredentialCheckpoint net sampleCluster = Inr None"
  by (simp add: readCredentialCheckpoint_def sample_cluster)

lemma sample_started:
  "\<lparr>ck_Version = 1, ck_Phase = credentialDeleteStarted, ck_ClusterUID = ''u'', ck_ClusterName = ''demo'',
    ck_SecretName = ''secret'', ck_SecretUID = ''s'', ck_Cloud = Binding sampleSession,
    ck_VolumesPolicy = PolicyDelete, ck_CredentialPolicy = PolicyDelete\<rparr> = sampleCheckpoint credentialDeleteStarted"
  by (simp add: sampleCheckpoint_def)

lemma sample_phases: "ck_Phase (sampleCheckpoint phase) = phase" "ck_Cloud (sampleCheckpoint phase) = Binding sampleSession"
  "cb_CredentialID (Binding sampleSession) = ''cred''"
  by (simp_all add: sampleCheckpoint_def sample_binding)

lemmas sample_run = reconcileCalls_def Reconcile_def reconcileDelete_def finishCleanup_def checkCleanupInputs_def
  findSecret_def ignoringNotFound_def isPaused_def startCredentialCleanup_def resumeCredentialCleanup_def
  resumeCredentialDeletion_def resumeSecretDeletion_def saveCredentialCheckpoint_def hasOtherSecretReferences_def
  secretChanged_def inputsChanged_def referencesSameSecret_def Let_def
  recorded_parts recorded_policy recorded_pure recorded_binding recorded_run recordedOpening_def
  sample_calls sample_functions sample_cluster sample_checkpointed sample_secret sample_names sample_annotations
  sample_saved sample_bound sample_read sample_unread sample_trimmed sample_validated sample_started sample_phases
  phases_sanitised(3) phases_sanitised(3) [symmetric]
  inspect_def andThen_def wrapErr_def lift_res_def ret_def fail_def

abbreviation "callsFrom cluster secret \<equiv>
  reconcileCalls sampleKubernetes samplePackage sampleReconciler sampleRequest (cluster, secret)"

abbreviation "secretRead answer \<equiv> SecretRead (''ns'', ''secret'') answer"

text \<open>The credential is kept: cleanup and release in one reconciliation.\<close>

lemma calls_keep:
  "callsFrom sampleCluster (Some keptSecret) =
     [ClusterRead sampleRequest (Inr sampleCluster), secretRead (Inr keptSecret),
      ResourcesCleaned (purgeOptions sampleReconciler sampleCluster keptSecret) (Inr ()),
      secretRead (Inr keptSecret), ClusterRead sampleRequest (Inr sampleCluster),
      ClusterPatched sampleCluster (releasedFrom sampleCluster) (Inr (releasedFrom sampleCluster)),
      CleanupCounted ''success'']"
  by (simp add: sample_run)

lemma calls_first:
  "callsFrom sampleCluster (Some deletedSecret) =
     [ClusterRead sampleRequest (Inr sampleCluster), secretRead (Inr deletedSecret),
      SessionOpened (purgeOptions sampleReconciler sampleCluster deletedSecret) (Inr (Binding sampleSession)),
      SessionCleaned (purgeOptions sampleReconciler sampleCluster deletedSecret) (Inr ()),
      ClustersListed ''ns'' (Inr [sampleCluster]),
      secretRead (Inr deletedSecret), ClusterRead sampleRequest (Inr sampleCluster),
      ClusterPatched sampleCluster (clusterIn credentialDeleteStarted) (Inr (clusterIn credentialDeleteStarted))]"
  by (simp add: sample_run)

lemma calls_second:
  "callsFrom (clusterIn credentialDeleteStarted) (Some deletedSecret) =
     [ClusterRead sampleRequest (Inr (clusterIn credentialDeleteStarted)), secretRead (Inr deletedSecret),
      SessionOpened (purgeOptions sampleReconciler (clusterIn credentialDeleteStarted) deletedSecret) (Inr (Binding sampleSession)),
      secretRead (Inr deletedSecret), ClusterRead sampleRequest (Inr (clusterIn credentialDeleteStarted)),
      ClustersListed ''ns'' (Inr [clusterIn credentialDeleteStarted]),
      CredentialDeleteCalled (purgeOptions sampleReconciler (clusterIn credentialDeleteStarted) deletedSecret) ''cred'' (Inr ()),
      secretRead (Inr deletedSecret), ClusterRead sampleRequest (Inr (clusterIn credentialDeleteStarted)),
      ClusterPatched (clusterIn credentialDeleteStarted) (clusterIn secretDeleteStarted) (Inr (clusterIn secretDeleteStarted))]"
  by (simp add: sample_run)

lemma calls_third:
  "callsFrom (clusterIn secretDeleteStarted) (Some deletedSecret) =
     [ClusterRead sampleRequest (Inr (clusterIn secretDeleteStarted)), secretRead (Inr deletedSecret),
      secretRead (Inr deletedSecret), ClusterRead sampleRequest (Inr (clusterIn secretDeleteStarted)),
      ClustersListed ''ns'' (Inr [clusterIn secretDeleteStarted]),
      SecretDeleteCalled deletedSecret ''s'' ''7'' (Inr ())]"
  by (simp add: sample_run)

lemma calls_last:
  "callsFrom (clusterIn secretDeleteStarted) None =
     [ClusterRead sampleRequest (Inr (clusterIn secretDeleteStarted)), secretRead (Inl sampleNotFound),
      secretRead (Inl sampleNotFound), ClusterRead sampleRequest (Inr (clusterIn secretDeleteStarted)),
      ClusterPatched (clusterIn secretDeleteStarted) (releasedFrom (clusterIn secretDeleteStarted))
        (Inr (releasedFrom (clusterIn secretDeleteStarted))),
      CleanupCounted ''success'']"
  by (simp add: sample_run)

lemma keep_result:
  "Reconcile sampleKubernetes samplePackage sampleReconciler sampleRequest (sampleCluster, Some keptSecret)
     = (Inr emptyResult, releasedFrom sampleCluster, Some keptSecret)"
  by (simp add: sample_run)

subsection \<open>The properties at work\<close>

lemma keep_release:
  "callsFrom sampleCluster (Some keptSecret) =
     take 5 (callsFrom sampleCluster (Some keptSecret))
     @ ClusterPatched sampleCluster (releasedFrom sampleCluster) (Inr (releasedFrom sampleCluster))
     # [CleanupCounted ''success'']"
  by (simp add: calls_keep)

theorem finalizer_removed_only_after_cleanup_witness:
  "\<exists>observed. ClusterRead sampleRequest (Inr observed) \<in> set (take 5 (callsFrom sampleCluster (Some keptSecret)))
     \<and> osc_DeletionTimestamp observed \<noteq> None"
  using finalizer_removed_only_after_cleanup [OF sampleKubernetes_documented keep_release]
  by (fastforce simp: sample_cluster)

theorem changes_require_unpaused_witness:
  "\<exists>p key latest rest. take 5 (callsFrom sampleCluster (Some keptSecret)) = p @ ClusterRead key (Inr latest) # rest
     \<and> \<not> hasPauseAnnotation sampleKubernetes (osc_Annotations latest)"
proof -
  have "isMutation (ClusterPatched sampleCluster (releasedFrom sampleCluster) (Inr (releasedFrom sampleCluster)))"
    by simp
  from changes_require_unpaused [OF keep_release this] show ?thesis by blast
qed

lemma second_deletion:
  "callsFrom (clusterIn credentialDeleteStarted) (Some deletedSecret) =
     take 6 (callsFrom (clusterIn credentialDeleteStarted) (Some deletedSecret))
     @ CredentialDeleteCalled (purgeOptions sampleReconciler (clusterIn credentialDeleteStarted) deletedSecret) ''cred'' (Inr ())
     # drop 7 (callsFrom (clusterIn credentialDeleteStarted) (Some deletedSecret))"
  by (simp add: calls_second)

theorem credential_deletion_is_gated_witness:
  "\<exists>state :: credentialCheckpoint. cb_CredentialID (ck_Cloud state) = ''cred'' \<and> ck_Phase state = credentialDeleteStarted"
  using credential_deletion_is_gated [OF second_deletion] by metis

lemma third_deletion:
  "callsFrom (clusterIn secretDeleteStarted) (Some deletedSecret) =
     take 5 (callsFrom (clusterIn secretDeleteStarted) (Some deletedSecret))
     @ SecretDeleteCalled deletedSecret ''s'' ''7'' (Inr ()) # []"
  by (simp add: calls_third)

theorem secret_deletion_is_gated_witness:
  "''s'' = secret_UID deletedSecret \<and> ''7'' = secret_ResourceVersion deletedSecret \<and> deletePolicy deletedSecret"
  using secret_deletion_is_gated [OF third_deletion] by blast

lemma sample_first_read:
  "fst (GetOpenStackCluster (reader sampleReconciler) sampleRequest (sampleCluster, Some keptSecret)) = Inr sampleCluster"
  by (simp add: sample_calls)

theorem deletion_is_never_dropped_witness:
  "RequeueAfter emptyResult = pendingDeleteDelay
   \<or> (\<exists>base updated. ClusterPatched base (base\<lparr>osc_Finalizers := filter (\<lambda>g. g \<noteq> Finalizer) (osc_Finalizers base)\<rparr>)
          (Inr updated) \<in> set (callsFrom sampleCluster (Some keptSecret)))
   \<or> (\<exists>c \<in> set (callsFrom sampleCluster (Some keptSecret)). excuse sampleKubernetes c)"
proof (rule deletion_is_never_dropped [OF sampleKubernetes_documented _ sample_first_read _ _ keep_result])
  show "plainDescriptions samplePackage" by (simp add: plainDescriptions_def sample_calls)
qed (simp_all add: sample_cluster)


theorem checkpoint_reads_back_witness:
  "readCredentialCheckpoint sampleURLs (clusterIn secretDeleteStarted) = Inr (Some (sampleCheckpoint secretDeleteStarted))"
  by (rule checkpoint_reads_back [OF sample_valid sample_utf8]) (simp_all add: sample_checkpointed)

subsection \<open>A whole history\<close>

text \<open>A check of the authenticity of the checkpoints of a given list of calls.\<close>

fun sentCheckpoint :: "OpenStackCluster \<Rightarrow> string \<Rightarrow> apiCall \<Rightarrow> bool" where
  "sentCheckpoint c data (ClusterPatched base new a) \<longleftrightarrow>
     osc_UID base = osc_UID c \<and> osc_Annotations new CredentialCheckpointAnnotation = Some data"
| "sentCheckpoint c data _ \<longleftrightarrow> False"

fun authenticRead :: "apiCall list \<Rightarrow> apiCall \<Rightarrow> bool" where
  "authenticRead seen (ClusterRead key (Inr c)) \<longleftrightarrow>
     (case osc_Annotations c CredentialCheckpointAnnotation of
        None \<Rightarrow> True
      | Some data \<Rightarrow> list_ex (sentCheckpoint c data) seen)"
| "authenticRead seen _ \<longleftrightarrow> True"

fun authenticFrom :: "apiCall list \<Rightarrow> apiCall list \<Rightarrow> bool" where
  "authenticFrom seen [] \<longleftrightarrow> True"
| "authenticFrom seen (c # l) \<longleftrightarrow> authenticRead seen c \<and> authenticFrom (seen @ [c]) l"

lemma authenticFrom_split:
  "authenticFrom seen l \<Longrightarrow> l = pre @ c # post \<Longrightarrow> authenticRead (seen @ pre) c"
proof (induction l arbitrary: seen pre)
  case (Cons d l)
  then show ?case by (cases pre) fastforce+
qed simp

lemma sentCheckpoint_patch:
  "sentCheckpoint c data call \<Longrightarrow> \<exists>base new a. call = ClusterPatched base new a \<and> osc_UID base = osc_UID c
     \<and> osc_Annotations new CredentialCheckpointAnnotation = Some data"
  by (cases call) auto

lemma authenticFrom_sound: "authenticFrom [] l \<Longrightarrow> authenticCheckpoints l"
  unfolding authenticCheckpoints_def
proof (intro allI impI)
  fix pre key c post data
  assume "authenticFrom [] l" "l = pre @ ClusterRead key (Inr c) # post"
  from authenticFrom_split [OF this] have "authenticRead pre (ClusterRead key (Inr c))" by simp
  moreover assume "osc_Annotations c CredentialCheckpointAnnotation = Some data"
  ultimately have "list_ex (sentCheckpoint c data) pre" by simp
  then show "\<exists>base new a. ClusterPatched base new a \<in> set pre \<and> osc_UID base = osc_UID c
      \<and> osc_Annotations new CredentialCheckpointAnnotation = Some data"
    unfolding list_ex_iff using sentCheckpoint_patch by blast
qed

abbreviation "sampleHistory \<equiv>
  callsFrom sampleCluster (Some deletedSecret)
  @ callsFrom (clusterIn credentialDeleteStarted) (Some deletedSecret)
  @ callsFrom (clusterIn secretDeleteStarted) (Some deletedSecret)"

lemma sample_history: "history sampleKubernetes samplePackage sampleReconciler sampleHistory"
proof -
  have step: "history sampleKubernetes samplePackage sampleReconciler l \<Longrightarrow>
      history sampleKubernetes samplePackage sampleReconciler (l @ callsFrom cluster secret)" for l cluster secret
    using history.reconciled [of sampleKubernetes samplePackage sampleReconciler l "length (callsFrom cluster secret)"
        sampleRequest "(cluster, secret)"]
    by simp
  have "history sampleKubernetes samplePackage sampleReconciler
      ((([] @ callsFrom sampleCluster (Some deletedSecret))
        @ callsFrom (clusterIn credentialDeleteStarted) (Some deletedSecret))
       @ callsFrom (clusterIn secretDeleteStarted) (Some deletedSecret))"
    by (intro step history.nothing)
  then show ?thesis by simp
qed

lemma sample_authentic: "authenticCheckpoints sampleHistory"
  by (rule authenticFrom_sound)
     (simp add: calls_first calls_second calls_third sample_checkpointed sample_cluster)


subsection \<open>A deployed janitor\<close>

text \<open>
  The reconciler without hooks, over the OpenStack of \<open>sampleOpenstack\<close>, for a cluster that
  keeps its credential.
\<close>

definition deployedReconciler :: "unit OpenStackClusterReconciler" where
  "deployedReconciler = sampleReconcilerOf (\<lambda>w. (sampleCluster, Some keptSecret)) (\<lambda>s w. w)"

abbreviation "deployedCalls \<equiv>
  reconcileCalls sampleKubernetes (openstackPackageOf sampleOpenstack) deployedReconciler sampleRequest ()"

lemma deployed_hooks: "rec_CleanupFunc deployedReconciler = None" "rec_NewSession deployedReconciler = None"
  by (simp_all add: deployedReconciler_def sampleReconcilerOf_def)

lemma deployed_options:
  "purgeOptions deployedReconciler sampleCluster keptSecret =
     \<lparr>po_CloudsYAML = '''', po_CloudName = ''openstack'', po_CACert = '''', po_ClusterName = ''demo'',
      po_DeleteVolumes = True\<rparr>"
  by (simp add: purgeOptions_def sample_names volumesPolicyFor_def sample_cluster deployedReconciler_def
      sampleReconcilerOf_def sampleSecret_def Let_def)

lemma sample_client:
  "NewClient sampleConfigs sampleCerts sampleProvider fmt
     \<lparr>opt_CloudsYAML = '''', opt_CloudName = ''openstack'', opt_CACert = ''''\<rparr> w = (Inr sampleClient, w)"
  by (simp add: NewClient_def loadCredential_def newYAMLLoader_def sampleConfigs_def yamlOpts_def
      LoadCloudsYAML_def sampleOptions_def sampleCloud_def defaultCloudName_def
      AuthV3ApplicationCredential_def sample_trims sample_authority newHTTPClient_def
      sampleProvider_def loadTokenAndCatalog_def loadUser_def loadProject_def loadCatalog_def
      andThen_def inspect_def lift_res_def ret_def yields_def sampleClient_def Let_def)

lemma deployed_cleanup:
  "cleanResources (openstackPackageOf sampleOpenstack) deployedReconciler
     (purgeOptions deployedReconciler sampleCluster keptSecret) w = (Inr (), w)"
proof -
  have "NewCleanupSession sampleOpenstack (purgeOptions deployedReconciler sampleCluster keptSecret) ()
      = (Inr sampleSession, ())"
    by (simp add: NewCleanupSession_def deployed_options andThen_def wrapErr_def clientOptions_def
        sampleOpenstack_def sampleSession_def ret_def sample_trimmed sample_client)
  then show ?thesis
    using sample_cleanup
    by (simp add: cleanResources_def deployed_hooks openstackPackageOf_def PurgeResources_def andThen_def)
qed

lemma deployed_calls:
  "deployedCalls =
     [ClusterRead sampleRequest (Inr sampleCluster), secretRead (Inr keptSecret),
      ResourcesCleaned (purgeOptions deployedReconciler sampleCluster keptSecret) (Inr ()),
      secretRead (Inr keptSecret), ClusterRead sampleRequest (Inr sampleCluster)]
     @ ClusterPatched sampleCluster (releasedFrom sampleCluster) (Inr (releasedFrom sampleCluster))
     # [CleanupCounted ''success'']"
proof -
  have calls: "GetOpenStackCluster (reader deployedReconciler) key w = (Inr sampleCluster, w)"
    "GetSecret (reader deployedReconciler) key w = (Inr keptSecret, w)"
    "PatchCluster (rec_Client deployedReconciler) base new w = (Inr new, w)"
    "countCleanup (recordedReconciler deployedReconciler) outcome (w, l) = ((), w, l @ [CleanupCounted outcome])"
    "recordEvent (recordedReconciler deployedReconciler) obj eventType reason message (w, l) = ((), w, l)"
    for key w base new outcome l obj eventType reason message
    by (simp_all add: reader_def deployedReconciler_def sampleReconcilerOf_def sampleClientOf_def
        sampleReader_def countCleanup_def recordEvent_def recordedReconciler_def recorded_def yields_def)
  show ?thesis by (simp add: calls sample_run deployed_cleanup)
qed

theorem released_clusters_are_clean_witness:
  "\<exists>s w0 w1 w w'. NewCleanupSession sampleOpenstack (purgeOptions deployedReconciler sampleCluster keptSecret) w0 = (Inr s, w1)
     \<and> nothingLeft sampleOpenstack sampleResponses s w w'"
proof -
  have "history sampleKubernetes (openstackPackageOf sampleOpenstack) deployedReconciler ([] @ take 7 deployedCalls)"
    by (intro history.reconciled history.nothing)
  then have h: "history sampleKubernetes (openstackPackageOf sampleOpenstack) deployedReconciler deployedCalls"
    by (simp add: deployed_calls)
  have a: "authenticCheckpoints deployedCalls"
    by (rule authenticFrom_sound) (simp add: deployed_calls sample_cluster)
  from released_clusters_are_clean [OF sampleKubernetes_documented sample_openstack_documented
      deployed_hooks h a deployed_calls]
  obtain options s w0 w1 w w' where *:
    "ResourcesCleaned options (Inr ()) \<in> set (take 5 deployedCalls)
     \<or> SessionCleaned options (Inr ()) \<in> set (take 5 deployedCalls)"
    "NewCleanupSession sampleOpenstack options w0 = (Inr s, w1)" "nothingLeft sampleOpenstack sampleResponses s w w'"
    by (fastforce simp: sample_cluster deployed_calls)
  from *(1) have "options = purgeOptions deployedReconciler sampleCluster keptSecret"
    by (auto simp: deployed_calls)
  with * show ?thesis by blast
qed

subsection \<open>A paused owner\<close>

definition ownerCluster :: "bool \<Rightarrow> Cluster" where
  "ownerCluster paused =
     \<lparr>cluster_Name = ''owner'', cluster_Namespace = ''ns'', cluster_UID = ''o'',
      cluster_Annotations = Map.empty, cluster_Paused = paused\<rparr>"

definition pausedReader :: "unit Reader" where
  "pausedReader = (sampleReader (\<lambda>w. (sampleCluster, None)))
     \<lparr>GetCluster := (\<lambda>key w. (if key = (''ns'', ''owner'') then Inr (ownerCluster True) else Inl sampleNotFound, w))\<rparr>"

abbreviation "ownerReference \<equiv>
  \<lparr>ref_APIVersion = ''cluster.x-k8s.io/v1beta1'', ref_Kind = ''Cluster'', ref_Name = ''owner'', ref_UID = ''o''\<rparr>"

text \<open>The owner that pauses the cluster is its second one; the first is gone.\<close>

definition ownedCluster :: OpenStackCluster where
  "ownedCluster = sampleCluster\<lparr>osc_OwnerReferences :=
     [ownerReference\<lparr>ref_Name := ''gone''\<rparr>, ownerReference]\<rparr>"

abbreviation "pausedClient \<equiv> sampleClientOf (\<lambda>w :: unit. (ownedCluster, None)) (\<lambda>s w. w)"

theorem pause_end_wakes_cluster_witness:
  "clusterPauseChanged sampleKubernetes (Some (ownerCluster True)) (Some (ownerCluster False))
   \<and> objectKey ownedCluster \<in> set (fst (requestsForCluster pausedClient (ownerCluster False) ()))
   \<and> fst (requestsForSecret pausedClient keptSecret ()) = [objectKey ownedCluster]"
proof -
  have cache: "currentCache sampleKubernetes pausedClient [ownedCluster]"
    by (simp add: currentCache_def sampleClientOf_def)
  have owner: "isClusterOwner sampleKubernetes ownerReference"
    "isClusterOwner sampleKubernetes (ownerReference\<lparr>ref_Name := ''gone''\<rparr>)"
    by (simp_all add: isClusterOwner_def sampleKubernetes_def)
  have fields: "osc_Namespace ownedCluster = ''ns''" "ident_Name (osc_IdentityRef ownedCluster) = ''secret''"
    "ident_Type (osc_IdentityRef ownedCluster) = ''''" "secret_Namespace keptSecret = ''ns''"
    "osc_OwnerReferences ownedCluster = [ownerReference\<lparr>ref_Name := ''gone''\<rparr>, ownerReference]"
    "osc_Annotations ownedCluster = Map.empty"
    by (simp_all add: ownedCluster_def sample_cluster sampleSecret_def)
  have reads: "GetCluster pausedReader key w =
      (if key = (''ns'', ''owner'') then Inr (ownerCluster True) else Inl sampleNotFound, w)" for key w
    by (simp add: pausedReader_def)
  have paused: "isPaused sampleKubernetes (recordedReader pausedReader) ownedCluster ((), []) =
      (Inr True, ((), [OwnerRead (''ns'', ''gone'') (Inl sampleNotFound), OwnerRead (''ns'', ''owner'') (Inr (ownerCluster True))]))"
    using owner
    by (simp add: isPaused_def fields reads sample_functions recorded_calls recorded_run inspect_def ret_def
        ownerCluster_def)
  have plain: "\<not> hasPauseAnnotation sampleKubernetes (osc_Annotations ownedCluster)"
    by (simp add: fields sample_functions)
  have "ownedCluster \<in> set [ownedCluster]" "secret_Name keptSecret \<noteq> ''''" by (simp_all add: sample_secret)
  note X = pause_end_wakes_cluster [OF cache this(1) paused plain this(2), where v = "()"]
  have identity: "pausedOwner sampleKubernetes (ownerCluster True)" "\<not> pausedOwner sampleKubernetes (ownerCluster False)"
    "(cluster_Namespace (ownerCluster False), cluster_Name (ownerCluster False), cluster_UID (ownerCluster False))
       = (osc_Namespace ownedCluster, ref_Name ownerReference, ref_UID ownerReference)"
    "ownerReference \<in> set (osc_OwnerReferences ownedCluster)"
    by (simp_all add: pausedOwner_def ownerCluster_def fields sample_functions)
  with X owner(1) have "clusterPauseChanged sampleKubernetes (Some (ownerCluster True)) (Some (ownerCluster False))
      \<and> objectKey ownedCluster \<in> set (fst (requestsForCluster pausedClient (ownerCluster False) ()))" by blast
  moreover have "fst (requestsForSecret pausedClient keptSecret ()) = [objectKey ownedCluster]"
    using conjunct2 [OF conjunct2 [OF X]] by (simp add: fields sample_secret)
  ultimately show ?thesis by blast
qed

subsection \<open>A deletion from beginning to end\<close>

text \<open>
  The cluster, its Secret, whether the credential exists and whether the project still has the
  cluster's security group.
\<close>

type_synonym smallWorld = "OpenStackCluster option \<times> Secret option \<times> bool \<times> bool"

definition sampleGroup :: SecurityGroup where
  "sampleGroup = \<lparr>sg_ID = ''g1'', sg_Description = securityGroupDescriptionPrefix @ securityGroupDescriptionSuffix @ ''demo''\<rparr>"

definition groupsLeft :: "bool \<Rightarrow> Inventory" where
  "groupsLeft there = emptyInventory\<lparr>inv_SecurityGroups := (if there then [sampleGroup] else [])\<rparr>"

definition smallView :: "smallWorld \<Rightarrow> view" where
  "smallView = (\<lambda>(cluster, secret, live, there). worldView cluster secret live (groupsLeft there))"

lemma smallView_simps [simp]:
  "the_cluster (smallView w) = fst w" "the_secret (smallView w) = fst (snd w)"
  "credential_live (smallView w) = fst (snd (snd w))" "inventory (smallView w) = groupsLeft (snd (snd (snd w)))"
  by (simp_all add: smallView_def split: prod.split)

text \<open>The API server.\<close>

definition smallReader :: "smallWorld Reader" where
  "smallReader =
     \<lparr>GetOpenStackCluster = (\<lambda>key w. (case fst w of None \<Rightarrow> Inl sampleNotFound | Some c \<Rightarrow> Inr c, w)),
      GetCluster = (\<lambda>key w. (Inl sampleNotFound, w)),
      GetSecret = (\<lambda>key w. (case fst (snd w) of None \<Rightarrow> Inl sampleNotFound | Some s \<Rightarrow> Inr s, w)),
      ListOpenStackClusters = (\<lambda>ns w. (Inr (case fst w of None \<Rightarrow> [] | Some c \<Rightarrow> [sampleCluster]), w))\<rparr>"

definition smallReconciler :: "smallWorld OpenStackClusterReconciler" where
  "smallReconciler =
     \<lparr>rec_Client =
        \<lparr>client_Reader = smallReader, ListMatching = (\<lambda>ns index key w. (Inr [], w)),
         PatchCluster = (\<lambda>base new w. (Inr (new\<lparr>osc_ResourceVersion := ''9''\<rparr>),
            (if osc_DeletionTimestamp new \<noteq> None \<and> osc_Finalizers new = [] then None
             else Some (new\<lparr>osc_ResourceVersion := ''9''\<rparr>)), snd w)),
         DeleteSecret = (\<lambda>secret uid version w. (Inr (), fst w, None, snd (snd w)))\<rparr>,
      rec_APIReader = None, rec_DefaultVolumesPolicy = '''', rec_RetryDefaultDelay = 60,
      rec_Metrics = None, rec_Recorder = None, rec_CleanupFunc = None, rec_NewSession = None\<rparr>"

lemma small_calls:
  "GetOpenStackCluster (reader smallReconciler) key w
     = (case fst w of None \<Rightarrow> Inl sampleNotFound | Some c \<Rightarrow> Inr c, w)"
  "GetCluster (reader smallReconciler) key w = (Inl sampleNotFound, w)"
  "GetSecret (reader smallReconciler) key w
     = (case fst (snd w) of None \<Rightarrow> Inl sampleNotFound | Some s \<Rightarrow> Inr s, w)"
  "ListOpenStackClusters (reader smallReconciler) ns w
     = (Inr (case fst w of None \<Rightarrow> [] | Some c \<Rightarrow> [sampleCluster]), w)"
  "PatchCluster (rec_Client smallReconciler) base new w = (Inr (new\<lparr>osc_ResourceVersion := ''9''\<rparr>),
      (if osc_DeletionTimestamp new \<noteq> None \<and> osc_Finalizers new = [] then None
       else Some (new\<lparr>osc_ResourceVersion := ''9''\<rparr>)), snd w)"
  "DeleteSecret (rec_Client smallReconciler) secret uid version w = (Inr (), fst w, None, snd (snd w))"
  "countCleanup smallReconciler outcome w = ((), w)"
  "recordEvent smallReconciler obj eventType reason message w = ((), w)"
  "rec_CleanupFunc smallReconciler = None" "rec_NewSession smallReconciler = None"
  "volumesPolicyFor smallReconciler sampleCluster = PolicyDelete"
  by (simp_all add: reader_def smallReconciler_def smallReader_def countCleanup_def recordEvent_def yields_def
      volumesPolicyFor_def sample_cluster)

lemma small_server:
  "stores smallView smallReconciler sampleKubernetes"
  "leavesAlone smallView smallReconciler sampleKubernetes sampleCluster"
  by (auto simp: stores_def leavesAlone_def wp_def small_calls sample_functions sample_cluster sampleKubernetes_def
      sample_annotations sharedIn_def hasPauseAnnotation_def sampleNotFound_def smallView_def
      split: option.split prod.splits)

text \<open>The cloud: one security group, deleted by its ID; the credential goes with its DELETE.\<close>

definition smallOpenstack :: "(smallWorld, unit, unit, unit, unit) openstack" where
  "smallOpenstack =
     \<lparr>os_configs = sampleConfigs, os_certs = sampleCerts, os_gophercloud = sampleProvider,
      os_neutron = sampleNeutron
        \<lparr>floatingips_EachPage := (\<lambda>c p. samplePager noContent),
         groups_EachPage := (\<lambda>c p create handle acc w. samplePager
           (if snd (snd (snd w)) then [sampleResponse ''security_groups'' []] else noContent) create handle acc w),
         ExtractGroups := (\<lambda>p. Inr [\<lparr>gsg_ID = ''g1'', gsg_Description = sg_Description sampleGroup,
                                    gsg_ProjectID = '''', gsg_TenantID = ''p1''\<rparr>]),
         groups_Delete := (\<lambda>c i w. (None, fst w, fst (snd w), fst (snd (snd w)), snd (snd (snd w)) \<and> i \<noteq> ''g1''))\<rparr>,
      os_octavia = sampleOctavia\<lparr>loadbalancers_EachPage := (\<lambda>c p. samplePager noContent)\<rparr>,
      os_cinder = sampleCinder
        \<lparr>snapshots_EachPage := (\<lambda>c. samplePager noContent), volumes_EachPage := (\<lambda>c. samplePager noContent)\<rparr>,
      os_keystone = \<lparr>NewIdentityV3 = (\<lambda>p e. ret ()),
        keystone_Delete = (\<lambda>c url codes w. (None, fst w, fst (snd w), False, snd (snd (snd w))))\<rparr>,
      os_fmt = (\<lambda>f. '''')\<rparr>"

abbreviation "smallOptions \<equiv> purgeOptions smallReconciler sampleCluster deletedSecret"

lemma small_options:
  "smallOptions = \<lparr>po_CloudsYAML = '''', po_CloudName = ''openstack'', po_CACert = '''', po_ClusterName = ''demo'',
                   po_DeleteVolumes = True\<rparr>"
  by (simp add: purgeOptions_def sample_names small_calls sampleSecret_def)

lemma small_lists:
  "ListServiceLoadBalancers (os_octavia smallOpenstack) v w = (Inr [], w)"
  "ListNetworkFloatingIPs (os_neutron smallOpenstack) v w = (Inr [], w)"
  "service_projectID v = ''p1'' \<Longrightarrow> ListNetworkSecurityGroups (os_neutron smallOpenstack) v w
     = (Inr (inv_SecurityGroups (groupsLeft (snd (snd (snd w))))), w)"
  "ListServiceSnapshots (os_cinder smallOpenstack) v w = (Inr [], w)"
  "ListServiceVolumes (os_cinder smallOpenstack) v w = (Inr [], w)"
  by (simp_all add: ListServiceLoadBalancers_def ListNetworkFloatingIPs_def ListNetworkSecurityGroups_def
      ListServiceSnapshots_def ListServiceVolumes_def smallOpenstack_def listing_eval traverse_noContent
      groupsLeft_def sampleGroup_def emptyInventory_def securityGroupHandler_def resourceBelongsToProject_def)

lemma small_deletes:
  "i \<noteq> '''' \<Longrightarrow> DeleteServiceLoadBalancer (os_octavia smallOpenstack) v i w = (Inr (), w)"
  "i \<noteq> '''' \<Longrightarrow> DeleteNetworkFloatingIP (os_neutron smallOpenstack) v i w = (Inr (), w)"
  "i \<noteq> '''' \<Longrightarrow> DeleteNetworkSecurityGroup (os_neutron smallOpenstack) v i w
     = (Inr (), fst w, fst (snd w), fst (snd (snd w)), snd (snd (snd w)) \<and> i \<noteq> ''g1'')"
  "i \<noteq> '''' \<Longrightarrow> DeleteServiceSnapshot (os_cinder smallOpenstack) v i w = (Inr (), w)"
  "i \<noteq> '''' \<Longrightarrow> DeleteServiceVolume (os_cinder smallOpenstack) v i w = (Inr (), w)"
  by (simp_all add: DeleteServiceLoadBalancer_def DeleteNetworkFloatingIP_def DeleteNetworkSecurityGroup_def
      DeleteServiceSnapshot_def DeleteServiceVolume_def smallOpenstack_def sampleNeutron_def sampleOctavia_def
      sampleCinder_def inspect_def yields_def ret_def)

lemma small_removes:
  "removeID k i (groupsLeft there) = groupsLeft (there \<and> (k = KSecurityGroup \<longrightarrow> i \<noteq> ''g1''))"
  by (cases k) (auto simp: removeID_def groupsLeft_def sampleGroup_def emptyInventory_def)

lemma small_serves:
  assumes "service_projectID net = ''p1''"
  shows "serves smallView policy (resourceServices smallOpenstack net lb (Some vol))"
  using assms
  by (simp add: serves_def resourceServices_def networkFloatingIPService_def networkSecurityGroupService_def
      loadBalancerService_def snapshotService_def volumeService_def tracks_def small_lists small_deletes removes_def
      small_removes) (simp add: smallView_def groupsLeft_def emptyInventory_def split: prod.split)

lemma small_project: "projectServes smallView smallOpenstack sampleSession"
proof -
  have "openServices smallOpenstack sampleSession w = (Inr (\<lparr>service_client = (), service_projectID = ''p1''\<rparr>,
      \<lparr>service_client = (), service_projectID = ''p1''\<rparr>, Some \<lparr>service_client = (), service_projectID = ''p1''\<rparr>), w)" for w
    by (simp add: openServices_def sampleSession_def NewNetworkService_def NewLoadBalancerService_def NewVolumeService_def
        newProjectService_def smallOpenstack_def sampleNeutron_def sampleOctavia_def sampleCinder_def
        sampleClient_def IsAuthenticated_def ProjectID_def andThen_def wrapErr_def ret_def)
  moreover have "NewIdentityService (os_keystone smallOpenstack) (Some sampleClient) w
      = (Inr \<lparr>identity_client = (), identity_userID = ''u1''\<rparr>, w)" for w
    by (simp add: NewIdentityService_def smallOpenstack_def sampleClient_def IsAuthenticated_def UserID_def
        andThen_def wrapErr_def ret_def)
  moreover have "DeleteIdentityApplicationCredential (os_keystone smallOpenstack) service ''cred'' w
      = (Inr (), fst w, fst (snd w), False, snd (snd (snd w)))" for service w
    by (simp add: DeleteIdentityApplicationCredential_def smallOpenstack_def inspect_def ret_def)
  moreover have "ApplicationCredentialID (Some sampleClient) = ''cred''"
    by (simp add: ApplicationCredentialID_def sampleClient_def)
  moreover have "gc_Token (os_gophercloud smallOpenstack) p w = (''tok'', w)" for p w
    by (simp add: smallOpenstack_def sampleProvider_def yields_def)
  moreover have "session_client sampleSession = sampleClient" by (simp add: sampleSession_def)
  ultimately show ?thesis
    using small_serves by (auto simp: projectServes_def wp_def smallView_def split: prod.split)
qed

lemma small_cloud: "cloudServes smallView smallOpenstack smallOptions (Binding sampleSession)"
proof -
  have "sessionFor smallOptions sampleClient = sampleSession"
    by (simp add: sessionFor_def small_options sampleSession_def)
  moreover have "NewClient (os_configs smallOpenstack) (os_certs smallOpenstack) (os_gophercloud smallOpenstack)
      (os_fmt smallOpenstack) (clientOptions smallOptions) w = (Inr sampleClient, w)" for w
    by (simp add: clientOptions_def small_options smallOpenstack_def sample_client)
  ultimately show ?thesis
    using small_project by (auto simp: cloudServes_def wp_def sample_phases)
qed

lemma small_deletable:
  "deletable smallReconciler (openstackPackageOf smallOpenstack) sampleCluster deletedSecret (Binding sampleSession)"
proof -
  have "firstCheckpoint smallReconciler sampleCluster deletedSecret (Binding sampleSession)
      = sampleCheckpoint credentialDeleteStarted"
    by (simp add: firstCheckpoint_def sample_cluster sample_names sample_secret small_calls sample_started)
  moreover have "DescribeCredential (os_configs smallOpenstack) smallOptions = Inr (cl_credentialConfig sampleClient)"
    by (simp add: small_options DescribeCredential_def clientOptions_def smallOpenstack_def ParseCredentialConfig_def
      loadCredential_def newYAMLLoader_def sampleConfigs_def yamlOpts_def LoadCloudsYAML_def sampleCloud_def
      defaultCloudName_def AuthV3ApplicationCredential_def sample_trims sample_authority sampleClient_def Let_def)
  moreover have "net_url (os_configs smallOpenstack) = sampleURLs"
    by (simp add: smallOpenstack_def sampleConfigs_def)
  ultimately show ?thesis
    using sample_valid [of credentialDeleteStarted] sample_utf8 [of credentialDeleteStarted]
    by (simp add: deletable_def openstackPackageOf_def sample_cluster usableIdentity_def sample_names sample_trimmed
        sampleSecret_def sample_binding describes_def sampleClient_def)
qed

lemma small_cleanable: "cleanable ''demo'' (groupsLeft there)"
  by (auto simp: cleanable_def groupsLeft_def emptyInventory_def sampleGroup_def ownedIDs_def usableLoadBalancers_def
      usableFloatingIPs_def split: kind.split)

theorem deletion_completes_witness:
  "\<exists>n \<le> 5. untilSettled (n + 4)
     (Reconcile sampleKubernetes (openstackPackageOf smallOpenstack) smallReconciler sampleRequest)
     (Some sampleCluster, Some deletedSecret, True, True) = Some (None, None, False, False)"
proof -
  have purged: "purged ''demo'' \<lparr>DeleteVolumes = True\<rparr> (groupsLeft True) = groupsLeft False"
    by (simp add: purged_def groupsLeft_def emptyInventory_def sampleGroup_def securityGroupDescriptionMatchesCluster_def
        HasSuffix_iff)
  have seen: "smallView w = worldView None None False (groupsLeft False) \<Longrightarrow> w = (None, None, False, False)" for w
    by (cases w) (simp add: smallView_def groupsLeft_def emptyInventory_def split: if_splits)
  have "smallView (Some sampleCluster, Some deletedSecret, True, True)
      = worldView (Some sampleCluster) (Some deletedSecret) True (groupsLeft True)"
    by (simp add: smallView_def)
  from deletion_completes [OF sampleKubernetes_documented small_server small_calls(9,10) small_deletable small_cloud
      this, unfolded sample_names, OF small_cleanable]
  obtain n w' where n: "n \<le> 5" and run: "untilSettled (n + 4)
      (Reconcile sampleKubernetes (openstackPackageOf smallOpenstack) smallReconciler sampleRequest)
      (Some sampleCluster, Some deletedSecret, True, True) = Some w'"
    and w': "smallView w' = worldView None None False (groupsLeft False)"
    by (auto simp: small_options deletePolicy_def sample_secret Let_def purged)
  from run n show ?thesis unfolding seen [OF w'] by blast
qed

end
