(* ===== verification/Manager_Setup.thy ===== *)
theory Manager_Setup
  imports Controller_History
begin

section \<open>Setting up the janitor\<close>

text \<open>
  \<open>SetupWithManager\<close>, \<open>setupLifecycleWatches\<close>, the metrics of \<open>metrics.go\<close> and the reconciler
  that \<open>main\<close> builds. The manager of controller-runtime and the registry of Prometheus are
  parameters; what is registered with the builder is a value. Logging is left out.
\<close>

subsection \<open>Metrics\<close>

text \<open>
  A counter with labels, and what is used of the Prometheus client: \<open>MustRegister\<close>, whose error
  is the value it panics with, and \<open>WithLabelValues(labels).Inc()\<close>.
\<close>

record CounterVec =
  counter_Namespace :: string
  counter_Name :: string
  counter_Help :: string
  counter_Labels :: "string list"

record 'w prometheus =
  MustRegister :: "CounterVec \<Rightarrow> ('w, error, unit) act"
  IncCounter :: "CounterVec \<Rightarrow> string list \<Rightarrow> ('w, unit) op"

record Metrics =
  CleanupsTotal :: CounterVec

definition NewMetrics :: "'w prometheus \<Rightarrow> ('w, error, Metrics) act" where
  "NewMetrics reg =
     (let m = \<lparr>CleanupsTotal =
        \<lparr>counter_Namespace = ''capi_janitor'', counter_Name = ''cleanups_total'',
         counter_Help = ''Total number of OpenStack cluster cleanups, labelled by result (success|failure).'',
         counter_Labels = [''result'']\<rparr>\<rparr>
      in andThen (MustRegister reg (CleanupsTotal m)) (\<lambda>_. ret m))"

text \<open>The counter as the reconciler uses it.\<close>

definition counting :: "'w prometheus \<Rightarrow> Metrics \<Rightarrow> string \<Rightarrow> ('w, unit) op" where
  "counting reg m outcome = IncCounter reg (CleanupsTotal m) [outcome]"

subsection \<open>The manager and the builder\<close>

text \<open>The second argument of \<open>NewTypedItemExponentialFailureRateLimiter\<close> bounds the delay.\<close>

record 'w controllerBuilder =
  builder_baseDelay :: "64 word"
  builder_maxDelay :: "64 word"
  builder_secretWatch :: "Secret \<Rightarrow> ('w, ObjectKey list) op"
  builder_clusterWatch :: "Cluster \<Rightarrow> ('w, ObjectKey list) op"
  builder_clusterUpdate :: "Cluster option \<Rightarrow> Cluster option \<Rightarrow> bool"

record 'w Manager =
  mgr_Client :: "'w KubeClient"
  mgr_APIReader :: "'w Reader"
  mgr_EventRecorder :: "OpenStackCluster \<Rightarrow> string \<Rightarrow> string \<Rightarrow> string \<Rightarrow> ('w, unit) op"
  mgr_IndexField :: "string \<Rightarrow> (OpenStackCluster \<Rightarrow> string list) \<Rightarrow> ('w, error, unit) act"
  mgr_Complete :: "'w controllerBuilder \<Rightarrow> 'w OpenStackClusterReconciler \<Rightarrow> ('w, error, unit) act"
  mgr_AddHealthzCheck :: "string \<Rightarrow> ('w, error, unit) act"
  mgr_AddReadyzCheck :: "string \<Rightarrow> ('w, error, unit) act"
  mgr_Start :: "('w, error, unit) act"

definition retryBaseDelay :: "64 word" where "retryBaseDelay = 1000000000"

text \<open>What the two indexes and the two watches are, for the client of the reconciler.\<close>

definition setupLifecycleWatches ::
  "kubernetes \<Rightarrow> 'w Manager \<Rightarrow> 'w OpenStackClusterReconciler \<Rightarrow> 'w controllerBuilder
   \<Rightarrow> ('w, error, 'w controllerBuilder) act"
where
  "setupLifecycleWatches k mgr r b =
     andThen (wrapErr (Wrapf [Txt ''indexing identity Secrets''])
                (mgr_IndexField mgr identitySecretIndex identitySecretKeys)) (\<lambda>_.
     andThen (wrapErr (Wrapf [Txt ''indexing owning Clusters''])
                (mgr_IndexField mgr ownerClusterIndex (ownerClusterKeys k))) (\<lambda>_.
     ret (b\<lparr>builder_secretWatch := requestsForSecret (rec_Client r),
            builder_clusterWatch := requestsForCluster (rec_Client r),
            builder_clusterUpdate := clusterPauseChanged k\<rparr>)))"

text \<open>
  The fields that are nil are filled in before anything is registered. The registration of the
  metrics may panic; every other failure of the setup is an error.
\<close>

datatype setupFailure = Panic error | Failed error

definition failingAs :: "('e \<Rightarrow> 'f) \<Rightarrow> ('w, 'e, 'a) act \<Rightarrow> ('w, 'f, 'a) act" where
  "failingAs g m = inspect m (\<lambda>r. case r of Inl e \<Rightarrow> fail (g e) | Inr a \<Rightarrow> ret a)"

definition defaultMetrics ::
  "'w prometheus \<Rightarrow> 'w OpenStackClusterReconciler \<Rightarrow> ('w, error, string \<Rightarrow> ('w, unit) op) act"
where
  "defaultMetrics reg r =
     (case rec_Metrics r of
        None \<Rightarrow> andThen (NewMetrics reg) (\<lambda>m. ret (counting reg m))
      | Some inc \<Rightarrow> ret inc)"

definition withDefaults ::
  "'w Manager \<Rightarrow> (string \<Rightarrow> ('w, unit) op) \<Rightarrow> 'w OpenStackClusterReconciler \<Rightarrow> 'w OpenStackClusterReconciler"
where
  "withDefaults mgr inc r =
     r\<lparr>rec_APIReader := Some (case rec_APIReader r of None \<Rightarrow> mgr_APIReader mgr | Some rd \<Rightarrow> rd),
       rec_Recorder := Some (case rec_Recorder r of None \<Rightarrow> mgr_EventRecorder mgr | Some event \<Rightarrow> event),
       rec_Metrics := Some inc\<rparr>"

definition SetupWithManager ::
  "kubernetes \<Rightarrow> 'w prometheus \<Rightarrow> 'w Manager \<Rightarrow> 'w OpenStackClusterReconciler \<Rightarrow> ('w, setupFailure, unit) act"
where
  "SetupWithManager k reg mgr r0 =
     andThen (failingAs Panic (defaultMetrics reg r0)) (\<lambda>inc.
     let r = withDefaults mgr inc r0;
         b = \<lparr>builder_baseDelay = retryBaseDelay, builder_maxDelay = maxRetryDelay r,
              builder_secretWatch = (\<lambda>_. yields []), builder_clusterWatch = (\<lambda>_. yields []),
              builder_clusterUpdate = (\<lambda>_ _. True)\<rparr>
     in failingAs Failed (andThen (setupLifecycleWatches k mgr r b) (\<lambda>b'. mgr_Complete mgr b' r)))"

definition mainReconciler :: "'w Manager \<Rightarrow> (string \<Rightarrow> string) \<Rightarrow> 'w OpenStackClusterReconciler" where
  "mainReconciler mgr Getenv =
     \<lparr>rec_Client = mgr_Client mgr, rec_APIReader = None,
      rec_DefaultVolumesPolicy = DefaultVolumesFromEnv Getenv,
      rec_RetryDefaultDelay = RetryDelayFromEnv Getenv,
      rec_Metrics = None, rec_Recorder = None, rec_CleanupFunc = None, rec_NewSession = None\<rparr>"

subsection \<open>The reconciler that runs\<close>

text \<open>
  The reconciler that is completed has no hooks, reads from the API server and not from the
  cache, and its wake-ups use the client of the manager.
\<close>

lemma running_reconciler:
  "rec_CleanupFunc (withDefaults mgr inc (mainReconciler mgr Getenv)) = None"
  "rec_NewSession (withDefaults mgr inc (mainReconciler mgr Getenv)) = None"
  "reader (withDefaults mgr inc (mainReconciler mgr Getenv)) = mgr_APIReader mgr"
  "rec_Client (withDefaults mgr inc (mainReconciler mgr Getenv)) = mgr_Client mgr"
  by (simp_all add: withDefaults_def mainReconciler_def reader_def)

lemma failingAs_Inr: "failingAs g m w = (Inr a, w') \<longleftrightarrow> m w = (Inr a, w')"
  by (cases "m w"; cases "fst (m w)") (simp_all add: failingAs_def inspect_def fail_def ret_def)

lemma setupLifecycleWatches_Inr:
  assumes "setupLifecycleWatches k mgr r b w = (Inr b', w')"
  shows "\<exists>w1. mgr_IndexField mgr identitySecretIndex identitySecretKeys w = (Inr (), w1)
     \<and> mgr_IndexField mgr ownerClusterIndex (ownerClusterKeys k) w1 = (Inr (), w')
     \<and> b' = b\<lparr>builder_secretWatch := requestsForSecret (rec_Client r),
             builder_clusterWatch := requestsForCluster (rec_Client r),
             builder_clusterUpdate := clusterPauseChanged k\<rparr>"
  using assms by (simp add: setupLifecycleWatches_def success_rules)

text \<open>What a successful setup has registered, and with which reconciler.\<close>

definition registered ::
  "kubernetes \<Rightarrow> 'w prometheus \<Rightarrow> 'w Manager \<Rightarrow> 'w OpenStackClusterReconciler
   \<Rightarrow> 'w controllerBuilder \<Rightarrow> 'w OpenStackClusterReconciler \<Rightarrow> 'w \<Rightarrow> 'w \<Rightarrow> bool"
where
  "registered k reg mgr r0 b r w w' \<longleftrightarrow>
     (\<exists>inc w1 w2 w3. defaultMetrics reg r0 w = (Inr inc, w1) \<and> r = withDefaults mgr inc r0
      \<and> mgr_IndexField mgr identitySecretIndex (indexKeys k identitySecretIndex) w1 = (Inr (), w2)
      \<and> mgr_IndexField mgr ownerClusterIndex (indexKeys k ownerClusterIndex) w2 = (Inr (), w3)
      \<and> mgr_Complete mgr b r w3 = (Inr (), w'))
   \<and> builder_baseDelay b = retryBaseDelay \<and> builder_maxDelay b = maxRetryDelay r0
   \<and> builder_secretWatch b = requestsForSecret (rec_Client r0)
   \<and> builder_clusterWatch b = requestsForCluster (rec_Client r0)
   \<and> builder_clusterUpdate b = clusterPauseChanged k"

lemma setup_registers:
  assumes "SetupWithManager k reg mgr r0 w = (Inr (), w')"
  shows "\<exists>b r. registered k reg mgr r0 b r w w'"
proof -
  have same: "rec_Client (withDefaults mgr inc r0) = rec_Client r0"
    "maxRetryDelay (withDefaults mgr inc r0) = maxRetryDelay r0" for inc
    by (simp_all add: withDefaults_def maxRetryDelay_def)
  from assms obtain inc w1 b w3 where inc: "defaultMetrics reg r0 w = (Inr inc, w1)"
    and b: "setupLifecycleWatches k mgr (withDefaults mgr inc r0)
        \<lparr>builder_baseDelay = retryBaseDelay, builder_maxDelay = maxRetryDelay r0,
         builder_secretWatch = (\<lambda>_. yields []), builder_clusterWatch = (\<lambda>_. yields []),
         builder_clusterUpdate = (\<lambda>_ _. True)\<rparr> w1 = (Inr b, w3)"
    and complete: "mgr_Complete mgr b (withDefaults mgr inc r0) w3 = (Inr (), w')"
    by (auto simp: SetupWithManager_def Let_def success_rules failingAs_Inr same)
  from setupLifecycleWatches_Inr [OF b] inc complete show ?thesis
    unfolding registered_def by (intro exI [of _ b] exI [of _ "withDefaults mgr inc r0"]) (auto simp: same)
qed

text \<open>What is known of the reconciler once the setup has succeeded.\<close>

lemma registered_reconciler:
  assumes "registered k reg mgr (mainReconciler mgr Getenv) b r w w'"
  shows "rec_CleanupFunc r = None" "rec_NewSession r = None"
    "(volumesPolicyFor r cluster = PolicyDelete) \<longleftrightarrow>
       (case osc_Annotations cluster VolumesPolicyAnnotation of
          Some policy \<Rightarrow> policy | None \<Rightarrow> DefaultVolumesFromEnv Getenv) = PolicyDelete"
proof -
  obtain inc where r: "r = withDefaults mgr inc (mainReconciler mgr Getenv)"
    using assms unfolding registered_def by blast
  have policy: "rec_DefaultVolumesPolicy r = DefaultVolumesFromEnv Getenv"
    by (simp add: r withDefaults_def mainReconciler_def)
  have "DefaultVolumesFromEnv Getenv \<noteq> ''''" by (simp add: DefaultVolumesFromEnv_def Let_def PolicyDelete_def)
  moreover have "PolicyDelete \<noteq> ''keep''" by (simp add: PolicyDelete_def)
  ultimately show "(volumesPolicyFor r cluster = PolicyDelete) \<longleftrightarrow>
       (case osc_Annotations cluster VolumesPolicyAnnotation of
          Some policy \<Rightarrow> policy | None \<Rightarrow> DefaultVolumesFromEnv Getenv) = PolicyDelete"
    by (simp add: volumesPolicyFor_def policy Let_def)
qed (use assms in \<open>auto simp: registered_def running_reconciler\<close>)

end
