(* ===== verification/Command_Line.thy ===== *)
theory Command_Line
  imports Go_Errors
begin

section \<open>The command line\<close>

text \<open>
  The flags of \<open>cmd/main.go\<close> and the \<open>flag\<close> package of the standard library as \<open>main\<close> uses it:
  \<open>StringVar\<close>, \<open>BoolVar\<close> and \<open>Parse\<close>. The flags of the libraries (those of \<open>zap\<close>, and the
  \<open>kubeconfig\<close> flag of controller-runtime) are a parameter; \<open>main\<close> hands their values on.
\<close>

subsection \<open>The flag package\<close>

text \<open>A \<open>flag.Value\<close> over a state of variables: \<open>Set\<close> of a value that does not parse is \<open>None\<close>.\<close>

record 's flagValue =
  IsBoolFlag :: bool
  SetFlag :: "string \<Rightarrow> 's \<Rightarrow> 's option"

text \<open>\<open>strconv.ParseBool\<close>\<close>

definition ParseBool :: "string \<Rightarrow> bool option" where
  "ParseBool s =
     (if s \<in> {''1'', ''t'', ''T'', ''TRUE'', ''true'', ''True''} then Some True
      else if s \<in> {''0'', ''f'', ''F'', ''FALSE'', ''false'', ''False''} then Some False
      else None)"

definition StringVar :: "(string \<Rightarrow> 's \<Rightarrow> 's) \<Rightarrow> 's flagValue" where
  "StringVar upd = \<lparr>IsBoolFlag = False, SetFlag = (\<lambda>v s. Some (upd v s))\<rparr>"

definition BoolVar :: "(bool \<Rightarrow> 's \<Rightarrow> 's) \<Rightarrow> 's flagValue" where
  "BoolVar upd = \<lparr>IsBoolFlag = True, SetFlag = (\<lambda>v s. map_option (\<lambda>b. upd b s) (ParseBool v))\<rparr>"

datatype parseFailure = ErrHelp | BadFlag msg

text \<open>
  What one argument is: no flag, the terminator \<open>--\<close>, a malformed flag, or a flag with its name
  and, after \<open>=\<close>, its value.
\<close>

datatype argument = NoFlag | Terminator | Malformed | Named string "string option"

definition argumentOf :: "string \<Rightarrow> argument" where
  "argumentOf s =
     (if length s < 2 \<or> hd s \<noteq> CHR ''-'' then NoFlag
      else if s = ''--'' then Terminator
      else
        (let name = (if s ! 1 = CHR ''-'' then drop 2 s else drop 1 s) in
         if name = '''' \<or> hd name = CHR ''-'' \<or> hd name = CHR ''='' then Malformed
         else (case Cut name ''='' of (before, after, found) \<Rightarrow> Named before (if found then Some after else None))))"

text \<open>\<open>FlagSet.Parse\<close> with its calls of \<open>parseOne\<close>: the variables and the arguments that are left.\<close>

function Parse ::
  "(string \<rightharpoonup> 's flagValue) \<Rightarrow> string list \<Rightarrow> 's \<Rightarrow> parseFailure + ('s \<times> string list)"
where
  "Parse formal [] s = Inr (s, [])"
| "Parse formal (arg # args) s =
     (case argumentOf arg of
        NoFlag \<Rightarrow> Inr (s, arg # args)
      | Terminator \<Rightarrow> Inr (s, args)
      | Malformed \<Rightarrow> Inl (BadFlag [Txt ''bad flag syntax: '', Str arg])
      | Named name value0 \<Rightarrow>
          (case formal name of
             None \<Rightarrow>
               if name = ''help'' \<or> name = ''h'' then Inl ErrHelp
               else Inl (BadFlag [Txt ''flag provided but not defined: -'', Str name])
           | Some fv \<Rightarrow>
               if IsBoolFlag fv
               then
                 (case SetFlag fv (case value0 of Some v \<Rightarrow> v | None \<Rightarrow> ''true'') s of
                    None \<Rightarrow> Inl (BadFlag [Txt ''invalid boolean value for -'', Str name])
                  | Some s' \<Rightarrow> Parse formal args s')
               else
                 (case value0 of
                    Some v \<Rightarrow>
                      (case SetFlag fv v s of
                         None \<Rightarrow> Inl (BadFlag [Txt ''invalid value '', Quo v, Txt '' for flag -'', Str name])
                       | Some s' \<Rightarrow> Parse formal args s')
                  | None \<Rightarrow>
                      (case args of
                         [] \<Rightarrow> Inl (BadFlag [Txt ''flag needs an argument: -'', Str name])
                       | v # args' \<Rightarrow>
                           (case SetFlag fv v s of
                              None \<Rightarrow> Inl (BadFlag [Txt ''invalid value '', Quo v, Txt '' for flag -'', Str name])
                            | Some s' \<Rightarrow> Parse formal args' s')))))"
  by pat_completeness auto
termination
  by (relation "measure (\<lambda>(formal, args, s). length args)") auto

subsection \<open>The flags of main\<close>

record flags =
  metricsAddr :: string
  probeAddr :: string
  enableLeaderElection :: bool
  secureMetrics :: bool
  webhookCertPath :: string
  webhookCertName :: string
  webhookCertKey :: string
  metricsCertPath :: string
  metricsCertName :: string
  metricsCertKey :: string
  enableHTTP2 :: bool
  libraryValues :: "(string \<times> string) list"  \<comment> \<open>what was set on the flags of the libraries\<close>

definition defaultFlags :: flags where
  "defaultFlags =
     \<lparr>metricsAddr = ''0'', probeAddr = '':8081'', enableLeaderElection = False, secureMetrics = True,
      webhookCertPath = '''', webhookCertName = ''tls.crt'', webhookCertKey = ''tls.key'',
      metricsCertPath = '''', metricsCertName = ''tls.crt'', metricsCertKey = ''tls.key'',
      enableHTTP2 = False, libraryValues = []\<rparr>"

definition mainFlags :: "(string \<times> flags flagValue) list" where
  "mainFlags =
     [(''metrics-bind-address'', StringVar (\<lambda>v f. f\<lparr>metricsAddr := v\<rparr>)),
      (''health-probe-bind-address'', StringVar (\<lambda>v f. f\<lparr>probeAddr := v\<rparr>)),
      (''leader-elect'', BoolVar (\<lambda>b f. f\<lparr>enableLeaderElection := b\<rparr>)),
      (''metrics-secure'', BoolVar (\<lambda>b f. f\<lparr>secureMetrics := b\<rparr>)),
      (''webhook-cert-path'', StringVar (\<lambda>v f. f\<lparr>webhookCertPath := v\<rparr>)),
      (''webhook-cert-name'', StringVar (\<lambda>v f. f\<lparr>webhookCertName := v\<rparr>)),
      (''webhook-cert-key'', StringVar (\<lambda>v f. f\<lparr>webhookCertKey := v\<rparr>)),
      (''metrics-cert-path'', StringVar (\<lambda>v f. f\<lparr>metricsCertPath := v\<rparr>)),
      (''metrics-cert-name'', StringVar (\<lambda>v f. f\<lparr>metricsCertName := v\<rparr>)),
      (''metrics-cert-key'', StringVar (\<lambda>v f. f\<lparr>metricsCertKey := v\<rparr>)),
      (''enable-http2'', BoolVar (\<lambda>b f. f\<lparr>enableHTTP2 := b\<rparr>))]"

text \<open>A flag of a library: its name, whether it is a boolean flag, and the values it accepts.\<close>

type_synonym libraryFlag = "string \<times> bool \<times> (string \<Rightarrow> bool)"

definition libraryFlagValue :: "libraryFlag \<Rightarrow> string \<times> flags flagValue" where
  "libraryFlagValue = (\<lambda>(name, isBool, accepts).
     (name, \<lparr>IsBoolFlag = isBool,
             SetFlag = (\<lambda>v f. if accepts v then Some (f\<lparr>libraryValues := libraryValues f @ [(name, v)]\<rparr>) else None)\<rparr>))"

text \<open>All flags of the process; a name that is defined twice is a panic of \<open>flag.Var\<close>.\<close>

definition commandLine :: "libraryFlag list \<Rightarrow> (string \<times> flags flagValue) list" where
  "commandLine libs = mainFlags @ map libraryFlagValue libs"

definition parseFlags :: "libraryFlag list \<Rightarrow> string list \<Rightarrow> parseFailure + (flags \<times> string list)" where
  "parseFlags libs args = Parse (map_of (commandLine libs)) args defaultFlags"

subsection \<open>Flags in the form --name=value\<close>

definition assignment :: "string \<Rightarrow> string \<Rightarrow> string" where
  "assignment name v = ''--'' @ name @ ''='' @ v"

lemma argumentOf_assignment:
  assumes "name \<noteq> ''''" and "hd name \<noteq> CHR ''-''" and "CHR ''='' \<notin> set name"
  shows "argumentOf (assignment name v) = Named name (Some v)"
proof -
  have "hd name \<noteq> CHR ''=''" using assms(1,3) by (cases name) auto
  then show ?thesis using assms Cut_char [of "CHR ''=''" name v] by (simp add: argumentOf_def assignment_def)
qed

lemma Parse_assignment:
  assumes "formal name = Some fv" and "SetFlag fv v s = Some s'"
    and "name \<noteq> ''''" and "hd name \<noteq> CHR ''-''" and "CHR ''='' \<notin> set name"
  shows "Parse formal (assignment name v # args) s = Parse formal args s'"
  using argumentOf_assignment [OF assms(3-5)] assms(1,2) by simp

definition showBool :: "bool \<Rightarrow> string" where
  "showBool b = (if b then ''true'' else ''false'')"

lemma ParseBool_showBool [simp]: "ParseBool (showBool b) = Some b"
  by (simp add: ParseBool_def showBool_def)

definition assignments :: "flags \<Rightarrow> (string \<times> string) list" where
  "assignments f =
     [(''metrics-bind-address'', metricsAddr f), (''health-probe-bind-address'', probeAddr f),
      (''leader-elect'', showBool (enableLeaderElection f)), (''metrics-secure'', showBool (secureMetrics f)),
      (''webhook-cert-path'', webhookCertPath f), (''webhook-cert-name'', webhookCertName f),
      (''webhook-cert-key'', webhookCertKey f), (''metrics-cert-path'', metricsCertPath f),
      (''metrics-cert-name'', metricsCertName f), (''metrics-cert-key'', metricsCertKey f),
      (''enable-http2'', showBool (enableHTTP2 f))]"

definition showFlags :: "flags \<Rightarrow> string list" where
  "showFlags f = map (\<lambda>(name, v). assignment name v) (assignments f)"

text \<open>
  Every setting of the variables can be given on the command line, whatever characters the
  values have, and is understood as it was given.
\<close>

lemma parse_shown: "parseFlags libs (showFlags f) = Inr (f\<lparr>libraryValues := []\<rparr>, [])"
  by (simp add: parseFlags_def showFlags_def assignments_def commandLine_def mainFlags_def defaultFlags_def
      Parse_assignment StringVar_def BoolVar_def del: Parse.simps(2))

subsection \<open>Flags that are not given\<close>

definition mentions :: "string \<Rightarrow> string \<Rightarrow> bool" where
  "mentions name arg \<longleftrightarrow> (case argumentOf arg of Named n v \<Rightarrow> n = name | _ \<Rightarrow> False)"

text \<open>What only one flag sets is untouched by arguments that do not name that flag.\<close>


definition keeps :: "('s \<Rightarrow> 'b) \<Rightarrow> 's flagValue \<Rightarrow> bool" where
  "keeps get fv \<longleftrightarrow> (\<forall>v u u'. SetFlag fv v u = Some u' \<longrightarrow> get u' = get u)"

lemma keepsD: "keeps get fv \<Longrightarrow> SetFlag fv v u = Some u' \<Longrightarrow> get u' = get u"
  by (simp add: keeps_def)

lemma keeps_vars:
  "(\<And>v u. get (upd v u) = get u) \<Longrightarrow> keeps get (StringVar upd)"
  "(\<And>b u. get (updb b u) = get u) \<Longrightarrow> keeps get (BoolVar updb)"
  "(\<And>u vs. get' (u\<lparr>libraryValues := vs\<rparr>) = get' u) \<Longrightarrow> keeps get' (snd (libraryFlagValue lib))"
  by (auto simp: keeps_def StringVar_def BoolVar_def libraryFlagValue_def split: prod.splits)

lemma Parse_untouched:
  assumes "\<And>n fv. formal n = Some fv \<Longrightarrow> n \<noteq> name \<Longrightarrow> keeps get fv"
  shows "Parse formal args s = Inr (s', rest) \<Longrightarrow> \<not> list_ex (mentions name) args \<Longrightarrow> get s' = get s"
proof (induction "length args" arbitrary: args s rule: less_induct)
  case less
  show ?case
  proof (cases args)
    case Nil
    then show ?thesis using less.prems by simp
  next
    case (Cons arg more)
    have step: "keeps get fv" if "argumentOf arg = Named n w" "formal n = Some fv" for n fv w
      using assms that less.prems(2) Cons by (auto simp: mentions_def)
    have IH: "get s' = get u" if "Parse formal others u = Inr (s', rest)" "length others \<le> length more"
      "\<not> list_ex (mentions name) others" for others u
      using less.hyps [of others u] that Cons by simp
    show ?thesis
    proof (cases "argumentOf arg")
      case (Named n value0)
      show ?thesis
      proof (cases "formal n")
        case (Some fv)
        note set = keepsD [OF step [OF Named Some]]
        obtain v u others where "SetFlag fv v s = Some u" "Parse formal others u = Inr (s', rest)"
          "length others \<le> length more" "\<not> list_ex (mentions name) others"
          using less.prems by (auto simp: Cons Named Some split: option.splits if_splits list.splits)
        then show ?thesis using set IH by simp
      qed (use less.prems Cons Named in \<open>auto split: if_splits\<close>)
    qed (use less.prems Cons in auto)
  qed
qed

lemma parseFlags_untouched:
  assumes "parseFlags libs args = Inr (f, rest)" and "\<not> list_ex (mentions name) args"
    and "list_all (\<lambda>(n, fv). n = name \<or> keeps get fv) mainFlags"
    and "\<And>u vs. get (u\<lparr>libraryValues := vs\<rparr>) = get u"
  shows "get f = get defaultFlags"
proof (rule Parse_untouched [OF _ assms(1) [unfolded parseFlags_def] assms(2)])
  fix n fv
  assume "map_of (commandLine libs) n = Some fv" and other: "n \<noteq> name"
  then consider "(n, fv) \<in> set mainFlags" | lib where "(n, fv) = libraryFlagValue lib"
    using map_of_SomeD [of "commandLine libs" n fv] by (auto simp: commandLine_def)
  then show "keeps get fv"
  proof cases
    case 1
    then show ?thesis using assms(3) other by (auto simp: list_all_iff)
  next
    case 2
    then show ?thesis using keeps_vars(3) [of get lib] assms(4) by (metis snd_conv)
  qed
qed

text \<open>The settings that make the servers safe, when they are not asked for otherwise.\<close>

lemma defaults_kept:
  assumes "parseFlags libs args = Inr (f, rest)"
  shows "\<not> list_ex (mentions ''enable-http2'') args \<Longrightarrow> enableHTTP2 f = enableHTTP2 defaultFlags"
    "\<not> list_ex (mentions ''metrics-secure'') args \<Longrightarrow> secureMetrics f = secureMetrics defaultFlags"
    "\<not> list_ex (mentions ''metrics-bind-address'') args \<Longrightarrow> metricsAddr f = metricsAddr defaultFlags"
    "\<not> list_ex (mentions ''leader-elect'') args \<Longrightarrow> enableLeaderElection f = enableLeaderElection defaultFlags"
  by (erule parseFlags_untouched [OF assms], simp add: mainFlags_def keeps_vars, simp)+

end
