(* ===== verification/Manager_Main.thy ===== *)
theory Manager_Main
  imports Manager_Setup Command_Line
begin

section \<open>The program\<close>

text \<open>
  \<open>cmd/main.go\<close>: from the command line to the running manager. The scheme, the web servers,
  the configuration of the API client and the manager belong to libraries and are
  parameters; the options that \<open>main\<close> builds for them are values. Logging is left out.
\<close>

subsection \<open>Options\<close>

record tlsConfig =
  NextProtos :: "string list"

record webhookOptions =
  webhook_TLSOpts :: "(tlsConfig \<Rightarrow> tlsConfig) list"
  webhook_CertDir :: string
  webhook_CertName :: string
  webhook_KeyName :: string

record 'f metricsOptions =
  BindAddress :: string
  SecureServing :: bool
  metrics_TLSOpts :: "(tlsConfig \<Rightarrow> tlsConfig) list"
  FilterProvider :: "'f option"
  metrics_CertDir :: string
  metrics_CertName :: string
  metrics_KeyName :: string

text \<open>The objects the janitor reads, as types of \<open>client.Object\<close>.\<close>

datatype objectType = SecretType | OpenStackClusterType | ClusterType

record cacheOptions =
  DisableFor :: "objectType list"

record ('s, 'v, 'f) managerOptions =
  opts_Scheme :: 's
  opts_ClientCache :: cacheOptions
  opts_Metrics :: "'f metricsOptions"
  opts_WebhookServer :: 'v
  HealthProbeBindAddress :: string
  LeaderElection :: bool
  LeaderElectionID :: string

definition disableHTTP2 :: "tlsConfig \<Rightarrow> tlsConfig" where
  "disableHTTP2 c = c\<lparr>NextProtos := [''http/1.1'']\<rparr>"

definition tlsOpts :: "flags \<Rightarrow> (tlsConfig \<Rightarrow> tlsConfig) list" where
  "tlsOpts f = (if \<not> enableHTTP2 f then [] @ [disableHTTP2] else [])"

definition webhookServerOptions :: "flags \<Rightarrow> webhookOptions" where
  "webhookServerOptions f =
     (let opts = \<lparr>webhook_TLSOpts = tlsOpts f, webhook_CertDir = '''', webhook_CertName = '''', webhook_KeyName = ''''\<rparr>
      in if length (webhookCertPath f) > 0
         then opts\<lparr>webhook_CertDir := webhookCertPath f, webhook_CertName := webhookCertName f,
                   webhook_KeyName := webhookCertKey f\<rparr>
         else opts)"

text \<open>The filter is \<open>filters.WithAuthenticationAndAuthorization\<close>.\<close>

definition metricsServerOptions :: "'f \<Rightarrow> flags \<Rightarrow> 'f metricsOptions" where
  "metricsServerOptions withAuthenticationAndAuthorization f =
     (let opts0 = \<lparr>BindAddress = metricsAddr f, SecureServing = secureMetrics f, metrics_TLSOpts = tlsOpts f,
                   FilterProvider = None, metrics_CertDir = '''', metrics_CertName = '''', metrics_KeyName = ''''\<rparr>;
          opts = (if secureMetrics f then opts0\<lparr>FilterProvider := Some withAuthenticationAndAuthorization\<rparr> else opts0)
      in if length (metricsCertPath f) > 0
         then opts\<lparr>metrics_CertDir := metricsCertPath f, metrics_CertName := metricsCertName f,
                   metrics_KeyName := metricsCertKey f\<rparr>
         else opts)"

definition managerClientOptions :: cacheOptions where
  "managerClientOptions = \<lparr>DisableFor = [SecretType]\<rparr>"

subsection \<open>Libraries\<close>

text \<open>
  The packages whose types \<open>init\<close> adds to the scheme, and the functions that \<open>main\<close> calls.
  \<open>GetConfigOrDie\<close> ends the process with status 1 when there is no configuration.
\<close>

datatype schemeBuilder = ClientGoScheme | InfraV1 | ClusterV1

record ('w, 's, 'v, 'f, 'c) mainLibraries =
  lib_Flags :: "libraryFlag list"
  lib_NewScheme :: 's
  lib_AddToScheme :: "schemeBuilder \<Rightarrow> 's \<Rightarrow> error + 's"
  lib_NewServer :: "webhookOptions \<Rightarrow> 'v"
  lib_Filter :: 'f
  lib_GetConfig :: "(string \<times> string) list \<Rightarrow> ('w, error, 'c) act"
  lib_NewManager :: "'c \<Rightarrow> ('s, 'v, 'f) managerOptions \<Rightarrow> ('w, error, 'w Manager) act"

text \<open>\<open>init\<close>: an error is a panic of \<open>utilruntime.Must\<close>.\<close>

fun addSchemes :: "(schemeBuilder \<Rightarrow> 's \<Rightarrow> error + 's) \<Rightarrow> schemeBuilder list \<Rightarrow> 's \<Rightarrow> error + 's" where
  "addSchemes add [] scheme = Inr scheme"
| "addSchemes add (b # bs) scheme =
     (case add b scheme of Inl err \<Rightarrow> Inl err | Inr scheme' \<Rightarrow> addSchemes add bs scheme')"

definition initScheme :: "('w, 's, 'v, 'f, 'c) mainLibraries \<Rightarrow> error + 's" where
  "initScheme libs = addSchemes (lib_AddToScheme libs) [ClientGoScheme, InfraV1, ClusterV1] (lib_NewScheme libs)"

definition ctrlOptions :: "('w, 's, 'v, 'f, 'c) mainLibraries \<Rightarrow> 's \<Rightarrow> flags \<Rightarrow> ('s, 'v, 'f) managerOptions" where
  "ctrlOptions libs scheme f =
     \<lparr>opts_Scheme = scheme, opts_ClientCache = managerClientOptions,
      opts_Metrics = metricsServerOptions (lib_Filter libs) f,
      opts_WebhookServer = lib_NewServer libs (webhookServerOptions f),
      HealthProbeBindAddress = probeAddr f, LeaderElection = enableLeaderElection f,
      LeaderElectionID = ''4e3e11ff.capi.stackhpc.com''\<rparr>"

subsection \<open>main\<close>

text \<open>How the process ends: \<open>main\<close> returns, \<open>os.Exit\<close> with a status, or a panic.\<close>

datatype ending = Returned | Exited nat | Panicked

text \<open>\<open>if err := m(); err != nil { os.Exit(1) }\<close>\<close>

definition orExit :: "('w, error, 'a) act \<Rightarrow> ('a \<Rightarrow> ('w, ending) op) \<Rightarrow> ('w, ending) op" where
  "orExit m f = inspect m (\<lambda>r. case r of Inl err \<Rightarrow> yields (Exited 1) | Inr a \<Rightarrow> f a)"

definition setupOrExit :: "('w, setupFailure, unit) act \<Rightarrow> ('w, ending) op \<Rightarrow> ('w, ending) op" where
  "setupOrExit m n = inspect m (\<lambda>r. case r of
     Inl (Panic value) \<Rightarrow> yields Panicked | Inl (Failed err) \<Rightarrow> yields (Exited 1) | Inr _ \<Rightarrow> n)"

definition runManager ::
  "kubernetes \<Rightarrow> 'w prometheus \<Rightarrow> (string \<Rightarrow> string) \<Rightarrow> 'w Manager \<Rightarrow> ('w, ending) op"
where
  "runManager k reg Getenv mgr =
     setupOrExit (SetupWithManager k reg mgr (mainReconciler mgr Getenv))
       (orExit (mgr_AddHealthzCheck mgr ''healthz'') (\<lambda>_.
        orExit (mgr_AddReadyzCheck mgr ''readyz'') (\<lambda>_.
        orExit (mgr_Start mgr) (\<lambda>_. yields Returned))))"

definition main_main ::
  "kubernetes \<Rightarrow> 'w prometheus \<Rightarrow> ('w, 's, 'v, 'f, 'c) mainLibraries \<Rightarrow> (string \<Rightarrow> string) \<Rightarrow> string list
   \<Rightarrow> ('w, ending) op"
where
  "main_main k reg libs Getenv args =
     (case initScheme libs of
        Inl value \<Rightarrow> yields Panicked
      | Inr scheme \<Rightarrow>
          if \<not> distinct (map fst (commandLine (lib_Flags libs))) then yields Panicked
          else
            (case parseFlags (lib_Flags libs) args of
               Inl ErrHelp \<Rightarrow> yields (Exited 0)
             | Inl (BadFlag m) \<Rightarrow> yields (Exited 2)
             | Inr (f, rest) \<Rightarrow>
                 orExit (lib_GetConfig libs (libraryValues f)) (\<lambda>config.
                 orExit (lib_NewManager libs config (ctrlOptions libs scheme f)) (\<lambda>mgr.
                 runManager k reg Getenv mgr))))"

subsection \<open>What runs\<close>

lemma orExit_Returned:
  "orExit m f w = (Returned, w') \<longleftrightarrow> (\<exists>a w1. m w = (Inr a, w1) \<and> f a w1 = (Returned, w'))"
  by (cases "m w"; cases "fst (m w)") (simp_all add: orExit_def inspect_def yields_def)

lemma setupOrExit_Returned:
  "setupOrExit m n w = (Returned, w') \<longleftrightarrow> (\<exists>w1. m w = (Inr (), w1) \<and> n w1 = (Returned, w'))"
  by (cases "m w"; cases "fst (m w)")
     (auto simp: setupOrExit_def inspect_def yields_def split: setupFailure.split)

lemmas returned_rules = orExit_Returned setupOrExit_Returned

lemma runManager_Returned:
  assumes "runManager k reg Getenv mgr w = (Returned, w')"
  shows "\<exists>b r w1 w2 w3. registered k reg mgr (mainReconciler mgr Getenv) b r w w1
     \<and> mgr_AddHealthzCheck mgr ''healthz'' w1 = (Inr (), w2)
     \<and> mgr_AddReadyzCheck mgr ''readyz'' w2 = (Inr (), w3)
     \<and> mgr_Start mgr w3 = (Inr (), w')"
proof -
  from assms obtain w1 w2 w3 where set: "SetupWithManager k reg mgr (mainReconciler mgr Getenv) w = (Inr (), w1)"
    and rest: "mgr_AddHealthzCheck mgr ''healthz'' w1 = (Inr (), w2)"
      "mgr_AddReadyzCheck mgr ''readyz'' w2 = (Inr (), w3)" "mgr_Start mgr w3 = (Inr (), w')"
    by (auto simp: runManager_def returned_rules yields_def)
  from setup_registers [OF set] rest show ?thesis by blast
qed

lemma main_main_Returned:
  assumes "main_main k reg libs Getenv args w = (Returned, w')"
  shows "\<exists>scheme f rest config mgr w1 w2. initScheme libs = Inr scheme
     \<and> distinct (map fst (commandLine (lib_Flags libs)))
     \<and> parseFlags (lib_Flags libs) args = Inr (f, rest)
     \<and> lib_GetConfig libs (libraryValues f) w = (Inr config, w1)
     \<and> lib_NewManager libs config (ctrlOptions libs scheme f) w1 = (Inr mgr, w2)
     \<and> runManager k reg Getenv mgr w2 = (Returned, w')"
  using assms
  by (auto simp: main_main_def returned_rules yields_def split: sum.splits if_splits parseFailure.splits prod.splits)

lemma initScheme_Inr:
  "initScheme libs = Inr scheme \<longleftrightarrow>
     (\<exists>s1 s2. lib_AddToScheme libs ClientGoScheme (lib_NewScheme libs) = Inr s1
        \<and> lib_AddToScheme libs InfraV1 s1 = Inr s2 \<and> lib_AddToScheme libs ClusterV1 s2 = Inr scheme)"
  by (auto simp: initScheme_def split: sum.split)

text \<open>The janitor's counter, as \<open>metrics.go\<close> describes it.\<close>

abbreviation cleanupsTotal :: CounterVec where
  "cleanupsTotal \<equiv>
     \<lparr>counter_Namespace = ''capi_janitor'', counter_Name = ''cleanups_total'',
      counter_Help = ''Total number of OpenStack cluster cleanups, labelled by result (success|failure).'',
      counter_Labels = [''result'']\<rparr>"

lemma setup_steps:
  assumes "SetupWithManager k reg mgr (mainReconciler mgr Getenv) w = (Inr (), w')"
  shows "\<exists>w1 w2 w3. MustRegister reg cleanupsTotal w = (Inr (), w1)
     \<and> mgr_IndexField mgr ''janitor.identitySecret'' identitySecretKeys w1 = (Inr (), w2)
     \<and> mgr_IndexField mgr ''janitor.ownerCluster'' (ownerClusterKeys k) w2 = (Inr (), w3)
     \<and> mgr_Complete mgr
         \<lparr>builder_baseDelay = 1000000000, builder_maxDelay = maxRetryDelay (mainReconciler mgr Getenv),
          builder_secretWatch = requestsForSecret (mgr_Client mgr),
          builder_clusterWatch = requestsForCluster (mgr_Client mgr),
          builder_clusterUpdate = clusterPauseChanged k\<rparr>
         \<lparr>rec_Client = mgr_Client mgr, rec_APIReader = Some (mgr_APIReader mgr),
          rec_DefaultVolumesPolicy = DefaultVolumesFromEnv Getenv, rec_RetryDefaultDelay = RetryDelayFromEnv Getenv,
          rec_Metrics = Some (\<lambda>outcome. IncCounter reg cleanupsTotal [outcome]),
          rec_Recorder = Some (mgr_EventRecorder mgr), rec_CleanupFunc = None, rec_NewSession = None\<rparr> w3 = (Inr (), w')"
proof -
  have none: "rec_Metrics (mainReconciler mgr Getenv) = None" by (simp add: mainReconciler_def)
  define r where "r = withDefaults mgr (counting reg \<lparr>CleanupsTotal = cleanupsTotal\<rparr>) (mainReconciler mgr Getenv)"
  from assms obtain w1 b w3 where register: "MustRegister reg cleanupsTotal w = (Inr (), w1)"
    and watches: "setupLifecycleWatches k mgr r
        \<lparr>builder_baseDelay = retryBaseDelay, builder_maxDelay = maxRetryDelay r,
         builder_secretWatch = (\<lambda>_. yields []), builder_clusterWatch = (\<lambda>_. yields []),
         builder_clusterUpdate = (\<lambda>_ _. True)\<rparr> w1 = (Inr b, w3)"
    and complete: "mgr_Complete mgr b r w3 = (Inr (), w')"
    by (auto simp: SetupWithManager_def defaultMetrics_def none NewMetrics_def Let_def success_rules failingAs_Inr
        simp flip: r_def)
  show ?thesis
    using register setupLifecycleWatches_Inr [OF watches] complete
    by (auto simp: r_def withDefaults_def mainReconciler_def maxRetryDelay_def counting_def [abs_def]
        retryBaseDelay_def identitySecretIndex_def ownerClusterIndex_def)
qed

text \<open>
  C22. The program that returns has run a manager for the janitor, and each of its steps has
  succeeded, one after the other. The types of client-go, of the provider and of the
  Cluster API were added to a new scheme, no two flags had the same name, and the
  command line was read. The manager was made with the configuration for the flags that were
  given, with this scheme and the settings of the command line. Then the janitor's counter and
  the two indexes were registered; the controller was completed with both watches, the
  pause filter and the delays of the environment, for a reconciler without test hooks
  that reads from the API server and not from the cache, counts with this counter, and has
  the volumes policy of the environment; the health and the readiness check were added; and
  the manager was started.
\<close>

theorem main_runs_the_janitor:
  assumes "main_main k reg libs Getenv args w = (Returned, w')"
  shows "\<exists>s1 s2 scheme f rest config mgr w1 w2 w3 w4 w5 w6 w7 w8.
     lib_AddToScheme libs ClientGoScheme (lib_NewScheme libs) = Inr s1
   \<and> lib_AddToScheme libs InfraV1 s1 = Inr s2 \<and> lib_AddToScheme libs ClusterV1 s2 = Inr scheme
   \<and> distinct (map fst (commandLine (lib_Flags libs)))
   \<and> parseFlags (lib_Flags libs) args = Inr (f, rest)
   \<and> lib_GetConfig libs (libraryValues f) w = (Inr config, w1)
   \<and> lib_NewManager libs config
       \<lparr>opts_Scheme = scheme, opts_ClientCache = \<lparr>DisableFor = [SecretType]\<rparr>,
        opts_Metrics = metricsServerOptions (lib_Filter libs) f,
        opts_WebhookServer = lib_NewServer libs (webhookServerOptions f),
        HealthProbeBindAddress = probeAddr f, LeaderElection = enableLeaderElection f,
        LeaderElectionID = ''4e3e11ff.capi.stackhpc.com''\<rparr> w1 = (Inr mgr, w2)
   \<and> MustRegister reg cleanupsTotal w2 = (Inr (), w3)
   \<and> mgr_IndexField mgr ''janitor.identitySecret'' identitySecretKeys w3 = (Inr (), w4)
   \<and> mgr_IndexField mgr ''janitor.ownerCluster'' (ownerClusterKeys k) w4 = (Inr (), w5)
   \<and> mgr_Complete mgr
       \<lparr>builder_baseDelay = 1000000000,
        builder_maxDelay = (let d = RetryDelayFromEnv Getenv in (if sint d \<le> 0 then 60 else d) * 1000000000),
        builder_secretWatch = requestsForSecret (mgr_Client mgr),
        builder_clusterWatch = requestsForCluster (mgr_Client mgr),
        builder_clusterUpdate = clusterPauseChanged k\<rparr>
       \<lparr>rec_Client = mgr_Client mgr, rec_APIReader = Some (mgr_APIReader mgr),
        rec_DefaultVolumesPolicy = DefaultVolumesFromEnv Getenv, rec_RetryDefaultDelay = RetryDelayFromEnv Getenv,
        rec_Metrics = Some (\<lambda>outcome. IncCounter reg cleanupsTotal [outcome]),
        rec_Recorder = Some (mgr_EventRecorder mgr), rec_CleanupFunc = None, rec_NewSession = None\<rparr> w5 = (Inr (), w6)
   \<and> mgr_AddHealthzCheck mgr ''healthz'' w6 = (Inr (), w7) \<and> mgr_AddReadyzCheck mgr ''readyz'' w7 = (Inr (), w8)
   \<and> mgr_Start mgr w8 = (Inr (), w')"
proof -
  from main_main_Returned [OF assms] obtain scheme f rest config mgr w1 w2 where
    scheme: "initScheme libs = Inr scheme" and names: "distinct (map fst (commandLine (lib_Flags libs)))"
    and start: "parseFlags (lib_Flags libs) args = Inr (f, rest)"
      "lib_GetConfig libs (libraryValues f) w = (Inr config, w1)"
      "lib_NewManager libs config (ctrlOptions libs scheme f) w1 = (Inr mgr, w2)"
    and run: "runManager k reg Getenv mgr w2 = (Returned, w')" by blast
  from run obtain w6 w7 w8 where steps: "SetupWithManager k reg mgr (mainReconciler mgr Getenv) w2 = (Inr (), w6)"
    and checks: "mgr_AddHealthzCheck mgr ''healthz'' w6 = (Inr (), w7)"
      "mgr_AddReadyzCheck mgr ''readyz'' w7 = (Inr (), w8)" "mgr_Start mgr w8 = (Inr (), w')"
    by (auto simp: runManager_def returned_rules yields_def)
  have delay: "maxRetryDelay (mainReconciler mgr Getenv)
      = (let d = RetryDelayFromEnv Getenv in (if sint d \<le> 0 then 60 else d) * 1000000000)"
    by (simp add: maxRetryDelay_def mainReconciler_def Let_def defaultRetryDelay_def)
  from scheme names start setup_steps [OF steps] checks show ?thesis
    unfolding initScheme_Inr ctrlOptions_def managerClientOptions_def delay by blast
qed

text \<open>The servers apply the TLS options to their configuration one after the other.\<close>

definition applyTLS :: "(tlsConfig \<Rightarrow> tlsConfig) list \<Rightarrow> tlsConfig \<Rightarrow> tlsConfig" where
  "applyTLS opts c = fold (\<lambda>f. f) opts c"

text \<open>
  C23. The servers of the manager are safe unless the command line asks for something else.
  Without the flag \<open>enable-http2\<close> both servers offer only HTTP/1.1, whatever their
  configuration was; with \<open>enable-http2\<close> set it is left as it was. Without \<open>metrics-secure\<close>
  the metrics are served over TLS and behind authentication and authorisation, without
  \<open>metrics-bind-address\<close> they are not served at all. The client of the manager never reads
  Secrets from its cache.
\<close>

theorem servers_are_hardened:
  assumes "parseFlags (lib_Flags libs) args = Inr (f, rest)"
  shows "(\<not> list_ex (mentions ''enable-http2'') args \<longrightarrow>
       NextProtos (applyTLS (metrics_TLSOpts (opts_Metrics (ctrlOptions libs scheme f))) c) = [''http/1.1'']
     \<and> NextProtos (applyTLS (webhook_TLSOpts (webhookServerOptions f)) c) = [''http/1.1''])
   \<and> (enableHTTP2 f \<longrightarrow>
       applyTLS (metrics_TLSOpts (opts_Metrics (ctrlOptions libs scheme f))) c = c
     \<and> applyTLS (webhook_TLSOpts (webhookServerOptions f)) c = c)
   \<and> (\<not> list_ex (mentions ''metrics-secure'') args \<longrightarrow>
       SecureServing (opts_Metrics (ctrlOptions libs scheme f))
     \<and> FilterProvider (opts_Metrics (ctrlOptions libs scheme f)) = Some (lib_Filter libs))
   \<and> (\<not> list_ex (mentions ''metrics-bind-address'') args \<longrightarrow>
       BindAddress (opts_Metrics (ctrlOptions libs scheme f)) = ''0'')
   \<and> SecretType \<in> set (DisableFor (opts_ClientCache (ctrlOptions libs scheme f)))"
  using defaults_kept [OF assms]
  by (auto simp: ctrlOptions_def metricsServerOptions_def webhookServerOptions_def tlsOpts_def applyTLS_def
      disableHTTP2_def managerClientOptions_def defaultFlags_def Let_def)

subsection \<open>A run of the program\<close>

text \<open>Libraries in which everything succeeds; the world is the list of what was called.\<close>

definition logs :: "string \<Rightarrow> (string list, error, unit) act" where
  "logs call = (\<lambda>w. (Inr (), w @ [call]))"

definition emptyReader :: "string list Reader" where
  "emptyReader =
     \<lparr>GetOpenStackCluster = (\<lambda>key. fail sampleNotFound), GetCluster = (\<lambda>key. fail sampleNotFound),
      GetSecret = (\<lambda>key. fail sampleNotFound), ListOpenStackClusters = (\<lambda>ns. ret [])\<rparr>"

definition sampleManager :: "string list Manager" where
  "sampleManager =
     \<lparr>mgr_Client = \<lparr>client_Reader = emptyReader, ListMatching = (\<lambda>ns index key. ret []),
                   PatchCluster = (\<lambda>base new. ret new), DeleteSecret = (\<lambda>secret uid version. ret ())\<rparr>,
      mgr_APIReader = emptyReader, mgr_EventRecorder = (\<lambda>obj eventType reason message. yields ()),
      mgr_IndexField = (\<lambda>index keys. logs index), mgr_Complete = (\<lambda>b r. logs ''complete''),
      mgr_AddHealthzCheck = logs, mgr_AddReadyzCheck = logs, mgr_Start = logs ''start''\<rparr>"

definition samplePrometheus :: "string list prometheus" where
  "samplePrometheus = \<lparr>MustRegister = (\<lambda>c. logs (counter_Name c)), IncCounter = (\<lambda>c labels. yields ())\<rparr>"

definition sampleLibrariesOf ::
  "'w Manager \<Rightarrow> ('w, schemeBuilder list, webhookOptions, unit, (string \<times> string) list) mainLibraries"
where
  "sampleLibrariesOf mgr =
     \<lparr>lib_Flags = [(''kubeconfig'', False, \<lambda>v. True), (''zap-devel'', True, \<lambda>v. v \<in> {''true'', ''false''})],
      lib_NewScheme = [], lib_AddToScheme = (\<lambda>b scheme. Inr (scheme @ [b])), lib_NewServer = (\<lambda>opts. opts),
      lib_Filter = (), lib_GetConfig = (\<lambda>vs. ret vs), lib_NewManager = (\<lambda>config opts. ret mgr)\<rparr>"

abbreviation "sampleLibraries \<equiv> sampleLibrariesOf sampleManager"

abbreviation "sampleArguments \<equiv> [''--leader-elect'', ''-kubeconfig'', ''/etc/kubeconfig'', ''--zap-devel=false'']"

abbreviation "sampleFlags \<equiv> defaultFlags\<lparr>enableLeaderElection := True,
  libraryValues := [(''kubeconfig'', ''/etc/kubeconfig''), (''zap-devel'', ''false'')]\<rparr>"

lemma sample_parse: "parseFlags (lib_Flags (sampleLibrariesOf mgr)) sampleArguments = Inr (sampleFlags, [])"
  by (simp add: parseFlags_def commandLine_def mainFlags_def libraryFlagValue_def sampleLibrariesOf_def
      argumentOf_def BoolVar_def StringVar_def ParseBool_def defaultFlags_def)

lemma sample_starts:
  "main_main k reg (sampleLibrariesOf mgr) Getenv sampleArguments w = runManager k reg Getenv mgr w"
proof -
  have names: "distinct (map fst (commandLine (lib_Flags (sampleLibrariesOf mgr))))"
    by (simp add: commandLine_def mainFlags_def libraryFlagValue_def sampleLibrariesOf_def)
  have calls: "initScheme (sampleLibrariesOf mgr) = Inr [ClientGoScheme, InfraV1, ClusterV1]"
    "lib_GetConfig (sampleLibrariesOf mgr) vs = ret vs" "lib_NewManager (sampleLibrariesOf mgr) config opts = ret mgr"
    for vs config opts
    by (simp_all add: initScheme_def sampleLibrariesOf_def)
  show ?thesis
    by (simp add: main_main_def names sample_parse calls) (simp add: orExit_def inspect_def ret_def)
qed

lemmas setup_eval = runManager_def setupOrExit_def orExit_def SetupWithManager_def defaultMetrics_def
  mainReconciler_def NewMetrics_def failingAs_def setupLifecycleWatches_def wrapErr_def andThen_def inspect_def
  ret_def yields_def Let_def

lemma sample_main:
  "main_main sampleKubernetes samplePrometheus sampleLibraries (\<lambda>_. '''') sampleArguments []
     = (Returned, [''cleanups_total'', identitySecretIndex, ownerClusterIndex, ''complete'', ''healthz'', ''readyz'', ''start''])"
  unfolding sample_starts by (simp add: setup_eval logs_def sampleManager_def samplePrometheus_def)

theorem main_runs_the_janitor_witness:
  "\<exists>scheme w w1 w2 w3. lib_AddToScheme sampleLibraries ClusterV1 [ClientGoScheme, InfraV1] = Inr scheme
     \<and> MustRegister samplePrometheus cleanupsTotal w = (Inr (), w1)
     \<and> mgr_AddReadyzCheck sampleManager ''readyz'' w2 = (Inr (), w3)"
proof -
  from main_runs_the_janitor [OF sample_main] obtain s1 s2 scheme config opts mgr w w1 w2 w3 w4 w5 where
    "lib_AddToScheme sampleLibraries ClientGoScheme (lib_NewScheme sampleLibraries) = Inr s1"
    "lib_AddToScheme sampleLibraries InfraV1 s1 = Inr s2" "lib_AddToScheme sampleLibraries ClusterV1 s2 = Inr scheme"
    "lib_NewManager sampleLibraries config opts w = (Inr mgr, w1)"
    "MustRegister samplePrometheus cleanupsTotal w2 = (Inr (), w3)"
    "mgr_AddReadyzCheck mgr ''readyz'' w4 = (Inr (), w5)" by blast
  moreover from this have "s2 = [ClientGoScheme, InfraV1]" "mgr = sampleManager"
    by (auto simp: sampleLibrariesOf_def ret_def)
  ultimately show ?thesis by blast
qed

theorem servers_are_hardened_witness:
  "NextProtos (applyTLS (metrics_TLSOpts (opts_Metrics (ctrlOptions sampleLibraries [] sampleFlags)))
      \<lparr>NextProtos = [''h2'', ''http/1.1'']\<rparr>) = [''http/1.1'']"
proof -
  have "\<not> list_ex (mentions ''enable-http2'') sampleArguments"
    by (simp add: mentions_def argumentOf_def)
  with servers_are_hardened [OF sample_parse, of sampleManager "[]" "\<lparr>NextProtos = [''h2'', ''http/1.1'']\<rparr>"] show ?thesis by blast
qed

end
