(* ===== verification/Spec2Isabelle.thy ===== *)
theory Spec2Isabelle
  imports Cleanup_Convergence Purge Controller_Samples Manager_Main
begin

text \<open>
  The Cluster API janitor for OpenStack (\<open>capi-janitor-openstack-go\<close>), in HOL. When an
  \<open>OpenStackCluster\<close> is deleted, the janitor deletes what the cluster left behind in
  OpenStack, on request also the application credential and the identity Secret of the
  cluster, and then removes its own finalizer from the object.

  \<^bold>\<open>How the code is modelled.\<close> A Go function that talks to the outside is an operation
  \<open>'w \<Rightarrow> ('e + 'a) \<times> 'w\<close> on a world of an arbitrary type (\<open>Prelude\<close>): \<open>Inl\<close> is a non-nil
  error, \<open>andThen\<close> is the early return of \<open>if err != nil\<close>, \<open>inspect\<close> hands the error to
  the caller. Strings are lists of bytes, a map is a partial function, integers are 64-bit
  words where they can wrap around and \<open>int\<close> where they cannot. Code outside the repository
  (Gophercloud, client-go, controller-runtime, Prometheus, \<open>net/url\<close>, \<open>x509\<close>, YAML) is a
  record of functions; what is assumed of it is a named predicate (\<open>documentedPager\<close>,
  \<open>documentedURLs\<close>, \<open>documentedOpenstack\<close>, \<open>documentedKubernetes\<close>, \<open>currentCache\<close>,
  \<open>plainDescriptions\<close>, \<open>stores\<close>, \<open>cloudServes\<close>), and each predicate is shown to hold of a
  concrete instance. Definitions keep the names of the Go functions.

  To speak of what a client does, its providers are replaced by recording ones, which append
  each call with its answer to a list beside the world. \<open>traced\<close> says that recording changes
  neither results nor effects, so the definitions of the client are the code's alone; a
  weakest precondition \<open>wp\<close> carries the proofs.

  \<^bold>\<open>The parts and their theories.\<close>

  \<^item> \<open>internal/cleanup\<close>: the rules that say what a cluster owns and the selection of IDs
  (\<open>Ownership\<close>), one iteration of the cleanup over its service interfaces and its
  refinement of an abstract iteration (\<open>Cleanup_Runner\<close>), repeated iterations over a
  simulated project (\<open>Cleanup_Convergence\<close>).
  \<^item> \<open>internal/openstack/apierrors\<close>: Go's error values as trees with \<open>errors.Is\<close> and
  \<open>errors.As\<close> (\<open>Go_Errors\<close>, with the strings of \<open>Go_Strings\<close>), the classification of
  responses to DELETE (\<open>Api_Errors\<close>).
  \<^item> \<open>internal/openstack/pageutil\<close>: pages that must contain their collection, and the
  traversal of a pager (\<open>Page_Util\<close>).
  \<^item> \<open>internal/openstack/client\<close>: credentials, authorities, TLS settings, login, redaction
  of errors (\<open>Openstack_Client\<close>).
  \<^item> \<open>internal/openstack/network\<close>, \<open>loadbalancer\<close>, \<open>volume\<close>, \<open>identity\<close>:
  \<open>Network_Service\<close>, \<open>Load_Balancer_Service\<close>, \<open>Volume_Service\<close>, \<open>Identity_Service\<close>, over the
  common contracts of \<open>Service_Contracts\<close>.
  \<^item> \<open>internal/openstack/purge.go\<close>: sessions, their bindings and their cleanup (\<open>Purge\<close>).
  \<^item> \<open>internal/controller\<close>: the objects and clients of Kubernetes (\<open>Kubernetes\<close>), pausing,
  indexes and wake-ups (\<open>Lifecycle\<close>), the text of the checkpoint (\<open>Json_Text\<close>) and the
  checkpoint itself (\<open>Checkpoint\<close>), the reconciler and its helpers (\<open>Reconciler\<close>), the
  deletion of a cluster with its credential and its Secret (\<open>Credential_Cleanup\<close>),
  \<open>Reconcile\<close> and \<open>addFinalizer\<close> (\<open>Controller\<close>), what wakes a paused cluster (\<open>Wake_Ups\<close>), and \<open>SetupWithManager\<close> with the metrics, the
  indexes and the watches that it registers (\<open>Manager_Setup\<close>).
  \<^item> \<open>cmd/main.go\<close>: the flags and the \<open>flag\<close> package as \<open>main\<close> uses it (\<open>Command_Line\<close>), the
  options of the servers and of the manager, and \<open>main\<close> from its arguments to the way the
  process ends (\<open>Manager_Main\<close>).

  The controller calls a session of \<open>Purge\<close>, which opens the four services and runs one
  iteration of \<open>Cleanup_Runner\<close> over them; the services classify their responses with
  \<open>Api_Errors\<close> and read their lists through \<open>Page_Util\<close>; all authenticate through
  \<open>Openstack_Client\<close>. A deletion that is still in progress is the error \<open>ErrDeletePending\<close>,
  which the controller turns into another reconciliation after five seconds.

  \<^bold>\<open>What is shown.\<close> Of the cleanup: the calls of an iteration are those of the abstract
  iteration, on every branch; deletions name owned resources only, in the order of the
  kinds; completion means that complete lists without an owned resource were received; and
  repeated cleanup completes. Of the services: lists are complete or an error, deletions keep
  one contract. Of the client: a login is the sequence of its calls with the selected cloud
  entry, errors hide the secrets. Two properties of the ownership rules have conditions that
  the documents of the repository do not state: a shared load balancer protects the floating
  IP on its VIP port only if its name has the prefix of the cluster, and two clusters have
  different load balancers only if neither name with an underscore begins the other;
  \<open>other_name_protects_nothing\<close> and \<open>load_balancer_overlap\<close> show that they are needed.

  Of the controller, \<open>Controller_Protocol\<close> states the protocol: an inductive relation
  \<open>permitted\<close> with one rule for each place where a reconciliation changes something, which
  says what the calls before the change must have answered. Its lemmas show that every part
  of \<open>Reconcile\<close> makes permitted changes only, and how a reconciliation of a deletion ends.
  \<open>Controller_Safety\<close> reads the properties of one reconciliation off the protocol.
  \<open>Controller_History\<close> is about all reconciliations of a janitor, each of which may be cut off
  after any call, with the one assumption that nobody else writes the checkpoint annotation:
  the Secret is deleted after the confirmed deletion of the credential, which comes after
  the verification of the resources; and with the properties of \<open>Purge\<close>, through the locale
  \<open>cleanup_provider\<close> and its interpretation by the deployed reconciler, a released cluster
  has left nothing behind.

  \<open>Controller_Liveness\<close> and \<open>Controller_Completion\<close> say that a deletion completes. A \<open>view\<close>
  is what matters of the world: the cluster, its Secret, whether its credential is live, and
  the resources of the project. Under the assumptions that nobody else writes and that the
  cloud does what it is asked, every reconciliation takes the view a step further, from the
  resources over the checkpoint and its second phase to the release of the cluster;
  \<open>untilSettled\<close> is the loop of the work queue, which stops at the first result that does
  not ask for another run. \<open>Controller_Samples\<close> runs a concrete janitor through a whole
  deletion, and is where the assumptions are seen to hold of a concrete cloud.

  Of the program: when \<open>main\<close> returns, each of its steps has succeeded in turn, with the
  reconciler, the indexes, the watches, the counter and the checks that the other theories
  speak of, and the servers are as the flags say, hardened unless a flag says otherwise; every setting can be given on the
  command line (\<open>parse_shown\<close>).

  This theory ends with the composition: the reconciler that \<open>main\<close> has its manager run
  releases clean clusters only, with the volumes policy of the environment.

  \<^bold>\<open>Interfaces.\<close> The locales are \<open>ownership_rule\<close>, \<open>delete_classifier\<close>, \<open>page_handler\<close>,
  \<open>delete_operation\<close> and \<open>cleanup_provider\<close>; each is interpreted by the definitions of the
  code, in the theory that provides them.

  \<^bold>\<open>Bounds.\<close> The reader of JSON values in \<open>Json_Text\<close> has a bound on its recursion, twice the
  length of the text and one more; \<open>readValue_enough\<close> shows that a larger bound reads the same.
  Six iterations are enough for the cleanup of a project whose deletions take effect at once
  (\<open>Cleanup_Convergence\<close>). \<open>untilSettled\<close> is bounded by a number of reconciliations;
  \<open>deletion_completes\<close> shows that nine are enough, and that the run has settled by then.
  The reader of the command line recurses over the list of arguments, which gets shorter.

  \<^bold>\<open>Not modelled.\<close> Logging; contexts and their cancellation, which are part of the
  parameters; what is inside the libraries that \<open>main\<close> hands its options to (the web servers,
  the leader election, the signal handler, the queue of controller-runtime, of which only
  the requests and the bounds of the delay are modelled); the settings of
  \<open>http.DefaultTransport\<close> that the code leaves alone; the nesting limit of
  \<open>encoding/json\<close>; the helpers of the end-to-end tests (\<open>test/utils\<close>), which run external
  commands.
\<close>

section \<open>The whole program\<close>

text \<open>
  C3. From \<open>main\<close> to the cloud. If the program returned, then the reconciler that its manager
  ran releases clean clusters only: in every history of this reconciler with the \<open>openstack\<close>
  package, restarts included, before a finalizer is removed a session for the name of the
  cluster has received complete collections of every kind without a resource that belongs to
  the cluster. Volumes are among them exactly if the annotation of the cluster or, without
  one, the environment of the process says that they are to be deleted.
\<close>

theorem program_releases_clean_clusters:
  assumes "main_main k reg libs Getenv args v = (Returned, v')"
    and "documentedKubernetes k" and "documentedOpenstack os responses failure"
  shows "\<exists>config opts mgr b r v0 v1 v2.
     lib_NewManager libs config opts v0 = (Inr mgr, v1)
   \<and> registered k reg mgr (mainReconciler mgr Getenv) b r v1 v2
   \<and> (\<forall>l pre base new a post.
        history k (openstackPackageOf os) r l \<and> authenticCheckpoints l
        \<and> l = pre @ ClusterPatched base new a # post
        \<and> Finalizer \<in> set (osc_Finalizers base) \<and> Finalizer \<notin> set (osc_Finalizers new)
      \<longrightarrow> (\<exists>options s w0 w1 w w'.
           (ResourcesCleaned options (Inr ()) \<in> set pre \<or> SessionCleaned options (Inr ()) \<in> set pre)
         \<and> toValidUTF8 (po_ClusterName options) = toValidUTF8 (clusterNameFor base)
         \<and> (po_DeleteVolumes options \<longleftrightarrow>
              (case osc_Annotations base VolumesPolicyAnnotation of
                 Some policy \<Rightarrow> policy | None \<Rightarrow> DefaultVolumesFromEnv Getenv) = PolicyDelete)
         \<and> NewCleanupSession os options w0 = (Inr s, w1) \<and> nothingLeft os responses s w w'))"
proof -
  from main_main_Returned [OF assms(1)] obtain scheme f config mgr v0 v1 where
    start: "lib_NewManager libs config (ctrlOptions libs scheme f) v0 = (Inr mgr, v1)"
    and run: "runManager k reg Getenv mgr v1 = (Returned, v')" by blast
  from runManager_Returned [OF run] obtain b r v2 where
    reg: "registered k reg mgr (mainReconciler mgr Getenv) b r v1 v2" by blast
  note r = registered_reconciler [OF reg]
  have "withoutHooks r = r" by (simp add: withoutHooks_def r)
  then have clean: "\<exists>options. (ResourcesCleaned options (Inr ()) \<in> set pre \<or> SessionCleaned options (Inr ()) \<in> set pre)
         \<and> toValidUTF8 (po_ClusterName options) = toValidUTF8 (clusterNameFor base)
         \<and> po_DeleteVolumes options = (volumesPolicyFor r base = PolicyDelete) \<and> leftClean os responses options"
    if "history k (openstackPackageOf os) r l" "authenticCheckpoints l" "l = pre @ ClusterPatched base new a # post"
      "Finalizer \<in> set (osc_Finalizers base)" "Finalizer \<notin> set (osc_Finalizers new)" for l pre base new a post
    using deployed.released_clean [of k os r l pre base new a post responses failure] assms(2,3) that by auto
  have "history k (openstackPackageOf os) r l \<and> authenticCheckpoints l \<and> l = pre @ ClusterPatched base new a # post
      \<and> Finalizer \<in> set (osc_Finalizers base) \<and> Finalizer \<notin> set (osc_Finalizers new)
    \<longrightarrow> (\<exists>options s w0 w1 w w'.
         (ResourcesCleaned options (Inr ()) \<in> set pre \<or> SessionCleaned options (Inr ()) \<in> set pre)
       \<and> toValidUTF8 (po_ClusterName options) = toValidUTF8 (clusterNameFor base)
       \<and> (po_DeleteVolumes options \<longleftrightarrow>
            (case osc_Annotations base VolumesPolicyAnnotation of
               Some policy \<Rightarrow> policy | None \<Rightarrow> DefaultVolumesFromEnv Getenv) = PolicyDelete)
       \<and> NewCleanupSession os options w0 = (Inr s, w1) \<and> nothingLeft os responses s w w')" for l pre base new a post
    using clean [of l pre base new a post] unfolding r(3) leftClean_def by blast
  with start reg show ?thesis by blast
qed

subsection \<open>A program that releases a cluster\<close>

text \<open>The API server and the cloud of \<open>deployedReconciler\<close>, behind a manager.\<close>

definition deployedManager :: "unit Manager" where
  "deployedManager =
     \<lparr>mgr_Client = rec_Client deployedReconciler, mgr_APIReader = reader deployedReconciler,
      mgr_EventRecorder = (\<lambda>obj eventType reason message. yields ()), mgr_IndexField = (\<lambda>index keys. ret ()),
      mgr_Complete = (\<lambda>b r. ret ()), mgr_AddHealthzCheck = (\<lambda>name. ret ()), mgr_AddReadyzCheck = (\<lambda>name. ret ()),
      mgr_Start = ret ()\<rparr>"

definition silentPrometheus :: "unit prometheus" where
  "silentPrometheus = \<lparr>MustRegister = (\<lambda>c. ret ()), IncCounter = (\<lambda>c labels. yields ())\<rparr>"

abbreviation "runningReconciler inc \<equiv> withDefaults deployedManager inc (mainReconciler deployedManager (\<lambda>_. ''''))"

lemma program_returns:
  "main_main sampleKubernetes silentPrometheus (sampleLibrariesOf deployedManager) (\<lambda>_. '''') sampleArguments ()
     = (Returned, ())"
  unfolding sample_starts by (simp add: setup_eval deployedManager_def silentPrometheus_def)

lemma running_parts:
  "reader (runningReconciler inc) = reader deployedReconciler"
  "rec_Client (runningReconciler inc) = rec_Client deployedReconciler"
  "cleanResources pkg (runningReconciler inc) = cleanResources pkg deployedReconciler"
  "volumesPolicyFor (runningReconciler inc) = volumesPolicyFor deployedReconciler"
  "purgeOptions (runningReconciler inc) = purgeOptions deployedReconciler"
proof -
  show "volumesPolicyFor (runningReconciler inc) = volumesPolicyFor deployedReconciler"
    by (simp add: fun_eq_iff volumesPolicyFor_def withDefaults_def mainReconciler_def deployedReconciler_def
        sampleReconcilerOf_def DefaultVolumesFromEnv_def split: option.split)
  then show "purgeOptions (runningReconciler inc) = purgeOptions deployedReconciler"
    by (simp add: fun_eq_iff purgeOptions_def)
  show "cleanResources pkg (runningReconciler inc) = cleanResources pkg deployedReconciler"
    by (simp add: fun_eq_iff cleanResources_def running_reconciler deployed_hooks)
qed (simp_all add: running_reconciler deployedManager_def)

lemma running_calls:
  "reconcileCalls sampleKubernetes (openstackPackageOf sampleOpenstack) (runningReconciler inc) sampleRequest ()
     = take 5 deployedCalls
       @ ClusterPatched sampleCluster (releasedFrom sampleCluster) (Inr (releasedFrom sampleCluster))
       # [CleanupCounted ''success'', EventRecorded (EventTypeNormal sampleKubernetes) ''CleanupSucceeded'']"
proof -
  have calls: "GetOpenStackCluster (reader deployedReconciler) key w = (Inr sampleCluster, w)"
    "GetSecret (reader deployedReconciler) key w = (Inr keptSecret, w)"
    "PatchCluster (rec_Client deployedReconciler) base new w = (Inr new, w)"
    "countCleanup (recordedReconciler (runningReconciler inc)) outcome (w, l) = ((), w, l @ [CleanupCounted outcome])"
    "recordEvent (recordedReconciler (runningReconciler inc)) obj eventType reason message (w, l)
       = ((), w, l @ [EventRecorded eventType reason])"
    for key w base new outcome l obj eventType reason message
    by (simp_all add: reader_def deployedReconciler_def sampleReconcilerOf_def sampleClientOf_def withDefaults_def
        sampleReader_def countCleanup_def recordEvent_def recordedReconciler_def recorded_def yields_def
        split: prod.split)
  show ?thesis unfolding deployed_calls by (simp add: calls sample_run running_parts deployed_cleanup)
qed

theorem program_releases_clean_clusters_witness:
  "\<exists>s w0 w1 w w'. NewCleanupSession sampleOpenstack (purgeOptions deployedReconciler sampleCluster keptSecret) w0 = (Inr s, w1)
     \<and> nothingLeft sampleOpenstack sampleResponses s w w'"
proof -
  from program_releases_clean_clusters [OF program_returns sampleKubernetes_documented sample_openstack_documented]
  obtain config opts mgr b r v0 v1 v2 where
    new: "lib_NewManager (sampleLibrariesOf deployedManager) config opts v0 = (Inr mgr, v1)"
    and reg: "registered sampleKubernetes silentPrometheus mgr (mainReconciler mgr (\<lambda>_. '''')) b r v1 v2"
    and clean: "\<And>l pre base new a post. history sampleKubernetes (openstackPackageOf sampleOpenstack) r l \<Longrightarrow>
        authenticCheckpoints l \<Longrightarrow> l = pre @ ClusterPatched base new a # post \<Longrightarrow>
        Finalizer \<in> set (osc_Finalizers base) \<Longrightarrow> Finalizer \<notin> set (osc_Finalizers new) \<Longrightarrow>
        \<exists>options s w0 w1 w w'. (ResourcesCleaned options (Inr ()) \<in> set pre \<or> SessionCleaned options (Inr ()) \<in> set pre)
          \<and> NewCleanupSession sampleOpenstack options w0 = (Inr s, w1) \<and> nothingLeft sampleOpenstack sampleResponses s w w'"
    apply (elim exE conjE)
    subgoal premises p for config opts mgr b r v0 v1 v2
      by (rule p(1) [OF p(2,3)]) (use p(4) in blast)
    done
  have "mgr = deployedManager" using new by (simp add: sampleLibrariesOf_def ret_def)
  with reg obtain inc where r: "r = runningReconciler inc" by (auto simp: registered_def)
  let ?l = "reconcileCalls sampleKubernetes (openstackPackageOf sampleOpenstack) r sampleRequest ()"
  have "history sampleKubernetes (openstackPackageOf sampleOpenstack) r ([] @ take (length ?l) ?l)"
    by (intro history.reconciled history.nothing)
  then have h: "history sampleKubernetes (openstackPackageOf sampleOpenstack) r ?l" by simp
  have "authenticCheckpoints ?l"
    unfolding r running_calls by (rule authenticFrom_sound) (simp add: deployed_calls sample_cluster)
  from clean [OF h this running_calls [of inc, folded r]] obtain options s w0 w1 w w' where
    *: "ResourcesCleaned options (Inr ()) \<in> set (take 5 deployedCalls)
     \<or> SessionCleaned options (Inr ()) \<in> set (take 5 deployedCalls)"
    "NewCleanupSession sampleOpenstack options w0 = (Inr s, w1)" "nothingLeft sampleOpenstack sampleResponses s w w'"
    by (fastforce simp: sample_cluster)
  from *(1) have "options = purgeOptions deployedReconciler sampleCluster keptSecret"
    by (auto simp: deployed_calls)
  with * show ?thesis by blast
qed

end
